(* ===== verification/Prelude.thy ===== *)
theory Prelude
  imports Main "HOL-Library.Word" "HOL-Library.State_Monad"
begin

text \<open>
  Shared vocabulary of the DawnShell development: the machine integers of the C sources,
  the byte memory that the codec client and its worker share, C strings with the pieces of
  the C library the sources call on them (\<open>strtoul\<close>, \<open>snprintf\<close>, \<open>strtok_r\<close>, \<open>strstr\<close>),
  and a small calculus for programs written in the state monad of HOL-Library: weakest
  preconditions (\<open>wp\<close>) as rewrite rules and, as the locale \<open>step_relation\<close>, relations
  between the state before and after a program that every program built from preserving
  steps preserves.
\<close>

unbundle bit_operations_syntax

section \<open>Machine integers\<close>

type_synonym byte = "8 word"
type_synonym u16 = "16 word"
type_synonym u32 = "32 word"
type_synonym u64 = "64 word"

text \<open>
  A C \<open>int32_t\<close> or \<open>int\<close> that is only compared and returned is an \<^typ>\<open>int\<close>;
  where it crosses the wire the casts are written out (\<open>u32_of_i32\<close>, \<open>i32_of_u32\<close>).
\<close>

definition u32_of_i32 :: "int \<Rightarrow> u32" where
  "u32_of_i32 i = word_of_int i"

definition i32_of_u32 :: "u32 \<Rightarrow> int" where
  "i32_of_u32 w = sint w"

lemma i32_u32_i32 [simp]:
  assumes "- (2 ^ 31) \<le> i" and "i < 2 ^ 31"
  shows "i32_of_u32 (u32_of_i32 i) = i"
proof -
  have "signed_take_bit 31 i = i"
    using assms by (simp add: signed_take_bit_int_eq_self)
  then show ?thesis
    by (simp add: i32_of_u32_def u32_of_i32_def sint_sbintrunc')
qed

named_theorems word_facts \<open>conversions between words and naturals\<close>

lemma unat_of_nat_u32 [word_facts]: "n < 2 ^ 32 \<Longrightarrow> unat (word_of_nat n :: u32) = n"
  by (simp add: unat_of_nat take_bit_nat_eq_self)

lemma unat_of_nat_u64 [word_facts]: "n < 2 ^ 64 \<Longrightarrow> unat (word_of_nat n :: u64) = n"
  by (simp add: unat_of_nat take_bit_nat_eq_self)

section \<open>Byte memory\<close>

text \<open>
  A mapping of the process is a total function from offsets to bytes; the sources only
  touch offsets below the mapping's length, and the frame theorems say so. \<open>mem_read\<close> is
  a \<open>memcpy\<close> out of the mapping, \<open>mem_write\<close> one into it.
\<close>

type_synonym mem = "nat \<Rightarrow> byte"

definition mem_read :: "mem \<Rightarrow> nat \<Rightarrow> nat \<Rightarrow> byte list" where
  "mem_read m off n = map (\<lambda>i. m (off + i)) [0..<n]"

definition mem_write :: "mem \<Rightarrow> nat \<Rightarrow> byte list \<Rightarrow> mem" where
  "mem_write m off bs = (\<lambda>a. if off \<le> a \<and> a < off + length bs then bs ! (a - off) else m a)"

named_theorems mem_simps \<open>reads after writes\<close>

text \<open>The contract of a byte memory, which the record layouts below are proved against.\<close>

locale byte_memory =
  fixes rd :: "'m \<Rightarrow> nat \<Rightarrow> nat \<Rightarrow> byte list"
    and wr :: "'m \<Rightarrow> nat \<Rightarrow> byte list \<Rightarrow> 'm"
  assumes rd_length: "length (rd m off n) = n"
    and rd_wr_same: "rd (wr m off bs) off (length bs) = bs"
    and rd_wr_below: "a + n \<le> off \<Longrightarrow> rd (wr m off bs) a n = rd m a n"
    and rd_wr_above: "off + length bs \<le> a \<Longrightarrow> rd (wr m off bs) a n = rd m a n"
    and rd_split: "rd m off (n + k) = rd m off n @ rd m (off + n) k"
begin

lemma rd_wr_disjoint:
  "a + n \<le> off \<or> off + length bs \<le> a \<Longrightarrow> rd (wr m off bs) a n = rd m a n"
  using rd_wr_below rd_wr_above by blast

lemma rd_zero: "rd m off 0 = []"
  using rd_length [of m off 0] by simp

lemma rd_wr_prefix:
  assumes "n \<le> length bs"
  shows "rd (wr m off bs) off n = take n bs"
proof -
  have "rd (wr m off bs) off (length bs)
      = rd (wr m off bs) off n @ rd (wr m off bs) (off + n) (length bs - n)"
    using rd_split [of "wr m off bs" off n "length bs - n"] assms by simp
  then show ?thesis
    using rd_length [of "wr m off bs" off n] by (metis append_eq_conv_conj rd_wr_same)
qed

lemma rd_wr_suffix:
  assumes "n \<le> length bs"
  shows "rd (wr m off bs) (off + n) (length bs - n) = drop n bs"
proof -
  have "rd (wr m off bs) off (length bs)
      = rd (wr m off bs) off n @ rd (wr m off bs) (off + n) (length bs - n)"
    using rd_split [of "wr m off bs" off n "length bs - n"] assms by simp
  then show ?thesis
    using rd_length [of "wr m off bs" off n] by (metis append_eq_conv_conj rd_wr_same)
qed

lemma rd_wr_inside:
  assumes "k + n \<le> length bs"
  shows "rd (wr m off bs) (off + k) n = take n (drop k bs)"
proof -
  have "rd (wr m off bs) (off + k) (length bs - k) = drop k bs"
    using rd_wr_suffix [of k bs m off] assms by simp
  moreover have "rd (wr m off bs) (off + k) (length bs - k)
      = rd (wr m off bs) (off + k) n @ rd (wr m off bs) (off + k + n) (length bs - k - n)"
    using rd_split [of "wr m off bs" "off + k" n "length bs - k - n"] assms by simp
  ultimately show ?thesis
    using rd_length [of "wr m off bs" "off + k" n] by (metis append_eq_conv_conj)
qed

end

lemma length_mem_read [simp]: "length (mem_read m off n) = n"
  by (simp add: mem_read_def)

lemma nth_mem_read [simp]: "i < n \<Longrightarrow> mem_read m off n ! i = m (off + i)"
  by (simp add: mem_read_def)

lemma mem_write_inside: "i < length bs \<Longrightarrow> mem_write m off bs (off + i) = bs ! i"
  by (simp add: mem_write_def)

lemma mem_write_outside: "a < off \<or> off + length bs \<le> a \<Longrightarrow> mem_write m off bs a = m a"
  by (auto simp: mem_write_def)

lemma mem_write_Nil [simp]: "mem_write m off [] = m"
  by (rule ext) (auto simp: mem_write_def)

interpretation shm: byte_memory mem_read mem_write
proof unfold_locales
  show "length (mem_read m off n) = n" for m off n by simp
  show "mem_read (mem_write m off bs) off (length bs) = bs" for m off bs
    by (rule nth_equalityI) (simp_all add: mem_write_inside)
  show "mem_read (mem_write m off bs) a n = mem_read m a n" if "a + n \<le> off" for m off bs a n
    using that by (intro nth_equalityI) (simp_all add: mem_write_outside)
  show "mem_read (mem_write m off bs) a n = mem_read m a n" if "off + length bs \<le> a"
    for m off bs a n
    using that by (intro nth_equalityI) (simp_all add: mem_write_outside)
  show "mem_read m off (n + k) = mem_read m off n @ mem_read m (off + n) k" for m off n k
    by (rule nth_equalityI) (auto simp: nth_append)
qed

lemmas mem_read_write = shm.rd_wr_same shm.rd_wr_disjoint shm.rd_wr_inside

text \<open>Two mappings agree outside a window: what a routine given that window may change.\<close>

definition same_outside :: "nat \<Rightarrow> nat \<Rightarrow> mem \<Rightarrow> mem \<Rightarrow> bool" where
  "same_outside off n m m' \<longleftrightarrow> (\<forall>a. a < off \<or> off + n \<le> a \<longrightarrow> m' a = m a)"

lemma same_outside_refl [simp]: "same_outside off n m m"
  by (simp add: same_outside_def)

lemma same_outside_trans:
  "same_outside off n m m' \<Longrightarrow> same_outside off n m' m'' \<Longrightarrow> same_outside off n m m''"
  by (simp add: same_outside_def)

lemma same_outside_widen:
  "same_outside off n m m' \<Longrightarrow> off' \<le> off \<Longrightarrow> off + n \<le> off' + n' \<Longrightarrow> same_outside off' n' m m'"
  by (auto simp: same_outside_def)

lemma same_outside_write [intro]:
  "off \<le> p \<Longrightarrow> p + length bs \<le> off + n \<Longrightarrow> same_outside off n m (mem_write m p bs)"
  by (auto simp: same_outside_def mem_write_def)

lemma same_outside_writeD:
  "same_outside off n m m' \<Longrightarrow> off \<le> p \<Longrightarrow> p + length bs \<le> off + n \<Longrightarrow>
   same_outside off n m (mem_write m' p bs)"
  by (auto simp: same_outside_def mem_write_def)

lemma same_outside_read:
  "same_outside off n m m' \<Longrightarrow> a + k \<le> off \<or> off + n \<le> a \<Longrightarrow> mem_read m' a k = mem_read m a k"
  by (intro nth_equalityI) (auto simp: same_outside_def)

section \<open>C strings\<close>

text \<open>
  A C string is the list of its characters before the terminating NUL. Text crosses the
  shared mapping as bytes.
\<close>

definition bytes_of :: "string \<Rightarrow> byte list" where
  "bytes_of s = map of_char s"

definition text_of :: "byte list \<Rightarrow> string" where
  "text_of bs = map (\<lambda>b. char_of (unat b)) bs"

lemma length_bytes_of [simp]: "length (bytes_of s) = length s"
  by (simp add: bytes_of_def)

lemma bytes_of_append [simp]: "bytes_of (s @ t) = bytes_of s @ bytes_of t"
  by (simp add: bytes_of_def)

lemma take_bytes_of: "take n (bytes_of s) = bytes_of (take n s)"
  by (simp add: bytes_of_def take_map)

lemma unat_of_char_byte: "unat (of_char c :: byte) = of_char c"
proof -
  have "(of_char c :: byte) = word_of_nat (of_char c)"
    by (simp only: of_nat_of_char)
  moreover have "(of_char c :: nat) < 256"
    by simp
  ultimately show ?thesis
    by (simp add: unat_of_nat take_bit_nat_eq_self)
qed

lemma text_of_bytes_of [simp]: "text_of (bytes_of s) = s"
  by (induction s) (simp_all add: text_of_def bytes_of_def unat_of_char_byte)

text \<open>Decimal output (\<open>%u\<close>, \<open>PRIu64\<close>, \<open>%d\<close>, \<open>%lld\<close>).\<close>

definition digit :: "nat \<Rightarrow> char" where
  "digit d = char_of (48 + d)"

fun dec :: "nat \<Rightarrow> string" where
  "dec n = (if n < 10 then [digit n] else dec (n div 10) @ [digit (n mod 10)])"

declare dec.simps [simp del]

definition dec_int :: "int \<Rightarrow> string" where
  "dec_int i = (if i < 0 then CHR ''-'' # dec (nat (- i)) else dec (nat i))"

definition is_digit :: "char \<Rightarrow> bool" where
  "is_digit c \<longleftrightarrow> 48 \<le> (of_char c :: nat) \<and> (of_char c :: nat) \<le> 57"

definition digit_val :: "char \<Rightarrow> nat" where
  "digit_val c = of_char c - 48"

fun digits_val :: "nat \<Rightarrow> string \<Rightarrow> nat" where
  "digits_val acc [] = acc"
| "digits_val acc (c # cs) = digits_val (acc * 10 + digit_val c) cs"

lemma of_char_digit: "d < 10 \<Longrightarrow> (of_char (digit d) :: nat) = 48 + d"
  by (simp add: digit_def of_char_of)

lemma is_digit_digit [simp]: "d < 10 \<Longrightarrow> is_digit (digit d)"
  by (simp add: is_digit_def of_char_digit)

lemma digit_val_digit [simp]: "d < 10 \<Longrightarrow> digit_val (digit d) = d"
  by (simp add: digit_val_def of_char_digit)

lemma digits_val_append: "digits_val acc (s @ t) = digits_val (digits_val acc s) t"
  by (induction s arbitrary: acc) simp_all

lemma dec_is_digit: "c \<in> set (dec n) \<Longrightarrow> is_digit c"
proof (induction n rule: dec.induct)
  case (1 n)
  then show ?case
    by (cases "n < 10") (auto simp: dec.simps [of n])
qed

lemma dec_neq_Nil [simp]: "dec n \<noteq> []"
  by (subst dec.simps) simp

lemma digits_val_dec: "digits_val 0 (dec n) = n"
proof (induction n rule: dec.induct)
  case (1 n)
  then show ?case
    by (cases "n < 10") (auto simp: dec.simps [of n] digits_val_append)
qed

lemma length_dec_le:
  assumes "n < 10 ^ k" and "0 < k"
  shows "length (dec n) \<le> k"
  using assms
proof (induction n arbitrary: k rule: dec.induct)
  case (1 n)
  show ?case
  proof (cases "n < 10")
    case True
    with 1 show ?thesis by (simp add: dec.simps [of n])
  next
    case False
    with 1 obtain j where k: "k = Suc j" "0 < j"
      by (cases k; cases "k - 1") auto
    with 1 have "n div 10 < 10 ^ j" by auto
    with 1 False k have "length (dec (n div 10)) \<le> j" by blast
    with False k show ?thesis by (simp add: dec.simps [of n])
  qed
qed

text \<open>
  \<open>strtou w s\<close> is \<open>strtoul\<close>/\<open>strtoull\<close> in base 10 for a \<open>w\<close>-bit result: white space
  and one sign are skipped, then digits are read. \<open>None\<close> is \<open>end == s\<close> (nothing was
  converted); otherwise the value, the text at \<open>end\<close> and whether \<open>errno\<close> is \<open>ERANGE\<close>.
  A minus sign negates the value modulo \<open>2^w\<close>, as the C standard says.
\<close>

definition is_space :: "char \<Rightarrow> bool" where
  "is_space c \<longleftrightarrow> c = CHR '' '' \<or> (9 \<le> (of_char c :: nat) \<and> (of_char c :: nat) \<le> 13)"

definition strtou :: "nat \<Rightarrow> string \<Rightarrow> (nat \<times> string \<times> bool) option" where
  "strtou w s =
     (let t = dropWhile is_space s;
          neg = (t \<noteq> [] \<and> hd t = CHR ''-'');
          u = (if t \<noteq> [] \<and> (hd t = CHR ''-'' \<or> hd t = CHR ''+'') then tl t else t);
          ds = takeWhile is_digit u;
          rest = dropWhile is_digit u;
          v = digits_val 0 ds
      in if ds = [] then None
         else if v \<ge> 2 ^ w then Some (2 ^ w - 1, rest, True)
         else if neg then Some ((2 ^ w - v) mod 2 ^ w, rest, False)
         else Some (v, rest, False))"

lemma digit_not_space: "is_digit c \<Longrightarrow> \<not> is_space c"
  by (auto simp: is_digit_def is_space_def)

lemma digit_not_sign: "is_digit c \<Longrightarrow> c \<noteq> CHR ''-'' \<and> c \<noteq> CHR ''+''"
  by (auto simp: is_digit_def)

lemma strtou_dec:
  assumes "n < 2 ^ w" and "rest = [] \<or> \<not> is_digit (hd rest)"
  shows "strtou w (dec n @ rest) = Some (n, rest, False)"
proof -
  obtain c cs where d: "dec n = c # cs" by (cases "dec n") simp_all
  then have c: "is_digit c" using dec_is_digit [of c n] by simp
  have ds: "takeWhile is_digit (dec n @ rest) = dec n"
    using assms(2) by (cases rest) (auto simp: takeWhile_append dec_is_digit)
  have rs: "dropWhile is_digit (dec n @ rest) = rest"
    using assms(2) by (cases rest) (auto simp: dropWhile_append dec_is_digit)
  have sp: "dropWhile is_space (dec n @ rest) = dec n @ rest"
    using c by (simp add: d digit_not_space)
  have hd: "hd (dec n @ rest) = c" by (simp add: d)
  show ?thesis
    using assms(1) c ds rs
    by (simp add: strtou_def sp hd digit_not_sign digits_val_dec Let_def)
qed

text \<open>
  \<open>snprintf\<close> returns the length of the formatted text and stores its first \<open>n - 1\<close>
  characters.
\<close>

definition snprintf :: "nat \<Rightarrow> string \<Rightarrow> nat \<times> string" where
  "snprintf n text = (length text, take (n - 1) text)"

text \<open>\<open>strstr\<close>: the text from the first occurrence on, or \<open>None\<close> for NULL.\<close>

fun strstr :: "string \<Rightarrow> string \<Rightarrow> string option" where
  "strstr needle [] = (if needle = [] then Some [] else None)"
| "strstr needle (c # cs) =
     (if take (length needle) (c # cs) = needle then Some (c # cs) else strstr needle cs)"

lemma strstr_skip:
  "needle \<noteq> [] \<Longrightarrow> hd needle \<notin> set xs \<Longrightarrow> strstr needle (xs @ ys) = strstr needle ys"
  by (induction xs) (auto simp: neq_Nil_conv)

lemma take_until:
  assumes "take (length us + 2) (xs @ q # y # r) = us @ [q, z]" "q \<notin> set xs" "q \<notin> set us"
  shows "y = z"
  using assms
proof (induction us arbitrary: xs)
  case Nil
  then show ?case by (cases xs) auto
next
  case (Cons u us)
  then show ?case by (cases xs) auto
qed

lemma of_char_byte_zero: "(of_char c :: byte) = 0 \<longleftrightarrow> c = CHR 0x00"
proof -
  have "(of_char c :: byte) = 0 \<longleftrightarrow> (of_char c :: nat) = of_char (CHR 0x00)"
    using unat_of_char_byte [of c] by (simp add: unat_eq_zero [symmetric] del: of_char_eq_iff)
  then show ?thesis by (simp only: of_char_eq_iff)
qed

lemma takeWhile_bytes_of:
  "CHR 0x00 \<notin> set s \<Longrightarrow> takeWhile (\<lambda>b. b \<noteq> 0) (bytes_of s) = bytes_of s"
  by (induction s) (auto simp: bytes_of_def of_char_byte_zero)

lemma dec_no_nul [simp]: "CHR 0x00 \<notin> set (dec n)"
  using dec_is_digit [of "CHR 0x00" n] by (auto simp: is_digit_def)

text \<open>\<open>strtok_r\<close> run to its end: the non-empty pieces between delimiters.\<close>

fun tokens_acc :: "(char \<Rightarrow> bool) \<Rightarrow> string \<Rightarrow> string \<Rightarrow> string list" where
  "tokens_acc p acc [] = (if acc = [] then [] else [rev acc])"
| "tokens_acc p acc (c # cs) =
     (if p c then (if acc = [] then tokens_acc p [] cs else rev acc # tokens_acc p [] cs)
      else tokens_acc p (c # acc) cs)"

definition tokens :: "(char \<Rightarrow> bool) \<Rightarrow> string \<Rightarrow> string list" where
  "tokens p s = tokens_acc p [] s"

lemma tokens_acc_run:
  "\<forall>c \<in> set xs. \<not> p c \<Longrightarrow> tokens_acc p acc (xs @ ys) = tokens_acc p (rev xs @ acc) ys"
  by (induction xs arbitrary: acc) simp_all

lemma tokens_Nil [simp]: "tokens p [] = []"
  by (simp add: tokens_def)

lemma tokens_line:
  assumes "xs \<noteq> []" and "\<forall>c \<in> set xs. \<not> p c" and "p d"
  shows "tokens p (xs @ d # ys) = xs # tokens p ys"
  using assms by (simp add: tokens_def tokens_acc_run)

section \<open>Programs in the state monad\<close>

text \<open>
  \<open>wp m Q s\<close>: running \<open>m\<close> from \<open>s\<close> ends in a result and a state that satisfy \<open>Q\<close>.
  Programs here are total and deterministic, so \<open>wp\<close> is a Boolean function and its laws
  are equations, collected in \<open>wp_simps\<close>.
\<close>

abbreviation return :: "'a \<Rightarrow> ('s, 'a) state" where
  "return \<equiv> State_Monad.return"

definition gets :: "('s \<Rightarrow> 'a) \<Rightarrow> ('s, 'a) state" where
  "gets f = State (\<lambda>s. (f s, s))"

definition modify :: "('s \<Rightarrow> 's) \<Rightarrow> ('s, unit) state" where
  "modify f = State (\<lambda>s. ((), f s))"

definition wp :: "('s, 'a) state \<Rightarrow> ('a \<Rightarrow> 's \<Rightarrow> bool) \<Rightarrow> 's \<Rightarrow> bool" where
  "wp m Q s = (case run_state m s of (a, s') \<Rightarrow> Q a s')"

named_theorems wp_simps \<open>weakest preconditions as rewrite rules\<close>

lemma run_state_gets [simp]: "run_state (gets f) s = (f s, s)"
  by (simp add: gets_def)

lemma run_state_modify [simp]: "run_state (modify f) s = ((), f s)"
  by (simp add: modify_def)

lemma wp_return [wp_simps]: "wp (return x) Q s = Q x s"
  by (simp add: wp_def)

lemma wp_bind [wp_simps]: "wp (State_Monad.bind m f) Q s = wp m (\<lambda>a. wp (f a) Q) s"
  by (simp add: wp_def split: prod.splits)

lemma wp_gets [wp_simps]: "wp (gets f) Q s = Q (f s) s"
  by (simp add: wp_def)

lemma wp_modify [wp_simps]: "wp (modify f) Q s = Q () (f s)"
  by (simp add: wp_def)

lemma wp_State: "wp (State f) Q s = (case f s of (a, s') \<Rightarrow> Q a s')"
  by (simp add: wp_def)

lemma wp_if [wp_simps]: "wp (if b then m1 else m2) Q s = (if b then wp m1 Q s else wp m2 Q s)"
  by simp

lemma wp_let [wp_simps]: "wp (let x = t in m x) Q s = (let x = t in wp (m x) Q s)"
  by simp

lemma wp_case_option [wp_simps]:
  "wp (case x of None \<Rightarrow> m1 | Some a \<Rightarrow> m2 a) Q s =
   (case x of None \<Rightarrow> wp m1 Q s | Some a \<Rightarrow> wp (m2 a) Q s)"
  by (cases x) simp_all

lemma wp_case_prod [wp_simps]:
  "wp (case x of (a, b) \<Rightarrow> m a b) Q s = (case x of (a, b) \<Rightarrow> wp (m a b) Q s)"
  by (cases x) simp

lemma wp_mono: "wp m Q s \<Longrightarrow> (\<And>a s'. Q a s' \<Longrightarrow> R a s') \<Longrightarrow> wp m R s"
  by (auto simp: wp_def split: prod.splits)

lemma wp_conj: "wp m Q s \<Longrightarrow> wp m R s \<Longrightarrow> wp m (\<lambda>a s'. Q a s' \<and> R a s') s"
  by (auto simp: wp_def split: prod.splits)

lemma wp_run: "wp m Q s \<longleftrightarrow> Q (fst (run_state m s)) (snd (run_state m s))"
  by (simp add: wp_def split: prod.splits)

lemma wpD: "wp m Q s \<Longrightarrow> run_state m s = (a, s') \<Longrightarrow> Q a s'"
  by (simp add: wp_def)

lemma wpI: "(\<And>a s'. run_state m s = (a, s') \<Longrightarrow> Q a s') \<Longrightarrow> wp m Q s"
  by (simp add: wp_def split: prod.splits)

text \<open>
  The same laws as introduction rules, for programs whose parts are opaque: \<open>intro\<close> with
  \<open>wp_intros\<close> and a rule for each part walks through the program and leaves its leaves.
\<close>

named_theorems wp_intros \<open>weakest preconditions as introduction rules\<close>

lemma wp_returnI [wp_intros]: "Q x s \<Longrightarrow> wp (return x) Q s"
  by (simp add: wp_simps)

lemma wp_bindI [wp_intros]: "wp m (\<lambda>a s'. wp (f a) Q s') s \<Longrightarrow> wp (State_Monad.bind m f) Q s"
  by (simp add: wp_simps)

lemma wp_getsI [wp_intros]: "Q (f s) s \<Longrightarrow> wp (gets f) Q s"
  by (simp add: wp_simps)

lemma wp_modifyI [wp_intros]: "Q () (f s) \<Longrightarrow> wp (modify f) Q s"
  by (simp add: wp_simps)

lemma wp_ifI [wp_intros]:
  "(b \<Longrightarrow> wp m1 Q s) \<Longrightarrow> (\<not> b \<Longrightarrow> wp m2 Q s) \<Longrightarrow> wp (if b then m1 else m2) Q s"
  by simp

lemma wp_letI [wp_intros]: "(\<And>x. x = t \<Longrightarrow> wp (m x) Q s) \<Longrightarrow> wp (let x = t in m x) Q s"
  by simp

lemma wp_case_optionI [wp_intros]:
  "(x = None \<Longrightarrow> wp m1 Q s) \<Longrightarrow> (\<And>a. x = Some a \<Longrightarrow> wp (m2 a) Q s) \<Longrightarrow>
   wp (case x of None \<Rightarrow> m1 | Some a \<Rightarrow> m2 a) Q s"
  by (cases x) simp_all

lemma wp_case_prodI [wp_intros]:
  "(\<And>a b. x = (a, b) \<Longrightarrow> wp (m a b) Q s) \<Longrightarrow> wp (case x of (a, b) \<Rightarrow> m a b) Q s"
  by (cases x) simp

lemma wp_case_sumI [wp_intros]:
  "(\<And>a. x = Inl a \<Longrightarrow> wp (m1 a) Q s) \<Longrightarrow> (\<And>b. x = Inr b \<Longrightarrow> wp (m2 b) Q s) \<Longrightarrow>
   wp (case x of Inl a \<Rightarrow> m1 a | Inr b \<Rightarrow> m2 b) Q s"
  by (cases x) simp_all

text \<open>
  A relation between the states before and after: what is reflexive and transitive holds of
  every program whose steps satisfy it. The rules are proved once here and used for each
  frame condition by interpretation.
\<close>

locale step_relation =
  fixes R :: "'s \<Rightarrow> 's \<Rightarrow> bool"
  assumes R_refl: "R s s"
    and R_trans: "R s t \<Longrightarrow> R t u \<Longrightarrow> R s u"
begin

lemma io_return: "state_io_rel R (return x)"
  by (simp add: state_io_rel_def R_refl)

lemma io_gets: "state_io_rel R (gets f)"
  by (simp add: state_io_rel_def R_refl)

lemma io_modify: "(\<And>s. R s (f s)) \<Longrightarrow> state_io_rel R (modify f)"
  by (simp add: state_io_rel_def)

lemma io_bind:
  "state_io_rel R m \<Longrightarrow> (\<And>a. state_io_rel R (f a)) \<Longrightarrow> state_io_rel R (State_Monad.bind m f)"
  by (auto simp: state_io_rel_def split: prod.splits intro: R_trans)

lemma io_if:
  "(b \<Longrightarrow> state_io_rel R m1) \<Longrightarrow> (\<not> b \<Longrightarrow> state_io_rel R m2) \<Longrightarrow>
   state_io_rel R (if b then m1 else m2)"
  by simp

lemma io_case_option:
  "(x = None \<Longrightarrow> state_io_rel R m1) \<Longrightarrow> (\<And>a. x = Some a \<Longrightarrow> state_io_rel R (m2 a)) \<Longrightarrow>
   state_io_rel R (case x of None \<Rightarrow> m1 | Some a \<Rightarrow> m2 a)"
  by (cases x) simp_all

lemma io_case_prod:
  "(\<And>a b. x = (a, b) \<Longrightarrow> state_io_rel R (m a b)) \<Longrightarrow>
   state_io_rel R (case x of (a, b) \<Rightarrow> m a b)"
  by (cases x) simp

lemma io_let: "(\<And>x. x = t \<Longrightarrow> state_io_rel R (m x)) \<Longrightarrow> state_io_rel R (let x = t in m x)"
  by simp

lemma io_case_sum:
  "(\<And>a. x = Inl a \<Longrightarrow> state_io_rel R (m1 a)) \<Longrightarrow> (\<And>b. x = Inr b \<Longrightarrow> state_io_rel R (m2 b)) \<Longrightarrow>
   state_io_rel R (case x of Inl a \<Rightarrow> m1 a | Inr b \<Rightarrow> m2 b)"
  by (cases x) simp_all

lemmas io_rules = io_case_sum io_return io_gets io_bind io_if io_case_option io_case_prod io_let

end

lemma state_io_rel_wp: "state_io_rel R m \<Longrightarrow> wp m (\<lambda>_ s'. R s s') s"
  by (simp add: state_io_rel_def wp_run)

end
