(* ===== verification/Wire.thy ===== *)
theory Wire
  imports Prelude
begin

text \<open>
  The integer accessors of the codec protocol: \<open>get_u16\<close>, \<open>get_u32\<close>, \<open>get_u64\<close> and
  \<open>put_u16\<close>, \<open>put_u32\<close>, \<open>put_u64\<close>, which \<open>dawnshell_codec_worker.c\<close>,
  \<open>dawnshell_codec_client.c\<close> and \<open>dawnshell_codec_ndk.c\<close> each define for themselves with
  the same text. As in the C text a value is swapped to network order and then copied in
  host order; every ABI the program is built for (arm, arm64, x86_64) is little-endian.
  The lemmas show that what reaches the mapping is the big-endian encoding, that a read
  returns what a write put there, and what each write leaves alone.
\<close>

section \<open>Host order, network order\<close>

definition host16 :: "u16 \<Rightarrow> byte list" where
  "host16 v = [ucast v, ucast (drop_bit 8 v)]"

definition host32 :: "u32 \<Rightarrow> byte list" where
  "host32 v = [ucast v, ucast (drop_bit 8 v), ucast (drop_bit 16 v), ucast (drop_bit 24 v)]"

definition unhost16 :: "byte list \<Rightarrow> u16" where
  "unhost16 bs = ucast (bs ! 0) OR push_bit 8 (ucast (bs ! 1))"

definition unhost32 :: "byte list \<Rightarrow> u32" where
  "unhost32 bs = ucast (bs ! 0) OR push_bit 8 (ucast (bs ! 1)) OR push_bit 16 (ucast (bs ! 2))
     OR push_bit 24 (ucast (bs ! 3))"

definition htons :: "u16 \<Rightarrow> u16" where
  "htons v = push_bit 8 v OR drop_bit 8 v"

definition htonl :: "u32 \<Rightarrow> u32" where
  "htonl v = push_bit 24 v OR (push_bit 8 v AND 0xff0000) OR (drop_bit 8 v AND 0xff00)
     OR drop_bit 24 v"

section \<open>The accessors\<close>

definition get_u16 :: "mem \<Rightarrow> nat \<Rightarrow> u16" where
  "get_u16 m source = htons (unhost16 (mem_read m source 2))"

definition get_u32 :: "mem \<Rightarrow> nat \<Rightarrow> u32" where
  "get_u32 m source = htonl (unhost32 (mem_read m source 4))"

definition get_u64 :: "mem \<Rightarrow> nat \<Rightarrow> u64" where
  "get_u64 m source = push_bit 32 (ucast (get_u32 m source)) OR ucast (get_u32 m (source + 4))"

definition put_u16 :: "nat \<Rightarrow> u16 \<Rightarrow> mem \<Rightarrow> mem" where
  "put_u16 destination v m = mem_write m destination (host16 (htons v))"

definition put_u32 :: "nat \<Rightarrow> u32 \<Rightarrow> mem \<Rightarrow> mem" where
  "put_u32 destination v m = mem_write m destination (host32 (htonl v))"

definition put_u64 :: "nat \<Rightarrow> u64 \<Rightarrow> mem \<Rightarrow> mem" where
  "put_u64 destination v m =
     put_u32 (destination + 4) (ucast v) (put_u32 destination (ucast (drop_bit 32 v)) m)"

section \<open>The bytes on the wire\<close>

definition be16 :: "u16 \<Rightarrow> byte list" where
  "be16 v = [ucast (drop_bit 8 v), ucast v]"

definition be32 :: "u32 \<Rightarrow> byte list" where
  "be32 v = [ucast (drop_bit 24 v), ucast (drop_bit 16 v), ucast (drop_bit 8 v), ucast v]"

definition be64 :: "u64 \<Rightarrow> byte list" where
  "be64 v = be32 (ucast (drop_bit 32 v)) @ be32 (ucast v)"

lemma less8: "(n::nat) < 8 \<longleftrightarrow> n \<in> {0, 1, 2, 3, 4, 5, 6, 7}"
  by auto

lemma byte_eqI: "(\<And>n. n \<in> {0, 1, 2, 3, 4, 5, 6, 7} \<Longrightarrow> bit a n = bit b n) \<Longrightarrow> (a :: byte) = b"
  by (rule bit_word_eqI) (simp add: less8)

lemma host16_htons: "host16 (htons v) = be16 v"
proof -
  have "(ucast (htons v) :: byte) = ucast (drop_bit 8 v)"
    by (rule byte_eqI) (auto simp: htons_def bit_simps)
  moreover have "(ucast (drop_bit 8 (htons v)) :: byte) = ucast v"
    by (rule byte_eqI) (auto simp: htons_def bit_simps)
  ultimately show ?thesis by (simp add: host16_def be16_def)
qed

lemma host32_htonl: "host32 (htonl v) = be32 v"
proof -
  have "(ucast (htonl v) :: byte) = ucast (drop_bit 24 v)"
    by (rule byte_eqI) (auto simp: htonl_def bit_simps)
  moreover have "(ucast (drop_bit 8 (htonl v)) :: byte) = ucast (drop_bit 16 v)"
    by (rule byte_eqI) (auto simp: htonl_def bit_simps)
  moreover have "(ucast (drop_bit 16 (htonl v)) :: byte) = ucast (drop_bit 8 v)"
    by (rule byte_eqI) (auto simp: htonl_def bit_simps)
  moreover have "(ucast (drop_bit 24 (htonl v)) :: byte) = ucast v"
    by (rule byte_eqI) (auto simp: htonl_def bit_simps)
  ultimately show ?thesis by (simp add: host32_def be32_def)
qed

text \<open>Conversely a read swaps back whatever bytes lie there.\<close>

lemma unhost16_host16 [simp]: "unhost16 (host16 v) = v"
  unfolding unhost16_def host16_def
  by (rule bit_word_eqI) (auto simp: bit_simps)

lemma unhost32_host32 [simp]: "unhost32 (host32 v) = v"
proof (rule bit_word_eqI)
  fix n assume "n < LENGTH(32)"
  then consider "n < 8" | "8 \<le> n" "n < 16" | "16 \<le> n" "n < 24" | "24 \<le> n" "n < 32"
    by fastforce
  then show "bit (unhost32 (host32 v)) n = bit v n"
    by cases (auto simp: unhost32_def host32_def bit_simps)
qed

lemma htons_htons [simp]: "htons (htons v) = v"
  unfolding htons_def
  by (rule bit_word_eqI) (auto simp: bit_simps)

lemma htonl_htonl [simp]: "htonl (htonl v) = v"
proof -
  have "host32 (htonl (htonl v)) = be32 (htonl v)"
    by (rule host32_htonl)
  also have "be32 (htonl v) = rev (host32 (htonl v))"
    by (simp add: be32_def host32_def)
  also have "\<dots> = rev (be32 v)"
    by (simp add: host32_htonl)
  also have "\<dots> = host32 v"
    by (simp add: be32_def host32_def)
  finally show ?thesis
    by (metis unhost32_host32)
qed

section \<open>Writes as big-endian stores\<close>

lemma length_be [simp]: "length (be16 v) = 2" "length (be32 w) = 4" "length (be64 x) = 8"
  by (simp_all add: be16_def be32_def be64_def)

lemma put_u16_be: "put_u16 p v m = mem_write m p (be16 v)"
  by (simp add: put_u16_def host16_htons)

lemma put_u32_be: "put_u32 p v m = mem_write m p (be32 v)"
  by (simp add: put_u32_def host32_htonl)

lemma put_u64_be: "put_u64 p v m = mem_write m p (be64 v)"
proof
  fix a
  show "put_u64 p v m a = mem_write m p (be64 v) a"
    by (auto simp: put_u64_def put_u32_be mem_write_def be64_def nth_append)
qed

lemma same_outside_put [intro]:
  "off \<le> p \<Longrightarrow> p + 2 \<le> off + n \<Longrightarrow> same_outside off n m (put_u16 p v m)"
  "off \<le> p \<Longrightarrow> p + 4 \<le> off + n \<Longrightarrow> same_outside off n m (put_u32 p w m)"
  "off \<le> p \<Longrightarrow> p + 8 \<le> off + n \<Longrightarrow> same_outside off n m (put_u64 p x m)"
  by (auto simp: put_u16_be put_u32_be put_u64_be)

lemma same_outside_putD:
  "same_outside off n m m' \<Longrightarrow> off \<le> p \<Longrightarrow> p + 2 \<le> off + n \<Longrightarrow> same_outside off n m (put_u16 p v m')"
  "same_outside off n m m' \<Longrightarrow> off \<le> p \<Longrightarrow> p + 4 \<le> off + n \<Longrightarrow> same_outside off n m (put_u32 p w m')"
  "same_outside off n m m' \<Longrightarrow> off \<le> p \<Longrightarrow> p + 8 \<le> off + n \<Longrightarrow> same_outside off n m (put_u64 p x m')"
  by (blast intro: same_outside_trans same_outside_put)+

lemma mem_read_put [mem_simps]:
  "a + n \<le> p \<or> p + 2 \<le> a \<Longrightarrow> mem_read (put_u16 p v m) a n = mem_read m a n"
  "a + n \<le> p \<or> p + 4 \<le> a \<Longrightarrow> mem_read (put_u32 p w m) a n = mem_read m a n"
  "a + n \<le> p \<or> p + 8 \<le> a \<Longrightarrow> mem_read (put_u64 p x m) a n = mem_read m a n"
  by (simp_all add: put_u16_be put_u32_be put_u64_be shm.rd_wr_disjoint)

section \<open>Reads after writes\<close>

lemma get_u16_cong: "mem_read m a 2 = mem_read m' a' 2 \<Longrightarrow> get_u16 m a = get_u16 m' a'"
  by (simp add: get_u16_def)

lemma get_u32_cong: "mem_read m a 4 = mem_read m' a' 4 \<Longrightarrow> get_u32 m a = get_u32 m' a'"
  by (simp add: get_u32_def)

lemma get_u64_cong:
  assumes "mem_read m a 8 = mem_read m' a' 8"
  shows "get_u64 m a = get_u64 m' a'"
proof -
  have *: "mem_read m a 4 @ mem_read m (a + 4) 4 = mem_read m' a' 4 @ mem_read m' (a' + 4) 4"
    using assms shm.rd_split [of m a 4 4] shm.rd_split [of m' a' 4 4] by simp
  then show ?thesis
    by (simp add: get_u64_def get_u32_def)
qed

lemma length_host: "length (host16 v) = 2" "length (host32 w) = 4"
  by (simp_all add: host16_def host32_def)

lemma get_u16_put_same [mem_simps]: "get_u16 (put_u16 p v m) p = v"
proof -
  have "mem_read (put_u16 p v m) p 2 = host16 (htons v)"
    using shm.rd_wr_same [of m p "host16 (htons v)"] by (simp add: put_u16_def length_host)
  then show ?thesis by (simp add: get_u16_def)
qed

lemma get_u32_put_same [mem_simps]: "get_u32 (put_u32 p v m) p = v"
proof -
  have "mem_read (put_u32 p v m) p 4 = host32 (htonl v)"
    using shm.rd_wr_same [of m p "host32 (htonl v)"] by (simp add: put_u32_def length_host)
  then show ?thesis by (simp add: get_u32_def)
qed

lemma get_u32_put_disjoint [mem_simps]:
  "p + 4 \<le> a \<or> a + 4 \<le> p \<Longrightarrow> get_u32 (put_u32 p v m) a = get_u32 m a"
  by (rule get_u32_cong) (auto simp: mem_simps)

lemma u64_halves: "push_bit 32 (ucast (ucast (drop_bit 32 v) :: u32)) OR ucast (ucast v :: u32) = (v :: u64)"
proof (rule bit_word_eqI)
  fix n assume "n < LENGTH(64)"
  then consider "n < 32" | "32 \<le> n" "n < 64" by fastforce
  then show "bit (push_bit 32 (ucast (ucast (drop_bit 32 v) :: u32)) OR ucast (ucast v :: u32) :: u64) n
      = bit v n"
    by cases (auto simp: bit_simps)
qed

lemma get_u64_put_same [mem_simps]: "get_u64 (put_u64 p v m) p = v"
  by (simp add: get_u64_def put_u64_def mem_simps u64_halves)

lemma get_u16_frame [mem_simps]:
  "p + 2 \<le> a \<or> a + 2 \<le> p \<Longrightarrow> get_u16 (put_u16 p v m) a = get_u16 m a"
  "p + 4 \<le> a \<or> a + 2 \<le> p \<Longrightarrow> get_u16 (put_u32 p w m) a = get_u16 m a"
  "p + 8 \<le> a \<or> a + 2 \<le> p \<Longrightarrow> get_u16 (put_u64 p x m) a = get_u16 m a"
  "p + length bs \<le> a \<or> a + 2 \<le> p \<Longrightarrow> get_u16 (mem_write m p bs) a = get_u16 m a"
  by (rule get_u16_cong; auto simp: mem_simps intro: shm.rd_wr_disjoint)+

lemma get_u32_frame [mem_simps]:
  "p + 2 \<le> a \<or> a + 4 \<le> p \<Longrightarrow> get_u32 (put_u16 p v m) a = get_u32 m a"
  "p + 8 \<le> a \<or> a + 4 \<le> p \<Longrightarrow> get_u32 (put_u64 p x m) a = get_u32 m a"
  "p + length bs \<le> a \<or> a + 4 \<le> p \<Longrightarrow> get_u32 (mem_write m p bs) a = get_u32 m a"
  by (rule get_u32_cong; auto simp: mem_simps intro: shm.rd_wr_disjoint)+

lemma get_u64_frame [mem_simps]:
  "p + 2 \<le> a \<or> a + 8 \<le> p \<Longrightarrow> get_u64 (put_u16 p v m) a = get_u64 m a"
  "p + 4 \<le> a \<or> a + 8 \<le> p \<Longrightarrow> get_u64 (put_u32 p w m) a = get_u64 m a"
  "p + 8 \<le> a \<or> a + 8 \<le> p \<Longrightarrow> get_u64 (put_u64 p x m) a = get_u64 m a"
  "p + length bs \<le> a \<or> a + 8 \<le> p \<Longrightarrow> get_u64 (mem_write m p bs) a = get_u64 m a"
  by (rule get_u64_cong; auto simp: mem_simps intro: shm.rd_wr_disjoint)+

lemma get_same_outside:
  "same_outside off n m m' \<Longrightarrow> a + 2 \<le> off \<or> off + n \<le> a \<Longrightarrow> get_u16 m' a = get_u16 m a"
  "same_outside off n m m' \<Longrightarrow> a + 4 \<le> off \<or> off + n \<le> a \<Longrightarrow> get_u32 m' a = get_u32 m a"
  "same_outside off n m m' \<Longrightarrow> a + 8 \<le> off \<or> off + n \<le> a \<Longrightarrow> get_u64 m' a = get_u64 m a"
  by (blast intro: get_u16_cong get_u32_cong get_u64_cong same_outside_read)+


text \<open>Integers inside a longer record.\<close>

lemma get_u32_field:
  assumes "mem_read m a (length (xs @ be32 v @ ys)) = xs @ be32 v @ ys"
  shows "get_u32 m (a + length xs) = v"
proof -
  have "mem_read m (a + length xs) 4 = be32 v"
  proof (rule nth_equalityI)
    fix i assume "i < length (mem_read m (a + length xs) 4)"
    then have i: "i < 4" by simp
    have "mem_read m a (length (xs @ be32 v @ ys)) ! (length xs + i) = be32 v ! i"
      unfolding assms using i by (simp add: nth_append)
    then show "mem_read m (a + length xs) 4 ! i = be32 v ! i"
      using i by (simp add: add.assoc)
  qed simp
  also have "\<dots> = mem_read (put_u32 (a + length xs) v m) (a + length xs) 4"
    using shm.rd_wr_same [of m "a + length xs" "be32 v"] by (simp add: put_u32_be)
  finally have "get_u32 m (a + length xs) = get_u32 (put_u32 (a + length xs) v m) (a + length xs)"
    by (rule get_u32_cong)
  then show ?thesis by (simp add: mem_simps)
qed

lemma get_u64_field:
  assumes "mem_read m a (length (xs @ be64 v @ ys)) = xs @ be64 v @ ys"
  shows "get_u64 m (a + length xs) = v"
proof -
  have "get_u32 m (a + length xs) = ucast (drop_bit 32 v)"
    using get_u32_field [of m a xs "ucast (drop_bit 32 v)" "be32 (ucast v) @ ys"] assms by (simp add: be64_def)
  moreover have "get_u32 m (a + length xs + 4) = ucast v"
    using get_u32_field [of m a "xs @ be32 (ucast (drop_bit 32 v))" "ucast v" ys] assms
    by (simp add: be64_def add.assoc)
  ultimately have "get_u64 m (a + length xs) = get_u64 (put_u64 (a + length xs) v m) (a + length xs)"
    by (simp add: get_u64_def put_u64_def mem_simps)
  then show ?thesis by (simp add: mem_simps)
qed

end
