(* ===== verification/Transport.thy ===== *)
theory Transport
  imports Wire
begin

text \<open>
  The private transport between a codec client and its worker
  (\<open>dawnshell_codec_transport.h\<close>): one shared mapping that holds a control page and two
  slots. The control page is the C structure \<open>dscw_transport_control\<close> laid over the first
  4096 bytes, so its members are loads and stores in host order at fixed offsets of the
  same byte memory that holds the slots; the lemmas show that the members do not overlap
  and that no store through a slot reaches a member.
\<close>

section \<open>Layout\<close>

definition DSCW_TRANSPORT_MAGIC :: u32 where "DSCW_TRANSPORT_MAGIC = 0x44534357"
definition DSCW_TRANSPORT_VERSION :: u32 where "DSCW_TRANSPORT_VERSION = 1"
definition DSCW_CONTROL_BYTES :: nat where "DSCW_CONTROL_BYTES = 4096"
definition DSCW_PROTOCOL_HEADER_BYTES :: nat where "DSCW_PROTOCOL_HEADER_BYTES = 32"
definition DSCW_MAX_PAYLOAD :: nat where "DSCW_MAX_PAYLOAD = 8 * 1024 * 1024"

definition DSCW_SLOT_BYTES :: nat where
  "DSCW_SLOT_BYTES = DSCW_PROTOCOL_HEADER_BYTES + DSCW_MAX_PAYLOAD"

definition DSCW_REQUEST_OFFSET :: nat where
  "DSCW_REQUEST_OFFSET = DSCW_CONTROL_BYTES"

definition DSCW_RESPONSE_OFFSET :: nat where
  "DSCW_RESPONSE_OFFSET = DSCW_REQUEST_OFFSET + DSCW_SLOT_BYTES"

definition DSCW_MAPPING_BYTES :: nat where
  "DSCW_MAPPING_BYTES = DSCW_RESPONSE_OFFSET + DSCW_SLOT_BYTES"

definition DSCW_FLAG_SHUTDOWN :: u32 where "DSCW_FLAG_SHUTDOWN = 1"
definition DSCW_FLAG_WORKER_READY :: u32 where "DSCW_FLAG_WORKER_READY = 2"
definition DSCW_FLAG_WORKER_FAILED :: u32 where "DSCW_FLAG_WORKER_FAILED = 4"

lemmas layout_defs =
  DSCW_CONTROL_BYTES_def DSCW_PROTOCOL_HEADER_BYTES_def DSCW_MAX_PAYLOAD_def
  DSCW_SLOT_BYTES_def DSCW_REQUEST_OFFSET_def DSCW_RESPONSE_OFFSET_def DSCW_MAPPING_BYTES_def

text \<open>\<open>dscw_request_slot\<close> and \<open>dscw_response_slot\<close> return addresses in the mapping.\<close>

definition dscw_request_slot :: nat where "dscw_request_slot = DSCW_REQUEST_OFFSET"
definition dscw_response_slot :: nat where "dscw_response_slot = DSCW_RESPONSE_OFFSET"

section \<open>The control page\<close>

datatype dscw_transport_control =
    ctl_magic | ctl_version | ctl_mapping_bytes | ctl_slot_bytes | ctl_parent_pid | ctl_worker_pid | ctl_flags
  | ctl_worker_error | ctl_request_sequence | ctl_request_bytes | ctl_response_sequence | ctl_response_bytes

text \<open>The offset of a member, by the order of the structure; all of these are 32 bits wide.\<close>

fun member_offset :: "dscw_transport_control \<Rightarrow> nat" where
  "member_offset ctl_magic = 0"
| "member_offset ctl_version = 4"
| "member_offset ctl_mapping_bytes = 8"
| "member_offset ctl_slot_bytes = 12"
| "member_offset ctl_parent_pid = 16"
| "member_offset ctl_worker_pid = 20"
| "member_offset ctl_flags = 24"
| "member_offset ctl_worker_error = 28"
| "member_offset ctl_request_sequence = 32"
| "member_offset ctl_request_bytes = 36"
| "member_offset ctl_response_sequence = 40"
| "member_offset ctl_response_bytes = 44"

definition control_load :: "mem \<Rightarrow> dscw_transport_control \<Rightarrow> u32" where
  "control_load m f = unhost32 (mem_read m (member_offset f) 4)"

definition control_store :: "dscw_transport_control \<Rightarrow> u32 \<Rightarrow> mem \<Rightarrow> mem" where
  "control_store f v m = mem_write m (member_offset f) (host32 v)"

text \<open>\<open>started_monotonic_ns\<close>, the one 64-bit member, is stored and never read.\<close>

definition store_started_monotonic_ns :: "u64 \<Rightarrow> mem \<Rightarrow> mem" where
  "store_started_monotonic_ns v m =
     mem_write m 48 (host32 (ucast v) @ host32 (ucast (drop_bit 32 v)))"

lemma member_offset_bound: "member_offset f + 4 \<le> 48"
  by (cases f) simp_all

lemma member_offset_disjoint:
  "f \<noteq> g \<Longrightarrow> member_offset f + 4 \<le> member_offset g \<or> member_offset g + 4 \<le> member_offset f"
  by (cases f; cases g) simp_all

lemma control_load_store [mem_simps]:
  "control_load (control_store f v m) g = (if g = f then v else control_load m g)"
proof (cases "g = f")
  case True
  then show ?thesis
    using shm.rd_wr_same [of m "member_offset f" "host32 v"]
    by (simp add: control_load_def control_store_def length_host)
next
  case False
  then show ?thesis
    using member_offset_disjoint [of g f]
    by (simp add: control_load_def control_store_def length_host shm.rd_wr_disjoint)
qed

lemma control_load_started [mem_simps]:
  "control_load (store_started_monotonic_ns v m) f = control_load m f"
  using member_offset_bound [of f]
  by (simp add: control_load_def store_started_monotonic_ns_def length_host shm.rd_wr_below)

text \<open>A store at or above the request slot does not change a member.\<close>

lemma control_load_write [mem_simps]:
  "DSCW_CONTROL_BYTES \<le> p \<Longrightarrow> control_load (mem_write m p bs) f = control_load m f"
  using member_offset_bound [of f]
  by (simp add: control_load_def shm.rd_wr_below layout_defs)

lemma control_load_same_outside:
  "same_outside off n m m' \<Longrightarrow> DSCW_CONTROL_BYTES \<le> off \<Longrightarrow> control_load m' f = control_load m f"
  using member_offset_bound [of f]
  by (simp add: control_load_def same_outside_read layout_defs)

text \<open>A member store does not change the bytes of a slot.\<close>

lemma mem_read_control_store [mem_simps]:
  "DSCW_CONTROL_BYTES \<le> a \<Longrightarrow> mem_read (control_store f v m) a n = mem_read m a n"
  using member_offset_bound [of f]
  by (simp add: control_store_def shm.rd_wr_above length_host layout_defs)

lemma mem_read_started [mem_simps]:
  "DSCW_CONTROL_BYTES \<le> a \<Longrightarrow> mem_read (store_started_monotonic_ns v m) a n = mem_read m a n"
  by (simp add: store_started_monotonic_ns_def shm.rd_wr_above length_host layout_defs)

lemma get_control_store [mem_simps]:
  "DSCW_CONTROL_BYTES \<le> a \<Longrightarrow> get_u16 (control_store f v m) a = get_u16 m a"
  "DSCW_CONTROL_BYTES \<le> a \<Longrightarrow> get_u32 (control_store f v m) a = get_u32 m a"
  "DSCW_CONTROL_BYTES \<le> a \<Longrightarrow> get_u64 (control_store f v m) a = get_u64 m a"
  by (auto intro: get_u16_cong get_u32_cong get_u64_cong simp: mem_simps)

lemma same_outside_control_store:
  "same_outside 0 DSCW_CONTROL_BYTES m (control_store f v m)"
  using member_offset_bound [of f]
  by (auto simp: control_store_def length_host layout_defs)

text \<open>Stores through distinct regions commute with every observation, so the page and the
  two slots are three disjoint windows that tile the mapping.\<close>

lemma layout_tiles:
  "DSCW_CONTROL_BYTES = dscw_request_slot"
  "dscw_request_slot + DSCW_SLOT_BYTES = dscw_response_slot"
  "dscw_response_slot + DSCW_SLOT_BYTES = DSCW_MAPPING_BYTES"
  by (simp_all add: dscw_request_slot_def dscw_response_slot_def layout_defs)

section \<open>The protocol carried in a slot\<close>

definition DSCB_MAGIC :: u32 where "DSCB_MAGIC = 0x44534342"
definition DSCB_VERSION :: u16 where "DSCB_VERSION = 1"
definition DSCB_RESPONSE_BIT :: u16 where "DSCB_RESPONSE_BIT = 0x8000"
definition DSCB_HELLO :: u16 where "DSCB_HELLO = 1"
definition DSCB_CAPABILITIES :: u16 where "DSCB_CAPABILITIES = 2"
definition DSCB_CREATE :: u16 where "DSCB_CREATE = 3"
definition DSCB_INPUT :: u16 where "DSCB_INPUT = 4"
definition DSCB_OUTPUT :: u16 where "DSCB_OUTPUT = 5"
definition DSCB_FLUSH :: u16 where "DSCB_FLUSH = 6"
definition DSCB_EOS :: u16 where "DSCB_EOS = 7"
definition DSCB_CLOSE :: u16 where "DSCB_CLOSE = 8"
definition DSCB_INPUT_SHARED_MEMORY :: u16 where "DSCB_INPUT_SHARED_MEMORY = 9"
definition DSCB_OUTPUT_SHARED_MEMORY :: u16 where "DSCB_OUTPUT_SHARED_MEMORY = 10"
definition DSCB_CREATE_TRANSCODER :: u16 where "DSCB_CREATE_TRANSCODER = 11"
definition DSCB_REQUEST_KEYFRAME :: u16 where "DSCB_REQUEST_KEYFRAME = 12"
definition DSCB_HEALTH :: u16 where "DSCB_HEALTH = 13"
definition DSCB_SESSION_STATS :: u16 where "DSCB_SESSION_STATS = 14"
definition DSCB_MAX_SESSIONS :: nat where "DSCB_MAX_SESSIONS = 2"
definition DSCB_BUFFER_FLAG_CODEC_CONFIG :: u32 where "DSCB_BUFFER_FLAG_CODEC_CONFIG = 2"

lemmas dscb_types =
  DSCB_HELLO_def DSCB_CAPABILITIES_def DSCB_CREATE_def DSCB_INPUT_def DSCB_OUTPUT_def
  DSCB_FLUSH_def DSCB_EOS_def DSCB_CLOSE_def DSCB_INPUT_SHARED_MEMORY_def
  DSCB_OUTPUT_SHARED_MEMORY_def DSCB_CREATE_TRANSCODER_def DSCB_REQUEST_KEYFRAME_def
  DSCB_HEALTH_def DSCB_SESSION_STATS_def

text \<open>Status codes of \<open>dawnshell_codec_ndk.h\<close>.\<close>

definition DSCW_CODEC_OK :: int where "DSCW_CODEC_OK = 0"
definition DSCW_CODEC_AGAIN :: int where "DSCW_CODEC_AGAIN = 1"
definition DSCW_CODEC_FORMAT_CHANGED :: int where "DSCW_CODEC_FORMAT_CHANGED = 2"
definition DSCW_CODEC_ERROR_PROTOCOL :: int where "DSCW_CODEC_ERROR_PROTOCOL = -1"
definition DSCW_CODEC_ERROR_UNSUPPORTED :: int where "DSCW_CODEC_ERROR_UNSUPPORTED = -4"
definition DSCW_CODEC_ERROR_LIMIT :: int where "DSCW_CODEC_ERROR_LIMIT = -5"
definition DSCW_CODEC_ERROR_CODEC :: int where "DSCW_CODEC_ERROR_CODEC = -6"
definition DSCW_CODEC_ERROR_SESSION :: int where "DSCW_CODEC_ERROR_SESSION = -7"
definition DSCW_CODEC_ERROR_IO :: int where "DSCW_CODEC_ERROR_IO = -8"

lemmas status_defs [simp] =
  DSCW_CODEC_OK_def DSCW_CODEC_AGAIN_def DSCW_CODEC_FORMAT_CHANGED_def
  DSCW_CODEC_ERROR_PROTOCOL_def DSCW_CODEC_ERROR_UNSUPPORTED_def DSCW_CODEC_ERROR_LIMIT_def
  DSCW_CODEC_ERROR_CODEC_def DSCW_CODEC_ERROR_SESSION_def DSCW_CODEC_ERROR_IO_def

end
