(* ===== verification/Codec_Client.thy ===== *)
theory Codec_Client
  imports Transport
begin

text \<open>
  The codec command line client (\<open>dawnshell_codec_client.c\<close>): the request and response
  halves of the protocol, the commands built on them, and the stream helpers. The rest of
  the world is a parameter \<open>client_env\<close>: what happens between signalling the request event
  and waking on the response event (\<open>exchange\<close>, which may change the mapping), whether
  \<open>malloc\<close> and writes to standard output succeed, sleeping, the clock and the files.
  Messages to standard error are not modelled.
\<close>

section \<open>State\<close>

datatype errno = EPROTO | EOVERFLOW | EPIPE | ETIMEDOUT | ENOMEM | EOTHER

record response =
  r_type :: u16
  r_session_id :: u64
  r_request_id :: u32
  r_status :: int
  r_payload :: "byte list"

text \<open>The statics \<open>worker\<close>, \<open>next_request_id\<close> and \<open>shared_memory_supported\<close>.\<close>

record client_state =
  worker_started :: bool
  worker_sequence :: u32
  next_request_id :: u32
  shared_memory_supported :: bool

record 'w kx =
  kx_client :: client_state
  kx_mem :: mem
  kx_in :: "byte list"
  kx_out :: "byte list"
  kx_world :: 'w

type_synonym ('w, 'a) client = "('w kx, 'a) state"

record 'w client_env =
  exchange :: "mem \<Rightarrow> 'w \<Rightarrow> (errno option \<times> mem) \<times> 'w"
  malloc_ok :: "nat \<Rightarrow> 'w \<Rightarrow> bool \<times> 'w"
  write_ok :: "nat \<Rightarrow> 'w \<Rightarrow> bool \<times> 'w"
  sleep_us :: "nat \<Rightarrow> 'w \<Rightarrow> 'w"
  clock_us :: "'w \<Rightarrow> u64 \<times> 'w"
  file_bytes :: "string \<Rightarrow> byte list option"
  loop_limit :: nat

definition client_get :: "(client_state \<Rightarrow> 'a) \<Rightarrow> ('w, 'a) client" where
  "client_get f = gets (f \<circ> kx_client)"

definition client_set :: "(client_state \<Rightarrow> client_state) \<Rightarrow> ('w, unit) client" where
  "client_set f = modify (\<lambda>k. k\<lparr>kx_client := f (kx_client k)\<rparr>)"

definition slot_get :: "(mem \<Rightarrow> 'a) \<Rightarrow> ('w, 'a) client" where
  "slot_get f = gets (f \<circ> kx_mem)"

definition slot_set :: "(mem \<Rightarrow> mem) \<Rightarrow> ('w, unit) client" where
  "slot_set f = modify (\<lambda>k. k\<lparr>kx_mem := f (kx_mem k)\<rparr>)"

definition world :: "('w \<Rightarrow> 'a \<times> 'w) \<Rightarrow> ('w, 'a) client" where
  "world f = State (\<lambda>k. let (a, w) = f (kx_world k) in (a, k\<lparr>kx_world := w\<rparr>))"

definition world_do :: "('w \<Rightarrow> 'w) \<Rightarrow> ('w, unit) client" where
  "world_do f = modify (\<lambda>k. k\<lparr>kx_world := f (kx_world k)\<rparr>)"

definition emit :: "byte list \<Rightarrow> ('w, unit) client" where
  "emit bs = modify (\<lambda>k. k\<lparr>kx_out := kx_out k @ bs\<rparr>)"

text \<open>A byte buffer as a memory of its own, for the accessors of \<open>Wire\<close>.\<close>

definition buffer :: "byte list \<Rightarrow> mem" where
  "buffer bs = mem_write (\<lambda>_. 0) 0 bs"

section \<open>Requests and responses\<close>

definition parse_response ::
  "'w client_env \<Rightarrow> nat \<Rightarrow> nat \<Rightarrow> u16 \<Rightarrow> u32 \<Rightarrow> ('w, errno + response) client" where
  "parse_response e header response_bytes type request_id = do {
     m \<leftarrow> slot_get id;
     if response_bytes < DSCW_PROTOCOL_HEADER_BYTES then return (Inl EPROTO)
     else if get_u32 m header \<noteq> DSCB_MAGIC \<or> get_u16 m (header + 4) \<noteq> DSCB_VERSION
       \<or> get_u16 m (header + 6) \<noteq> type OR DSCB_RESPONSE_BIT
       \<or> get_u32 m (header + 24) \<noteq> request_id \<or> get_u32 m (header + 8) \<noteq> 0
     then return (Inl EPROTO)
     else do {
       let len = unat (get_u32 m (header + 20));
       if len > DSCW_MAX_PAYLOAD \<or> response_bytes \<noteq> DSCW_PROTOCOL_HEADER_BYTES + len
       then return (Inl EOVERFLOW)
       else do {
         allocated \<leftarrow> (if len > 0 then world (malloc_ok e (len + 1)) else return True);
         if \<not> allocated then return (Inl ENOMEM)
         else return (Inr \<lparr>r_type = get_u16 m (header + 6), r_session_id = get_u64 m (header + 12),
                r_request_id = get_u32 m (header + 24),
                r_status = i32_of_u32 (get_u32 m (header + 28)),
                r_payload = mem_read m (header + DSCW_PROTOCOL_HEADER_BYTES) len\<rparr>)
       }
     }
   }"

definition make_request_header :: "nat \<Rightarrow> u16 \<Rightarrow> u64 \<Rightarrow> u32 \<Rightarrow> u32 \<Rightarrow> mem \<Rightarrow> mem" where
  "make_request_header header type session_id payload_length request_id m =
     put_u32 (header + 24) request_id
      (put_u32 (header + 20) payload_length
        (put_u64 (header + 12) session_id
          (put_u16 (header + 6) type
            (put_u16 (header + 4) DSCB_VERSION
              (put_u32 header DSCB_MAGIC
                (mem_write m header (replicate DSCW_PROTOCOL_HEADER_BYTES 0)))))))"

text \<open>\<open>++worker.sequence\<close>, skipping 0.\<close>

definition next_sequence :: "u32 \<Rightarrow> u32" where
  "next_sequence n = (if n + 1 = 0 then n + 2 else n + 1)"

text \<open>Everything \<open>rpc\<close> stores before it signals the worker.\<close>

definition post_request :: "u16 \<Rightarrow> u64 \<Rightarrow> byte list \<Rightarrow> u32 \<Rightarrow> u32 \<Rightarrow> mem \<Rightarrow> mem" where
  "post_request type session_id payload request_id sequence m =
     control_store ctl_request_sequence sequence
      (control_store ctl_request_bytes (of_nat (DSCW_PROTOCOL_HEADER_BYTES + length payload))
        (mem_write
          (make_request_header dscw_request_slot type session_id (of_nat (length payload)) request_id m)
          (dscw_request_slot + DSCW_PROTOCOL_HEADER_BYTES) payload))"

definition rpc ::
  "'w client_env \<Rightarrow> u16 \<Rightarrow> u64 \<Rightarrow> byte list \<Rightarrow> ('w, errno + response) client" where
  "rpc e type session_id payload = do {
     started \<leftarrow> client_get worker_started;
     if \<not> started \<or> length payload > DSCW_MAX_PAYLOAD
     then return (Inl (if length payload > DSCW_MAX_PAYLOAD then EOVERFLOW else EPIPE))
     else do {
       request_id \<leftarrow> client_get next_request_id;
       client_set (\<lambda>c. c\<lparr>next_request_id := next_request_id c + 1,
                         worker_sequence := next_sequence (worker_sequence c)\<rparr>);
       sequence \<leftarrow> client_get worker_sequence;
       slot_set (post_request type session_id payload request_id sequence);
       m \<leftarrow> slot_get id;
       (failed, m') \<leftarrow> world (exchange e m);
       slot_set (\<lambda>_. m');
       (case failed of
          Some err \<Rightarrow> return (Inl err)
        | None \<Rightarrow>
            if control_load m' ctl_response_sequence \<noteq> sequence
               \<or> unat (control_load m' ctl_response_bytes) > DSCW_SLOT_BYTES
            then return (Inl EPROTO)
            else parse_response e dscw_response_slot (unat (control_load m' ctl_response_bytes))
                   type request_id)
     }
   }"

text \<open>
  A command's result: \<open>-1\<close> when the transport failed, otherwise what the continuation makes of
  the response. \<open>report_error\<close> prints and returns 1.
\<close>

definition request ::
  "'w client_env \<Rightarrow> u16 \<Rightarrow> u64 \<Rightarrow> byte list \<Rightarrow> (response \<Rightarrow> ('w, int) client) \<Rightarrow> ('w, int) client" where
  "request e type session_id payload k = do {
     r \<leftarrow> rpc e type session_id payload;
     (case r of Inl _ \<Rightarrow> return (-1) | Inr response \<Rightarrow> k response)
   }"

definition report_error :: "response \<Rightarrow> int" where
  "report_error response = 1"

definition hello :: "'w client_env \<Rightarrow> ('w, int) client" where
  "hello e = request e DSCB_HELLO 0 [] (\<lambda>response.
     if r_status response \<noteq> DSCW_CODEC_OK then return (report_error response)
     else do {
       (if r_payload response \<noteq> []
           \<and> strstr ''inherited_memfd_eventfd'' (text_of (takeWhile (\<lambda>b. b \<noteq> 0) (r_payload response))) \<noteq> None
        then client_set (\<lambda>c. c\<lparr>shared_memory_supported := True\<rparr>) else return ());
       return 0
     })"

definition print_payload :: "'w client_env \<Rightarrow> u16 \<Rightarrow> ('w, int) client" where
  "print_payload e type = request e type 0 [] (\<lambda>response.
     if r_status response \<noteq> DSCW_CODEC_OK then return (report_error response)
     else do {
       emit (r_payload response @ [10]);
       return 0
     })"

definition print_capabilities :: "'w client_env \<Rightarrow> ('w, int) client" where
  "print_capabilities e = print_payload e DSCB_CAPABILITIES"

definition print_health :: "'w client_env \<Rightarrow> ('w, int) client" where
  "print_health e = print_payload e DSCB_HEALTH"

section \<open>Arguments\<close>

definition DSCB_MODE_DECODE :: u32 where "DSCB_MODE_DECODE = 1"
definition DSCB_MODE_ENCODE :: u32 where "DSCB_MODE_ENCODE = 2"
definition DSCB_CODEC_AVC :: u32 where "DSCB_CODEC_AVC = 1"
definition DSCB_CODEC_HEVC :: u32 where "DSCB_CODEC_HEVC = 2"
definition DSCB_COLOR_YUV420_PLANAR :: u32 where "DSCB_COLOR_YUV420_PLANAR = 19"
definition DSCB_COLOR_YUV420_SEMIPLANAR :: u32 where "DSCB_COLOR_YUV420_SEMIPLANAR = 21"
definition DSCB_COLOR_YUV420_FLEXIBLE :: u32 where "DSCB_COLOR_YUV420_FLEXIBLE = 0x7f420888"
definition DSCB_BUFFER_FLAG_KEY_FRAME :: u32 where "DSCB_BUFFER_FLAG_KEY_FRAME = 1"
definition DSCB_BUFFER_FLAG_EOS :: u32 where "DSCB_BUFFER_FLAG_EOS = 4"
definition DSCB_PIXEL_FORMAT_I420 :: u32 where "DSCB_PIXEL_FORMAT_I420 = 1"

definition parse_mode :: "string \<Rightarrow> u32 option" where
  "parse_mode v = (if v = ''decode'' then Some DSCB_MODE_DECODE
     else if v = ''encode'' then Some DSCB_MODE_ENCODE else None)"

definition parse_codec :: "string \<Rightarrow> u32 option" where
  "parse_codec v = (if v = ''avc'' \<or> v = ''h264'' then Some DSCB_CODEC_AVC
     else if v = ''hevc'' \<or> v = ''h265'' then Some DSCB_CODEC_HEVC else None)"

text \<open>\<open>unsigned long\<close> has 64 bits on the ABIs the client is used on; \<open>strtoul\<close> is \<open>strtou 64\<close>.\<close>

definition parse_u32 :: "string \<Rightarrow> nat \<Rightarrow> nat \<Rightarrow> u32 option" where
  "parse_u32 v minimum maximum =
     (case strtou 64 v of
        None \<Rightarrow> None
      | Some (parsed, rest, overflow) \<Rightarrow>
          if overflow \<or> rest \<noteq> [] \<or> parsed < minimum \<or> parsed > maximum then None
          else Some (of_nat parsed))"

section \<open>Sessions\<close>

text \<open>The decimal number after \<open>"color_format":\<close> in the description of a new session.\<close>

definition color_marker :: string where
  "color_marker = ''\"color_format\":''"

definition described_color :: "byte list \<Rightarrow> u32 option" where
  "described_color payload =
     (case strstr color_marker (text_of (takeWhile (\<lambda>b. b \<noteq> 0) payload)) of
        None \<Rightarrow> None
      | Some marker \<Rightarrow>
          (case strtou 64 (drop (length color_marker) marker) of
             None \<Rightarrow> None
           | Some (parsed, rest, overflow) \<Rightarrow>
               if parsed \<le> 2 ^ 32 - 1 then Some (of_nat parsed) else None))"

text \<open>
  The result with \<open>*session_id\<close> and \<open>*selected_color_format\<close>, which keep the values the
  caller gave them (0 everywhere) unless the creation succeeds.
\<close>

definition create_session ::
  "'w client_env \<Rightarrow> u32 \<Rightarrow> u32 \<Rightarrow> u32 \<Rightarrow> u32 \<Rightarrow> u32 \<Rightarrow> u32 \<Rightarrow> ('w, int \<times> u64 \<times> u32) client" where
  "create_session e mode codec width height frame_rate bitrate = do {
     r \<leftarrow> rpc e DSCB_CREATE 0 (be32 mode @ be32 codec @ be32 width @ be32 height @ be32 frame_rate
            @ be32 bitrate @ be32 0);
     (case r of
        Inl _ \<Rightarrow> return (-1, 0, 0)
      | Inr response \<Rightarrow>
          if r_status response \<noteq> DSCW_CODEC_OK \<or> r_session_id response = 0
          then return (report_error response, 0, 0)
          else return (0, r_session_id response,
                 case described_color (r_payload response) of None \<Rightarrow> 0 | Some c \<Rightarrow> c))
   }"

definition create_transcode_session ::
  "'w client_env \<Rightarrow> u32 \<Rightarrow> u32 \<Rightarrow> u32 \<Rightarrow> u32 \<Rightarrow> u32 \<Rightarrow> u32 \<Rightarrow> ('w, int \<times> u64) client" where
  "create_transcode_session e input_codec output_codec width height frame_rate bitrate = do {
     r \<leftarrow> rpc e DSCB_CREATE_TRANSCODER 0 (be32 input_codec @ be32 output_codec @ be32 width
            @ be32 height @ be32 frame_rate @ be32 bitrate);
     (case r of
        Inl _ \<Rightarrow> return (-1, 0)
      | Inr response \<Rightarrow>
          if r_status response \<noteq> DSCW_CODEC_OK \<or> r_session_id response = 0
          then return (report_error response, 0)
          else return (0, r_session_id response))
   }"

definition simple_request :: "'w client_env \<Rightarrow> u16 \<Rightarrow> u64 \<Rightarrow> byte list \<Rightarrow> ('w, int) client" where
  "simple_request e type session_id payload = request e type session_id payload (\<lambda>response.
     return (if r_status response = DSCW_CODEC_OK then 0 else report_error response))"

definition request_keyframe :: "'w client_env \<Rightarrow> u64 \<Rightarrow> ('w, int) client" where
  "request_keyframe e session_id = simple_request e DSCB_REQUEST_KEYFRAME session_id []"

definition report_session_stats :: "'w client_env \<Rightarrow> u64 \<Rightarrow> ('w, int) client" where
  "report_session_stats e session_id = request e DSCB_SESSION_STATS session_id [] (\<lambda>response.
     return (if r_status response \<noteq> DSCW_CODEC_OK then report_error response else 0))"

definition close_session :: "'w client_env \<Rightarrow> u64 \<Rightarrow> ('w, unit) client" where
  "close_session e session_id =
     (if session_id = 0 then return ()
      else do { simple_request e DSCB_CLOSE session_id []; return () })"

definition expect_status ::
  "'w client_env \<Rightarrow> u16 \<Rightarrow> u64 \<Rightarrow> byte list \<Rightarrow> int \<Rightarrow> ('w, int) client" where
  "expect_status e type session_id payload expected = do {
     r \<leftarrow> rpc e type session_id payload;
     return (case r of Inl _ \<Rightarrow> 1 | Inr response \<Rightarrow> if r_status response \<noteq> expected then 1 else 0)
   }"

section \<open>Input\<close>

text \<open>
  The retry loop that \<open>queue_input\<close> and \<open>queue_eos\<close> share. It has no bound in C; here it is
  cut after \<open>loop_limit\<close> rounds, and the lemmas on it hold for every bound past the first
  answer that is not \<open>AGAIN\<close>.
\<close>

fun retry_request :: "'w client_env \<Rightarrow> u16 \<Rightarrow> u64 \<Rightarrow> byte list \<Rightarrow> nat \<Rightarrow> ('w, int) client" where
  "retry_request e type session_id payload 0 = return (-1)"
| "retry_request e type session_id payload (Suc n) = do {
     r \<leftarrow> rpc e type session_id payload;
     (case r of
        Inl _ \<Rightarrow> return (-1)
      | Inr response \<Rightarrow>
          if r_status response = DSCW_CODEC_AGAIN then do {
            world_do (sleep_us e 2000);
            retry_request e type session_id payload n
          } else return (if r_status response = DSCW_CODEC_OK then 0 else report_error response))
   }"

definition queue_input ::
  "'w client_env \<Rightarrow> u64 \<Rightarrow> byte list \<Rightarrow> byte list \<Rightarrow> ('w, int) client" where
  "queue_input e session_id header data = do {
     supported \<leftarrow> client_get shared_memory_supported;
     if \<not> supported \<or> length data > DSCW_MAX_PAYLOAD - 16 then return (-1)
     else do {
       allocated \<leftarrow> world (malloc_ok e (length data + 16));
       if \<not> allocated then return (-1)
       else retry_request e DSCB_INPUT session_id (header @ data) (loop_limit e)
     }
   }"

definition queue_eos :: "'w client_env \<Rightarrow> u64 \<Rightarrow> u64 \<Rightarrow> ('w, int) client" where
  "queue_eos e session_id pts = retry_request e DSCB_EOS session_id (be64 pts) (loop_limit e)"

text \<open>The 16 bytes in front of an input record.\<close>

definition record_header :: "u64 \<Rightarrow> u32 \<Rightarrow> u32 \<Rightarrow> byte list" where
  "record_header pts flags len = be64 pts @ be32 flags @ be32 len"

section \<open>Output\<close>

record pipe_output_state =
  po_frames :: u32
  po_previous_pts :: u64
  po_have_pts :: bool
  po_saw_eos :: bool

definition is_config :: "u32 \<Rightarrow> bool" where
  "is_config flags \<longleftrightarrow> flags AND DSCB_BUFFER_FLAG_CODEC_CONFIG \<noteq> 0"

definition is_eos :: "u32 \<Rightarrow> bool" where
  "is_eos flags \<longleftrightarrow> flags AND DSCB_BUFFER_FLAG_EOS \<noteq> 0"

text \<open>The header of an output record, read from a response payload.\<close>

definition out_pts :: "byte list \<Rightarrow> u64" where "out_pts p = get_u64 (buffer p) 0"
definition out_flags :: "byte list \<Rightarrow> u32" where "out_flags p = get_u32 (buffer p) 8"
definition out_length :: "byte list \<Rightarrow> u32" where "out_length p = get_u32 (buffer p) 12"

text \<open>
  One output request. The result is the code the C function returns with the new state:
  0 a record, 1 try again, 2 format change, 3 malformed, \<open>-1\<close> transport or write failure.
\<close>

definition drain_output ::
  "'w client_env \<Rightarrow> u64 \<Rightarrow> u32 \<Rightarrow> pipe_output_state \<Rightarrow> ('w, int \<times> pipe_output_state) client" where
  "drain_output e session_id timeout_ms state = do {
     r \<leftarrow> rpc e DSCB_OUTPUT session_id (be32 timeout_ms);
     (case r of
        Inl _ \<Rightarrow> return (-1, state)
      | Inr response \<Rightarrow> do {
          let p = r_payload response;
          if r_status response = DSCW_CODEC_AGAIN then return (1, state)
          else if r_status response = DSCW_CODEC_FORMAT_CHANGED then
            return (if length p = 20 then 2 else 3, state)
          else if r_status response \<noteq> DSCW_CODEC_OK then return (report_error response + 2, state)
          else if length p < 16 then return (3, state)
          else if unat (out_length p) \<noteq> length p - 16 then return (3, state)
          else do {
            let frame = (out_length p > 0 \<and> \<not> is_config (out_flags p));
            if frame \<and> po_have_pts state \<and> out_pts p < po_previous_pts state then return (3, state)
            else do {
              written \<leftarrow> world (write_ok e (length p));
              if \<not> written then return (-1, state)
              else do {
                emit p;
                return (0,
                  (if frame then state\<lparr>po_frames := po_frames state + 1, po_previous_pts := out_pts p,
                                       po_have_pts := True\<rparr> else state)
                  \<lparr>po_saw_eos := po_saw_eos state \<or> is_eos (out_flags p)\<rparr>)
              }
            }
          }
        })
   }"

record decode_test_state =
  dt_width :: u32
  dt_height :: u32
  dt_frame_rate :: u32
  dt_frame_count :: u32
  dt_format_seen :: bool
  dt_saw_eos :: bool

definition drain_decode_test ::
  "'w client_env \<Rightarrow> u64 \<Rightarrow> u32 \<Rightarrow> decode_test_state \<Rightarrow> ('w, int \<times> decode_test_state) client" where
  "drain_decode_test e session_id timeout_ms state = do {
     r \<leftarrow> rpc e DSCB_OUTPUT session_id (be32 timeout_ms);
     (case r of
        Inl _ \<Rightarrow> return (-1, state)
      | Inr response \<Rightarrow> do {
          let p = r_payload response;
          if r_status response = DSCW_CODEC_AGAIN then return (1, state)
          else if r_status response = DSCW_CODEC_FORMAT_CHANGED then
            return (if length p \<noteq> 20 \<or> get_u32 (buffer p) 0 \<noteq> dt_width state
                       \<or> get_u32 (buffer p) 4 \<noteq> dt_height state
                       \<or> get_u32 (buffer p) 16 \<noteq> DSCB_PIXEL_FORMAT_I420
                    then (3, state) else (2, state\<lparr>dt_format_seen := True\<rparr>))
          else if r_status response \<noteq> DSCW_CODEC_OK then return (report_error response + 2, state)
          else if length p < 16 then return (3, state)
          else do {
            let seen = (\<lambda>s. s\<lparr>dt_saw_eos := dt_saw_eos s \<or> is_eos (out_flags p)\<rparr>);
            if unat (out_length p) \<noteq> length p - 16 then return (3, seen state)
            else if out_length p > 0 then
              (if out_length p \<noteq> dt_width state * dt_height state * 3 div 2
                  \<or> out_pts p \<noteq> ucast (dt_frame_count state) * 1000000 div ucast (dt_frame_rate state)
               then return (3, seen state)
               else do {
                 written \<leftarrow> world (write_ok e (unat (out_length p)));
                 if \<not> written then return (-1, seen state)
                 else do {
                   emit (drop 16 p);
                   return (0, seen (state\<lparr>dt_frame_count := dt_frame_count state + 1\<rparr>))
                 }
               })
            else return (0, seen state)
          }
        })
   }"

record encode_test_state =
  et_frame_rate :: u32
  et_frame_count :: u32
  et_output_bytes :: u64
  et_format_seen :: bool
  et_saw_eos :: bool
  et_first_frame_key :: bool

definition drain_encode_test ::
  "'w client_env \<Rightarrow> u64 \<Rightarrow> u32 \<Rightarrow> encode_test_state \<Rightarrow> ('w, int \<times> encode_test_state) client" where
  "drain_encode_test e session_id timeout_ms state = do {
     r \<leftarrow> rpc e DSCB_OUTPUT session_id (be32 timeout_ms);
     (case r of
        Inl _ \<Rightarrow> return (-1, state)
      | Inr response \<Rightarrow> do {
          let p = r_payload response;
          if r_status response = DSCW_CODEC_AGAIN then return (1, state)
          else if r_status response = DSCW_CODEC_FORMAT_CHANGED then
            return (if length p \<noteq> 20 \<or> get_u32 (buffer p) 16 \<noteq> 0
                    then (3, state) else (2, state\<lparr>et_format_seen := True\<rparr>))
          else if r_status response \<noteq> DSCW_CODEC_OK then return (report_error response + 2, state)
          else if length p < 16 then return (3, state)
          else do {
            let seen = (\<lambda>s. s\<lparr>et_saw_eos := et_saw_eos s \<or> is_eos (out_flags p)\<rparr>);
            if unat (out_length p) \<noteq> length p - 16 then return (3, seen state)
            else if out_length p > 0 then do {
              let frame = (\<not> is_config (out_flags p));
              let state = (if frame \<and> et_frame_count state = 0
                              \<and> out_flags p AND DSCB_BUFFER_FLAG_KEY_FRAME \<noteq> 0
                           then state\<lparr>et_first_frame_key := True\<rparr> else state);
              if frame \<and> out_pts p \<noteq> ucast (et_frame_count state) * 1000000 div ucast (et_frame_rate state)
              then return (3, seen state)
              else do {
                let state = (if frame then state\<lparr>et_frame_count := et_frame_count state + 1\<rparr> else state);
                written \<leftarrow> world (write_ok e (unat (out_length p)));
                if \<not> written then return (-1, seen state)
                else do {
                  emit (drop 16 p);
                  return (0, seen (state\<lparr>et_output_bytes := et_output_bytes state + ucast (out_length p)\<rparr>))
                }
              }
            } else return (0, seen state)
          }
        })
   }"

section \<open>Access units\<close>

text \<open>
  \<open>find_aud\<close>: the first access unit delimiter at or after \<open>from\<close>. The comparisons are the C
  ones, in the same order, so every index is below the length.
\<close>

definition aud_prefix :: "byte list \<Rightarrow> nat \<Rightarrow> nat" where
  "aud_prefix data index =
     (if data ! index = 0 \<and> data ! (index + 1) = 0 \<and> data ! (index + 2) = 1 then 3
      else if index + 5 < length data \<and> data ! index = 0 \<and> data ! (index + 1) = 0
        \<and> data ! (index + 2) = 0 \<and> data ! (index + 3) = 1 then 4
      else 0)"

definition aud_at :: "byte list \<Rightarrow> nat \<Rightarrow> bool" where
  "aud_at data index \<longleftrightarrow>
     (let prefix = aud_prefix data index
      in prefix > 0 \<and> data ! (index + prefix) AND 0x1f = 9)"

function find_aud :: "byte list \<Rightarrow> nat \<Rightarrow> nat option" where
  "find_aud data index =
     (if index + 4 < length data
      then if aud_at data index then Some index else find_aud data (Suc index)
      else None)"
  by pat_completeness auto
termination
  by (relation "measure (\<lambda>(data, index). length data - index)") auto

declare find_aud.simps [simp del]

definition DSCB_MAX_PAYLOAD_FILE :: nat where "DSCB_MAX_PAYLOAD_FILE = DSCW_MAX_PAYLOAD"

definition read_file :: "'w client_env \<Rightarrow> string \<Rightarrow> byte list option" where
  "read_file e path =
     (case file_bytes e path of
        None \<Rightarrow> None
      | Some bytes \<Rightarrow> if bytes = [] \<or> length bytes > DSCB_MAX_PAYLOAD_FILE then None else Some bytes)"

text \<open>The boundary loop of \<open>load_access_units\<close>; \<open>room\<close> is what is left of its 1024 entries.\<close>

fun aud_boundaries :: "byte list \<Rightarrow> nat \<Rightarrow> nat \<Rightarrow> nat list" where
  "aud_boundaries data 0 search = []"
| "aud_boundaries data (Suc room) search =
     (case find_aud data search of
        None \<Rightarrow> []
      | Some aud \<Rightarrow> aud # aud_boundaries data room (aud + 4))"

definition load_access_units ::
  "'w client_env \<Rightarrow> string \<Rightarrow> u32 \<Rightarrow> (byte list \<times> nat list) option" where
  "load_access_units e path expected_frames =
     (case read_file e path of
        None \<Rightarrow> None
      | Some vector \<Rightarrow>
          let boundaries = aud_boundaries vector 1024 0
          in if boundaries = [] \<or> length boundaries \<noteq> unat expected_frames then None
             else Some (vector, (0 # tl boundaries) @ [length vector]))"

text \<open>\<open>inspect_vector\<close> counts all delimiters; the search position strictly increases.\<close>

lemma find_aud_bounds: "find_aud data from = Some i \<Longrightarrow> from \<le> i \<and> i + 4 < length data"
  by (induction data "from" rule: find_aud.induct)
    (subst (asm) (2) find_aud.simps, auto split: if_splits dest: Suc_leD)

function count_auds :: "byte list \<Rightarrow> nat \<Rightarrow> nat" where
  "count_auds data search =
     (case find_aud data search of None \<Rightarrow> 0 | Some aud \<Rightarrow> Suc (count_auds data (aud + 4)))"
  by pat_completeness auto
termination
  by (relation "measure (\<lambda>(data, search). length data - search)") (auto dest: find_aud_bounds)

declare count_auds.simps [simp del]

definition inspect_vector :: "'w client_env \<Rightarrow> string \<Rightarrow> u32 \<Rightarrow> ('w, int) client" where
  "inspect_vector e path expected_frames =
     (case read_file e path of
        None \<Rightarrow> return 1
      | Some vector \<Rightarrow>
          let count = count_auds vector 0
          in if count \<noteq> unat expected_frames then return 1
             else do {
               emit (bytes_of (''annex_b_bytes='' @ dec (length vector) @ '' access_units='' @ dec count)
                     @ [10]);
               return 0
             })"

section \<open>Frames\<close>

text \<open>\<open>fill_i420_pattern\<close>: the luma plane row by row, then both chroma planes.\<close>

definition fill_i420_pattern :: "nat \<Rightarrow> nat \<Rightarrow> u32 \<Rightarrow> byte list" where
  "fill_i420_pattern width height frame_index =
     (let chroma_size = width * height div 4
      in concat (map (\<lambda>y. map (\<lambda>x. ucast (of_nat x * 3 + of_nat y * 5 + frame_index * 11 :: u32))
                            [0..<width]) [0..<height])
         @ map (\<lambda>i. of_nat (64 + (i + unat (frame_index * 3)) mod 96)) [0..<chroma_size]
         @ map (\<lambda>i. of_nat (192 - (i + unat (frame_index * 5)) mod 96)) [0..<chroma_size])"

text \<open>
  \<open>convert_i420_for_encoder\<close>: the frame itself for the planar formats, the interleaved copy
  for the semi-planar one, \<open>None\<close> for the return value 1.
\<close>

definition convert_i420_for_encoder :: "u32 \<Rightarrow> nat \<Rightarrow> nat \<Rightarrow> byte list \<Rightarrow> byte list option" where
  "convert_i420_for_encoder color_format width height i420 =
     (let y_size = width * height; chroma_size = y_size div 4
      in if color_format = DSCB_COLOR_YUV420_SEMIPLANAR
         then Some (take y_size i420
                @ concat (map (\<lambda>i. [i420 ! (y_size + i), i420 ! (y_size + chroma_size + i)])
                    [0..<chroma_size]))
         else if color_format \<noteq> DSCB_COLOR_YUV420_PLANAR \<and> color_format \<noteq> DSCB_COLOR_YUV420_FLEXIBLE
         then None
         else Some i420)"

definition frame_pts :: "u32 \<Rightarrow> u32 \<Rightarrow> u64" where
  "frame_pts index frame_rate = ucast index * 1000000 div ucast frame_rate"

definition queue_encoder_frame ::
  "'w client_env \<Rightarrow> u64 \<Rightarrow> u32 \<Rightarrow> nat \<Rightarrow> nat \<Rightarrow> u32 \<Rightarrow> u32 \<Rightarrow> ('w, int) client" where
  "queue_encoder_frame e session_id color_format width height frame_rate frame_index =
     (let y_size = width * height; chroma_size = y_size div 4;
          i420 = fill_i420_pattern width height frame_index
      in case convert_i420_for_encoder color_format width height i420 of
           None \<Rightarrow> return 1
         | Some input \<Rightarrow>
             queue_input e session_id
               (record_header (frame_pts frame_index frame_rate) 0 (of_nat (y_size + chroma_size * 2)))
               (take (y_size + chroma_size * 2) input))"

section \<open>Commands\<close>

text \<open>
  The two drain loops of the stream commands. \<open>drain_ready\<close> empties the output after an
  input record until the worker answers \<open>AGAIN\<close>; \<open>drain_eos\<close> waits for the end of the stream
  and gives up after 50 idle answers. Both are cut after \<open>loop_limit\<close> rounds, which counts
  as a failure. The result is 0 or 1, with the state.
\<close>

fun drain_ready :: "('s \<Rightarrow> ('w, int \<times> 's) client) \<Rightarrow> nat \<Rightarrow> 's \<Rightarrow> ('w, int \<times> 's) client" where
  "drain_ready drain 0 state = return (1, state)"
| "drain_ready drain (Suc n) state = do {
     (drained, state) \<leftarrow> drain state;
     if drained = 1 then return (0, state)
     else if drained < 0 \<or> drained > 2 then return (1, state)
     else drain_ready drain n state
   }"

fun drain_eos ::
  "('s \<Rightarrow> ('w, int \<times> 's) client) \<Rightarrow> ('s \<Rightarrow> bool) \<Rightarrow> nat \<Rightarrow> nat \<Rightarrow> 's \<Rightarrow> ('w, int \<times> 's) client" where
  "drain_eos drain saw_eos 0 idle state = return (1, state)"
| "drain_eos drain saw_eos (Suc n) idle state =
     (if saw_eos state \<or> \<not> idle < 50 then return (0, state)
      else do {
        (drained, state) \<leftarrow> drain state;
        if drained = 1 then drain_eos drain saw_eos n (Suc idle) state
        else if drained < 0 \<or> drained > 2 then return (1, state)
        else drain_eos drain saw_eos n idle state
      })"

text \<open>The packet loop of the decode and transcode tests over consecutive boundaries.\<close>

fun feed_packets ::
  "'w client_env \<Rightarrow> u64 \<Rightarrow> ('s \<Rightarrow> ('w, int \<times> 's) client) \<Rightarrow> u32 \<Rightarrow> byte list \<Rightarrow> nat list \<Rightarrow> u32 \<Rightarrow> 's \<Rightarrow>
   ('w, int \<times> 's) client" where
  "feed_packets e sid drain frame_rate vector (a # b # bs) index state = do {
     let packet = take (b - a) (drop a vector);
     queued \<leftarrow> queue_input e sid
       (record_header (frame_pts index frame_rate) 0 (of_nat (b - a))) packet;
     if queued \<noteq> 0 then return (1, state)
     else do {
       (result, state) \<leftarrow> drain_ready drain (loop_limit e) state;
       if result \<noteq> 0 then return (result, state)
       else feed_packets e sid drain frame_rate vector (b # bs) (index + 1) state
     }
   }"
| "feed_packets e sid drain frame_rate vector bs index state = return (0, state)"

text \<open>End of stream, the wait for it, and the statistics and close that end every test.\<close>

definition finish_stream ::
  "'w client_env \<Rightarrow> u64 \<Rightarrow> (u32 \<Rightarrow> 's \<Rightarrow> ('w, int \<times> 's) client) \<Rightarrow> ('s \<Rightarrow> bool) \<Rightarrow> u64 \<Rightarrow> int \<times> 's \<Rightarrow>
   ('w, int \<times> 's) client" where
  "finish_stream e sid drain saw_eos pts r = (case r of (result, state) \<Rightarrow>
     if result \<noteq> 0 then return (result, state)
     else do {
       queued \<leftarrow> queue_eos e sid pts;
       if queued \<noteq> 0 then return (queued, state)
       else drain_eos (drain 100) saw_eos (loop_limit e) 0 state
     })"

definition end_session :: "'w client_env \<Rightarrow> u64 \<Rightarrow> int \<Rightarrow> ('w, int) client" where
  "end_session e sid result = do {
     stats \<leftarrow> report_session_stats e sid;
     close_session e sid;
     return (if stats \<noteq> 0 then 1 else result)
   }"

definition run_decode_test ::
  "'w client_env \<Rightarrow> string \<Rightarrow> u32 \<Rightarrow> u32 \<Rightarrow> u32 \<Rightarrow> u32 \<Rightarrow> ('w, int) client" where
  "run_decode_test e path width height frame_rate expected_frames =
     (case load_access_units e path expected_frames of
        None \<Rightarrow> return 1
      | Some (vector, boundaries) \<Rightarrow> do {
          (created, sid, _) \<leftarrow>
            create_session e DSCB_MODE_DECODE DSCB_CODEC_AVC width height frame_rate 2000000;
          if created \<noteq> 0 then return 1
          else do {
            fed \<leftarrow> feed_packets e sid (drain_decode_test e sid 0) frame_rate vector boundaries 0
              \<lparr>dt_width = width, dt_height = height, dt_frame_rate = frame_rate, dt_frame_count = 0,
               dt_format_seen = False, dt_saw_eos = False\<rparr>;
            (result, state) \<leftarrow> finish_stream e sid (drain_decode_test e sid) dt_saw_eos
              (frame_pts expected_frames frame_rate) fed;
            end_session e sid
              (if result = 0 \<and> (\<not> dt_format_seen state \<or> \<not> dt_saw_eos state
                  \<or> dt_frame_count state \<noteq> expected_frames) then 1 else result)
          }
        })"

definition initial_encode_state :: "u32 \<Rightarrow> encode_test_state" where
  "initial_encode_state frame_rate =
     \<lparr>et_frame_rate = frame_rate, et_frame_count = 0, et_output_bytes = 0, et_format_seen = False,
      et_saw_eos = False, et_first_frame_key = False\<rparr>"

text \<open>The verdict of the encode and transcode tests; \<open>elapsed\<close> is in microseconds.\<close>

definition encode_verdict :: "encode_test_state \<Rightarrow> u32 \<Rightarrow> u64 \<Rightarrow> int \<Rightarrow> int" where
  "encode_verdict state frames elapsed result =
     (if result = 0 \<and> (\<not> et_format_seen state \<or> \<not> et_saw_eos state \<or> et_frame_count state \<noteq> frames
         \<or> et_output_bytes state = 0 \<or> \<not> et_first_frame_key state
         \<or> elapsed > frame_pts frames (et_frame_rate state)) then 1 else result)"

definition run_transcode_test ::
  "'w client_env \<Rightarrow> string \<Rightarrow> u32 \<Rightarrow> u32 \<Rightarrow> u32 \<Rightarrow> u32 \<Rightarrow> u32 \<Rightarrow> ('w, int) client" where
  "run_transcode_test e path width height frame_rate expected_frames bitrate =
     (case load_access_units e path expected_frames of
        None \<Rightarrow> return 1
      | Some (vector, boundaries) \<Rightarrow> do {
          (created, sid) \<leftarrow>
            create_transcode_session e DSCB_CODEC_AVC DSCB_CODEC_AVC width height frame_rate bitrate;
          if created \<noteq> 0 then return 1
          else do {
            keyed \<leftarrow> request_keyframe e sid;
            if keyed \<noteq> 0 then do { close_session e sid; return 1 }
            else do {
              started \<leftarrow> world (clock_us e);
              fed \<leftarrow> feed_packets e sid (drain_encode_test e sid 0) frame_rate vector boundaries 0
                (initial_encode_state frame_rate);
              (result, state) \<leftarrow> finish_stream e sid (drain_encode_test e sid) et_saw_eos
                (frame_pts expected_frames frame_rate) fed;
              finished \<leftarrow> world (clock_us e);
              end_session e sid (encode_verdict state expected_frames (finished - started) result)
            }
          }
        })"

fun feed_frames ::
  "'w client_env \<Rightarrow> u64 \<Rightarrow> u32 \<Rightarrow> u32 \<Rightarrow> u32 \<Rightarrow> u32 \<Rightarrow> u32 list \<Rightarrow> encode_test_state \<Rightarrow>
   ('w, int \<times> encode_test_state) client" where
  "feed_frames e sid color width height frame_rate [] state = return (0, state)"
| "feed_frames e sid color width height frame_rate (frame # frames) state = do {
     queued \<leftarrow> queue_encoder_frame e sid color (unat width) (unat height) frame_rate frame;
     if queued \<noteq> 0 then return (1, state)
     else do {
       (result, state) \<leftarrow> drain_ready (drain_encode_test e sid 0) (loop_limit e) state;
       if result \<noteq> 0 then return (result, state)
       else feed_frames e sid color width height frame_rate frames state
     }
   }"

definition run_encode_test ::
  "'w client_env \<Rightarrow> u32 \<Rightarrow> u32 \<Rightarrow> u32 \<Rightarrow> u32 \<Rightarrow> u32 \<Rightarrow> ('w, int) client" where
  "run_encode_test e width height frame_rate frames bitrate = do {
     (created, sid, color) \<leftarrow>
       create_session e DSCB_MODE_ENCODE DSCB_CODEC_AVC width height frame_rate bitrate;
     if created \<noteq> 0 then return 1
     else do {
       keyed \<leftarrow> request_keyframe e sid;
       if keyed \<noteq> 0 then do { close_session e sid; return 1 }
       else do {
         i420 \<leftarrow> world (malloc_ok e (unat width * unat height * 3 div 2));
         converted \<leftarrow> world (malloc_ok e (unat width * unat height * 3 div 2));
         if \<not> i420 \<or> \<not> converted then do { close_session e sid; return 1 }
         else do {
           started \<leftarrow> world (clock_us e);
           fed \<leftarrow> feed_frames e sid color width height frame_rate (map of_nat [0..<unat frames])
             (initial_encode_state frame_rate);
           (result, state) \<leftarrow> finish_stream e sid (drain_encode_test e sid) et_saw_eos
             (frame_pts frames frame_rate) fed;
           finished \<leftarrow> world (clock_us e);
           end_session e sid (encode_verdict state frames (finished - started) result)
         }
       }
     }
   }"

definition run_probe :: "'w client_env \<Rightarrow> u32 \<Rightarrow> u32 \<Rightarrow> u32 \<Rightarrow> u32 \<Rightarrow> ('w, int) client" where
  "run_probe e mode codec width height = do {
     (created, sid, _) \<leftarrow> create_session e mode codec width height 30 2000000;
     if created \<noteq> 0 then return 1
     else do {
       keyed \<leftarrow> (if mode = DSCB_MODE_ENCODE then request_keyframe e sid else return 0);
       flushed \<leftarrow> (if keyed = 0 then simple_request e DSCB_FLUSH sid [] else return keyed);
       (if flushed = 0
        then emit (bytes_of (''hardware_session='' @ dec (unat sid) @ '' protocol='' @ dec 1) @ [10])
        else return ());
       end_session e sid flushed
     }
   }"

text \<open>\<open>run_slow_output_test\<close>: frames until the worker pushes back, at most 64.\<close>

fun slow_frames ::
  "'w client_env \<Rightarrow> u64 \<Rightarrow> nat \<Rightarrow> u32 list \<Rightarrow> u32 \<Rightarrow> ('w, int \<times> u32 \<times> bool) client" where
  "slow_frames e sid frame_size [] accepted = return (0, accepted, False)"
| "slow_frames e sid frame_size (frame # frames) accepted = do {
     r \<leftarrow> rpc e DSCB_INPUT sid
            (record_header (frame_pts frame 10) 0 (of_nat frame_size) @ replicate frame_size 0);
     (case r of
        Inl _ \<Rightarrow> return (1, accepted, False)
      | Inr response \<Rightarrow>
          if r_status response = DSCW_CODEC_OK then slow_frames e sid frame_size frames (accepted + 1)
          else if r_status response = DSCW_CODEC_AGAIN then return (0, accepted, True)
          else return (report_error response, accepted, False))
   }"

definition run_slow_output_test :: "'w client_env \<Rightarrow> ('w, int) client" where
  "run_slow_output_test e = do {
     let frame_size = 128 * 96 * 3 div 2;
     (created, sid, _) \<leftarrow> create_session e DSCB_MODE_ENCODE DSCB_CODEC_AVC 128 96 10 1000000;
     if created \<noteq> 0 then return 1
     else do {
       allocated \<leftarrow> world (malloc_ok e (16 + frame_size));
       if \<not> allocated then do { close_session e sid; return 1 }
       else do {
         (result, accepted, backpressure) \<leftarrow> slow_frames e sid frame_size (map of_nat [0..<64]) 0;
         let result = (if result = 0 \<and> (\<not> backpressure \<or> accepted = 0) then 1 else result);
         stats \<leftarrow> (if result = 0 then report_session_stats e sid else return 0);
         close_session e sid;
         return (if stats \<noteq> 0 then 1 else result)
       }
     }
   }"

section \<open>The pipe command\<close>

text \<open>
  The lifetime tests. \<open>nanosleep\<close> is resumed after a signal, so it always sleeps for the whole
  duration. \<open>run_orphan_test\<close> leaves the process with \<open>_exit(0)\<close> and its session open.
\<close>

definition create_test_session :: "'w client_env \<Rightarrow> string \<Rightarrow> ('w, int \<times> u64) client" where
  "create_test_session e kind =
     (if kind = ''transcode''
      then create_transcode_session e DSCB_CODEC_AVC DSCB_CODEC_AVC 128 96 10 1000000
      else do {
        (result, sid, color) \<leftarrow> create_session e
          (if kind = ''encode'' then DSCB_MODE_ENCODE else DSCB_MODE_DECODE) DSCB_CODEC_AVC 128 96 10 1000000;
        return (result, sid)
      })"

definition run_orphan_test :: "'w client_env \<Rightarrow> string \<Rightarrow> ('w, int) client" where
  "run_orphan_test e kind =
     (if kind \<noteq> ''decode'' \<and> kind \<noteq> ''transcode'' then return 2
      else do {
        (result, sid) \<leftarrow> create_test_session e kind;
        return (if result \<noteq> 0 then 1 else 0)
      })"

definition run_hold_test :: "'w client_env \<Rightarrow> string \<Rightarrow> u32 \<Rightarrow> ('w, int) client" where
  "run_hold_test e kind duration_ms =
     (if kind \<noteq> ''decode'' \<and> kind \<noteq> ''encode'' \<and> kind \<noteq> ''transcode'' then return 2
      else do {
        (result, sid) \<leftarrow> create_test_session e kind;
        if result \<noteq> 0 then return 1
        else do {
          world_do (sleep_us e (unat duration_ms * 1000));
          stats \<leftarrow> report_session_stats e sid;
          close_session e sid;
          return (if stats \<noteq> 0 then 1 else 0)
        }
      })"

definition run_idle_timeout_test :: "'w client_env \<Rightarrow> u32 \<Rightarrow> ('w, int) client" where
  "run_idle_timeout_test e duration_ms = do {
     world_do (sleep_us e (unat duration_ms * 1000));
     r \<leftarrow> rpc e DSCB_HEALTH 0 [];
     return (case r of Inl _ \<Rightarrow> 1 | Inr response \<Rightarrow> if r_status response \<noteq> DSCW_CODEC_OK then 1 else 0)
   }"

text \<open>
  \<open>read_record_header\<close>: \<open>None\<close> a truncated header, \<open>Some None\<close> the end of the input, else the
  16 bytes. \<open>read_exact\<close> is the \<open>fread\<close> of a payload.
\<close>

definition read_record_header :: "('w, byte list option option) client" where
  "read_record_header = do {
     input \<leftarrow> gets kx_in;
     if input = [] then return (Some None)
     else if length input < 16 then do { modify (\<lambda>k. k\<lparr>kx_in := []\<rparr>); return None }
     else do { modify (\<lambda>k. k\<lparr>kx_in := drop 16 input\<rparr>); return (Some (Some (take 16 input))) }
   }"

definition read_exact :: "nat \<Rightarrow> ('w, byte list option) client" where
  "read_exact n = do {
     input \<leftarrow> gets kx_in;
     modify (\<lambda>k. k\<lparr>kx_in := drop n input\<rparr>);
     return (if length input < n then None else Some (take n input))
   }"

text \<open>
  The input loop of \<open>run_pipe_session\<close>, one record per round; a round consumes at least 16
  bytes of the input, so the number of bytes left bounds the rounds. The state is the last
  presentation time, the number of frames and the output state.
\<close>

fun pipe_records ::
  "'w client_env \<Rightarrow> u64 \<Rightarrow> u32 \<Rightarrow> u32 \<Rightarrow> nat \<Rightarrow> nat \<Rightarrow> nat \<Rightarrow> u64 \<times> u32 \<times> pipe_output_state \<Rightarrow>
   ('w, int \<times> u64 \<times> u32 \<times> pipe_output_state) client" where
  "pipe_records e sid mode color width height 0 st = return (1, st)"
| "pipe_records e sid mode color width height (Suc n) (last_pts, frames, out) = do {
     header \<leftarrow> read_record_header;
     (case header of
        None \<Rightarrow> return (1, last_pts, frames, out)
      | Some None \<Rightarrow> return (0, last_pts, frames, out)
      | Some (Some h) \<Rightarrow> do {
          let last_pts = get_u64 (buffer h) 0;
          let flags = get_u32 (buffer h) 8;
          let len = unat (get_u32 (buffer h) 12);
          if len > DSCW_MAX_PAYLOAD - 16 then return (1, last_pts, frames, out)
          else do {
            allocated \<leftarrow> (if len = 0 then return True else world (malloc_ok e len));
            data \<leftarrow> (if len = 0 then return (Some [])
                     else if \<not> allocated then return None else read_exact len);
            (case data of
               None \<Rightarrow> return (1, last_pts, frames, out)
             | Some data \<Rightarrow>
                 if is_eos flags then return (0, last_pts, frames, out)
                 else do {
                   let frames = (if len > 0 \<and> \<not> is_config flags then frames + 1 else frames);
                   input \<leftarrow> (if mode \<noteq> DSCB_MODE_ENCODE then return (Some data)
                             else if len \<noteq> width * height * 3 div 2 then return None
                             else do {
                               converted \<leftarrow> world (malloc_ok e len);
                               return (if \<not> converted then None
                                       else convert_i420_for_encoder color width height data)
                             });
                   (case input of
                      None \<Rightarrow> return (1, last_pts, frames, out)
                    | Some codec_input \<Rightarrow> do {
                        queued \<leftarrow> queue_input e sid h codec_input;
                        if queued \<noteq> 0 then return (1, last_pts, frames, out)
                        else do {
                          (result, out) \<leftarrow> drain_ready (drain_output e sid 0) (loop_limit e) out;
                          if result \<noteq> 0 then return (result, last_pts, frames, out)
                          else pipe_records e sid mode color width height n (last_pts, frames, out)
                        }
                      })
                 })
          }
        })
   }"

definition run_pipe_session ::
  "'w client_env \<Rightarrow> u64 \<Rightarrow> u32 \<Rightarrow> u32 \<Rightarrow> u32 \<Rightarrow> u32 \<Rightarrow> bool \<Rightarrow> ('w, int) client" where
  "run_pipe_session e sid mode color width height request_sync_frame = do {
     keyed \<leftarrow> (if request_sync_frame then request_keyframe e sid else return 0);
     if keyed \<noteq> 0 then do { close_session e sid; return 1 }
     else do {
       input \<leftarrow> gets kx_in;
       (result, last_pts, frames, out) \<leftarrow>
         pipe_records e sid mode color (unat width) (unat height) (Suc (length input))
           (0, 0, \<lparr>po_frames = 0, po_previous_pts = 0, po_have_pts = False, po_saw_eos = False\<rparr>);
       (result, out) \<leftarrow> finish_stream e sid (drain_output e sid) po_saw_eos last_pts (result, out);
       let result = (if result = 0 \<and> \<not> po_saw_eos out then 1 else result);
       let result = (if result = 0 \<and> (frames = 0 \<or> po_frames out \<noteq> frames) then 1 else result);
       end_session e sid result
     }
   }"

definition run_pipe ::
  "'w client_env \<Rightarrow> u32 \<Rightarrow> u32 \<Rightarrow> u32 \<Rightarrow> u32 \<Rightarrow> u32 \<Rightarrow> u32 \<Rightarrow> ('w, int) client" where
  "run_pipe e mode codec width height frame_rate bitrate = do {
     (created, sid, color) \<leftarrow> create_session e mode codec width height frame_rate bitrate;
     if created \<noteq> 0 then return 1
     else run_pipe_session e sid mode color width height (mode = DSCB_MODE_ENCODE)
   }"

definition run_transcode ::
  "'w client_env \<Rightarrow> u32 \<Rightarrow> u32 \<Rightarrow> u32 \<Rightarrow> u32 \<Rightarrow> u32 \<Rightarrow> u32 \<Rightarrow> ('w, int) client" where
  "run_transcode e input_codec output_codec width height frame_rate bitrate = do {
     (created, sid) \<leftarrow>
       create_transcode_session e input_codec output_codec width height frame_rate bitrate;
     if created \<noteq> 0 then return 1
     else run_pipe_session e sid DSCB_MODE_DECODE 0 width height True
   }"

section \<open>The negative test\<close>

text \<open>A chain of C conditions joined by \<open>||\<close>: the steps run in order until one is not 0.\<close>

fun first_failure :: "('w, int) client list \<Rightarrow> ('w, int) client" where
  "first_failure [] = return 0"
| "first_failure (c # cs) = do { r \<leftarrow> c; if r \<noteq> 0 then return r else first_failure cs }"

definition create_payload :: "u32 \<Rightarrow> u32 \<Rightarrow> u32 \<Rightarrow> u32 \<Rightarrow> u32 \<Rightarrow> u32 \<Rightarrow> byte list" where
  "create_payload mode codec width height frame_rate bitrate =
     be32 mode @ be32 codec @ be32 width @ be32 height @ be32 frame_rate @ be32 bitrate @ be32 0"

definition stateless_checks :: "'w client_env \<Rightarrow> ('w, int) client list" where
  "stateless_checks e =
     [expect_status e DSCB_HEALTH 0 [0] DSCW_CODEC_ERROR_PROTOCOL,
      expect_status e DSCB_REQUEST_KEYFRAME (- 1) [] DSCW_CODEC_ERROR_SESSION,
      expect_status e DSCB_SESSION_STATS (- 1) [] DSCW_CODEC_ERROR_SESSION,
      expect_status e 0x1234 0 [] DSCW_CODEC_ERROR_UNSUPPORTED,
      expect_status e DSCB_CREATE 0 (create_payload DSCB_MODE_DECODE DSCB_CODEC_AVC 0 96 10 1000000)
        DSCW_CODEC_ERROR_LIMIT,
      expect_status e DSCB_CREATE 0 (create_payload DSCB_MODE_DECODE DSCB_CODEC_AVC 4096 4096 10 1000000)
        DSCW_CODEC_ERROR_LIMIT]"

definition decoder_checks :: "'w client_env \<Rightarrow> u64 \<Rightarrow> ('w, int) client list" where
  "decoder_checks e sid =
     [expect_status e DSCB_INPUT sid (record_header 0 (- 1) 1 @ [0]) DSCW_CODEC_ERROR_PROTOCOL,
      simple_request e DSCB_FLUSH sid [],
      queue_eos e sid 0,
      expect_status e DSCB_EOS sid (be64 0) DSCW_CODEC_ERROR_SESSION,
      expect_status e DSCB_INPUT sid (record_header 0 0 1 @ [0]) DSCW_CODEC_ERROR_SESSION,
      simple_request e DSCB_FLUSH sid []]"

definition encoder_checks :: "'w client_env \<Rightarrow> u64 \<Rightarrow> ('w, int) client list" where
  "encoder_checks e sid =
     (let frame_length = 128 * 96 * 3 div 2; frame = replicate frame_length 0
      in [queue_input e sid (record_header 100000 0 (of_nat frame_length)) frame,
          expect_status e DSCB_INPUT sid (record_header 50000 0 (of_nat frame_length) @ frame)
            DSCW_CODEC_ERROR_PROTOCOL,
          simple_request e DSCB_FLUSH sid []])"

definition run_negative_test :: "'w client_env \<Rightarrow> ('w, int) client" where
  "run_negative_test e = do {
     stateless \<leftarrow> first_failure (stateless_checks e);
     if stateless \<noteq> 0 then return 1
     else do {
       (created, sid, _) \<leftarrow> create_session e DSCB_MODE_DECODE DSCB_CODEC_AVC 128 96 10 1000000;
       if created \<noteq> 0 then return 1
       else do {
         decoder \<leftarrow> first_failure (decoder_checks e sid);
         close_session e sid;
         if decoder \<noteq> 0 then return 1
         else do {
           frame \<leftarrow> world (malloc_ok e (128 * 96 * 3 div 2));
           reversed \<leftarrow> world (malloc_ok e (16 + 128 * 96 * 3 div 2));
           (created, sid, _) \<leftarrow>
             (if frame \<and> reversed
              then create_session e DSCB_MODE_ENCODE DSCB_CODEC_AVC 128 96 10 1000000
              else return (1, 0, 0));
           if created \<noteq> 0 then do { close_session e sid; return 1 }
           else do {
             encoder \<leftarrow> first_failure (encoder_checks e sid);
             close_session e sid;
             if encoder \<noteq> 0 then return 1
             else do {
               health \<leftarrow> print_health e;
               return (if health \<noteq> 0 then 1 else 0)
             }
           }
         }
       }
     }
   }"

section \<open>Start-up and the command line\<close>

text \<open>What \<open>start_worker\<close> stores in the fresh mapping before it forks the worker.\<close>

definition init_transport :: "nat \<Rightarrow> mem" where
  "init_transport pid =
     control_store ctl_parent_pid (of_nat pid)
      (control_store ctl_slot_bytes (of_nat DSCW_SLOT_BYTES)
        (control_store ctl_mapping_bytes (of_nat DSCW_MAPPING_BYTES)
          (control_store ctl_version DSCW_TRANSPORT_VERSION
            (control_store ctl_magic DSCW_TRANSPORT_MAGIC (\<lambda>_. 0)))))"

text \<open>The flags check after the worker's first event.\<close>

definition worker_is_ready :: "mem \<Rightarrow> bool" where
  "worker_is_ready m \<longleftrightarrow>
     control_load m ctl_flags AND DSCW_FLAG_WORKER_READY \<noteq> 0
     \<and> control_load m ctl_flags AND DSCW_FLAG_WORKER_FAILED = 0"

definition run_probe_args :: "'w client_env \<Rightarrow> string list \<Rightarrow> ('w, int) client" where
  "run_probe_args e args =
     (case args of
        mode # codec # rest \<Rightarrow>
          (case (parse_mode mode, parse_codec codec,
                 case rest of
                   [] \<Rightarrow> Some (128, 128)
                 | [w, h] \<Rightarrow> (case (parse_u32 w 16 4096, parse_u32 h 16 4096) of
                               (Some w, Some h) \<Rightarrow> Some (w, h) | _ \<Rightarrow> None)
                 | _ \<Rightarrow> None) of
             (Some mode, Some codec, Some (width, height)) \<Rightarrow> run_probe e mode codec width height
           | _ \<Rightarrow> return 2)
      | _ \<Rightarrow> return 2)"

text \<open>The four numbers that end the pipe and transcode commands.\<close>

definition parse_stream :: "string list \<Rightarrow> (u32 \<times> u32 \<times> u32 \<times> u32) option" where
  "parse_stream args =
     (case args of
        [w, h, r, b] \<Rightarrow>
          (case (parse_u32 w 16 4096, parse_u32 h 16 4096, parse_u32 r 1 240, parse_u32 b 1000 100000000) of
             (Some w, Some h, Some r, Some b) \<Rightarrow> Some (w, h, r, b)
           | _ \<Rightarrow> None)
      | _ \<Rightarrow> None)"

definition parse_test :: "string list \<Rightarrow> (u32 \<times> u32 \<times> u32 \<times> u32) option" where
  "parse_test args =
     (case args of
        [w, h, r, n] \<Rightarrow>
          (case (parse_u32 w 16 4096, parse_u32 h 16 4096, parse_u32 r 1 240, parse_u32 n 1 1024) of
             (Some w, Some h, Some r, Some n) \<Rightarrow> Some (w, h, r, n)
           | _ \<Rightarrow> None)
      | _ \<Rightarrow> None)"

definition run_stream_args :: "'w client_env \<Rightarrow> string list \<Rightarrow> ('w, int) client" where
  "run_stream_args e args =
     (case args of
        c # a # b # rest \<Rightarrow>
          (case parse_stream rest of
             None \<Rightarrow> return 2
           | Some (width, height, frame_rate, bitrate) \<Rightarrow>
               if c = ''pipe'' then
                 (case (parse_mode a, parse_codec b) of
                    (Some mode, Some codec) \<Rightarrow> run_pipe e mode codec width height frame_rate bitrate
                  | _ \<Rightarrow> return 2)
               else
                 (case (parse_codec a, parse_codec b) of
                    (Some input, Some out) \<Rightarrow> run_transcode e input out width height frame_rate bitrate
                  | _ \<Rightarrow> return 2))
      | _ \<Rightarrow> return 2)"

definition run_test_args :: "'w client_env \<Rightarrow> string list \<Rightarrow> ('w, int) client" where
  "run_test_args e args =
     (case args of
        [c, path, w, h, r, n] \<Rightarrow>
          (if c = ''decode-test'' then
             (case parse_test [w, h, r, n] of
                Some (w, h, r, n) \<Rightarrow> run_decode_test e path w h r n | None \<Rightarrow> return 2)
           else
             (case (parse_test [path, w, h, r], parse_u32 n 1000 100000000) of
                (Some (w, h, r, n), Some b) \<Rightarrow> run_encode_test e w h r n b | _ \<Rightarrow> return 2))
      | [c, path, w, h, r, n, b] \<Rightarrow>
          (case (parse_test [w, h, r, n], parse_u32 b 1000 100000000) of
             (Some (w, h, r, n), Some b) \<Rightarrow> run_transcode_test e path w h r n b | _ \<Rightarrow> return 2)
      | _ \<Rightarrow> return 2)"

text \<open>
  The command switch of \<open>main\<close> on the arguments after the program name, once the worker has
  been started and greeted.
\<close>

definition run_command :: "'w client_env \<Rightarrow> string list \<Rightarrow> ('w, int) client" where
  "run_command e args =
     (if args = [''capabilities''] then print_capabilities e
      else if args = [''health''] \<or> args = [''health'', ''--format'', ''json''] then print_health e
      else if args = [''negative-test''] then run_negative_test e
      else if args = [''slow-output-test''] then run_slow_output_test e
      else if length args = 2 \<and> hd args = ''orphan-test'' then run_orphan_test e (args ! 1)
      else if length args = 3 \<and> hd args = ''hold-test'' then
        (case parse_u32 (args ! 2) 100 900000 of None \<Rightarrow> return 2 | Some d \<Rightarrow> run_hold_test e (args ! 1) d)
      else if length args = 2 \<and> hd args = ''idle-test'' then
        (case parse_u32 (args ! 1) 31000 60000 of None \<Rightarrow> return 2 | Some d \<Rightarrow> run_idle_timeout_test e d)
      else (case args of
              [] \<Rightarrow> return 2
            | c # rest \<Rightarrow>
                if c = ''probe'' then run_probe_args e rest
                else if c = ''pipe'' \<or> c = ''transcode'' then run_stream_args e args
                else if c = ''decode-test'' \<and> length args = 6 \<or> c = ''encode-test'' \<and> length args = 6
                  \<or> c = ''transcode-test'' \<and> length args = 7 then run_test_args e args
                else return 2))"

definition client_main :: "'w client_env \<Rightarrow> bool \<Rightarrow> string list \<Rightarrow> ('w, int) client" where
  "client_main e started args =
     (if args = [] then return 2
      else if hd args = ''inspect-vector'' \<and> length args = 3 then
        (case parse_u32 (args ! 2) 1 1024 of
           None \<Rightarrow> return 2
         | Some frames \<Rightarrow> inspect_vector e (args ! 1) frames)
      else if \<not> started then return 3
      else do {
        greeted \<leftarrow> hello e;
        if greeted \<noteq> 0 then return 3
        else do {
          result \<leftarrow> run_command e args;
          return (if result < 0 then 3 else result)
        }
      })"



section \<open>Delimiters and packets\<close>

lemma find_aud_Some_iff:
  "find_aud data from = Some i \<longleftrightarrow>
     from \<le> i \<and> i + 4 < length data \<and> aud_at data i \<and> (\<forall>j. from \<le> j \<and> j < i \<longrightarrow> \<not> aud_at data j)"
proof (induction data "from" rule: find_aud.induct)
  case (1 data "from")
  show ?case
  proof (cases "from + 4 < length data \<and> \<not> aud_at data from")
    case True
    then have "find_aud data from = find_aud data (Suc from)"
      by (subst find_aud.simps) simp
    moreover have "(\<forall>j. from \<le> j \<and> j < i \<longrightarrow> \<not> aud_at data j) \<longleftrightarrow>
        (\<forall>j. Suc from \<le> j \<and> j < i \<longrightarrow> \<not> aud_at data j)"
      using True by (metis Suc_leD Suc_leI le_neq_implies_less)
    moreover have "Suc from \<le> i \<longleftrightarrow> from \<le> i" if "aud_at data i"
      using True that by (metis Suc_leD Suc_leI le_neq_implies_less)
    ultimately show ?thesis using 1 True by auto
  next
    case False
    then show ?thesis by (subst find_aud.simps) auto
  qed
qed

lemma find_aud_None_iff:
  "find_aud data from = None \<longleftrightarrow> (\<forall>i. from \<le> i \<and> i + 4 < length data \<longrightarrow> \<not> aud_at data i)"
proof (induction data "from" rule: find_aud.induct)
  case (1 data "from")
  show ?case
  proof (cases "from + 4 < length data \<and> \<not> aud_at data from")
    case True
    then have "find_aud data from = find_aud data (Suc from)"
      by (subst find_aud.simps) simp
    moreover have "(\<forall>i. from \<le> i \<and> i + 4 < length data \<longrightarrow> \<not> aud_at data i) \<longleftrightarrow>
        (\<forall>i. Suc from \<le> i \<and> i + 4 < length data \<longrightarrow> \<not> aud_at data i)"
      using True by (metis Suc_leD Suc_leI le_neq_implies_less)
    ultimately show ?thesis using 1 True by auto
  next
    case False
    then show ?thesis by (subst find_aud.simps) auto
  qed
qed

text \<open>Every byte the test for a delimiter looks at lies inside the data.\<close>

lemma aud_prefix_le: "aud_prefix data i \<le> 4"
  by (simp add: aud_prefix_def)

lemma aud_boundaries_props:
  assumes "aud_boundaries data room from = bs"
  shows "sorted_wrt (\<lambda>a b. a + 4 \<le> b) bs \<and> (\<forall>b \<in> set bs. from \<le> b \<and> b + 4 < length data \<and> aud_at data b)
    \<and> length bs \<le> room"
  using assms
proof (induction data room "from" arbitrary: bs rule: aud_boundaries.induct)
  case (2 data room search)
  show ?case
  proof (cases "find_aud data search")
    case None
    then show ?thesis using 2 by simp
  next
    case (Some i)
    then have i: "search \<le> i" "i + 4 < length data" "aud_at data i"
      using find_aud_Some_iff by blast+
    obtain cs where cs: "aud_boundaries data room (i + 4) = cs" "bs = i # cs"
      using 2(2) Some by simp
    have *: "sorted_wrt (\<lambda>a b. a + 4 \<le> b) cs
        \<and> (\<forall>b \<in> set cs. i + 4 \<le> b \<and> b + 4 < length data \<and> aud_at data b) \<and> length cs \<le> room"
      by (rule 2(1) [OF Some cs(1)])
    then show ?thesis
      using i cs by auto
  qed
qed simp

text \<open>The packets between consecutive boundaries, and that they make up the whole file.\<close>

fun packets :: "byte list \<Rightarrow> nat list \<Rightarrow> byte list list" where
  "packets vector (a # b # bs) = take (b - a) (drop a vector) # packets vector (b # bs)"
| "packets vector bs = []"

lemma concat_packets:
  assumes "sorted_wrt (\<le>) (a # bs)" "bs \<noteq> []"
  shows "concat (packets vector (a # bs)) = take (last bs - a) (drop a vector)"
  using assms
proof (induction bs arbitrary: a)
  case (Cons b bs)
  show ?case
  proof (cases bs)
    case Nil
    then show ?thesis by simp
  next
    case (Cons c cs)
    then have "concat (packets vector (b # bs)) = take (last bs - b) (drop b vector)"
      using Cons.IH [of b] Cons.prems by simp
    moreover have "a \<le> b" "b \<le> last bs"
      using Cons.prems Cons by auto
    ultimately show ?thesis
      using Cons take_add [of "b - a" "last bs - b" "drop a vector"] by (simp add: add.commute)
  qed
qed simp

lemma length_packets: "length (packets vector bs) = length bs - 1"
  by (induction vector bs rule: packets.induct) simp_all

lemma packets_nonempty:
  "sorted_wrt (<) bs \<Longrightarrow> \<forall>b \<in> set bs. b \<le> length vector \<Longrightarrow> \<forall>p \<in> set (packets vector bs). p \<noteq> []"
  by (induction vector bs rule: packets.induct) auto

lemma load_access_units_boundaries:
  assumes "load_access_units e path frames = Some (vector, boundaries)"
  shows "sorted_wrt (<) boundaries \<and> hd boundaries = 0 \<and> last boundaries = length vector
    \<and> length boundaries = unat frames + 1 \<and> 0 < unat frames \<and> (\<forall>b \<in> set boundaries. b \<le> length vector)"
proof -
  let ?bs = "aud_boundaries vector 1024 0"
  have eq: "boundaries = (0 # tl ?bs) @ [length vector]" "?bs \<noteq> []" "length ?bs = unat frames"
    using assms by (auto simp: load_access_units_def Let_def split: option.splits if_splits)
  obtain a bs where bs: "?bs = a # bs" using eq(2) by (cases ?bs) auto
  have "sorted_wrt (\<lambda>a b. a + 4 \<le> b) (a # bs)" "\<forall>b \<in> set (a # bs). b + 4 < length vector"
    using aud_boundaries_props [OF bs] by auto
  moreover from this have "sorted_wrt (<) bs"
    by (auto elim!: sorted_wrt_mono_rel [rotated])
  ultimately show ?thesis
    using eq bs by (auto simp: sorted_wrt_append)
qed

lemma load_access_units_packets:
  assumes "load_access_units e path frames = Some (vector, boundaries)"
  shows "concat (packets vector boundaries) = vector \<and> length (packets vector boundaries) = unat frames
    \<and> (\<forall>p \<in> set (packets vector boundaries). p \<noteq> [])"
proof -
  note b = load_access_units_boundaries [OF assms]
  then obtain bs where bs: "boundaries = 0 # bs" "bs \<noteq> []"
    by (cases boundaries; cases "tl boundaries") auto
  have "sorted_wrt (\<le>) (0 # bs)"
    using b bs by (auto elim!: sorted_wrt_mono_rel [rotated])
  then have "concat (packets vector boundaries) = vector"
    using concat_packets [of 0 bs vector] b bs by simp
  then show ?thesis
    using b packets_nonempty [of boundaries vector] by (simp add: length_packets)
qed

lemma aud_boundaries_count:
  "count_auds data search \<le> room \<Longrightarrow> length (aud_boundaries data room search) = count_auds data search"
proof (induction data room search rule: aud_boundaries.induct)
  case (2 data room search)
  then show ?case
    by (subst count_auds.simps, subst (asm) (2) count_auds.simps) (auto split: option.splits)
qed (simp add: count_auds.simps)

section \<open>Frames\<close>

lemma length_fill_i420_pattern:
  "length (fill_i420_pattern width height i) = width * height + 2 * (width * height div 4)"
  by (simp add: fill_i420_pattern_def Let_def length_concat comp_def sum_list_triv)

lemma concat_pairs:
  "length (concat (map (\<lambda>i. [f i, g i]) [0..<n])) = 2 * n"
  "i < n \<Longrightarrow> concat (map (\<lambda>i. [f i, g i]) [0..<n]) ! (2 * i) = f i"
  "i < n \<Longrightarrow> concat (map (\<lambda>i. [f i, g i]) [0..<n]) ! (2 * i + 1) = g i"
  by (induction n) (auto simp: nth_append less_Suc_eq)

lemma convert_semiplanar:
  assumes "length i420 = width * height + 2 * (width * height div 4)"
    and "convert_i420_for_encoder DSCB_COLOR_YUV420_SEMIPLANAR width height i420 = Some out"
  shows "length out = length i420 \<and>
    (\<forall>i < width * height. out ! i = i420 ! i) \<and>
    (\<forall>i < width * height div 4.
       out ! (width * height + 2 * i) = i420 ! (width * height + i) \<and>
       out ! (width * height + 2 * i + 1) = i420 ! (width * height + width * height div 4 + i))"
proof -
  let ?y = "width * height" and ?c = "width * height div 4"
  let ?uv = "concat (map (\<lambda>i. [i420 ! (?y + i), i420 ! (?y + ?c + i)]) [0..<?c])"
  have out: "out = take ?y i420 @ ?uv"
    using assms(2) by (simp add: convert_i420_for_encoder_def Let_def)
  have y: "length (take ?y i420) = ?y" using assms(1) by simp
  show ?thesis
    using assms(1) concat_pairs [where n = ?c and f = "\<lambda>i. i420 ! (?y + i)" and g = "\<lambda>i. i420 ! (?y + ?c + i)"]
    by (auto simp: out nth_append y)
qed

section \<open>Numbers\<close>

lemma parse_u32_dec:
  "minimum \<le> n \<Longrightarrow> n \<le> maximum \<Longrightarrow> maximum < 2 ^ 64 \<Longrightarrow> parse_u32 (dec n) minimum maximum = Some (of_nat n)"
  using strtou_dec [of n 64 "[]"] by (simp add: parse_u32_def)

lemma parse_u32_bounds:
  "parse_u32 v minimum maximum = Some r \<Longrightarrow> maximum < 2 ^ 32 \<Longrightarrow> minimum \<le> unat r \<and> unat r \<le> maximum"
  by (auto simp: parse_u32_def unat_of_nat_u32 split: option.splits if_splits)

end
