(* ===== verification/Ndk_Api.thy ===== *)
theory Ndk_Api
  imports Transport
begin

text \<open>
  The setting of \<open>dawnshell_codec_ndk.c\<close>: the Android media library it calls, the session
  structure it keeps, and the state its functions run in.

  The media library is not part of the repository. It is a parameter: a record of the
  functions the code calls, acting on a state of their own of an arbitrary type \<open>'m\<close>.
  Objects of the library (codecs, formats, readers, images, windows) are handles and a NULL
  pointer is \<open>None\<close>; a \<open>media_status_t\<close> is an \<^typ>\<open>int\<close> and \<open>AMEDIA_OK\<close> is 0. Entry points
  that the code looks up with \<open>dlsym\<close> (\<open>load_optional_api\<close>) are optional fields. The clock,
  \<open>usleep\<close> and whether \<open>calloc\<close> succeeds belong to the same environment.
\<close>

type_synonym handle = nat

record buffer_info =
  bi_offset :: int
  bi_size :: int
  bi_presentationTimeUs :: int
  bi_flags :: u32

record crop_rect =
  crop_left :: int
  crop_top :: int
  crop_right :: int
  crop_bottom :: int

record 'm media_api =
  AMediaFormat_new :: "'m \<Rightarrow> handle option \<times> 'm"
  AMediaFormat_setString :: "handle \<Rightarrow> string \<Rightarrow> string \<Rightarrow> 'm \<Rightarrow> 'm"
  AMediaFormat_setInt32 :: "handle \<Rightarrow> string \<Rightarrow> int \<Rightarrow> 'm \<Rightarrow> 'm"
  AMediaFormat_getInt32 :: "handle \<Rightarrow> string \<Rightarrow> 'm \<Rightarrow> int option \<times> 'm"
  AMediaFormat_delete :: "handle \<Rightarrow> 'm \<Rightarrow> 'm"
  AMediaCodec_createEncoderByType :: "string \<Rightarrow> 'm \<Rightarrow> handle option \<times> 'm"
  AMediaCodec_createDecoderByType :: "string \<Rightarrow> 'm \<Rightarrow> handle option \<times> 'm"
  AMediaCodec_createCodecByName :: "string \<Rightarrow> 'm \<Rightarrow> handle option \<times> 'm"
  AMediaCodec_configure :: "handle \<Rightarrow> handle \<Rightarrow> handle option \<Rightarrow> u32 \<Rightarrow> 'm \<Rightarrow> int \<times> 'm"
  AMediaCodec_start :: "handle \<Rightarrow> 'm \<Rightarrow> int \<times> 'm"
  AMediaCodec_stop :: "handle \<Rightarrow> 'm \<Rightarrow> int \<times> 'm"
  AMediaCodec_flush :: "handle \<Rightarrow> 'm \<Rightarrow> int \<times> 'm"
  AMediaCodec_delete :: "handle \<Rightarrow> 'm \<Rightarrow> int \<times> 'm"
  AMediaCodec_dequeueInputBuffer :: "handle \<Rightarrow> int \<Rightarrow> 'm \<Rightarrow> int \<times> 'm"
  AMediaCodec_getInputBuffer :: "handle \<Rightarrow> nat \<Rightarrow> 'm \<Rightarrow> nat option \<times> 'm"
  input_buffer_store :: "handle \<Rightarrow> nat \<Rightarrow> byte list \<Rightarrow> 'm \<Rightarrow> 'm"
  AMediaCodec_queueInputBuffer :: "handle \<Rightarrow> nat \<Rightarrow> nat \<Rightarrow> u64 \<Rightarrow> u32 \<Rightarrow> 'm \<Rightarrow> int \<times> 'm"
  AMediaCodec_dequeueOutputBuffer :: "handle \<Rightarrow> int \<Rightarrow> 'm \<Rightarrow> (int \<times> buffer_info) \<times> 'm"
  AMediaCodec_getOutputBuffer :: "handle \<Rightarrow> nat \<Rightarrow> 'm \<Rightarrow> byte list option \<times> 'm"
  AMediaCodec_releaseOutputBuffer :: "handle \<Rightarrow> nat \<Rightarrow> bool \<Rightarrow> 'm \<Rightarrow> int \<times> 'm"
  AMediaCodec_getOutputFormat :: "handle \<Rightarrow> 'm \<Rightarrow> handle option \<times> 'm"
  AImageReader_new :: "int \<Rightarrow> int \<Rightarrow> 'm \<Rightarrow> (int \<times> handle option) \<times> 'm"
  AImageReader_getWindow :: "handle \<Rightarrow> 'm \<Rightarrow> (int \<times> handle option) \<times> 'm"
  AImageReader_acquireNextImage :: "handle \<Rightarrow> 'm \<Rightarrow> (int \<times> handle option) \<times> 'm"
  AImageReader_delete :: "handle \<Rightarrow> 'm \<Rightarrow> 'm"
  AImage_getFormat :: "handle \<Rightarrow> 'm \<Rightarrow> (int \<times> int) \<times> 'm"
  AImage_getNumberOfPlanes :: "handle \<Rightarrow> 'm \<Rightarrow> (int \<times> int) \<times> 'm"
  AImage_getCropRect :: "handle \<Rightarrow> 'm \<Rightarrow> (int \<times> crop_rect) \<times> 'm"
  AImage_getPlaneData :: "handle \<Rightarrow> nat \<Rightarrow> 'm \<Rightarrow> (int \<times> byte list option) \<times> 'm"
  AImage_getPlaneRowStride :: "handle \<Rightarrow> nat \<Rightarrow> 'm \<Rightarrow> (int \<times> int) \<times> 'm"
  AImage_getPlanePixelStride :: "handle \<Rightarrow> nat \<Rightarrow> 'm \<Rightarrow> (int \<times> int) \<times> 'm"
  AImage_delete :: "handle \<Rightarrow> 'm \<Rightarrow> 'm"
  ANativeWindow_release :: "handle \<Rightarrow> 'm \<Rightarrow> 'm"
  env_monotonic_ns :: "'m \<Rightarrow> u64 \<times> 'm"
  env_process_cpu_ms :: "'m \<Rightarrow> u64 \<times> 'm"
  env_usleep :: "nat \<Rightarrow> 'm \<Rightarrow> 'm"
  env_calloc :: "'m \<Rightarrow> bool \<times> 'm"
  env_getpid :: nat
  opt_get_name :: "(handle \<Rightarrow> 'm \<Rightarrow> (int \<times> string option) \<times> 'm) option"
  opt_release_name :: "(handle \<Rightarrow> string \<Rightarrow> 'm \<Rightarrow> 'm) option"
  opt_find_decoder :: "(handle \<Rightarrow> handle option \<Rightarrow> 'm \<Rightarrow> (int \<times> handle option) \<times> 'm) option"
  opt_find_encoder :: "(handle \<Rightarrow> handle option \<Rightarrow> 'm \<Rightarrow> (int \<times> handle option) \<times> 'm) option"
  opt_info_name :: "(handle \<Rightarrow> string option) option"
  opt_info_type :: "(handle \<Rightarrow> int) option"
  opt_create_input_surface :: "(handle \<Rightarrow> 'm \<Rightarrow> (int \<times> handle option) \<times> 'm) option"
  opt_signal_input_eos :: "(handle \<Rightarrow> 'm \<Rightarrow> int \<times> 'm) option"
  opt_set_parameters :: "(handle \<Rightarrow> handle \<Rightarrow> 'm \<Rightarrow> int \<times> 'm) option"
  loop_fuel :: nat

text \<open>
  \<open>input_buffer_store\<close> is the \<open>memcpy\<close> into the buffer whose address
  \<open>AMediaCodec_getInputBuffer\<close> returned. \<open>loop_fuel\<close> bounds the three loops whose end
  depends on the library (the codec store iteration, the wait for an image, the draining of
  images); the lemmas on these loops show that any bound past the library's own end gives
  the same result.
\<close>

section \<open>Clocks and optional functions\<close>

text \<open>What the clocks make of a result of \<open>clock_gettime\<close>, seconds and nanoseconds; 0 when it fails.\<close>

definition timespec_ns :: "(int \<times> int) option \<Rightarrow> u64" where
  "timespec_ns value = (case value of None \<Rightarrow> 0 | Some (sec, nsec) \<Rightarrow> word_of_int sec * 1000000000 + word_of_int nsec)"

definition timespec_ms :: "(int \<times> int) option \<Rightarrow> u64" where
  "timespec_ms value = (case value of None \<Rightarrow> 0 | Some (sec, nsec) \<Rightarrow> word_of_int sec * 1000 + word_of_int nsec div 1000000)"

text \<open>For a normalised time that fits, the clock is the number of nanoseconds, so it keeps their order.\<close>

lemma timespec_ns_exact:
  assumes "0 \<le> sec" "0 \<le> nsec" "sec * 1000000000 + nsec < 2 ^ 64"
  shows "uint (timespec_ns (Some (sec, nsec))) = sec * 1000000000 + nsec"
proof -
  have "timespec_ns (Some (sec, nsec)) = word_of_int (sec * 1000000000 + nsec)"
    by (simp add: timespec_ns_def)
  moreover have "uint (word_of_int (sec * 1000000000 + nsec) :: u64) = sec * 1000000000 + nsec"
    by (rule uint_word_of_int_eq [THEN trans]) (use assms in \<open>simp add: take_bit_int_eq_self\<close>)
  ultimately show ?thesis by (simp only:)
qed

text \<open>
  \<open>load_optional_api\<close>: of the library's optional functions those are available whose symbol is found, and
  none when the library cannot be opened. It is evaluated once.
\<close>

definition resolved :: "bool \<Rightarrow> (string \<Rightarrow> bool) \<Rightarrow> string \<Rightarrow> 'f option \<Rightarrow> 'f option" where
  "resolved opened dlsym name f = (if opened \<and> dlsym name then f else None)"

definition load_optional_api :: "bool \<Rightarrow> (string \<Rightarrow> bool) \<Rightarrow> 'm media_api \<Rightarrow> 'm media_api" where
  "load_optional_api opened dlsym api = api\<lparr>
     opt_get_name := resolved opened dlsym ''AMediaCodec_getName'' (opt_get_name api),
     opt_release_name := resolved opened dlsym ''AMediaCodec_releaseName'' (opt_release_name api),
     opt_find_decoder := resolved opened dlsym ''AMediaCodecStore_findNextDecoderForFormat'' (opt_find_decoder api),
     opt_find_encoder := resolved opened dlsym ''AMediaCodecStore_findNextEncoderForFormat'' (opt_find_encoder api),
     opt_info_name := resolved opened dlsym ''AMediaCodecInfo_getCanonicalName'' (opt_info_name api),
     opt_info_type := resolved opened dlsym ''AMediaCodecInfo_getMediaCodecInfoType'' (opt_info_type api),
     opt_create_input_surface := resolved opened dlsym ''AMediaCodec_createInputSurface'' (opt_create_input_surface api),
     opt_signal_input_eos := resolved opened dlsym ''AMediaCodec_signalEndOfInputStream'' (opt_signal_input_eos api),
     opt_set_parameters := resolved opened dlsym ''AMediaCodec_setParameters'' (opt_set_parameters api)\<rparr>"

lemma load_optional_again: "load_optional_api opened dlsym (load_optional_api opened dlsym api) = load_optional_api opened dlsym api"
  by (simp add: load_optional_api_def resolved_def)

section \<open>The session structure\<close>

record latency_counters =
  samples :: u64
  total_us :: u64
  max_us :: u64

record dscw_codec_session =
  s_transcoder :: bool
  s_encoder :: bool
  s_input_eos :: bool
  s_encoder_eos_signaled :: bool
  s_pending_image :: bool
  s_width :: u32
  s_height :: u32
  s_frame_rate :: u32
  s_color_format :: u32
  s_started_ns :: u64
  s_pending_image_pts :: u64
  s_pending_image_flags :: u32
  s_last_encoder_pts :: u64
  s_have_encoder_pts :: bool
  s_codec_name :: string
  s_decoder_name :: string
  s_encoder_name :: string
  s_codec :: "handle option"
  s_image_reader :: "handle option"
  s_decoder :: "handle option"
  s_transcode_encoder :: "handle option"
  s_encoder_input_surface :: "handle option"
  s_input_records :: u64
  s_input_frames :: u64
  s_input_bytes :: u64
  s_input_eos_count :: u64
  s_output_records :: u64
  s_output_frames :: u64
  s_output_bytes :: u64
  s_output_eos_count :: u64
  s_cpu_yuv_frames :: u64
  s_surface_frames :: u64
  s_input_again :: u64
  s_output_again :: u64
  s_errors :: u64
  s_format_changes :: u64
  s_input_latency :: latency_counters
  s_output_latency :: latency_counters

text \<open>What \<open>calloc\<close> returns: every member zero.\<close>

definition zero_session :: dscw_codec_session where
  "zero_session = \<lparr> s_transcoder = False, s_encoder = False, s_input_eos = False,
     s_encoder_eos_signaled = False, s_pending_image = False, s_width = 0, s_height = 0,
     s_frame_rate = 0, s_color_format = 0, s_started_ns = 0, s_pending_image_pts = 0,
     s_pending_image_flags = 0, s_last_encoder_pts = 0, s_have_encoder_pts = False,
     s_codec_name = [], s_decoder_name = [], s_encoder_name = [], s_codec = None,
     s_image_reader = None, s_decoder = None, s_transcode_encoder = None,
     s_encoder_input_surface = None, s_input_records = 0, s_input_frames = 0,
     s_input_bytes = 0, s_input_eos_count = 0, s_output_records = 0, s_output_frames = 0,
     s_output_bytes = 0, s_output_eos_count = 0, s_cpu_yuv_frames = 0, s_surface_frames = 0,
     s_input_again = 0, s_output_again = 0, s_errors = 0, s_format_changes = 0,
     s_input_latency = \<lparr> samples = 0, total_us = 0, max_us = 0 \<rparr>,
     s_output_latency = \<lparr> samples = 0, total_us = 0, max_us = 0 \<rparr> \<rparr>"

section \<open>The state the functions run in\<close>

text \<open>
  A function of the file is a program on this context: the session its pointer argument
  refers to (\<open>None\<close> for a NULL pointer), the caller's error buffer with its size, the
  shared mapping in which the caller's output buffer lies, and the state of the media
  library.
\<close>

record 'm cx =
  cx_session :: "dscw_codec_session option"
  cx_error :: string
  cx_error_size :: nat
  cx_mem :: mem
  cx_media :: 'm

type_synonym ('m, 'a) ndk = "('m cx, 'a) state"

definition media :: "('m \<Rightarrow> 'a \<times> 'm) \<Rightarrow> ('m, 'a) ndk" where
  "media f = State (\<lambda>s. let (a, m) = f (cx_media s) in (a, s\<lparr>cx_media := m\<rparr>))"

definition media_do :: "('m \<Rightarrow> 'm) \<Rightarrow> ('m, unit) ndk" where
  "media_do f = modify (\<lambda>s. s\<lparr>cx_media := f (cx_media s)\<rparr>)"

definition session_get :: "(dscw_codec_session \<Rightarrow> 'a) \<Rightarrow> ('m, 'a) ndk" where
  "session_get f = gets (\<lambda>s. f (the (cx_session s)))"

definition session_set :: "(dscw_codec_session \<Rightarrow> dscw_codec_session) \<Rightarrow> ('m, unit) ndk" where
  "session_set f = modify (\<lambda>s. s\<lparr>cx_session := map_option f (cx_session s)\<rparr>)"

definition memory_set :: "(mem \<Rightarrow> mem) \<Rightarrow> ('m, unit) ndk" where
  "memory_set f = modify (\<lambda>s. s\<lparr>cx_mem := f (cx_mem s)\<rparr>)"

text \<open>\<open>set_error\<close>: the formatted message, cut to the buffer with its terminating NUL.\<close>

definition set_error :: "string \<Rightarrow> ('m, unit) ndk" where
  "set_error text = modify (\<lambda>s. if cx_error_size s = 0 then s
     else s\<lparr>cx_error := snd (snprintf (cx_error_size s) text)\<rparr>)"

definition fail :: "string \<Rightarrow> int \<Rightarrow> ('m, int) ndk" where
  "fail text status = do { set_error text; return status }"

lemma wp_media [wp_simps]:
  "wp (media f) Q s = (case f (cx_media s) of (a, m) \<Rightarrow> Q a (s\<lparr>cx_media := m\<rparr>))"
  by (simp add: media_def wp_State Let_def split: prod.splits)

lemma wp_media_do [wp_simps]: "wp (media_do f) Q s = Q () (s\<lparr>cx_media := f (cx_media s)\<rparr>)"
  by (simp add: media_do_def wp_simps)

lemma wp_session_get [wp_simps]: "wp (session_get f) Q s = Q (f (the (cx_session s))) s"
  by (simp add: session_get_def wp_simps)

lemma wp_session_set [wp_simps]:
  "wp (session_set f) Q s = Q () (s\<lparr>cx_session := map_option f (cx_session s)\<rparr>)"
  by (simp add: session_set_def wp_simps)

lemma wp_memory_set [wp_simps]: "wp (memory_set f) Q s = Q () (s\<lparr>cx_mem := f (cx_mem s)\<rparr>)"
  by (simp add: memory_set_def wp_simps)

lemma wp_set_error [wp_simps]:
  "wp (set_error text) Q s = Q () (if cx_error_size s = 0 then s
     else s\<lparr>cx_error := take (cx_error_size s - 1) text\<rparr>)"
  by (simp add: set_error_def snprintf_def wp_simps)

lemma wp_fail [wp_simps]:
  "wp (fail text status) Q s = Q status (if cx_error_size s = 0 then s
     else s\<lparr>cx_error := take (cx_error_size s - 1) text\<rparr>)"
  by (simp add: fail_def wp_simps)

lemma wp_mediaI [wp_intros]:
  "(\<And>a m. f (cx_media s) = (a, m) \<Longrightarrow> Q a (s\<lparr>cx_media := m\<rparr>)) \<Longrightarrow> wp (media f) Q s"
  by (simp add: wp_simps split: prod.splits)

lemma wp_media_doI [wp_intros]:
  "Q () (s\<lparr>cx_media := f (cx_media s)\<rparr>) \<Longrightarrow> wp (media_do f) Q s"
  by (simp add: wp_simps)

lemma wp_session_getI [wp_intros]: "Q (f (the (cx_session s))) s \<Longrightarrow> wp (session_get f) Q s"
  by (simp add: wp_simps)

lemma wp_session_setI [wp_intros]:
  "Q () (s\<lparr>cx_session := map_option f (cx_session s)\<rparr>) \<Longrightarrow> wp (session_set f) Q s"
  by (simp add: wp_simps)

lemma wp_memory_setI [wp_intros]: "Q () (s\<lparr>cx_mem := f (cx_mem s)\<rparr>) \<Longrightarrow> wp (memory_set f) Q s"
  by (simp add: wp_simps)

text \<open>What \<open>set_error\<close> leaves in the context, for a buffer that may be empty.\<close>

definition with_error :: "string \<Rightarrow> 'm cx \<Rightarrow> 'm cx" where
  "with_error text s = (if cx_error_size s = 0 then s
     else s\<lparr>cx_error := take (cx_error_size s - 1) text\<rparr>)"

lemma with_error_simps [simp]:
  "cx_session (with_error text s) = cx_session s"
  "cx_mem (with_error text s) = cx_mem s"
  "cx_media (with_error text s) = cx_media s"
  "cx_error_size (with_error text s) = cx_error_size s"
  by (simp_all add: with_error_def)

lemma wp_set_errorI [wp_intros]: "Q () (with_error text s) \<Longrightarrow> wp (set_error text) Q s"
  by (simp add: wp_simps with_error_def)

lemma wp_failI [wp_intros]: "Q status (with_error text s) \<Longrightarrow> wp (fail text status) Q s"
  by (simp add: wp_simps with_error_def)

section \<open>Clock and latency\<close>

definition monotonic_ns :: "'m media_api \<Rightarrow> ('m, u64) ndk" where
  "monotonic_ns api = media (env_monotonic_ns api)"

definition record_latency :: "u64 \<Rightarrow> u64 \<Rightarrow> latency_counters \<Rightarrow> latency_counters" where
  "record_latency now started counters =
     (let elapsed = (now - started) div 1000
      in counters\<lparr>samples := samples counters + 1,
                  total_us := total_us counters + elapsed,
                  max_us := (if elapsed > max_us counters then elapsed else max_us counters)\<rparr>)"

section \<open>Frames\<close>

text \<open>
  A frame condition is a relation between the context before and after that is reflexive
  and transitive, so that it is shown once for each primitive and carried to every function
  by the rules of \<open>step_relation\<close>. \<open>keeps v\<close> says that the part \<open>v\<close> of the context is
  unchanged; \<open>within off n\<close> says that the mapping changes only in the window.
\<close>

definition keeps :: "('m cx \<Rightarrow> 'v) \<Rightarrow> 'm cx \<Rightarrow> 'm cx \<Rightarrow> bool" where
  "keeps v s s' \<longleftrightarrow> v s' = v s"

definition within :: "nat \<Rightarrow> nat \<Rightarrow> 'm cx \<Rightarrow> 'm cx \<Rightarrow> bool" where
  "within off n s s' \<longleftrightarrow> same_outside off n (cx_mem s) (cx_mem s')"

interpretation keeps: step_relation "keeps v" for v
  by unfold_locales (simp_all add: keeps_def)

interpretation within: step_relation "within off n" for off n
  by unfold_locales (auto simp: within_def intro: same_outside_trans)

text \<open>\<open>media_only\<close>: nothing but the library's own state changes.\<close>

definition media_only :: "'m cx \<Rightarrow> 'm cx \<Rightarrow> bool" where
  "media_only s s' \<longleftrightarrow> s' = s\<lparr>cx_media := cx_media s'\<rparr>"

interpretation media_only: step_relation media_only
proof
  show "media_only s s" for s :: "'a cx" by (simp add: media_only_def)
  show "media_only s u" if "media_only s t" "media_only t u" for s t u :: "'a cx"
    using that unfolding media_only_def
    by (metis (no_types, lifting) cx.surjective cx.update_convs(5) cx.ext_inject)
qed

lemma media_only_media [intro]: "state_io_rel media_only (media f)"
  by (auto simp: state_io_rel_def media_def media_only_def Let_def split: prod.splits)

lemma media_only_media_do [intro]: "state_io_rel media_only (media_do f)"
  by (auto simp: media_do_def media_only_def intro: media_only.io_modify)

lemma wp_media_only:
  assumes "state_io_rel media_only p" and "\<And>a m. Q a (s\<lparr>cx_media := m\<rparr>)"
  shows "wp p Q s"
  using assms by (auto simp: state_io_rel_def wp_run media_only_def) metis

lemma wp_media_only_strong:
  assumes "state_io_rel media_only p" and "wp p (\<lambda>a _. P a) s"
    and "\<And>a m. P a \<Longrightarrow> Q a (s\<lparr>cx_media := m\<rparr>)"
  shows "wp p Q s"
  using assms by (auto simp: state_io_rel_def wp_run media_only_def) metis

text \<open>\<open>error_only\<close>: nothing but the library's state, the error text and the session changes,
  so that the shared mapping is untouched.\<close>

abbreviation keeps_memory :: "('m, 'a) ndk \<Rightarrow> bool" where
  "keeps_memory p \<equiv> state_io_rel (keeps (\<lambda>s. (cx_mem s, cx_error_size s))) p"

lemma keeps_media [intro]:
  "(\<And>s m. v (s\<lparr>cx_media := m\<rparr>) = v s) \<Longrightarrow> state_io_rel (keeps v) (media f)"
  "(\<And>s m. v (s\<lparr>cx_media := m\<rparr>) = v s) \<Longrightarrow> state_io_rel (keeps v) (media_do g)"
  by (auto simp: state_io_rel_def media_def media_do_def keeps_def Let_def split: prod.splits)

lemma keeps_media_only:
  "state_io_rel media_only p \<Longrightarrow> (\<And>s m. v (s\<lparr>cx_media := m\<rparr>) = v s) \<Longrightarrow> state_io_rel (keeps v) p"
  by (metis keeps_def media_only_def state_io_rel_def)

lemma keeps_session [intro]:
  "(\<And>s x. v (s\<lparr>cx_session := x\<rparr>) = v s) \<Longrightarrow> state_io_rel (keeps v) (session_set f)"
  "state_io_rel (keeps w) (session_get g)"
  by (auto simp: session_set_def session_get_def keeps_def intro: keeps.io_modify keeps.io_gets)

lemma keeps_error [intro]:
  assumes "\<And>s x. v (s\<lparr>cx_error := x\<rparr>) = v s"
  shows "state_io_rel (keeps v) (set_error text)" "state_io_rel (keeps v) (fail text status)"
proof -
  show e: "state_io_rel (keeps v) (set_error text)"
    unfolding set_error_def by (rule keeps.io_modify) (simp add: keeps_def assms)
  show "state_io_rel (keeps v) (fail text status)"
    unfolding fail_def by (intro keeps.io_bind keeps.io_return e)
qed

end
