(* ===== verification/Ndk_Create.thy ===== *)
theory Ndk_Create
  imports Ndk_Api
begin

text \<open>
  Creation and destruction of codec sessions (\<open>dawnshell_codec_ndk.c\<close>): which components
  count as hardware, the candidate list, \<open>new_codec\<close>, the parameter bounds,
  \<open>dscw_codec_create\<close>, \<open>dscw_codec_create_transcoder\<close> and \<open>dscw_codec_destroy\<close>.
\<close>

section \<open>Constants\<close>

definition COLOR_YUV420_PLANAR :: u32 where "COLOR_YUV420_PLANAR = 19"
definition COLOR_YUV420_SEMIPLANAR :: u32 where "COLOR_YUV420_SEMIPLANAR = 21"
definition COLOR_YUV420_FLEXIBLE :: u32 where "COLOR_YUV420_FLEXIBLE = 0x7f420888"
definition COLOR_SURFACE :: u32 where "COLOR_SURFACE = 0x7f000789"
definition BUFFER_FLAG_CODEC_CONFIG :: u32 where "BUFFER_FLAG_CODEC_CONFIG = 2"
definition BUFFER_FLAG_END_OF_STREAM :: u32 where "BUFFER_FLAG_END_OF_STREAM = 4"
definition PIXEL_FORMAT_BITSTREAM :: u32 where "PIXEL_FORMAT_BITSTREAM = 0"
definition PIXEL_FORMAT_I420 :: u32 where "PIXEL_FORMAT_I420 = 1"
definition MAX_CANDIDATES :: nat where "MAX_CANDIDATES = 24"
definition MAX_CODEC_NAME :: nat where "MAX_CODEC_NAME = 128"
definition DSCW_MODE_DECODE :: u32 where "DSCW_MODE_DECODE = 1"
definition DSCW_MODE_ENCODE :: u32 where "DSCW_MODE_ENCODE = 2"
definition DSCW_CODEC_AVC :: u32 where "DSCW_CODEC_AVC = 1"
definition DSCW_CODEC_HEVC :: u32 where "DSCW_CODEC_HEVC = 2"

text \<open>Constants of the media library's headers.\<close>

definition AMEDIA_OK :: int where "AMEDIA_OK = 0"
definition AMEDIACODEC_CONFIGURE_FLAG_ENCODE :: u32 where "AMEDIACODEC_CONFIGURE_FLAG_ENCODE = 1"
definition AMEDIACODEC_INFO_TRY_AGAIN_LATER :: int where "AMEDIACODEC_INFO_TRY_AGAIN_LATER = -1"
definition AMEDIACODEC_INFO_OUTPUT_FORMAT_CHANGED :: int where
  "AMEDIACODEC_INFO_OUTPUT_FORMAT_CHANGED = -2"
definition AMEDIACODEC_INFO_OUTPUT_BUFFERS_CHANGED :: int where
  "AMEDIACODEC_INFO_OUTPUT_BUFFERS_CHANGED = -3"
definition AMEDIA_IMGREADER_NO_BUFFER_AVAILABLE :: int where
  "AMEDIA_IMGREADER_NO_BUFFER_AVAILABLE = -30001"
definition AIMAGE_FORMAT_YUV_420_888 :: int where "AIMAGE_FORMAT_YUV_420_888 = 0x23"

section \<open>Hardware names\<close>

definition starts_with :: "string \<Rightarrow> string \<Rightarrow> bool" where
  "starts_with text prefix \<longleftrightarrow> take (length prefix) text = prefix"

definition to_lower :: "char \<Rightarrow> char" where
  "to_lower c = (if 65 \<le> (of_char c :: nat) \<and> (of_char c :: nat) \<le> 90
                 then char_of ((of_char c :: nat) - 65 + 97) else c)"

definition hardware_prefixes :: "string list" where
  "hardware_prefixes = [''omx.exynos.'', ''omx.sec.'', ''c2.exynos.'', ''omx.qcom.'', ''c2.qti.'',
     ''omx.intel.'', ''omx.nvidia.'', ''omx.rk.'', ''omx.amlogic.'', ''omx.allwinner.'']"

definition hardware_name :: "string \<Rightarrow> bool" where
  "hardware_name name =
     (let lower = map to_lower (take (MAX_CODEC_NAME - 1) name)
      in list_ex (starts_with lower) hardware_prefixes)"

section \<open>Candidates\<close>

record codec_candidate =
  cand_name :: string
  hardware_proven :: bool

text \<open>The array and its count are the list of the entries in use.\<close>

definition duplicate_candidate :: "codec_candidate list \<Rightarrow> string \<Rightarrow> bool" where
  "duplicate_candidate candidates name = list_ex (\<lambda>c. cand_name c = name) candidates"

definition add_candidate ::
  "string option \<Rightarrow> bool \<Rightarrow> codec_candidate list \<Rightarrow> codec_candidate list" where
  "add_candidate name proven candidates =
     (case name of
        None \<Rightarrow> candidates
      | Some name \<Rightarrow>
          if MAX_CANDIDATES \<le> length candidates \<or> MAX_CODEC_NAME \<le> length name
             \<or> duplicate_candidate candidates name
          then candidates
          else candidates @ [\<lparr>cand_name = snd (snprintf MAX_CODEC_NAME name),
                              hardware_proven = proven\<rparr>])"

definition mime_for_codec :: "u32 \<Rightarrow> string option" where
  "mime_for_codec codec =
     (if codec = DSCW_CODEC_AVC then Some ''video/avc''
      else if codec = DSCW_CODEC_HEVC then Some ''video/hevc'' else None)"

definition legacy_names :: "u32 \<Rightarrow> bool \<Rightarrow> string list" where
  "legacy_names codec enc =
     (if codec = DSCW_CODEC_AVC \<and> enc then
        [''OMX.Exynos.AVC.Encoder'', ''c2.exynos.h264.encoder'', ''c2.qti.avc.encoder'',
         ''OMX.qcom.video.encoder.avc'']
      else if codec = DSCW_CODEC_AVC then
        [''OMX.Exynos.avc.dec'', ''OMX.Exynos.AVC.Decoder'', ''c2.exynos.h264.decoder'',
         ''c2.qti.avc.decoder'', ''OMX.qcom.video.decoder.avc'']
      else if codec = DSCW_CODEC_HEVC \<and> enc then
        [''OMX.Exynos.HEVC.Encoder'', ''c2.exynos.hevc.encoder'', ''c2.qti.hevc.encoder'',
         ''OMX.qcom.video.encoder.hevc'']
      else if codec = DSCW_CODEC_HEVC then
        [''OMX.Exynos.HEVC.Decoder'', ''OMX.Exynos.hevc.dec'', ''c2.exynos.hevc.decoder'',
         ''c2.qti.hevc.decoder'', ''OMX.qcom.video.decoder.hevc'']
      else [])"

definition add_legacy_candidates ::
  "u32 \<Rightarrow> bool \<Rightarrow> codec_candidate list \<Rightarrow> codec_candidate list" where
  "add_legacy_candidates codec enc candidates =
     fold (\<lambda>name. add_candidate (Some name) True) (legacy_names codec enc) candidates"

text \<open>The iteration over the codec store: one call of \<open>find\<close> per round.\<close>

fun collect_store ::
  "(handle option \<Rightarrow> 'm \<Rightarrow> (int \<times> handle option) \<times> 'm) \<Rightarrow> (handle \<Rightarrow> string option) \<Rightarrow>
   (handle \<Rightarrow> int) \<Rightarrow> nat \<Rightarrow> handle option \<Rightarrow> codec_candidate list \<Rightarrow>
   ('m, codec_candidate list) ndk" where
  "collect_store find_next info_name info_type 0 info candidates = return candidates"
| "collect_store find_next info_name info_type (Suc fuel) info candidates =
     (if \<not> length candidates < MAX_CANDIDATES then return candidates
      else do {
        (status, info') \<leftarrow> media (find_next info);
        (case info' of
           None \<Rightarrow> return candidates
         | Some i \<Rightarrow>
             if status \<noteq> AMEDIA_OK then return candidates
             else collect_store find_next info_name info_type fuel info'
                    (if info_type i = 2 then add_candidate (info_name i) True candidates
                     else candidates))
      })"

definition store_candidates ::
  "'m media_api \<Rightarrow> u32 \<Rightarrow> bool \<Rightarrow> ('m, codec_candidate list) ndk" where
  "store_candidates api codec enc =
     (case (mime_for_codec codec, if enc then opt_find_encoder api else opt_find_decoder api,
            opt_info_name api, opt_info_type api) of
        (Some mime, Some find_next, Some info_name, Some info_type) \<Rightarrow> do {
          format \<leftarrow> media (AMediaFormat_new api);
          (case format of
             None \<Rightarrow> return []
           | Some f \<Rightarrow> do {
               media_do (AMediaFormat_setString api f ''mime'' mime);
               found \<leftarrow> collect_store (find_next f) info_name info_type (loop_fuel api) None [];
               media_do (AMediaFormat_delete api f);
               return found
             })
        }
      | _ \<Rightarrow> return [])"

definition collect_candidates ::
  "'m media_api \<Rightarrow> u32 \<Rightarrow> bool \<Rightarrow> ('m, codec_candidate list) ndk" where
  "collect_candidates api codec enc = do {
     found \<leftarrow> store_candidates api codec enc;
     return (add_candidate (Some []) False (add_legacy_candidates codec enc found))
   }"

section \<open>Codec objects\<close>

text \<open>
  \<open>new_codec\<close> in three steps: the object, the name the library reports for it (with the
  status of the query; both entry points must exist), and the decision.
\<close>

definition create_object :: "'m media_api \<Rightarrow> codec_candidate \<Rightarrow> bool \<Rightarrow> string \<Rightarrow> ('m, handle option) ndk"
where
  "create_object api candidate enc mime =
     (if cand_name candidate = []
      then (if enc then media (AMediaCodec_createEncoderByType api mime)
            else media (AMediaCodec_createDecoderByType api mime))
      else media (AMediaCodec_createCodecByName api (cand_name candidate)))"

definition query_name :: "'m media_api \<Rightarrow> handle \<Rightarrow> ('m, int \<times> string option) ndk" where
  "query_name api c =
     (case (opt_get_name api, opt_release_name api) of
        (Some get_name, Some _) \<Rightarrow> media (get_name c)
      | _ \<Rightarrow> return (AMEDIA_OK, None))"

definition release_runtime_name :: "'m media_api \<Rightarrow> handle \<Rightarrow> string option \<Rightarrow> ('m, unit) ndk" where
  "release_runtime_name api c runtime_name =
     (case (runtime_name, opt_release_name api) of
        (Some r, Some release_name) \<Rightarrow> media_do (release_name c r)
      | _ \<Rightarrow> return ())"

definition proven_name :: "codec_candidate \<Rightarrow> int \<times> string option \<Rightarrow> string" where
  "proven_name candidate named =
     (case named of
        (status, Some r) \<Rightarrow> if status = AMEDIA_OK then r else cand_name candidate
      | (_, None) \<Rightarrow> cand_name candidate)"

definition new_codec ::
  "'m media_api \<Rightarrow> codec_candidate \<Rightarrow> bool \<Rightarrow> string \<Rightarrow> nat \<Rightarrow> ('m, (handle \<times> string) option) ndk"
where
  "new_codec api candidate enc mime selected_name_size = do {
     codec \<leftarrow> create_object api candidate enc mime;
     (case codec of
        None \<Rightarrow> return None
      | Some c \<Rightarrow> do {
          named \<leftarrow> query_name api c;
          let name = proven_name candidate named;
          if \<not> (hardware_proven candidate \<or> hardware_name name) then do {
            release_runtime_name api c (snd named);
            media (AMediaCodec_delete api c);
            return None
          } else do {
            release_runtime_name api c (snd named);
            return (Some (c, snd (snprintf selected_name_size name)))
          }
        })
   }"

definition video_format ::
  "'m media_api \<Rightarrow> string \<Rightarrow> u32 \<Rightarrow> u32 \<Rightarrow> u32 \<Rightarrow> ('m, handle option) ndk" where
  "video_format api mime width height frame_rate = do {
     format \<leftarrow> media (AMediaFormat_new api);
     (case format of
        None \<Rightarrow> return None
      | Some f \<Rightarrow> do {
          media_do (AMediaFormat_setString api f ''mime'' mime);
          media_do (AMediaFormat_setInt32 api f ''width'' (i32_of_u32 width));
          media_do (AMediaFormat_setInt32 api f ''height'' (i32_of_u32 height));
          media_do (AMediaFormat_setInt32 api f ''frame-rate'' (i32_of_u32 frame_rate));
          return (Some f)
        })
   }"

definition frame_bytes :: "u32 \<Rightarrow> u32 \<Rightarrow> u64" where
  "frame_bytes width height = ucast width * ucast height * 3 div 2"

definition valid_parameters :: "u32 \<Rightarrow> u32 \<Rightarrow> u32 \<Rightarrow> u32 \<Rightarrow> bool" where
  "valid_parameters width height frame_rate bitrate \<longleftrightarrow>
     width \<ge> 16 \<and> width \<le> 4096 \<and> height \<ge> 16 \<and> height \<le> 4096
     \<and> width AND 1 = 0 \<and> height AND 1 = 0
     \<and> frame_rate \<ge> 1 \<and> frame_rate \<le> 240
     \<and> bitrate \<ge> 1000 \<and> bitrate \<le> 100000000
     \<and> frame_bytes width height \<le> of_nat (DSCW_MAX_PAYLOAD - 16)"

definition stop_delete_codec :: "'m media_api \<Rightarrow> handle option \<Rightarrow> ('m, unit) ndk" where
  "stop_delete_codec api codec =
     (case codec of
        None \<Rightarrow> return ()
      | Some c \<Rightarrow> do {
          media (AMediaCodec_stop api c);
          media (AMediaCodec_delete api c);
          return ()
        })"

definition dscw_codec_destroy :: "'m media_api \<Rightarrow> ('m, unit) ndk" where
  "dscw_codec_destroy api = do {
     session \<leftarrow> gets cx_session;
     (case session of
        None \<Rightarrow> return ()
      | Some session \<Rightarrow> do {
          stop_delete_codec api (s_decoder session);
          stop_delete_codec api (s_transcode_encoder session);
          (case s_encoder_input_surface session of
             None \<Rightarrow> return ()
           | Some surface \<Rightarrow> media_do (ANativeWindow_release api surface));
          stop_delete_codec api (s_codec session);
          (case s_image_reader session of
             None \<Rightarrow> return ()
           | Some reader \<Rightarrow> media_do (AImageReader_delete api reader));
          modify (\<lambda>s. s\<lparr>cx_session := None\<rparr>)
        })
   }"

section \<open>Encoder and decoder sessions\<close>

definition encoder_format ::
  "'m media_api \<Rightarrow> handle \<Rightarrow> u32 \<Rightarrow> u32 \<Rightarrow> u32 \<Rightarrow> u32 \<Rightarrow> ('m, unit) ndk" where
  "encoder_format api f width height bitrate color = do {
     media_do (AMediaFormat_setInt32 api f ''max-input-size''
                 (i32_of_u32 (ucast (frame_bytes width height))));
     media_do (AMediaFormat_setInt32 api f ''bitrate'' (i32_of_u32 bitrate));
     media_do (AMediaFormat_setInt32 api f ''i-frame-interval'' 2);
     media_do (AMediaFormat_setInt32 api f ''color-format'' (i32_of_u32 color))
   }"

text \<open>
  The inner loop of \<open>create_encoder\<close> over the colour formats, for one candidate: \<open>None\<close>
  goes on to the next candidate, \<open>Some status\<close> is a return.
\<close>

fun encoder_colors ::
  "'m media_api \<Rightarrow> string \<Rightarrow> u32 \<Rightarrow> u32 \<Rightarrow> u32 \<Rightarrow> u32 \<Rightarrow> u32 \<Rightarrow> codec_candidate \<Rightarrow> u32 list \<Rightarrow>
   ('m, int option) ndk" where
  "encoder_colors api mime width height frame_rate bitrate requested_color candidate [] =
     return None"
| "encoder_colors api mime width height frame_rate bitrate requested_color candidate (c # cs) =
     (let color = (if requested_color = 0 then c else requested_color);
          next_color = (if requested_color \<noteq> 0 then return None
                   else encoder_colors api mime width height frame_rate bitrate requested_color
                          candidate cs)
      in do {
        created \<leftarrow> new_codec api candidate True mime MAX_CODEC_NAME;
        (case created of
           None \<Rightarrow> next_color
         | Some (codec, selected) \<Rightarrow> do {
             format \<leftarrow> video_format api mime width height frame_rate;
             (case format of
                None \<Rightarrow> do {
                  media (AMediaCodec_delete api codec);
                  set_error ''could not allocate encoder format'';
                  return (Some DSCW_CODEC_ERROR_CODEC)
                }
              | Some f \<Rightarrow> do {
                  encoder_format api f width height bitrate color;
                  configured \<leftarrow> media (AMediaCodec_configure api codec f None
                                         AMEDIACODEC_CONFIGURE_FLAG_ENCODE);
                  media_do (AMediaFormat_delete api f);
                  started \<leftarrow> (if configured = AMEDIA_OK then media (AMediaCodec_start api codec)
                              else return configured);
                  if started = AMEDIA_OK then do {
                    session_set (\<lambda>s. s\<lparr>s_codec := Some codec, s_encoder := True,
                      s_color_format := color,
                      s_codec_name := snd (snprintf MAX_CODEC_NAME selected)\<rparr>);
                    return (Some DSCW_CODEC_OK)
                  } else do {
                    media (AMediaCodec_delete api codec);
                    next_color
                  }
                })
           })
      })"

fun encoder_candidates ::
  "'m media_api \<Rightarrow> string \<Rightarrow> u32 \<Rightarrow> u32 \<Rightarrow> u32 \<Rightarrow> u32 \<Rightarrow> u32 \<Rightarrow> codec_candidate list \<Rightarrow>
   ('m, int) ndk" where
  "encoder_candidates api mime width height frame_rate bitrate requested_color [] =
     fail ''no proven hardware encoder accepted a YUV420 ByteBuffer format'' DSCW_CODEC_ERROR_CODEC"
| "encoder_candidates api mime width height frame_rate bitrate requested_color (c # cs) = do {
     result \<leftarrow> encoder_colors api mime width height frame_rate bitrate requested_color c
                 [COLOR_YUV420_PLANAR, COLOR_YUV420_SEMIPLANAR, COLOR_YUV420_FLEXIBLE];
     (case result of
        Some status \<Rightarrow> return status
      | None \<Rightarrow> encoder_candidates api mime width height frame_rate bitrate requested_color cs)
   }"

definition create_encoder ::
  "'m media_api \<Rightarrow> u32 \<Rightarrow> u32 \<Rightarrow> u32 \<Rightarrow> u32 \<Rightarrow> u32 \<Rightarrow> u32 \<Rightarrow> ('m, int) ndk" where
  "create_encoder api codec_id width height frame_rate bitrate requested_color = do {
     candidates \<leftarrow> collect_candidates api codec_id True;
     encoder_candidates api (the (mime_for_codec codec_id)) width height frame_rate bitrate
       requested_color candidates
   }"

text \<open>One round of the loop of \<open>create_decoder\<close>; \<open>None\<close> is \<open>continue\<close>.\<close>

definition decoder_candidate ::
  "'m media_api \<Rightarrow> string \<Rightarrow> u32 \<Rightarrow> u32 \<Rightarrow> u32 \<Rightarrow> codec_candidate \<Rightarrow> ('m, int option) ndk" where
  "decoder_candidate api mime width height frame_rate candidate = do {
     (made, reader) \<leftarrow> media (AImageReader_new api (i32_of_u32 width) (i32_of_u32 height));
     (case reader of
        None \<Rightarrow> return None
      | Some reader \<Rightarrow>
          if made \<noteq> AMEDIA_OK then return None
          else do {
            (got, window) \<leftarrow> media (AImageReader_getWindow api reader);
            if got \<noteq> AMEDIA_OK \<or> window = None then do {
              media_do (AImageReader_delete api reader);
              return None
            } else do {
              created \<leftarrow> new_codec api candidate False mime MAX_CODEC_NAME;
              (case created of
                 None \<Rightarrow> do {
                   media_do (AImageReader_delete api reader);
                   return None
                 }
               | Some (codec, selected) \<Rightarrow> do {
                   format \<leftarrow> video_format api mime width height frame_rate;
                   (case format of
                      None \<Rightarrow> do {
                        media (AMediaCodec_delete api codec);
                        media_do (AImageReader_delete api reader);
                        set_error ''could not allocate decoder format'';
                        return (Some DSCW_CODEC_ERROR_CODEC)
                      }
                    | Some f \<Rightarrow> do {
                        media_do (AMediaFormat_setInt32 api f ''max-input-size''
                                    (int (DSCW_MAX_PAYLOAD - 16)));
                        configured \<leftarrow> media (AMediaCodec_configure api codec f window 0);
                        media_do (AMediaFormat_delete api f);
                        started \<leftarrow> (if configured = AMEDIA_OK
                                    then media (AMediaCodec_start api codec)
                                    else return configured);
                        if started = AMEDIA_OK then do {
                          session_set (\<lambda>s. s\<lparr>s_codec := Some codec,
                            s_image_reader := Some reader,
                            s_codec_name := snd (snprintf MAX_CODEC_NAME selected)\<rparr>);
                          return (Some DSCW_CODEC_OK)
                        } else do {
                          media (AMediaCodec_delete api codec);
                          media_do (AImageReader_delete api reader);
                          return None
                        }
                      })
                 })
            }
          })
   }"

fun decoder_candidates ::
  "'m media_api \<Rightarrow> string \<Rightarrow> u32 \<Rightarrow> u32 \<Rightarrow> u32 \<Rightarrow> codec_candidate list \<Rightarrow> ('m, int) ndk" where
  "decoder_candidates api mime width height frame_rate [] =
     fail ''no proven hardware decoder accepted a YUV ImageReader surface'' DSCW_CODEC_ERROR_CODEC"
| "decoder_candidates api mime width height frame_rate (c # cs) = do {
     result \<leftarrow> decoder_candidate api mime width height frame_rate c;
     (case result of
        Some status \<Rightarrow> return status
      | None \<Rightarrow> decoder_candidates api mime width height frame_rate cs)
   }"

definition create_decoder ::
  "'m media_api \<Rightarrow> u32 \<Rightarrow> u32 \<Rightarrow> u32 \<Rightarrow> u32 \<Rightarrow> ('m, int) ndk" where
  "create_decoder api codec_id width height frame_rate = do {
     candidates \<leftarrow> collect_candidates api codec_id False;
     decoder_candidates api (the (mime_for_codec codec_id)) width height frame_rate candidates
   }"

definition create_description :: "string \<Rightarrow> string \<Rightarrow> u32 \<Rightarrow> string" where
  "create_description codec_name mime color =
     ''{\"codec_name\":\"'' @ codec_name @ ''\",\"mime\":\"'' @ mime
     @ ''\",\"classification\":\"ndk_hardware_proven\",\"transport\":\"inherited_memfd_eventfd\",\"color_format\":''
     @ dec (unat color) @ ''}''"

text \<open>The result is the status and the text in the description buffer.\<close>

definition dscw_codec_create ::
  "'m media_api \<Rightarrow> u32 \<Rightarrow> u32 \<Rightarrow> u32 \<Rightarrow> u32 \<Rightarrow> u32 \<Rightarrow> u32 \<Rightarrow> u32 \<Rightarrow> nat \<Rightarrow> ('m, int \<times> string) ndk"
where
  "dscw_codec_create api mode codec width height frame_rate bitrate requested_color_format
     description_size =
   (if mime_for_codec codec = None \<or> (mode \<noteq> DSCW_MODE_DECODE \<and> mode \<noteq> DSCW_MODE_ENCODE) then do {
      set_error ''unsupported codec create parameters'';
      return (DSCW_CODEC_ERROR_UNSUPPORTED, [])
    } else if \<not> valid_parameters width height frame_rate bitrate then do {
      set_error ''codec parameters exceed bounded limits'';
      return (DSCW_CODEC_ERROR_LIMIT, [])
    } else do {
      allocated \<leftarrow> media (env_calloc api);
      if \<not> allocated then do {
        set_error ''could not allocate codec session'';
        return (DSCW_CODEC_ERROR_IO, [])
      } else do {
        now \<leftarrow> monotonic_ns api;
        modify (\<lambda>s. s\<lparr>cx_session := Some (zero_session\<lparr>s_width := width, s_height := height,
          s_frame_rate := frame_rate, s_last_encoder_pts := 0, s_started_ns := now\<rparr>)\<rparr>);
        status \<leftarrow> (if mode = DSCW_MODE_ENCODE
                   then create_encoder api codec width height frame_rate bitrate
                          requested_color_format
                   else create_decoder api codec width height frame_rate);
        if status \<noteq> DSCW_CODEC_OK then do {
          dscw_codec_destroy api;
          return (status, [])
        } else do {
          name \<leftarrow> session_get s_codec_name;
          color \<leftarrow> session_get s_color_format;
          let (count, description) =
            snprintf description_size (create_description name (the (mime_for_codec codec)) color);
          if count \<ge> description_size then do {
            dscw_codec_destroy api;
            set_error ''codec description exceeds limit'';
            return (DSCW_CODEC_ERROR_IO, description)
          } else return (DSCW_CODEC_OK, description)
        }
      }
    })"

section \<open>Transcoder sessions\<close>

text \<open>\<open>configure_surface_encoder\<close>: the started encoder, its input surface and its name, or
  \<open>None\<close> for the return value \<open>-1\<close>.\<close>

definition configure_surface_encoder ::
  "'m media_api \<Rightarrow> codec_candidate \<Rightarrow> string \<Rightarrow> u32 \<Rightarrow> u32 \<Rightarrow> u32 \<Rightarrow> u32 \<Rightarrow> nat \<Rightarrow>
   ('m, (handle \<times> handle \<times> string) option) ndk" where
  "configure_surface_encoder api candidate mime width height frame_rate bitrate name_size =
   (case opt_create_input_surface api of
      None \<Rightarrow> return None
    | Some create_input_surface \<Rightarrow> do {
        created \<leftarrow> new_codec api candidate True mime name_size;
        (case created of
           None \<Rightarrow> return None
         | Some (codec, name) \<Rightarrow> do {
             format \<leftarrow> video_format api mime width height frame_rate;
             (case format of
                None \<Rightarrow> do {
                  media (AMediaCodec_delete api codec);
                  return None
                }
              | Some f \<Rightarrow> do {
                  media_do (AMediaFormat_setInt32 api f ''color-format'' (i32_of_u32 COLOR_SURFACE));
                  media_do (AMediaFormat_setInt32 api f ''bitrate'' (i32_of_u32 bitrate));
                  media_do (AMediaFormat_setInt32 api f ''i-frame-interval'' 2);
                  configured \<leftarrow> media (AMediaCodec_configure api codec f None
                                         AMEDIACODEC_CONFIGURE_FLAG_ENCODE);
                  media_do (AMediaFormat_delete api f);
                  (surfaced, surface) \<leftarrow> (if configured = AMEDIA_OK
                                         then media (create_input_surface codec)
                                         else return (configured, None));
                  started \<leftarrow> (if surfaced = AMEDIA_OK \<and> surface \<noteq> None
                              then media (AMediaCodec_start api codec)
                              else return (-1));
                  (case surface of
                     None \<Rightarrow> do {
                       media (AMediaCodec_delete api codec);
                       return None
                     }
                   | Some w \<Rightarrow>
                       if started \<noteq> AMEDIA_OK then do {
                         media_do (ANativeWindow_release api w);
                         media (AMediaCodec_delete api codec);
                         return None
                       } else return (Some (codec, w, name)))
                })
           })
      })"

definition transcoder_description :: "string \<Rightarrow> string \<Rightarrow> string \<Rightarrow> string \<Rightarrow> string" where
  "transcoder_description decoder_name encoder_name input_mime output_mime =
     ''{\"transport\":\"surface_zero_copy\",\"control_transport\":\"inherited_memfd_eventfd\",\"decoder_name\":\"''
     @ decoder_name @ ''\",\"encoder_name\":\"'' @ encoder_name @ ''\",\"input_mime\":\"'' @ input_mime
     @ ''\",\"output_mime\":\"'' @ output_mime @ ''\"}''"

text \<open>
  The inner loop over the decoders for one configured encoder. \<open>None\<close> is the end of the
  loop without a return.
\<close>

fun transcoder_decoders ::
  "'m media_api \<Rightarrow> string \<Rightarrow> string \<Rightarrow> u32 \<Rightarrow> u32 \<Rightarrow> u32 \<Rightarrow> nat \<Rightarrow> handle \<times> handle \<times> string \<Rightarrow>
   codec_candidate list \<Rightarrow> ('m, (int \<times> string) option) ndk" where
  "transcoder_decoders api input_mime output_mime width height frame_rate description_size
     (enc, surface, encoder_name) [] = return None"
| "transcoder_decoders api input_mime output_mime width height frame_rate description_size
     (enc, surface, encoder_name) (c # cs) =
   (let next_decoder = transcoder_decoders api input_mime output_mime width height frame_rate
          description_size (enc, surface, encoder_name) cs
    in do {
      created \<leftarrow> new_codec api c False input_mime MAX_CODEC_NAME;
      (case created of
         None \<Rightarrow> next_decoder
       | Some (decoder, decoder_name) \<Rightarrow> do {
           format \<leftarrow> video_format api input_mime width height frame_rate;
           (case format of
              None \<Rightarrow> do {
                media (AMediaCodec_delete api decoder);
                next_decoder
              }
            | Some f \<Rightarrow> do {
                media_do (AMediaFormat_setInt32 api f ''max-input-size''
                            (int (DSCW_MAX_PAYLOAD - 16)));
                configured \<leftarrow> media (AMediaCodec_configure api decoder f (Some surface) 0);
                media_do (AMediaFormat_delete api f);
                started \<leftarrow> (if configured = AMEDIA_OK then media (AMediaCodec_start api decoder)
                            else return configured);
                if started = AMEDIA_OK then do {
                  session_set (\<lambda>s. s\<lparr>s_decoder := Some decoder, s_transcode_encoder := Some enc,
                    s_encoder_input_surface := Some surface,
                    s_decoder_name := snd (snprintf MAX_CODEC_NAME decoder_name),
                    s_encoder_name := snd (snprintf MAX_CODEC_NAME encoder_name)\<rparr>);
                  dname \<leftarrow> session_get s_decoder_name;
                  ename \<leftarrow> session_get s_encoder_name;
                  let (count, description) = snprintf description_size
                    (transcoder_description dname ename input_mime output_mime);
                  if count < description_size then return (Some (DSCW_CODEC_OK, description))
                  else do {
                    dscw_codec_destroy api;
                    set_error ''transcoder description exceeds limit'';
                    return (Some (DSCW_CODEC_ERROR_IO, description))
                  }
                } else do {
                  media (AMediaCodec_delete api decoder);
                  next_decoder
                }
              })
         })
    })"

fun transcoder_encoders ::
  "'m media_api \<Rightarrow> string \<Rightarrow> string \<Rightarrow> u32 \<Rightarrow> u32 \<Rightarrow> u32 \<Rightarrow> u32 \<Rightarrow> nat \<Rightarrow> codec_candidate list \<Rightarrow>
   codec_candidate list \<Rightarrow> ('m, int \<times> string) ndk" where
  "transcoder_encoders api input_mime output_mime width height frame_rate bitrate description_size
     decoders [] = do {
       dscw_codec_destroy api;
       set_error ''no proven hardware decoder/encoder Surface pair is available'';
       return (DSCW_CODEC_ERROR_CODEC, [])
     }"
| "transcoder_encoders api input_mime output_mime width height frame_rate bitrate description_size
     decoders (c # cs) = do {
       configured \<leftarrow> configure_surface_encoder api c output_mime width height frame_rate bitrate
                       MAX_CODEC_NAME;
       (case configured of
          None \<Rightarrow> transcoder_encoders api input_mime output_mime width height frame_rate bitrate
                    description_size decoders cs
        | Some (enc, surface, name) \<Rightarrow> do {
            result \<leftarrow> transcoder_decoders api input_mime output_mime width height frame_rate
                        description_size (enc, surface, name) decoders;
            (case result of
               Some r \<Rightarrow> return r
             | None \<Rightarrow> do {
                 stop_delete_codec api (Some enc);
                 media_do (ANativeWindow_release api surface);
                 transcoder_encoders api input_mime output_mime width height frame_rate bitrate
                   description_size decoders cs
               })
          })
     }"

definition dscw_codec_create_transcoder ::
  "'m media_api \<Rightarrow> u32 \<Rightarrow> u32 \<Rightarrow> u32 \<Rightarrow> u32 \<Rightarrow> u32 \<Rightarrow> u32 \<Rightarrow> nat \<Rightarrow> ('m, int \<times> string) ndk" where
  "dscw_codec_create_transcoder api input_codec output_codec width height frame_rate bitrate
     description_size =
   (case (mime_for_codec input_codec, mime_for_codec output_codec) of
      (Some input_mime, Some output_mime) \<Rightarrow>
        if \<not> valid_parameters width height frame_rate bitrate then do {
          set_error ''transcoder parameters exceed bounded limits'';
          return (DSCW_CODEC_ERROR_LIMIT, [])
        } else if opt_create_input_surface api = None \<or> opt_signal_input_eos api = None then do {
          set_error ''Surface transcoding requires Android API 26 or newer'';
          return (DSCW_CODEC_ERROR_UNSUPPORTED, [])
        } else do {
          encoders \<leftarrow> collect_candidates api output_codec True;
          decoders \<leftarrow> collect_candidates api input_codec False;
          allocated \<leftarrow> media (env_calloc api);
          if \<not> allocated then do {
            set_error ''could not allocate transcoder session'';
            return (DSCW_CODEC_ERROR_IO, [])
          } else do {
            now \<leftarrow> monotonic_ns api;
            modify (\<lambda>s. s\<lparr>cx_session := Some (zero_session\<lparr>s_transcoder := True, s_encoder := True,
              s_width := width, s_height := height, s_frame_rate := frame_rate,
              s_started_ns := now\<rparr>)\<rparr>);
            transcoder_encoders api input_mime output_mime width height frame_rate bitrate
              description_size decoders encoders
          }
        }
    | _ \<Rightarrow> do {
        set_error ''unsupported transcoder codec'';
        return (DSCW_CODEC_ERROR_UNSUPPORTED, [])
      })"

section \<open>What the candidate list holds\<close>

definition candidates_ok :: "(codec_candidate \<Rightarrow> bool) \<Rightarrow> codec_candidate list \<Rightarrow> bool" where
  "candidates_ok E cs \<longleftrightarrow> length cs \<le> MAX_CANDIDATES \<and> distinct (map cand_name cs) \<and>
     (\<forall>c \<in> set cs. length (cand_name c) < MAX_CODEC_NAME \<and> (hardware_proven c \<longrightarrow> E c))"

lemma candidates_ok_Nil [simp]: "candidates_ok E []"
  by (simp add: candidates_ok_def)

lemma snprintf_fits: "length text < n \<Longrightarrow> snd (snprintf n text) = text"
  by (simp add: snprintf_def)

lemma candidates_ok_add:
  assumes "candidates_ok E cs"
    and "\<And>n. name = Some n \<Longrightarrow> proven \<Longrightarrow> E \<lparr>cand_name = n, hardware_proven = proven\<rparr>"
  shows "candidates_ok E (add_candidate name proven cs)"
proof (cases name)
  case None
  then show ?thesis using assms by (simp add: add_candidate_def)
next
  case (Some n)
  show ?thesis
  proof (cases "MAX_CANDIDATES \<le> length cs \<or> MAX_CODEC_NAME \<le> length n \<or> duplicate_candidate cs n")
    case True
    then show ?thesis using assms Some by (simp add: add_candidate_def)
  next
    case False
    then show ?thesis
      using assms Some
      by (auto simp: add_candidate_def candidates_ok_def snprintf_fits duplicate_candidate_def
                     list_ex_iff)
  qed
qed

lemma candidates_ok_fold:
  "candidates_ok E cs \<Longrightarrow> (\<And>n. n \<in> set names \<Longrightarrow> E \<lparr>cand_name = n, hardware_proven = True\<rparr>) \<Longrightarrow>
   candidates_ok E (fold (\<lambda>name. add_candidate (Some name) True) names cs)"
proof (induction names arbitrary: cs)
  case (Cons n names)
  then have "candidates_ok E (add_candidate (Some n) True cs)"
    by (intro candidates_ok_add) auto
  with Cons show ?case by simp
qed simp

text \<open>Every built-in name has one of the prefixes that prove hardware.\<close>

lemma legacy_names_hardware: "n \<in> set (legacy_names codec enc) \<Longrightarrow> hardware_name n"
proof -
  have "list_all hardware_name (legacy_names DSCW_CODEC_AVC True)"
    "list_all hardware_name (legacy_names DSCW_CODEC_AVC False)"
    "list_all hardware_name (legacy_names DSCW_CODEC_HEVC True)"
    "list_all hardware_name (legacy_names DSCW_CODEC_HEVC False)"
    by code_simp+
  moreover have "legacy_names codec enc = []"
    if "codec \<noteq> DSCW_CODEC_AVC" "codec \<noteq> DSCW_CODEC_HEVC"
    using that by (simp add: legacy_names_def)
  moreover assume "n \<in> set (legacy_names codec enc)"
  ultimately show ?thesis
    by (cases enc; cases "codec = DSCW_CODEC_AVC"; cases "codec = DSCW_CODEC_HEVC")
      (auto simp: list_all_iff)
qed

definition hardware_evidence :: "'m media_api \<Rightarrow> codec_candidate \<Rightarrow> bool" where
  "hardware_evidence api c \<longleftrightarrow> hardware_name (cand_name c) \<or>
     (case (opt_info_type api, opt_info_name api) of
        (Some info_type, Some info_name) \<Rightarrow> \<exists>i. info_type i = 2 \<and> info_name i = Some (cand_name c)
      | _ \<Rightarrow> False)"

lemma collect_store_ok:
  assumes "candidates_ok E cs"
    and "\<And>i n. info_type i = 2 \<Longrightarrow> info_name i = Some n \<Longrightarrow> E \<lparr>cand_name = n, hardware_proven = True\<rparr>"
  shows "wp (collect_store find_next info_name info_type fuel info cs) (\<lambda>cs' _. candidates_ok E cs') s"
  using assms(1)
proof (induction fuel arbitrary: info cs s)
  case 0
  then show ?case by (simp add: wp_simps)
next
  case (Suc fuel)
  then show ?case
    by (auto simp: wp_simps candidates_ok_add assms(2) split: prod.splits option.splits)
qed

lemma store_candidates_ok:
  "wp (store_candidates api codec enc) (\<lambda>cs _. candidates_ok (hardware_evidence api) cs) s"
proof (cases "\<exists>mime fn nf tf. mime_for_codec codec = Some mime
    \<and> (if enc then opt_find_encoder api else opt_find_decoder api) = Some fn
    \<and> opt_info_name api = Some nf \<and> opt_info_type api = Some tf")
  case True
  then obtain mime fn nf tf where *: "mime_for_codec codec = Some mime"
      "(if enc then opt_find_encoder api else opt_find_decoder api) = Some fn"
      "opt_info_name api = Some nf" "opt_info_type api = Some tf" by blast
  have "wp (collect_store (fn f) nf tf (loop_fuel api) None [])
      (\<lambda>cs _. candidates_ok (hardware_evidence api) cs) s'" for f s'
    by (rule collect_store_ok) (auto simp: hardware_evidence_def *)
  note c = wp_mono [OF this]
  show ?thesis
    by (simp only: store_candidates_def * prod.case option.case)
      (intro wp_intros candidates_ok_Nil, rule c, intro wp_intros)
next
  case False
  then have "store_candidates api codec enc = return []"
    by (auto simp: store_candidates_def split: option.splits)
  then show ?thesis by (simp add: wp_simps)
qed

lemma collect_candidates_ok:
  "wp (collect_candidates api codec enc) (\<lambda>cs _. candidates_ok (hardware_evidence api) cs) s"
proof -
  have "candidates_ok (hardware_evidence api)
      (add_candidate (Some []) False (add_legacy_candidates codec enc cs))"
    if "candidates_ok (hardware_evidence api) cs" for cs
    using that unfolding add_legacy_candidates_def
    by (intro candidates_ok_add candidates_ok_fold)
      (auto simp: hardware_evidence_def dest: legacy_names_hardware)
  then show ?thesis
    by (auto simp: collect_candidates_def wp_simps intro: wp_mono [OF store_candidates_ok])
qed

section \<open>What creation touches\<close>

lemmas media_only_intros = media_only.io_rules media_only_media media_only_media_do

lemma collect_store_media_only:
  "state_io_rel media_only (collect_store find_next info_name info_type fuel info cs)"
  by (induction fuel arbitrary: info cs) (auto intro!: media_only_intros)

lemma collect_candidates_media_only: "state_io_rel media_only (collect_candidates api codec enc)"
  unfolding collect_candidates_def store_candidates_def
  by (intro media_only_intros collect_store_media_only)

lemma new_codec_media_only: "state_io_rel media_only (new_codec api c enc mime n)"
  unfolding new_codec_def create_object_def query_name_def release_runtime_name_def
  by (intro media_only_intros)

lemma video_format_media_only: "state_io_rel media_only (video_format api mime w h r)"
  unfolding video_format_def by (intro media_only_intros)

lemma encoder_format_media_only: "state_io_rel media_only (encoder_format api f w h b c)"
  unfolding encoder_format_def by (intro media_only_intros)

lemma stop_delete_codec_media_only: "state_io_rel media_only (stop_delete_codec api c)"
  unfolding stop_delete_codec_def by (intro media_only_intros)

lemma configure_surface_encoder_media_only:
  "state_io_rel media_only (configure_surface_encoder api c mime w h r b n)"
  unfolding configure_surface_encoder_def
  by (intro media_only_intros new_codec_media_only video_format_media_only)

lemma hardware_name_cut: "hardware_name (take (MAX_CODEC_NAME - 1) name) = hardware_name name"
  by (simp add: hardware_name_def)

lemma new_codec_proven:
  "wp (new_codec api c enc mime MAX_CODEC_NAME)
     (\<lambda>r _. \<forall>h name. r = Some (h, name) \<longrightarrow>
        length name < MAX_CODEC_NAME \<and> (hardware_proven c \<or> hardware_name name)) s"
proof -
  have io: "state_io_rel media_only (create_object api c enc mime)"
    "state_io_rel media_only (query_name api h)"
    "state_io_rel media_only (release_runtime_name api h n)" for h n
    unfolding create_object_def query_name_def release_runtime_name_def
    by (intro media_only_intros)+
  have cut: "length (snd (snprintf MAX_CODEC_NAME name)) < MAX_CODEC_NAME"
    "hardware_name (snd (snprintf MAX_CODEC_NAME name)) = hardware_name name" for name
    using hardware_name_cut [of name] by (simp_all add: snprintf_def MAX_CODEC_NAME_def)
  show ?thesis
    unfolding new_codec_def
    by (intro wp_intros wp_media_only [OF io(1)] wp_media_only [OF io(2)] wp_media_only [OF io(3)])
      (auto simp: cut)
qed

section \<open>What creation establishes\<close>

definition session_ok :: "dscw_codec_session \<Rightarrow> bool" where
  "session_ok s \<longleftrightarrow>
     valid_parameters (s_width s) (s_height s) (s_frame_rate s) 1000 \<and>
     (if s_transcoder s
      then s_encoder s \<and> s_decoder s \<noteq> None \<and> s_transcode_encoder s \<noteq> None
           \<and> s_encoder_input_surface s \<noteq> None \<and> s_codec s = None \<and> s_image_reader s = None
      else s_codec s \<noteq> None \<and> (s_image_reader s = None \<longleftrightarrow> s_encoder s)
           \<and> s_decoder s = None \<and> s_transcode_encoder s = None \<and> s_encoder_input_surface s = None) \<and>
     (s_pending_image s \<longrightarrow> \<not> s_encoder s \<and> \<not> s_transcoder s) \<and>
     length (s_codec_name s) < MAX_CODEC_NAME \<and> length (s_decoder_name s) < MAX_CODEC_NAME
     \<and> length (s_encoder_name s) < MAX_CODEC_NAME"

lemmas ndk_part_rules =
  wp_media_only [OF collect_candidates_media_only] wp_media_only [OF video_format_media_only]
  wp_media_only [OF encoder_format_media_only] wp_media_only [OF stop_delete_codec_media_only]
  wp_media_only [OF configure_surface_encoder_media_only] 

lemma length_snprintf: "0 < n \<Longrightarrow> length (snd (snprintf n text)) < n"
  by (simp add: snprintf_def)

lemma length_name [simp]: "length (snd (snprintf MAX_CODEC_NAME text)) < MAX_CODEC_NAME"
  by (rule length_snprintf) (simp add: MAX_CODEC_NAME_def)

text \<open>The outcome of a search for a component: the members the search sets, or nothing.\<close>

definition found :: "(dscw_codec_session \<Rightarrow> bool) \<Rightarrow> 'm cx \<Rightarrow> int \<Rightarrow> 'm cx \<Rightarrow> bool" where
  "found P s status s' \<longleftrightarrow> cx_mem s' = cx_mem s \<and> cx_error_size s' = cx_error_size s \<and>
     (if status = DSCW_CODEC_OK then (\<exists>x. cx_session s' = Some x \<and> P x)
      else status = DSCW_CODEC_ERROR_CODEC \<and> cx_session s' = cx_session s)"

definition encoder_of :: "dscw_codec_session \<Rightarrow> u32 \<Rightarrow> dscw_codec_session \<Rightarrow> bool" where
  "encoder_of x requested x' \<longleftrightarrow>
     x' = x\<lparr>s_codec := s_codec x', s_encoder := True, s_color_format := s_color_format x',
            s_codec_name := s_codec_name x'\<rparr>
     \<and> s_codec x' \<noteq> None \<and> length (s_codec_name x') < MAX_CODEC_NAME
     \<and> (if requested = 0
        then s_color_format x' \<in> {COLOR_YUV420_PLANAR, COLOR_YUV420_SEMIPLANAR, COLOR_YUV420_FLEXIBLE}
        else s_color_format x' = requested)"

lemma encoder_colors_found:
  assumes "cx_session s = Some x"
    and "set colors \<subseteq> {COLOR_YUV420_PLANAR, COLOR_YUV420_SEMIPLANAR, COLOR_YUV420_FLEXIBLE}"
  shows "wp (encoder_colors api mime w h r b requested c colors)
    (\<lambda>result s'. case result of Some status \<Rightarrow> found (encoder_of x requested) s status s'
       | None \<Rightarrow> cx_mem s' = cx_mem s \<and> cx_error_size s' = cx_error_size s \<and> cx_session s' = Some x) s"
  using assms
proof (induction colors arbitrary: s)
  case Nil
  then show ?case by (simp add: wp_simps)
next
  case (Cons col cols)
  let ?Q = "\<lambda>result s'. case result of Some status \<Rightarrow> found (encoder_of x requested) s status s'
       | None \<Rightarrow> cx_mem s' = cx_mem s \<and> cx_error_size s' = cx_error_size s \<and> cx_session s' = Some x"
  have ih: "wp (encoder_colors api mime w h r b requested c cols) ?Q (s\<lparr>cx_media := m\<rparr>)" for m
    by (rule wp_mono [OF Cons.IH]) (use Cons.prems in \<open>auto simp: found_def split: option.splits\<close>)
  show ?case
    unfolding encoder_colors.simps Let_def
    by (intro wp_intros ndk_part_rules wp_media_only [OF new_codec_media_only])
      (use Cons.prems ih in \<open>auto simp: found_def encoder_of_def\<close>)
qed


lemma found_resume:
  assumes "found P (s'::'m cx) status s''" "cx_mem s' = cx_mem s" "cx_error_size s' = cx_error_size s"
    "cx_session s' = cx_session s"
  shows "found P s status s''"
  using assms by (auto simp: found_def split: if_splits)

lemma encoder_candidates_found:
  assumes "cx_session s = Some x"
  shows "wp (encoder_candidates api mime w h r b requested cs) (found (encoder_of x requested) s) s"
  using assms
proof (induction cs arbitrary: s)
  case Nil
  then show ?case by (auto intro!: wp_intros simp: found_def)
next
  case (Cons c cs)
  have next_candidate: "wp (encoder_candidates api mime w h r b requested cs) (found (encoder_of x requested) s) s'"
    if "cx_mem s' = cx_mem s" "cx_error_size s' = cx_error_size s" "cx_session s' = Some x" for s'
    by (rule wp_mono [OF Cons.IH]) (use that Cons.prems in \<open>auto elim: found_resume\<close>)
  show ?case
    unfolding encoder_candidates.simps
    by (intro wp_intros wp_mono [OF encoder_colors_found [OF Cons.prems]])
      (auto simp: Cons.prems intro: next_candidate)
qed

lemma create_encoder_found:
  assumes "cx_session s = Some x"
  shows "wp (create_encoder api codec w h r b requested) (found (encoder_of x requested) s) s"
  unfolding create_encoder_def
  by (intro wp_intros ndk_part_rules wp_mono [OF encoder_candidates_found])
    (auto simp: assms intro: found_resume)

definition decoder_of :: "dscw_codec_session \<Rightarrow> dscw_codec_session \<Rightarrow> bool" where
  "decoder_of x x' \<longleftrightarrow>
     x' = x\<lparr>s_codec := s_codec x', s_image_reader := s_image_reader x', s_codec_name := s_codec_name x'\<rparr>
     \<and> s_codec x' \<noteq> None \<and> s_image_reader x' \<noteq> None \<and> length (s_codec_name x') < MAX_CODEC_NAME"

lemma decoder_candidate_found:
  assumes "cx_session s = Some x"
  shows "wp (decoder_candidate api mime w h r c)
    (\<lambda>result s'. case result of Some status \<Rightarrow> found (decoder_of x) s status s'
       | None \<Rightarrow> cx_mem s' = cx_mem s \<and> cx_error_size s' = cx_error_size s \<and> cx_session s' = Some x) s"
  unfolding decoder_candidate_def
  by (intro wp_intros ndk_part_rules wp_media_only [OF new_codec_media_only])
    (use assms in \<open>auto simp: found_def decoder_of_def\<close>)

lemma decoder_candidates_found:
  assumes "cx_session s = Some x"
  shows "wp (decoder_candidates api mime w h r cs) (found (decoder_of x) s) s"
  using assms
proof (induction cs arbitrary: s)
  case Nil
  then show ?case by (auto intro!: wp_intros simp: found_def)
next
  case (Cons c cs)
  have next_candidate: "wp (decoder_candidates api mime w h r cs) (found (decoder_of x) s) s'"
    if "cx_mem s' = cx_mem s" "cx_error_size s' = cx_error_size s" "cx_session s' = Some x" for s'
    by (rule wp_mono [OF Cons.IH]) (use that Cons.prems in \<open>auto elim: found_resume\<close>)
  show ?case
    unfolding decoder_candidates.simps
    by (intro wp_intros wp_mono [OF decoder_candidate_found [OF Cons.prems]])
      (auto simp: Cons.prems intro: next_candidate)
qed

lemma create_decoder_found:
  assumes "cx_session s = Some x"
  shows "wp (create_decoder api codec w h r) (found (decoder_of x) s) s"
  unfolding create_decoder_def
  by (intro wp_intros ndk_part_rules wp_mono [OF decoder_candidates_found])
    (auto simp: assms intro: found_resume)

lemma destroy_session:
  "wp (dscw_codec_destroy api) (\<lambda>_ s'. cx_session s' = None \<and> cx_mem s' = cx_mem s
     \<and> cx_error s' = cx_error s \<and> cx_error_size s' = cx_error_size s) s"
  unfolding dscw_codec_destroy_def
  by (intro wp_intros ndk_part_rules) auto

lemma valid_parameters_rate:
  "valid_parameters w h r b \<Longrightarrow> valid_parameters w h r 1000"
  by (simp add: valid_parameters_def)

text \<open>The outcome of the two entry points that create a session.\<close>

definition created :: "(dscw_codec_session \<Rightarrow> bool) \<Rightarrow> 'm cx \<Rightarrow> int \<times> string \<Rightarrow> 'm cx \<Rightarrow> bool" where
  "created P s r s' \<longleftrightarrow> cx_mem s' = cx_mem s \<and> cx_error_size s' = cx_error_size s \<and>
     (if fst r = DSCW_CODEC_OK then (\<exists>x. cx_session s' = Some x \<and> session_ok x \<and> P x)
      else fst r \<in> {DSCW_CODEC_ERROR_UNSUPPORTED, DSCW_CODEC_ERROR_LIMIT, DSCW_CODEC_ERROR_CODEC,
             DSCW_CODEC_ERROR_IO} \<and> cx_session s' = None)"

lemma encoder_of_ok:
  "encoder_of (zero_session\<lparr>s_width := w, s_height := h, s_frame_rate := r, s_last_encoder_pts := 0,
     s_started_ns := t\<rparr>) requested x' \<Longrightarrow> valid_parameters w h r 1000 \<Longrightarrow>
   session_ok x' \<and> s_encoder x' \<and> \<not> s_transcoder x' \<and> s_width x' = w \<and> s_height x' = h
   \<and> s_frame_rate x' = r \<and> \<not> s_input_eos x' \<and> \<not> s_have_encoder_pts x'"
  unfolding encoder_of_def session_ok_def zero_session_def
  by (cases x') (auto simp: MAX_CODEC_NAME_def)

lemma decoder_of_ok:
  "decoder_of (zero_session\<lparr>s_width := w, s_height := h, s_frame_rate := r, s_last_encoder_pts := 0,
     s_started_ns := t\<rparr>) x' \<Longrightarrow> valid_parameters w h r 1000 \<Longrightarrow>
   session_ok x' \<and> \<not> s_encoder x' \<and> \<not> s_transcoder x' \<and> s_width x' = w \<and> s_height x' = h
   \<and> s_frame_rate x' = r \<and> \<not> s_input_eos x' \<and> \<not> s_have_encoder_pts x'"
  unfolding decoder_of_def session_ok_def zero_session_def
  by (cases x') (auto simp: MAX_CODEC_NAME_def)

definition fresh_session :: "u32 \<Rightarrow> u32 \<Rightarrow> u32 \<Rightarrow> dscw_codec_session \<Rightarrow> bool" where
  "fresh_session w h r x \<longleftrightarrow> s_width x = w \<and> s_height x = h \<and> s_frame_rate x = r
     \<and> \<not> s_input_eos x \<and> \<not> s_have_encoder_pts x"

lemma create_result:
  assumes "cx_session s = None"
  shows "wp (dscw_codec_create api mode codec w h r b requested n)
    (created (\<lambda>x. \<not> s_transcoder x \<and> (s_encoder x \<longleftrightarrow> mode = DSCW_MODE_ENCODE) \<and> fresh_session w h r x
       \<and> valid_parameters w h r b) s) s"
  unfolding dscw_codec_create_def monotonic_ns_def
  apply (intro wp_intros wp_mono [OF create_encoder_found] wp_mono [OF create_decoder_found]
      wp_mono [OF destroy_session])
  apply (auto simp: created_def found_def assms fresh_session_def split: if_splits
      dest!: encoder_of_ok decoder_of_ok intro: valid_parameters_rate)
  done


text \<open>The session \<open>dscw_codec_create_transcoder\<close> allocates before its search.\<close>

definition transcoder_base :: "u32 \<Rightarrow> u32 \<Rightarrow> u32 \<Rightarrow> dscw_codec_session \<Rightarrow> bool" where
  "transcoder_base w h r x \<longleftrightarrow> (\<exists>t. x = zero_session\<lparr>s_transcoder := True, s_encoder := True,
     s_width := w, s_height := h, s_frame_rate := r, s_started_ns := t\<rparr>)"

abbreviation transcoder_session :: "u32 \<Rightarrow> u32 \<Rightarrow> u32 \<Rightarrow> dscw_codec_session \<Rightarrow> bool" where
  "transcoder_session w h r x \<equiv> s_transcoder x \<and> fresh_session w h r x"

lemma created_resume:
  assumes "created P (s'::'m cx) r s''" "cx_mem s' = cx_mem s" "cx_error_size s' = cx_error_size s"
  shows "created P s r s''"
  using assms by (auto simp: created_def split: if_splits)

lemma transcoder_decoders_result:
  assumes "cx_session s = Some x" "transcoder_base w h r x" "valid_parameters w h r 1000"
  shows "wp (transcoder_decoders api imime omime w h r n (enc, surface, ename) cs)
    (\<lambda>result s'. case result of Some res \<Rightarrow> created (transcoder_session w h r) s res s'
       | None \<Rightarrow> cx_mem s' = cx_mem s \<and> cx_error_size s' = cx_error_size s \<and> cx_session s' = Some x) s"
  using assms(1)
proof (induction cs arbitrary: s)
  case Nil
  then show ?case by (simp add: wp_simps)
next
  case (Cons c cs)
  let ?Q = "\<lambda>result s'. case result of Some res \<Rightarrow> created (transcoder_session w h r) s res s'
       | None \<Rightarrow> cx_mem s' = cx_mem s \<and> cx_error_size s' = cx_error_size s \<and> cx_session s' = Some x"
  have next_decoder: "wp (transcoder_decoders api imime omime w h r n (enc, surface, ename) cs) ?Q
      (s\<lparr>cx_media := m\<rparr>)" for m
    by (rule wp_mono [OF Cons.IH]) (use Cons.prems in \<open>auto split: option.splits elim: created_resume\<close>)
  have ok: "session_ok (x\<lparr>s_decoder := Some d, s_transcode_encoder := Some enc,
      s_encoder_input_surface := Some surface, s_decoder_name := snd (snprintf MAX_CODEC_NAME dn),
      s_encoder_name := snd (snprintf MAX_CODEC_NAME ename)\<rparr>)
      \<and> s_transcoder x \<and> fresh_session w h r x" for d dn
    using assms(2,3)
    by (auto simp: transcoder_base_def session_ok_def zero_session_def MAX_CODEC_NAME_def
        fresh_session_def length_snprintf)
  show ?case
    unfolding transcoder_decoders.simps Let_def
    by (intro wp_intros ndk_part_rules wp_media_only [OF new_codec_media_only]
        wp_mono [OF destroy_session])
      (use Cons.prems next_decoder ok in \<open>auto simp: created_def fresh_session_def\<close>)
qed

lemma transcoder_encoders_result:
  assumes "cx_session s = Some x" "transcoder_base w h r x" "valid_parameters w h r 1000"
  shows "wp (transcoder_encoders api imime omime w h r b n decoders cs)
    (created (transcoder_session w h r) s) s"
  using assms(1)
proof (induction cs arbitrary: s)
  case Nil
  show ?case
    unfolding transcoder_encoders.simps
    by (intro wp_intros wp_mono [OF destroy_session]) (auto simp: created_def)
next
  case (Cons c cs)
  have next_encoder: "wp (transcoder_encoders api imime omime w h r b n decoders cs)
      (created (transcoder_session w h r) s) s'"
    if "cx_mem s' = cx_mem s" "cx_error_size s' = cx_error_size s" "cx_session s' = Some x" for s'
    by (rule wp_mono [OF Cons.IH]) (use that in \<open>auto elim: created_resume\<close>)
  show ?case
    unfolding transcoder_encoders.simps
    apply (intro wp_intros ndk_part_rules
        wp_mono [OF transcoder_decoders_result [OF _ assms(2,3)]])
    using Cons.prems by (auto intro: next_encoder elim: created_resume)
qed

lemma create_transcoder_result:
  assumes "cx_session s = None"
  shows "wp (dscw_codec_create_transcoder api input_codec output_codec w h r b n)
    (created (\<lambda>x. s_transcoder x \<and> fresh_session w h r x) s) s"
  unfolding dscw_codec_create_transcoder_def monotonic_ns_def
  by (intro wp_intros ndk_part_rules wp_mono [OF transcoder_encoders_result])
    (auto simp: created_def assms transcoder_base_def intro: valid_parameters_rate split: if_splits)


end
