(* ===== verification/Ndk_Image.thy ===== *)
theory Ndk_Image
  imports Ndk_Create
begin

text \<open>
  Decoder output as I420 (\<open>dawnshell_codec_ndk.c\<close>): \<open>acquire_image\<close> waits for an image of the
  session's reader, \<open>normalize_image\<close> copies its crop rectangle into the output buffer as
  three packed planes. An \<open>AImage\<close> plane is the list of its bytes, of length
  \<open>data_length\<close>, so an index of the list is an address the library vouches for. Crop
  coordinates and strides are C \<open>int32_t\<close>; sums of them that would overflow are undefined
  in C and exact here.
\<close>

section \<open>Waiting for an image\<close>

fun acquire_loop ::
  "'m media_api \<Rightarrow> handle \<Rightarrow> u64 \<Rightarrow> nat \<Rightarrow> ('m, int \<times> handle option) ndk" where
  "acquire_loop api reader deadline 0 = return (DSCW_CODEC_AGAIN, None)"
| "acquire_loop api reader deadline (Suc fuel) = do {
     (status, img) \<leftarrow> media (AImageReader_acquireNextImage api reader);
     if status = AMEDIA_OK \<and> img \<noteq> None then return (DSCW_CODEC_OK, img)
     else if status \<noteq> AMEDIA_IMGREADER_NO_BUFFER_AVAILABLE then return (DSCW_CODEC_ERROR_CODEC, None)
     else do {
       media_do (env_usleep api 1000);
       now \<leftarrow> monotonic_ns api;
       if now < deadline then acquire_loop api reader deadline fuel
       else return (DSCW_CODEC_AGAIN, None)
     }
   }"

definition acquire_image :: "'m media_api \<Rightarrow> u32 \<Rightarrow> ('m, int \<times> handle option) ndk" where
  "acquire_image api timeout_ms = do {
     now \<leftarrow> monotonic_ns api;
     reader \<leftarrow> session_get s_image_reader;
     acquire_loop api (the reader)
       (now + ucast (if timeout_ms = 0 then 100 else timeout_ms) * 1000000) (loop_fuel api)
   }"

section \<open>Copying the crop rectangle\<close>

text \<open>One row: a \<open>memcpy\<close> when the pixels are adjacent, a byte loop otherwise.\<close>

definition copy_row :: "byte list \<Rightarrow> int \<Rightarrow> int \<Rightarrow> nat \<Rightarrow> byte list" where
  "copy_row data first pixel_stride plane_width =
     (if pixel_stride = 1 then take plane_width (drop (nat first) data)
      else map (\<lambda>column. data ! nat (first + int column * pixel_stride)) [0..<plane_width])"

text \<open>The loop over the rows; \<open>Inl\<close> is an early return, \<open>Inr\<close> the next destination.\<close>

fun normalize_rows ::
  "byte list \<Rightarrow> int \<Rightarrow> int \<Rightarrow> int \<Rightarrow> int \<Rightarrow> nat \<Rightarrow> nat \<Rightarrow> nat list \<Rightarrow> nat \<Rightarrow> ('m, int + nat) ndk" where
  "normalize_rows data row_stride pixel_stride left_edge top_edge plane_width output [] destination =
     return (Inr destination)"
| "normalize_rows data row_stride pixel_stride left_edge top_edge plane_width output (row # rows) destination =
     (let first = (top_edge + int row) * row_stride + left_edge * pixel_stride;
          last = first + (int plane_width - 1) * pixel_stride
      in if first < 0 \<or> last < first \<or> last \<ge> int (length data) then do {
           set_error ''decoder YUV plane bounds are invalid'';
           return (Inl DSCW_CODEC_ERROR_CODEC)
         } else do {
           memory_set (\<lambda>m. mem_write m (output + destination)
                             (copy_row data first pixel_stride plane_width));
           normalize_rows data row_stride pixel_stride left_edge top_edge plane_width output rows
             (destination + plane_width)
         })"

text \<open>The three queries for a plane, each made only if the one before succeeded.\<close>

definition map_plane ::
  "'m media_api \<Rightarrow> handle \<Rightarrow> nat \<Rightarrow> ('m, (byte list \<times> int \<times> int) option) ndk" where
  "map_plane api img plane = do {
     (st1, data) \<leftarrow> media (AImage_getPlaneData api img plane);
     if st1 \<noteq> AMEDIA_OK then return None else do {
     (st2, row_stride) \<leftarrow> media (AImage_getPlaneRowStride api img plane);
     if st2 \<noteq> AMEDIA_OK then return None else do {
     (st3, pixel_stride) \<leftarrow> media (AImage_getPlanePixelStride api img plane);
     return (case data of
               None \<Rightarrow> None
             | Some d \<Rightarrow> if st3 \<noteq> AMEDIA_OK \<or> length d = 0 \<or> row_stride \<le> 0 \<or> pixel_stride \<le> 0
                         then None else Some (d, row_stride, pixel_stride)) } }
   }"

definition plane_shift :: "nat \<Rightarrow> nat" where
  "plane_shift plane = (if plane = 0 then 0 else 1)"

fun normalize_planes ::
  "'m media_api \<Rightarrow> handle \<Rightarrow> crop_rect \<Rightarrow> int \<Rightarrow> int \<Rightarrow> nat \<Rightarrow> nat list \<Rightarrow> nat \<Rightarrow> ('m, int + nat) ndk"
where
  "normalize_planes api img crop width height output [] destination = return (Inr destination)"
| "normalize_planes api img crop width height output (plane # planes) destination = do {
     mapped \<leftarrow> map_plane api img plane;
     (case mapped of
        None \<Rightarrow> do {
          set_error (''could not map decoder YUV plane '' @ dec plane);
          return (Inl DSCW_CODEC_ERROR_CODEC)
        }
      | Some (data, row_stride, pixel_stride) \<Rightarrow> do {
          let shift = plane_shift plane;
          copied \<leftarrow> normalize_rows data row_stride pixel_stride (drop_bit shift (crop_left crop))
            (drop_bit shift (crop_top crop)) (nat (drop_bit shift width)) output
            [0..<nat (drop_bit shift height)] destination;
          (case copied of
             Inl status \<Rightarrow> return (Inl status)
           | Inr destination \<Rightarrow>
               normalize_planes api img crop width height output planes destination)
        })
   }"

text \<open>The header checks of \<open>normalize_image\<close>: the crop rectangle of a three-plane image.\<close>

definition image_crop :: "'m media_api \<Rightarrow> handle \<Rightarrow> ('m, crop_rect option) ndk" where
  "image_crop api img = do {
     (st1, format) \<leftarrow> media (AImage_getFormat api img);
     if st1 \<noteq> AMEDIA_OK \<or> format \<noteq> AIMAGE_FORMAT_YUV_420_888 then return None else do {
     (st2, planes) \<leftarrow> media (AImage_getNumberOfPlanes api img);
     if st2 \<noteq> AMEDIA_OK \<or> planes \<noteq> 3 then return None else do {
     (st3, crop) \<leftarrow> media (AImage_getCropRect api img);
     return (if st3 \<noteq> AMEDIA_OK then None else Some crop) } }
   }"

definition crop_width :: "crop_rect \<Rightarrow> int" where "crop_width crop = crop_right crop - crop_left crop"
definition crop_height :: "crop_rect \<Rightarrow> int" where "crop_height crop = crop_bottom crop - crop_top crop"

definition crop_frame_length :: "int \<Rightarrow> int \<Rightarrow> u64" where
  "crop_frame_length width height = word_of_int width * word_of_int height * 3 div 2"

text \<open>The result is the status and \<open>*length\<close>, which only a success sets.\<close>

definition normalize_image ::
  "'m media_api \<Rightarrow> handle \<Rightarrow> nat \<Rightarrow> nat \<Rightarrow> ('m, int \<times> nat) ndk" where
  "normalize_image api img output capacity = do {
     crop \<leftarrow> image_crop api img;
     (case crop of
        None \<Rightarrow> do {
          set_error ''decoder image is not three-plane YUV_420_888'';
          return (DSCW_CODEC_ERROR_UNSUPPORTED, 0)
        }
      | Some crop \<Rightarrow> do {
          let width = crop_width crop;
          let height = crop_height crop;
          if width \<le> 0 \<or> height \<le> 0 \<or> odd width \<or> odd height
             \<or> unat (crop_frame_length width height) > capacity then do {
            set_error ''decoder image crop exceeds output bounds'';
            return (DSCW_CODEC_ERROR_LIMIT, 0)
          } else do {
            copied \<leftarrow> normalize_planes api img crop width height output [0, 1, 2] 0;
            return (case copied of Inl status \<Rightarrow> (status, 0) | Inr destination \<Rightarrow> (DSCW_CODEC_OK, destination))
          }
        })
   }"

section \<open>What a row copy stores\<close>

text \<open>The source of pixel \<open>column\<close> of row \<open>row\<close> of a cropped plane.\<close>

definition pixel_index :: "int \<Rightarrow> int \<Rightarrow> int \<Rightarrow> int \<Rightarrow> nat \<Rightarrow> nat \<Rightarrow> int" where
  "pixel_index row_stride pixel_stride left_edge top_edge row column =
     (top_edge + int row) * row_stride + (left_edge + int column) * pixel_stride"

definition plane_rows ::
  "byte list \<Rightarrow> int \<Rightarrow> int \<Rightarrow> int \<Rightarrow> int \<Rightarrow> nat \<Rightarrow> nat list \<Rightarrow> byte list" where
  "plane_rows data row_stride pixel_stride left_edge top_edge plane_width rows =
     concat (map (\<lambda>row. map (\<lambda>column. data !
       nat (pixel_index row_stride pixel_stride left_edge top_edge row column)) [0..<plane_width]) rows)"

definition rows_in_bounds ::
  "byte list \<Rightarrow> int \<Rightarrow> int \<Rightarrow> int \<Rightarrow> int \<Rightarrow> nat \<Rightarrow> nat list \<Rightarrow> bool" where
  "rows_in_bounds data row_stride pixel_stride left_edge top_edge plane_width rows \<longleftrightarrow>
     (\<forall>row \<in> set rows. \<forall>column < plane_width.
        0 \<le> pixel_index row_stride pixel_stride left_edge top_edge row column \<and>
        pixel_index row_stride pixel_stride left_edge top_edge row column < int (length data))"

lemma length_plane_rows [simp]: "length (plane_rows data rs ps l t w rows) = length rows * w"
  by (induction rows) (simp_all add: plane_rows_def)

lemma row_bounds:
  fixes first ps :: int
  assumes "0 \<le> first" and "first \<le> first + (int w - 1) * ps"
    and "first + (int w - 1) * ps < int n" and "0 < ps" and "c < w"
  shows "0 \<le> first + int c * ps \<and> first + int c * ps < int n"
proof -
  have "int c * ps \<le> (int w - 1) * ps"
    using assms by (intro mult_right_mono) auto
  moreover have "0 \<le> int c * ps" using assms by simp
  ultimately show ?thesis using assms by linarith
qed

lemma copy_row_spec:
  assumes "0 \<le> first" and "first \<le> first + (int w - 1) * ps"
    and "first + (int w - 1) * ps < int (length data)" and "0 < ps"
  shows "copy_row data first ps w = map (\<lambda>c. data ! nat (first + int c * ps)) [0..<w]"
proof (cases "ps = 1")
  case True
  have "nat first + w \<le> length data"
    using assms True by (cases w) auto
  then show ?thesis
    using True assms by (auto simp: copy_row_def nat_add_distrib intro!: nth_equalityI)
qed (simp add: copy_row_def)

lemma normalize_rows_copy:
  assumes "0 < ps" and "0 < w"
  shows "wp (normalize_rows data rs ps l t w output rows dest)
    (\<lambda>r s'. cx_session s' = cx_session s \<and> cx_error_size s' = cx_error_size s \<and> cx_media s' = cx_media s \<and>
       same_outside (output + dest) (length rows * w) (cx_mem s) (cx_mem s') \<and>
       (case r of Inl status \<Rightarrow> status = DSCW_CODEC_ERROR_CODEC \<and> \<not> rows_in_bounds data rs ps l t w rows
        | Inr dest' \<Rightarrow> dest' = dest + length rows * w \<and> rows_in_bounds data rs ps l t w rows \<and>
            mem_read (cx_mem s') (output + dest) (length rows * w) = plane_rows data rs ps l t w rows)) s"
proof (induction rows arbitrary: dest s)
  case Nil
  then show ?case by (auto intro!: wp_intros simp: rows_in_bounds_def plane_rows_def mem_read_def)
next
  case (Cons row rows)
  define first where "first = (t + int row) * rs + l * ps"
  define last where "last = first + (int w - 1) * ps"
  have index: "pixel_index rs ps l t row c = first + int c * ps" for c
    by (simp add: pixel_index_def first_def algebra_simps)
  have step: "wp (normalize_rows data rs ps l t w output (row # rows) dest) Q s \<longleftrightarrow>
      (if first < 0 \<or> last < first \<or> last \<ge> int (length data)
       then wp (do { set_error ''decoder YUV plane bounds are invalid'';
                     return (Inl DSCW_CODEC_ERROR_CODEC) }) Q s
       else wp (normalize_rows data rs ps l t w output rows (dest + w)) Q
              (s\<lparr>cx_mem := mem_write (cx_mem s) (output + dest) (copy_row data first ps w)\<rparr>))" for Q
    by (simp add: Let_def wp_simps first_def last_def)
  show ?case
  proof (cases "first < 0 \<or> last < first \<or> last \<ge> int (length data)")
    case True
    have last: "pixel_index rs ps l t row (w - 1) = last"
      using assms(2) by (simp add: index last_def of_nat_diff)
    have "first \<le> last"
      using assms by (simp add: last_def)
    moreover have "first = pixel_index rs ps l t row 0" by (simp add: index)
    ultimately have "\<not> rows_in_bounds data rs ps l t w (row # rows)"
      using True assms(2) last by (auto simp: rows_in_bounds_def intro: exI [of _ 0] exI [of _ "w - 1"])
    then show ?thesis
      unfolding step using True by (auto intro!: wp_intros)
  next
    case False
    then have row: "copy_row data first ps w = map (\<lambda>c. data ! nat (first + int c * ps)) [0..<w]"
      using copy_row_spec [of first w ps data] assms by (auto simp: last_def)
    have inb: "0 \<le> first + int c * ps \<and> first + int c * ps < int (length data)" if "c < w" for c
      using row_bounds [of first w ps "length data" c] False assms that by (auto simp: last_def)
    let ?m = "mem_write (cx_mem s) (output + dest) (copy_row data first ps w)"
    have split: "mem_read m (output + dest) (w + n) =
        mem_read m (output + dest) w @ mem_read m (output + (dest + w)) n" for m n
      using shm.rd_split [of m "output + dest" w n] by (simp add: add.assoc)
    have len: "length (copy_row data first ps w) = w"
      by (simp add: row)
    have out: "same_outside (output + dest) (w + length rows * w) (cx_mem s) m'"
      if "same_outside (output + (dest + w)) (length rows * w) ?m m'" for m'
    proof (rule same_outside_trans)
      show "same_outside (output + dest) (w + length rows * w) (cx_mem s) ?m"
        by (auto simp: len)
      show "same_outside (output + dest) (w + length rows * w) ?m m'"
        using that by (rule same_outside_widen) auto
    qed
    have bytes: "mem_read m' (output + dest) (w + length rows * w) = plane_rows data rs ps l t w (row # rows)"
      if "same_outside (output + (dest + w)) (length rows * w) ?m m'"
        "mem_read m' (output + (dest + w)) (length rows * w) = plane_rows data rs ps l t w rows" for m'
    proof -
      have "mem_read m' (output + dest) w = mem_read ?m (output + dest) w"
        by (rule same_outside_read [OF that(1)]) simp
      also have "\<dots> = copy_row data first ps w"
        using shm.rd_wr_same [of "cx_mem s" "output + dest" "copy_row data first ps w"] by (simp add: len)
      finally show ?thesis
        using that(2) by (simp add: split row plane_rows_def index)
    qed
    have inl: "rows_in_bounds data rs ps l t w rows" if "rows_in_bounds data rs ps l t w (row # rows)"
      using that by (auto simp: rows_in_bounds_def)
    have inr: "rows_in_bounds data rs ps l t w (row # rows)" if "rows_in_bounds data rs ps l t w rows"
      using that inb by (simp add: rows_in_bounds_def index)
    show ?thesis
      unfolding step using False
      by (simp only: if_False, intro wp_mono [OF Cons.IH])
        (auto split: sum.splits simp del: length_Cons intro: out bytes inr dest: inl)
  qed
qed

section \<open>The three planes\<close>

definition plane_area :: "int \<Rightarrow> int \<Rightarrow> nat \<Rightarrow> nat" where
  "plane_area width height plane =
     nat (drop_bit (plane_shift plane) height) * nat (drop_bit (plane_shift plane) width)"

text \<open>The bytes of one cropped plane, row by row, and that they lie inside its data.\<close>

definition crop_plane :: "crop_rect \<Rightarrow> int \<Rightarrow> int \<Rightarrow> nat \<Rightarrow> byte list \<times> int \<times> int \<Rightarrow> byte list" where
  "crop_plane crop width height plane x = (case x of (data, rs, ps) \<Rightarrow>
     plane_rows data rs ps (drop_bit (plane_shift plane) (crop_left crop))
       (drop_bit (plane_shift plane) (crop_top crop)) (nat (drop_bit (plane_shift plane) width))
       [0..<nat (drop_bit (plane_shift plane) height)])"

definition crop_in_plane :: "crop_rect \<Rightarrow> int \<Rightarrow> int \<Rightarrow> nat \<Rightarrow> byte list \<times> int \<times> int \<Rightarrow> bool" where
  "crop_in_plane crop width height plane x = (case x of (data, rs, ps) \<Rightarrow>
     rows_in_bounds data rs ps (drop_bit (plane_shift plane) (crop_left crop))
       (drop_bit (plane_shift plane) (crop_top crop)) (nat (drop_bit (plane_shift plane) width))
       [0..<nat (drop_bit (plane_shift plane) height)])"

lemma length_crop_plane [simp]: "length (crop_plane crop width height plane x) = plane_area width height plane"
  by (cases x) (simp add: crop_plane_def plane_area_def)

lemma map_plane_media_only: "state_io_rel media_only (map_plane api img plane)"
  unfolding map_plane_def by (intro media_only_intros)

lemma map_plane_strides:
  "wp (map_plane api img plane) (\<lambda>r _. \<forall>data rs ps. r = Some (data, rs, ps) \<longrightarrow> 0 < rs \<and> 0 < ps) s"
  unfolding map_plane_def by (intro wp_intros) (auto split: option.splits if_splits)

lemma normalize_planes_copy:
  assumes "\<And>p s. p \<in> set planes \<Longrightarrow> cx_media s \<in> I \<Longrightarrow>
      wp (map_plane api img p) (\<lambda>r s'. cx_media s' \<in> I \<and> (case r of None \<Rightarrow> N p | Some x \<Rightarrow> S p x)) s"
    and "cx_media s \<in> I" and "2 \<le> width"
  shows "wp (normalize_planes api img crop width height output planes dest)
    (\<lambda>r s'. cx_session s' = cx_session s \<and> cx_error_size s' = cx_error_size s \<and> cx_media s' \<in> I \<and>
       same_outside (output + dest) (sum_list (map (plane_area width height) planes)) (cx_mem s) (cx_mem s') \<and>
       (case r of Inl status \<Rightarrow> status = DSCW_CODEC_ERROR_CODEC \<and>
            (\<exists>p \<in> set planes. N p \<or> (\<exists>x. S p x \<and> \<not> crop_in_plane crop width height p x))
        | Inr dest' \<Rightarrow> dest' = dest + sum_list (map (plane_area width height) planes) \<and>
            (\<exists>xs. list_all2 S planes xs \<and> list_all2 (crop_in_plane crop width height) planes xs \<and>
               mem_read (cx_mem s') (output + dest) (sum_list (map (plane_area width height) planes))
               = concat (map2 (crop_plane crop width height) planes xs)))) s"
  using assms
proof (induction planes arbitrary: dest s)
  case Nil
  then show ?case by (auto intro!: wp_intros simp: mem_read_def)
next
  case (Cons plane planes)
  let ?A = "plane_area width height plane"
  let ?T = "sum_list (map (plane_area width height) planes)"
  let ?Q = "\<lambda>r s'. cx_session s' = cx_session s \<and> cx_error_size s' = cx_error_size s \<and> cx_media s' \<in> I \<and>
       same_outside (output + dest) (?A + ?T) (cx_mem s) (cx_mem s') \<and>
       (case r of Inl status \<Rightarrow> status = DSCW_CODEC_ERROR_CODEC \<and>
            (\<exists>p \<in> set (plane # planes). N p \<or> (\<exists>x. S p x \<and> \<not> crop_in_plane crop width height p x))
        | Inr dest' \<Rightarrow> dest' = dest + (?A + ?T) \<and>
            (\<exists>xs. list_all2 S (plane # planes) xs \<and> list_all2 (crop_in_plane crop width height) (plane # planes) xs \<and>
               mem_read (cx_mem s') (output + dest) (?A + ?T)
               = concat (map2 (crop_plane crop width height) (plane # planes) xs)))"
  have rest: "wp (normalize_planes api img crop width height output planes (dest + ?A)) ?Q s1"
    if "cx_session s1 = cx_session s" "cx_error_size s1 = cx_error_size s" "cx_media s1 \<in> I"
      "same_outside (output + dest) ?A (cx_mem s) (cx_mem s1)" "S plane x" "crop_in_plane crop width height plane x"
      "mem_read (cx_mem s1) (output + dest) ?A = crop_plane crop width height plane x" for s1 x
  proof (rule wp_mono [OF Cons.IH])
    show "cx_media s1 \<in> I" by fact
    fix r s'
    assume *: "cx_session s' = cx_session s1 \<and> cx_error_size s' = cx_error_size s1 \<and> cx_media s' \<in> I \<and>
       same_outside (output + (dest + ?A)) ?T (cx_mem s1) (cx_mem s') \<and>
       (case r of Inl status \<Rightarrow> status = DSCW_CODEC_ERROR_CODEC \<and>
            (\<exists>p \<in> set planes. N p \<or> (\<exists>x. S p x \<and> \<not> crop_in_plane crop width height p x))
        | Inr dest' \<Rightarrow> dest' = dest + ?A + ?T \<and>
            (\<exists>xs. list_all2 S planes xs \<and> list_all2 (crop_in_plane crop width height) planes xs \<and>
               mem_read (cx_mem s') (output + (dest + ?A)) ?T
               = concat (map2 (crop_plane crop width height) planes xs)))"
    have "same_outside (output + dest) (?A + ?T) (cx_mem s) (cx_mem s1)"
      by (rule same_outside_widen [OF that(4)]) auto
    moreover have "same_outside (output + dest) (?A + ?T) (cx_mem s1) (cx_mem s')"
      by (rule same_outside_widen [of "output + (dest + ?A)" ?T]) (use * in auto)
    moreover have "mem_read (cx_mem s') (output + dest) ?A = crop_plane crop width height plane x"
      using same_outside_read [of "output + (dest + ?A)" ?T "cx_mem s1" "cx_mem s'" "output + dest" ?A] * that(7)
      by simp
    moreover have "mem_read (cx_mem s') (output + dest) (?A + ?T)
        = mem_read (cx_mem s') (output + dest) ?A @ mem_read (cx_mem s') (output + (dest + ?A)) ?T"
      using shm.rd_split [of "cx_mem s'" "output + dest" ?A ?T] by (simp add: add.assoc)
    ultimately show "?Q r s'"
      using * that by (auto split: sum.splits intro: same_outside_trans exI [of _ "x # _"])
  qed (use Cons.prems in auto)
  have mapped: "wp (map_plane api img plane) (\<lambda>r s'. (\<exists>m \<in> I. s' = s\<lparr>cx_media := m\<rparr>)
      \<and> (case r of None \<Rightarrow> N plane | Some x \<Rightarrow> 0 < snd (snd x) \<and> S plane x)) s"
    by (rule wp_mono [OF wp_conj [OF wp_conj [OF state_io_rel_wp [OF map_plane_media_only]
            map_plane_strides [of api img plane s]] Cons.prems(1) [of plane s]]])
      (use Cons.prems in \<open>auto simp: media_only_def split: option.splits\<close>)
  have wide: "0 < nat (drop_bit (plane_shift plane) width)"
    using Cons.prems(3) zdiv_mono1 [of 2 width 2] by (simp add: plane_shift_def drop_bit_int_def)
  have copied: "wp (normalize_rows data rs ps (drop_bit shift (crop_left crop))
            (drop_bit shift (crop_top crop)) (nat (drop_bit shift width)) output
            [0..<nat (drop_bit shift height)] dest)
          (\<lambda>a. wp (case a of
             Inl status \<Rightarrow> return (Inl status)
           | Inr destination \<Rightarrow> normalize_planes api img crop width height output planes destination) ?Q)
        (s\<lparr>cx_media := m\<rparr>)"
    if "0 < ps" "S plane (data, rs, ps)" "m \<in> I" "shift = plane_shift plane" for data rs ps m shift
  proof (rule wp_mono [OF normalize_rows_copy [OF that(1)]], use wide that in simp, intro wp_intros, goal_cases)
    case (1 r s1 a)
    have "same_outside (output + dest) (?A + ?T) (cx_mem s) (cx_mem s1)"
      by (rule same_outside_widen [of "output + dest" ?A]) (use 1 that in \<open>auto simp: plane_area_def\<close>)
    with 1 that show ?case by (auto simp: crop_in_plane_def)
  next
    case (2 r s1 a)
    then have a: "a = dest + ?A" using that by (auto simp: plane_area_def)
    show ?case
      unfolding a
      by (rule rest [of s1 "(data, rs, ps)"])
        (use 2 that in \<open>auto simp: plane_area_def crop_plane_def crop_in_plane_def\<close>)
  qed
  show ?case
    unfolding normalize_planes.simps list.map sum_list.Cons
    by (intro wp_intros, rule wp_mono [OF mapped], intro wp_intros)
      (auto simp del: list_all2_Cons1 intro!: copied)
qed


section \<open>The whole image\<close>

text \<open>For an even crop the three planes fill exactly the frame length the code computes.\<close>

lemma plane_areas:
  assumes "even width" "even height" "0 < width" "0 < height"
  shows "sum_list (map (plane_area width height) [0, 1, 2]) = nat (width * height * 3 div 2)"
proof -
  obtain a b where ab: "width = 2 * a" "height = 2 * b" using assms by (auto elim!: evenE)
  then have "0 < a" "0 < b" using assms by auto
  moreover have "2 * a * (2 * b) * 3 div 2 = 6 * (a * b)" by simp
  ultimately show ?thesis
    by (simp add: ab plane_area_def plane_shift_def drop_bit_int_def nat_mult_distrib algebra_simps)
qed

lemma unat_crop_frame_length:
  assumes "0 < width" "width < 2 ^ 31" "0 < height" "height < 2 ^ 31"
  shows "unat (crop_frame_length width height) = nat (width * height * 3 div 2)"
proof -
  have "width * height \<le> (2 ^ 31 - 1) * (2 ^ 31 - 1)"
    using assms by (intro mult_mono) auto
  then have "width * height * 3 < 2 ^ 64" by simp
  moreover have "(word_of_int width * word_of_int height * 3 :: u64) = word_of_int (width * height * 3)"
    by simp
  ultimately have "uint (word_of_int width * word_of_int height * 3 :: u64) = width * height * 3"
    using assms by (simp only: uint_word_of_int) (simp add: take_bit_int_eq_self)
  then have "unat (word_of_int width * word_of_int height * 3 :: u64) = nat (width * height * 3)"
    by (simp add: unat_eq_nat_uint)
  then show ?thesis
    using assms by (simp add: crop_frame_length_def unat_div nat_div_distrib)
qed

text \<open>
  What the code relies on: a crop rectangle is made of \<open>int32_t\<close> values whose differences
  are \<open>int32_t\<close> values again, as they are for every rectangle inside an image.
\<close>

definition crop_sane :: "crop_rect \<Rightarrow> bool" where
  "crop_sane crop \<longleftrightarrow> crop_right crop - crop_left crop < 2 ^ 31 \<and> crop_bottom crop - crop_top crop < 2 ^ 31"

definition crops_sane :: "'m media_api \<Rightarrow> bool" where
  "crops_sane api \<longleftrightarrow> (\<forall>img m. crop_sane (snd (fst (AImage_getCropRect api img m))))"

definition i420_frame :: "crop_rect \<Rightarrow> (byte list \<times> int \<times> int) list \<Rightarrow> byte list" where
  "i420_frame crop xs = concat (map2 (crop_plane crop (crop_width crop) (crop_height crop)) [0, 1, 2] xs)"

definition frame_size :: "crop_rect \<Rightarrow> nat" where
  "frame_size crop = nat (crop_width crop * crop_height crop * 3 div 2)"

text \<open>The crops \<open>normalize_image\<close> copies: positive, even, and small enough for the buffer.\<close>

definition crop_accepted :: "nat \<Rightarrow> crop_rect \<Rightarrow> bool" where
  "crop_accepted capacity crop \<longleftrightarrow> 0 < crop_width crop \<and> 0 < crop_height crop
     \<and> even (crop_width crop) \<and> even (crop_height crop) \<and> frame_size crop \<le> capacity"

lemma image_crop_media_only: "state_io_rel media_only (image_crop api img)"
  unfolding image_crop_def by (intro media_only_intros)

lemma image_crop_sane:
  assumes "crops_sane api"
  shows "wp (image_crop api img) (\<lambda>r _. \<forall>crop. r = Some crop \<longrightarrow> crop_sane crop) s"
proof -
  have "crop_sane crop" if "AImage_getCropRect api i m = ((st, crop), m')" for i m st crop m'
    using assms [unfolded crops_sane_def, rule_format, of i m] that by simp
  then show ?thesis
    unfolding image_crop_def by (intro wp_intros) (auto split: if_splits)
qed

lemma normalize_image_general:
  assumes crop: "\<And>s. cx_media s \<in> I \<Longrightarrow>
      wp (image_crop api img) (\<lambda>r s'. cx_media s' \<in> I \<and> (case r of None \<Rightarrow> X | Some crop \<Rightarrow> crop_sane crop \<and> C crop)) s"
    and plane: "\<And>p s. p \<in> set [0, 1, 2] \<Longrightarrow> cx_media s \<in> I \<Longrightarrow>
      wp (map_plane api img p) (\<lambda>r s'. cx_media s' \<in> I \<and> (case r of None \<Rightarrow> N p | Some x \<Rightarrow> S p x)) s"
    and I: "cx_media s \<in> I"
  shows "wp (normalize_image api img output capacity)
    (\<lambda>(status, len) s'. cx_session s' = cx_session s \<and> cx_error_size s' = cx_error_size s \<and>
       same_outside output capacity (cx_mem s) (cx_mem s') \<and> len \<le> capacity \<and>
       (status = DSCW_CODEC_ERROR_UNSUPPORTED \<and> X
        \<or> (\<exists>crop. C crop \<and>
             (status = DSCW_CODEC_ERROR_LIMIT \<and> \<not> crop_accepted capacity crop
              \<or> crop_accepted capacity crop \<and>
                (status = DSCW_CODEC_ERROR_CODEC \<and> (\<exists>p \<in> set [0, 1, 2]. N p \<or> (\<exists>x. S p x \<and> \<not> crop_in_plane crop (crop_width crop) (crop_height crop) p x))
                 \<or> status = DSCW_CODEC_OK \<and> len = frame_size crop \<and>
                   (\<exists>xs. list_all2 S [0, 1, 2] xs \<and> list_all2 (crop_in_plane crop (crop_width crop) (crop_height crop)) [0, 1, 2] xs
                     \<and> mem_read (cx_mem s') output len = i420_frame crop xs)))))) s"
    (is "wp _ ?Q s")
proof -
  define Q where "Q = ?Q"
  have crops: "wp (image_crop api img) (\<lambda>r s'. (\<exists>m \<in> I. s' = s\<lparr>cx_media := m\<rparr>)
      \<and> (case r of None \<Rightarrow> X | Some crop \<Rightarrow> crop_sane crop \<and> C crop)) s"
    by (rule wp_mono [OF wp_conj [OF state_io_rel_wp [OF image_crop_media_only] crop [of s]]])
      (use I in \<open>auto simp: media_only_def\<close>)
  have planes: "wp (normalize_planes api img crop width height output [0, 1, 2] 0)
      (\<lambda>copied. wp (return (case copied of Inl status \<Rightarrow> (status, 0) | Inr destination \<Rightarrow> (DSCW_CODEC_OK, destination))) Q)
      (s\<lparr>cx_media := m\<rparr>)"
    if "crop_accepted capacity crop" "C crop" "m \<in> I" "width = crop_width crop" "height = crop_height crop"
    for crop m width height
  proof (rule wp_mono [OF normalize_planes_copy [where I = I and S = S and N = N]], goal_cases)
    case (1 p s)
    then show ?case using plane [of p s] by auto
  next
    case 3
    then show ?case using that by (auto simp: crop_accepted_def elim!: evenE)
  next
    case (4 r s')
    have area: "sum_list (map (plane_area width height) [0, 1, 2]) = frame_size crop"
      unfolding frame_size_def that(4,5) by (rule plane_areas) (use that(1) in \<open>auto simp: crop_accepted_def\<close>)
    note post = 4 [unfolded area]
    then have "same_outside output capacity (cx_mem s) (cx_mem s')"
      using that(1) by (auto simp: crop_accepted_def elim!: same_outside_widen)
    moreover have "frame_size crop \<le> capacity"
      using that(1) by (simp add: crop_accepted_def)
    ultimately show ?case
      using post that by (cases r) (auto simp del: set_simps simp: wp_simps i420_frame_def Q_def
          simp flip: One_nat_def intro!: exI [of _ crop])
  qed (use that in auto)
  have limits: "crop_accepted capacity crop \<longleftrightarrow> \<not> (crop_width crop \<le> 0 \<or> crop_height crop \<le> 0
      \<or> odd (crop_width crop) \<or> odd (crop_height crop)
      \<or> unat (crop_frame_length (crop_width crop) (crop_height crop)) > capacity)"
    if "crop_sane crop" for crop
    using that unat_crop_frame_length [of "crop_width crop" "crop_height crop"]
    by (auto simp: crop_accepted_def frame_size_def crop_sane_def crop_width_def crop_height_def)
  have "wp (normalize_image api img output capacity) Q s"
    unfolding normalize_image_def
    apply (intro wp_intros, rule wp_mono [OF crops], intro wp_intros)
    subgoal by (auto simp: Q_def)
    subgoal for a s' crop width height
      by (auto simp: Q_def limits)
    subgoal for a s' crop width height
      by (auto simp: limits simp del: normalize_planes.simps One_nat_def status_defs intro!: planes)
    done
  then show ?thesis by (simp only: Q_def)
qed


text \<open>The library's side of a successful copy: queries that answer and do not change its state.\<close>

definition image_readable ::
  "'m media_api \<Rightarrow> handle \<Rightarrow> 'm \<Rightarrow> crop_rect \<Rightarrow> (nat \<Rightarrow> byte list \<times> int \<times> int) \<Rightarrow> bool" where
  "image_readable api img m crop P \<longleftrightarrow>
     AImage_getFormat api img m = ((AMEDIA_OK, AIMAGE_FORMAT_YUV_420_888), m) \<and>
     AImage_getNumberOfPlanes api img m = ((AMEDIA_OK, 3), m) \<and>
     AImage_getCropRect api img m = ((AMEDIA_OK, crop), m) \<and>
     (\<forall>p \<in> {0, 1, 2}. AImage_getPlaneData api img p m = ((AMEDIA_OK, Some (fst (P p))), m) \<and>
        AImage_getPlaneRowStride api img p m = ((AMEDIA_OK, fst (snd (P p))), m) \<and>
        AImage_getPlanePixelStride api img p m = ((AMEDIA_OK, snd (snd (P p))), m) \<and>
        fst (P p) \<noteq> [] \<and> 0 < fst (snd (P p)) \<and> 0 < snd (snd (P p)))"

lemma normalize_image_frame:
  assumes "crops_sane api"
  shows "wp (normalize_image api img output capacity)
    (\<lambda>(status, len) s'. cx_session s' = cx_session s \<and> cx_error_size s' = cx_error_size s \<and>
       same_outside output capacity (cx_mem s) (cx_mem s') \<and> len \<le> capacity \<and>
       status \<in> {DSCW_CODEC_OK, DSCW_CODEC_ERROR_UNSUPPORTED, DSCW_CODEC_ERROR_LIMIT, DSCW_CODEC_ERROR_CODEC}) s"
proof -
  have c: "wp (image_crop api img) (\<lambda>r s'. cx_media s' \<in> UNIV
      \<and> (case r of None \<Rightarrow> True | Some crop \<Rightarrow> crop_sane crop \<and> True)) s" for s
    by (rule wp_mono [OF image_crop_sane [OF assms]]) (auto split: option.splits)
  have m: "wp (map_plane api img p) (\<lambda>r s'. cx_media s' \<in> UNIV
      \<and> (case r of None \<Rightarrow> True | Some x \<Rightarrow> True)) s" for p s
    by (auto simp: wp_run split: option.splits)
  show ?thesis
    by (rule wp_mono [OF normalize_image_general [where I = UNIV and X = True and C = "\<lambda>_. True"
            and N = "\<lambda>_. True" and S = "\<lambda>_ _. True", OF c m]])
      auto
qed

lemma image_readable_crop:
  "image_readable api img m crop P \<Longrightarrow> cx_media s = m \<Longrightarrow>
   wp (image_crop api img) (\<lambda>r s'. cx_media s' = m \<and> r = Some crop) s"
  by (auto simp: image_crop_def image_readable_def wp_simps)

lemma image_readable_plane:
  assumes "image_readable api img m crop P" "cx_media s = m" "p \<in> {0, 1, 2}"
  shows "wp (map_plane api img p) (\<lambda>r s'. cx_media s' = m \<and> r = Some (P p)) s"
proof -
  have "AImage_getPlaneData api img p m = ((AMEDIA_OK, Some (fst (P p))), m)"
    "AImage_getPlaneRowStride api img p m = ((AMEDIA_OK, fst (snd (P p))), m)"
    "AImage_getPlanePixelStride api img p m = ((AMEDIA_OK, snd (snd (P p))), m)"
    "fst (P p) \<noteq> []" "0 < fst (snd (P p))" "0 < snd (snd (P p))"
    using assms(1,3) unfolding image_readable_def by blast+
  then show ?thesis
    using assms(2) by (simp add: map_plane_def wp_simps)
qed

lemma normalize_image_exact:
  assumes readable: "image_readable api img (cx_media s) crop P" and "crop_sane crop"
    and accepted: "crop_accepted capacity crop"
    and inside: "\<forall>p \<in> {0, 1, 2}. crop_in_plane crop (crop_width crop) (crop_height crop) p (P p)"
  shows "wp (normalize_image api img output capacity)
    (\<lambda>(status, len) s'. status = DSCW_CODEC_OK \<and> len = frame_size crop \<and>
       same_outside output capacity (cx_mem s) (cx_mem s') \<and>
       mem_read (cx_mem s') output len = i420_frame crop (map P [0, 1, 2])) s"
proof -
  have c: "wp (image_crop api img) (\<lambda>r s'. cx_media s' \<in> {cx_media s}
      \<and> (case r of None \<Rightarrow> False | Some c \<Rightarrow> crop_sane c \<and> c = crop)) s1"
    if "cx_media s1 \<in> {cx_media s}" for s1
    by (rule wp_mono [OF image_readable_crop [OF readable]]) (use that assms in auto)
  have m: "wp (map_plane api img p) (\<lambda>r s'. cx_media s' \<in> {cx_media s}
      \<and> (case r of None \<Rightarrow> False | Some x \<Rightarrow> x = P p)) s1"
    if "p \<in> set [0, 1, 2]" "cx_media s1 \<in> {cx_media s}" for p s1
    by (rule wp_mono [OF image_readable_plane [OF readable]]) (use that in auto)
  have eq: "xs = [P 0, P (Suc 0), P 2]" if "list_all2 (\<lambda>p x. x = P p) [0, Suc 0, 2] xs" for xs
    using that by (auto simp: list_all2_Cons1)
  show ?thesis
    by (rule wp_mono [OF normalize_image_general [where I = "{cx_media s}" and X = False
            and C = "\<lambda>c. c = crop" and N = "\<lambda>_. False" and S = "\<lambda>p x. x = P p", OF c m]])
      (use inside accepted in \<open>auto dest!: eq\<close>)
qed

end
