(* ===== verification/Ndk_Session.thy ===== *)
theory Ndk_Session
  imports Ndk_Image
begin

text \<open>
  The operations on a live codec session (\<open>dawnshell_codec_ndk.c\<close>): queueing input and end
  of stream, pumping a transcoder, dequeueing output, flushing, key frames and statistics.
  Each is a program on the context of \<open>Ndk_Api\<close> with the result the C function returns;
  the output buffer is the window of \<open>capacity\<close> bytes at \<open>output\<close> in the mapping.
\<close>

section \<open>Input\<close>

definition buffer_eos :: "buffer_info \<Rightarrow> bool" where
  "buffer_eos info \<longleftrightarrow> bi_flags info AND BUFFER_FLAG_END_OF_STREAM \<noteq> 0"

text \<open>The loop of \<open>pump_transcoder\<close> over its attempts.\<close>

fun pump_attempts :: "'m media_api \<Rightarrow> u32 \<Rightarrow> nat list \<Rightarrow> ('m, int) ndk" where
  "pump_attempts api timeout_ms [] = return DSCW_CODEC_OK"
| "pump_attempts api timeout_ms (attempt # attempts) = do {
     signaled \<leftarrow> session_get s_encoder_eos_signaled;
     if signaled then return DSCW_CODEC_OK else do {
     decoder \<leftarrow> session_get s_decoder;
     (index, info) \<leftarrow> media (AMediaCodec_dequeueOutputBuffer api (the decoder)
                        (if attempt = 0 then int (unat timeout_ms) * 1000 else 0));
     if index = AMEDIACODEC_INFO_TRY_AGAIN_LATER then return DSCW_CODEC_OK
     else if index = AMEDIACODEC_INFO_OUTPUT_FORMAT_CHANGED
       \<or> index = AMEDIACODEC_INFO_OUTPUT_BUFFERS_CHANGED \<or> index < 0
     then pump_attempts api timeout_ms attempts
     else do {
       let render = (bi_size info > 0);
       (if render then session_set (\<lambda>s. s\<lparr>s_surface_frames := s_surface_frames s + 1\<rparr>)
        else return ());
       released \<leftarrow> media (AMediaCodec_releaseOutputBuffer api (the decoder) (nat index) render);
       if released \<noteq> AMEDIA_OK then fail ''could not render decoder output'' DSCW_CODEC_ERROR_CODEC
       else if buffer_eos info then do {
         enc \<leftarrow> session_get s_transcode_encoder;
         signal \<leftarrow> (case opt_signal_input_eos api of
                      None \<Rightarrow> return (-1)
                    | Some signal_input_eos \<Rightarrow> media (signal_input_eos (the enc)));
         if signal \<noteq> AMEDIA_OK then fail ''could not signal Surface encoder EOS'' DSCW_CODEC_ERROR_CODEC
         else do {
           session_set (\<lambda>s. s\<lparr>s_encoder_eos_signaled := True\<rparr>);
           return DSCW_CODEC_OK
         }
       } else pump_attempts api timeout_ms attempts
     } }
   }"

definition pump_transcoder :: "'m media_api \<Rightarrow> u32 \<Rightarrow> ('m, int) ndk" where
  "pump_transcoder api timeout_ms = pump_attempts api timeout_ms [0..<16]"

definition input_codec :: "dscw_codec_session \<Rightarrow> handle" where
  "input_codec s = the (if s_transcoder s then s_decoder s else s_codec s)"

definition config_flag :: "u32 \<Rightarrow> bool" where
  "config_flag flags \<longleftrightarrow> flags AND BUFFER_FLAG_CODEC_CONFIG \<noteq> 0"

text \<open>The counters after an accepted input record.\<close>

definition count_input :: "nat \<Rightarrow> u64 \<Rightarrow> u32 \<Rightarrow> dscw_codec_session \<Rightarrow> dscw_codec_session" where
  "count_input len pts flags s =
     (let s = s\<lparr>s_input_records := s_input_records s + 1, s_input_bytes := s_input_bytes s + of_nat len\<rparr>
      in if config_flag flags then s
         else let s = s\<lparr>s_input_frames := s_input_frames s + 1\<rparr>
              in if s_encoder s \<and> \<not> s_transcoder s
                 then s\<lparr>s_have_encoder_pts := True, s_last_encoder_pts := pts\<rparr> else s)"

text \<open>\<open>pumping\<close>: the transcoder's pump where the code runs it, then the rest.\<close>

definition pumping :: "'m media_api \<Rightarrow> ('m, int) ndk \<Rightarrow> ('m, int) ndk" where
  "pumping api rest = do {
     transcoder \<leftarrow> session_get s_transcoder;
     pumped \<leftarrow> (if transcoder then pump_transcoder api 0 else return DSCW_CODEC_OK);
     if pumped \<noteq> DSCW_CODEC_OK then return pumped else rest
   }"

definition queue_record :: "'m media_api \<Rightarrow> byte list \<Rightarrow> u64 \<Rightarrow> u32 \<Rightarrow> ('m, int) ndk" where
  "queue_record api data pts flags = do {
     codec \<leftarrow> session_get input_codec;
     index \<leftarrow> media (AMediaCodec_dequeueInputBuffer api codec 100000);
     if index < 0 then return DSCW_CODEC_AGAIN
     else do {
       destination \<leftarrow> media (AMediaCodec_getInputBuffer api codec (nat index));
       if (case destination of None \<Rightarrow> True | Some capacity \<Rightarrow> length data > capacity) then do {
         media (AMediaCodec_queueInputBuffer api codec (nat index) 0 pts 0);
         fail ''input packet exceeds MediaCodec buffer capacity'' DSCW_CODEC_ERROR_LIMIT
       } else do {
         media_do (input_buffer_store api codec (nat index) data);
         queued \<leftarrow> media (AMediaCodec_queueInputBuffer api codec (nat index) (length data) pts
                            (flags AND BUFFER_FLAG_CODEC_CONFIG));
         if queued \<noteq> AMEDIA_OK
         then fail (''AMediaCodec_queueInputBuffer failed: '' @ dec_int queued) DSCW_CODEC_ERROR_CODEC
         else do {
           session_set (count_input (length data) pts flags);
           pumping api (return DSCW_CODEC_OK)
         }
       }
     }
   }"

definition queue_internal :: "'m media_api \<Rightarrow> byte list \<Rightarrow> u64 \<Rightarrow> u32 \<Rightarrow> ('m, int) ndk" where
  "queue_internal api data pts flags = do {
     session \<leftarrow> gets cx_session;
     (case session of
        None \<Rightarrow> fail ''codec input is closed after EOS'' DSCW_CODEC_ERROR_SESSION
      | Some session \<Rightarrow>
          if s_input_eos session
          then fail ''codec input is closed after EOS'' DSCW_CODEC_ERROR_SESSION
          else if length data = 0 \<or> length data > DSCW_MAX_PAYLOAD - 16
            \<or> flags AND NOT BUFFER_FLAG_CODEC_CONFIG \<noteq> 0
          then fail ''invalid codec input record'' DSCW_CODEC_ERROR_PROTOCOL
          else if s_encoder session \<and> \<not> s_transcoder session \<and> \<not> config_flag flags
            \<and> s_have_encoder_pts session \<and> pts \<le> s_last_encoder_pts session
          then fail ''encoder frame PTS must increase monotonically'' DSCW_CODEC_ERROR_PROTOCOL
          else pumping api (queue_record api data pts flags))
   }"

text \<open>The tail that \<open>dscw_codec_queue\<close> and \<open>dscw_codec_dequeue\<close> share: latency, then the
  count of retries and errors.\<close>

definition account ::
  "'m media_api \<Rightarrow> u64 \<Rightarrow> ((latency_counters \<Rightarrow> latency_counters) \<Rightarrow> dscw_codec_session \<Rightarrow> dscw_codec_session)
   \<Rightarrow> (dscw_codec_session \<Rightarrow> dscw_codec_session) \<Rightarrow> int \<Rightarrow> ('m, unit) ndk" where
  "account api started latency again result = do {
     now \<leftarrow> monotonic_ns api;
     session_set (latency (record_latency now started));
     (if result = DSCW_CODEC_AGAIN then session_set again
      else if result < DSCW_CODEC_OK then session_set (\<lambda>s. s\<lparr>s_errors := s_errors s + 1\<rparr>)
      else return ())
   }"

definition latency_input where "latency_input = s_input_latency_update"
definition latency_output where "latency_output = s_output_latency_update"

definition again_input :: "dscw_codec_session \<Rightarrow> dscw_codec_session" where
  "again_input s = s\<lparr>s_input_again := s_input_again s + 1\<rparr>"

definition again_output :: "dscw_codec_session \<Rightarrow> dscw_codec_session" where
  "again_output s = s\<lparr>s_output_again := s_output_again s + 1\<rparr>"

definition dscw_codec_queue :: "'m media_api \<Rightarrow> byte list \<Rightarrow> u64 \<Rightarrow> u32 \<Rightarrow> ('m, int) ndk" where
  "dscw_codec_queue api data pts flags = do {
     started \<leftarrow> monotonic_ns api;
     result \<leftarrow> queue_internal api data pts flags;
     session \<leftarrow> gets cx_session;
     (if session \<noteq> None then account api started latency_input again_input result else return ());
     return result
   }"

definition dscw_codec_queue_eos :: "'m media_api \<Rightarrow> u64 \<Rightarrow> ('m, int) ndk" where
  "dscw_codec_queue_eos api pts = do {
     started \<leftarrow> monotonic_ns api;
     session \<leftarrow> gets cx_session;
     if (case session of None \<Rightarrow> True | Some s \<Rightarrow> s_input_eos s) then do {
       set_error ''codec EOS was already queued'';
       (if session \<noteq> None then session_set (\<lambda>s. s\<lparr>s_errors := s_errors s + 1\<rparr>) else return ());
       return DSCW_CODEC_ERROR_SESSION
     } else pumping api (do {
       codec \<leftarrow> session_get input_codec;
       index \<leftarrow> media (AMediaCodec_dequeueInputBuffer api codec 100000);
       if index < 0 then do {
         session_set again_input;
         now \<leftarrow> monotonic_ns api;
         session_set (latency_input (record_latency now started));
         return DSCW_CODEC_AGAIN
       } else do {
         queued \<leftarrow> media (AMediaCodec_queueInputBuffer api codec (nat index) 0 pts
                            BUFFER_FLAG_END_OF_STREAM);
         now \<leftarrow> monotonic_ns api;
         session_set (latency_input (record_latency now started));
         if queued \<noteq> AMEDIA_OK then do {
           session_set (\<lambda>s. s\<lparr>s_errors := s_errors s + 1\<rparr>);
           fail (''could not queue codec EOS: '' @ dec_int queued) DSCW_CODEC_ERROR_CODEC
         } else do {
           session_set (\<lambda>s. s\<lparr>s_input_eos := True, s_input_eos_count := s_input_eos_count s + 1\<rparr>);
           transcoder \<leftarrow> session_get s_transcoder;
           if transcoder then pump_transcoder api 0 else return DSCW_CODEC_OK
         }
       }
     })
   }"

section \<open>Output\<close>

text \<open>\<open>AMediaFormat_getInt32\<close> leaves the variable as it was when the key is absent.\<close>

definition format_int :: "'m media_api \<Rightarrow> handle \<Rightarrow> string \<Rightarrow> int \<Rightarrow> ('m, int) ndk" where
  "format_int api f key otherwise = do {
     v \<leftarrow> media (AMediaFormat_getInt32 api f key);
     return (case v of None \<Rightarrow> otherwise | Some v \<Rightarrow> v)
   }"

definition format_fields ::
  "'m media_api \<Rightarrow> handle option \<Rightarrow> int \<Rightarrow> int \<Rightarrow> ('m, int \<times> int \<times> int \<times> int) ndk" where
  "format_fields api format width height =
     (case format of
        None \<Rightarrow> return (width, height, width, height)
      | Some f \<Rightarrow> do {
          w \<leftarrow> format_int api f ''width'' width;
          h \<leftarrow> format_int api f ''height'' height;
          stride \<leftarrow> format_int api f ''stride'' width;
          slice \<leftarrow> format_int api f ''slice-height'' height;
          media_do (AMediaFormat_delete api f);
          return (w, h, stride, slice)
        })"

definition format_record :: "'m media_api \<Rightarrow> handle \<Rightarrow> nat \<Rightarrow> nat \<Rightarrow> ('m, int) ndk" where
  "format_record api codec output capacity =
     (if capacity < 20 then return DSCW_CODEC_ERROR_LIMIT
      else do {
        format \<leftarrow> media (AMediaCodec_getOutputFormat api codec);
        width \<leftarrow> session_get (i32_of_u32 \<circ> s_width);
        height \<leftarrow> session_get (i32_of_u32 \<circ> s_height);
        (width, height, stride, slice_height) \<leftarrow> format_fields api format width height;
        bitstream \<leftarrow> session_get (\<lambda>s. s_encoder s \<or> s_transcoder s);
        memory_set (put_u32 output (u32_of_i32 width));
        memory_set (put_u32 (output + 4) (u32_of_i32 height));
        memory_set (put_u32 (output + 8) (u32_of_i32 stride));
        memory_set (put_u32 (output + 12) (u32_of_i32 slice_height));
        memory_set (put_u32 (output + 16)
                      (if bitstream then PIXEL_FORMAT_BITSTREAM else PIXEL_FORMAT_I420));
        return 20
      })"

text \<open>The 16-byte record header in front of every output record.\<close>

definition put_record :: "nat \<Rightarrow> u64 \<Rightarrow> u32 \<Rightarrow> u32 \<Rightarrow> mem \<Rightarrow> mem" where
  "put_record output pts flags len m =
     put_u32 (output + 12) len (put_u32 (output + 8) flags (put_u64 output pts m))"

definition output_pending_image ::
  "'m media_api \<Rightarrow> u32 \<Rightarrow> nat \<Rightarrow> nat \<Rightarrow> ('m, int \<times> nat) ndk" where
  "output_pending_image api timeout_ms output capacity = do {
     (acquired, img) \<leftarrow> acquire_image api timeout_ms;
     if acquired \<noteq> DSCW_CODEC_OK then return (acquired, 0)
     else do {
       (normalized, image_length) \<leftarrow> normalize_image api (the img) (output + 16)
          (if capacity \<ge> 16 then capacity - 16 else 0);
       media_do (AImage_delete api (the img));
       if normalized \<noteq> DSCW_CODEC_OK then return (normalized, 0)
       else do {
         pts \<leftarrow> session_get s_pending_image_pts;
         flags \<leftarrow> session_get s_pending_image_flags;
         memory_set (put_record output pts flags (of_nat image_length));
         session_set (\<lambda>s. s\<lparr>s_pending_image := False,
           s_output_records := s_output_records s + 1,
           s_output_frames := s_output_frames s + 1,
           s_output_bytes := s_output_bytes s + of_nat image_length,
           s_cpu_yuv_frames := s_cpu_yuv_frames s + 1\<rparr>);
         return (DSCW_CODEC_OK, 16 + image_length)
       }
     }
   }"

text \<open>
  An output buffer of the codec: \<open>(uint64_t)info.size + 16u\<close> in C, so that a negative size
  is far above every capacity unless it lies above \<open>-17\<close>.
\<close>

definition record_length :: "buffer_info \<Rightarrow> nat" where
  "record_length info = unat (word_of_int (bi_size info) + 16 :: u64)"

definition count_output :: "buffer_info \<Rightarrow> dscw_codec_session \<Rightarrow> dscw_codec_session" where
  "count_output info s =
     (let s = (if bi_size info > 0
               then s\<lparr>s_output_records := s_output_records s + 1,
                      s_output_bytes := s_output_bytes s + word_of_int (bi_size info),
                      s_output_frames := (if config_flag (bi_flags info) then s_output_frames s
                                          else s_output_frames s + 1)\<rparr>
               else s)
      in if buffer_eos info then s\<lparr>s_output_eos_count := s_output_eos_count s + 1\<rparr> else s)"

definition copy_output ::
  "'m media_api \<Rightarrow> handle \<Rightarrow> nat \<Rightarrow> buffer_info \<Rightarrow> nat \<Rightarrow> nat \<Rightarrow> ('m, int \<times> nat) ndk" where
  "copy_output api codec index info output capacity =
     (if record_length info > capacity \<or> bi_offset info < 0 then do {
        media (AMediaCodec_releaseOutputBuffer api codec index False);
        set_error ''codec output exceeds shared slot'';
        return (DSCW_CODEC_ERROR_LIMIT, 0)
      } else do {
        source \<leftarrow> media (AMediaCodec_getOutputBuffer api codec index);
        if bi_size info > 0 \<and> (case source of None \<Rightarrow> True
             | Some bytes \<Rightarrow> nat (bi_offset info) + nat (bi_size info) > length bytes) then do {
          media (AMediaCodec_releaseOutputBuffer api codec index False);
          set_error ''MediaCodec output buffer is invalid'';
          return (DSCW_CODEC_ERROR_CODEC, 0)
        } else do {
          memory_set (put_record output (word_of_int (bi_presentationTimeUs info)) (bi_flags info)
                        (u32_of_i32 (bi_size info)));
          (if bi_size info > 0
           then memory_set (\<lambda>m. mem_write m (output + 16)
                  (take (nat (bi_size info)) (drop (nat (bi_offset info)) (the source))))
           else return ());
          media (AMediaCodec_releaseOutputBuffer api codec index False);
          session_set (count_output info);
          return (DSCW_CODEC_OK, record_length info)
        }
      })"

text \<open>The loop of \<open>dequeue_internal\<close> over its three attempts.\<close>

fun dequeue_attempts ::
  "'m media_api \<Rightarrow> handle \<Rightarrow> u32 \<Rightarrow> nat \<Rightarrow> nat \<Rightarrow> nat \<Rightarrow> ('m, int \<times> nat) ndk" where
  "dequeue_attempts api codec timeout_ms output capacity 0 = return (DSCW_CODEC_AGAIN, 0)"
| "dequeue_attempts api codec timeout_ms output capacity (Suc attempts) = do {
     (index, info) \<leftarrow> media (AMediaCodec_dequeueOutputBuffer api codec (int (unat timeout_ms) * 1000));
     if index = AMEDIACODEC_INFO_TRY_AGAIN_LATER then return (DSCW_CODEC_AGAIN, 0)
     else if index = AMEDIACODEC_INFO_OUTPUT_FORMAT_CHANGED then do {
       len \<leftarrow> format_record api codec output capacity;
       if len < 0 then do {
         set_error ''output format exceeds limit'';
         return (len, 0)
       } else do {
         session_set (\<lambda>s. s\<lparr>s_format_changes := s_format_changes s + 1\<rparr>);
         return (DSCW_CODEC_FORMAT_CHANGED, nat len)
       }
     } else if index = AMEDIACODEC_INFO_OUTPUT_BUFFERS_CHANGED \<or> index < 0
     then dequeue_attempts api codec timeout_ms output capacity attempts
     else do {
       decoder_image \<leftarrow> session_get (\<lambda>s. \<not> s_encoder s \<and> \<not> s_transcoder s);
       if decoder_image \<and> bi_size info > 0 then do {
         session_set (\<lambda>s. s\<lparr>s_pending_image := True,
           s_pending_image_pts := word_of_int (bi_presentationTimeUs info),
           s_pending_image_flags := bi_flags info\<rparr>);
         released \<leftarrow> media (AMediaCodec_releaseOutputBuffer api codec (nat index) True);
         if released \<noteq> AMEDIA_OK then do {
           session_set (\<lambda>s. s\<lparr>s_pending_image := False\<rparr>);
           set_error ''could not render decoder image'';
           return (DSCW_CODEC_ERROR_CODEC, 0)
         } else output_pending_image api timeout_ms output capacity
       } else copy_output api codec (nat index) info output capacity
     }
   }"

definition dequeue_internal ::
  "'m media_api \<Rightarrow> u32 \<Rightarrow> nat \<Rightarrow> nat \<Rightarrow> ('m, int \<times> nat) ndk" where
  "dequeue_internal api timeout_ms output capacity = do {
     session \<leftarrow> gets cx_session;
     (case session of
        None \<Rightarrow> do {
          set_error ''invalid codec output buffer'';
          return (DSCW_CODEC_ERROR_PROTOCOL, 0)
        }
      | Some session \<Rightarrow>
          if capacity < 20 then do {
            set_error ''invalid codec output buffer'';
            return (DSCW_CODEC_ERROR_PROTOCOL, 0)
          } else if s_pending_image session
          then output_pending_image api timeout_ms output capacity
          else do {
            pumped \<leftarrow> (if s_transcoder session then pump_transcoder api timeout_ms
                       else return DSCW_CODEC_OK);
            if pumped \<noteq> DSCW_CODEC_OK then return (pumped, 0)
            else dequeue_attempts api
                   (the (if s_transcoder session then s_transcode_encoder session else s_codec session))
                   timeout_ms output capacity 3
          })
   }"

definition dscw_codec_dequeue ::
  "'m media_api \<Rightarrow> u32 \<Rightarrow> nat \<Rightarrow> nat \<Rightarrow> ('m, int \<times> nat) ndk" where
  "dscw_codec_dequeue api timeout_ms output capacity = do {
     started \<leftarrow> monotonic_ns api;
     (result, output_length) \<leftarrow> dequeue_internal api timeout_ms output capacity;
     session \<leftarrow> gets cx_session;
     (if session \<noteq> None then account api started latency_output again_output result else return ());
     return (result, output_length)
   }"

section \<open>Flush, key frames, statistics\<close>

fun drain_loop :: "'m media_api \<Rightarrow> handle \<Rightarrow> nat \<Rightarrow> ('m, unit) ndk" where
  "drain_loop api reader 0 = return ()"
| "drain_loop api reader (Suc fuel) = do {
     (status, img) \<leftarrow> media (AImageReader_acquireNextImage api reader);
     (case img of
        None \<Rightarrow> return ()
      | Some i \<Rightarrow> if status \<noteq> AMEDIA_OK then return ()
                  else do { media_do (AImage_delete api i); drain_loop api reader fuel })
   }"

definition drain_images :: "'m media_api \<Rightarrow> handle option \<Rightarrow> ('m, unit) ndk" where
  "drain_images api reader =
     (case reader of None \<Rightarrow> return () | Some r \<Rightarrow> drain_loop api r (loop_fuel api))"

definition dscw_codec_flush :: "'m media_api \<Rightarrow> ('m, int) ndk" where
  "dscw_codec_flush api = do {
     session \<leftarrow> gets cx_session;
     (case session of
        None \<Rightarrow> return DSCW_CODEC_ERROR_SESSION
      | Some session \<Rightarrow> do {
          status \<leftarrow> (if s_transcoder session then do {
                       status \<leftarrow> media (AMediaCodec_flush api (the (s_decoder session)));
                       if status = AMEDIA_OK
                       then media (AMediaCodec_flush api (the (s_transcode_encoder session)))
                       else return status
                     } else media (AMediaCodec_flush api (the (s_codec session))));
          if status \<noteq> AMEDIA_OK then do {
            session_set (\<lambda>s. s\<lparr>s_errors := s_errors s + 1\<rparr>);
            fail (''AMediaCodec_flush failed: '' @ dec_int status) DSCW_CODEC_ERROR_CODEC
          } else do {
            drain_images api (s_image_reader session);
            session_set (\<lambda>s. s\<lparr>s_input_eos := False, s_encoder_eos_signaled := False,
              s_pending_image := False, s_have_encoder_pts := False\<rparr>);
            return DSCW_CODEC_OK
          }
        })
   }"

definition dscw_codec_request_keyframe :: "'m media_api \<Rightarrow> ('m, int) ndk" where
  "dscw_codec_request_keyframe api = do {
     session \<leftarrow> gets cx_session;
     if (case session of None \<Rightarrow> True | Some s \<Rightarrow> \<not> s_encoder s \<and> \<not> s_transcoder s)
     then fail ''keyframe request requires an encoder'' DSCW_CODEC_ERROR_UNSUPPORTED
     else (case opt_set_parameters api of
             None \<Rightarrow> fail ''keyframe request requires Android API 26 or newer''
                      DSCW_CODEC_ERROR_UNSUPPORTED
           | Some set_parameters \<Rightarrow> do {
               parameters \<leftarrow> media (AMediaFormat_new api);
               (case parameters of
                  None \<Rightarrow> return DSCW_CODEC_ERROR_IO
                | Some p \<Rightarrow> do {
                    media_do (AMediaFormat_setInt32 api p ''request-sync'' 0);
                    codec \<leftarrow> session_get (\<lambda>s. the (if s_transcoder s then s_transcode_encoder s
                                                  else s_codec s));
                    status \<leftarrow> media (set_parameters codec p);
                    media_do (AMediaFormat_delete api p);
                    if status \<noteq> AMEDIA_OK then do {
                      session_set (\<lambda>s. s\<lparr>s_errors := s_errors s + 1\<rparr>);
                      fail (''AMediaCodec_setParameters failed: '' @ dec_int status)
                        DSCW_CODEC_ERROR_CODEC
                    } else return DSCW_CODEC_OK
                  })
             })
   }"

definition json_u64 :: "string \<Rightarrow> u64 \<Rightarrow> string" where
  "json_u64 key v = '',\"'' @ key @ ''\":'' @ dec (unat v)"

definition latency_average :: "latency_counters \<Rightarrow> u64" where
  "latency_average c = (if samples c = 0 then 0 else total_us c div samples c)"

definition statistics_text :: "dscw_codec_session \<Rightarrow> u64 \<Rightarrow> u64 \<Rightarrow> u64 \<Rightarrow> string" where
  "statistics_text s session_id uptime_ms cpu_ms =
     ''{\"session_id\":'' @ dec (unat session_id)
     @ '',\"kind\":\"'' @ (if s_transcoder s then ''surface_transcoder''
          else if s_encoder s then ''bytebuffer_encoder'' else ''bytebuffer_decoder'')
     @ ''\",\"transport\":\"'' @ (if s_transcoder s then ''surface_zero_copy'' else ''bytebuffer'')
     @ ''\",\"media_transport\":\"inherited_memfd_eventfd\"''
     @ json_u64 ''input_frames'' (s_input_frames s)
     @ json_u64 ''output_frames'' (s_output_frames s)
     @ json_u64 ''surface_frames'' (s_surface_frames s)
     @ json_u64 ''cpu_yuv_frames'' (s_cpu_yuv_frames s)
     @ json_u64 ''input_records'' (s_input_records s)
     @ json_u64 ''output_records'' (s_output_records s)
     @ json_u64 ''input_bytes'' (s_input_bytes s)
     @ json_u64 ''output_bytes'' (s_output_bytes s)
     @ json_u64 ''shared_input_bytes'' (s_input_bytes s)
     @ json_u64 ''shared_output_bytes'' (s_output_bytes s)
     @ json_u64 ''input_eos'' (s_input_eos_count s)
     @ json_u64 ''output_eos'' (s_output_eos_count s)
     @ json_u64 ''input_dequeue_timeouts'' (s_input_again s)
     @ json_u64 ''output_dequeue_timeouts'' (s_output_again s)
     @ json_u64 ''errors'' (s_errors s)
     @ '',\"dropped_frames\":0''
     @ json_u64 ''uptime_ms'' uptime_ms
     @ json_u64 ''process_cpu_time_ms'' cpu_ms
     @ json_u64 ''input_call_latency_samples'' (samples (s_input_latency s))
     @ json_u64 ''input_call_latency_avg_us'' (latency_average (s_input_latency s))
     @ json_u64 ''input_call_latency_max_us'' (max_us (s_input_latency s))
     @ json_u64 ''output_call_latency_samples'' (samples (s_output_latency s))
     @ json_u64 ''output_call_latency_avg_us'' (latency_average (s_output_latency s))
     @ json_u64 ''output_call_latency_max_us'' (max_us (s_output_latency s))
     @ ''}''"

text \<open>\<open>snprintf\<close> into the output buffer stores the cut text and its terminating NUL.\<close>

definition store_text :: "nat \<Rightarrow> nat \<Rightarrow> string \<Rightarrow> mem \<Rightarrow> mem" where
  "store_text output capacity text m =
     mem_write m output (bytes_of (snd (snprintf capacity text)) @ [0])"

definition dscw_codec_statistics ::
  "'m media_api \<Rightarrow> u64 \<Rightarrow> nat \<Rightarrow> nat \<Rightarrow> ('m, int) ndk" where
  "dscw_codec_statistics api session_id output output_size = do {
     session \<leftarrow> gets cx_session;
     (case session of
        None \<Rightarrow> return (-1)
      | Some session \<Rightarrow>
          if output_size = 0 then return (-1)
          else do {
            now \<leftarrow> monotonic_ns api;
            cpu \<leftarrow> media (env_process_cpu_ms api);
            let text = statistics_text session session_id ((now - s_started_ns session) div 1000000) cpu;
            memory_set (store_text output output_size text);
            if length text \<ge> output_size then return (-1) else return (int (length text))
          })
   }"

definition dscw_codec_worker_capabilities :: string where
  "dscw_codec_worker_capabilities =
     ''{\"protocol\":1,\"worker\":\"ndk_mediacodec\",\"transport\":\"inherited_memfd_eventfd\",\"public_listener\":false,\"descriptor_transfer\":false,\"decode_output\":\"AImageReader_YUV_420_888_to_I420\",\"encode_input\":\"YUV420_ByteBuffer\",\"transcode\":\"decoder_Surface_to_encoder_Surface\",\"codecs\":[\"video/avc\",\"video/hevc\"],\"software_fallback\":false}''"



section \<open>What every operation keeps\<close>

definition config_of where
  "config_of s = (s_transcoder s, s_encoder s, (s_width s, s_height s, s_frame_rate s),
     (s_codec_name s, s_decoder_name s, s_encoder_name s),
     (s_codec s, s_image_reader s, s_decoder s, s_transcode_encoder s, s_encoder_input_surface s))"

definition session_step :: "dscw_codec_session \<Rightarrow> dscw_codec_session \<Rightarrow> bool" where
  "session_step x x' \<longleftrightarrow> config_of x' = config_of x \<and>
     (s_pending_image x' \<longrightarrow> s_pending_image x \<or> \<not> s_encoder x \<and> \<not> s_transcoder x)"

definition context_step :: "'m cx \<Rightarrow> 'm cx \<Rightarrow> bool" where
  "context_step s s' \<longleftrightarrow> cx_error_size s' = cx_error_size s \<and>
     rel_option session_step (cx_session s) (cx_session s')"

lemma session_step_refl: "session_step x x"
  by (simp add: session_step_def)

lemma session_step_trans: "session_step x y \<Longrightarrow> session_step y z \<Longrightarrow> session_step x z"
  by (auto simp: session_step_def config_of_def)

lemma session_step_ok: "session_step x x' \<Longrightarrow> session_ok x \<Longrightarrow> session_ok x'"
  by (auto simp: session_step_def session_ok_def config_of_def)

interpretation context_step: step_relation context_step
proof
  show "context_step s s" for s :: "'a cx"
    by (simp add: context_step_def option.rel_refl session_step_refl)
  show "context_step s u" if "context_step s t" "context_step t u" for s t u :: "'a cx"
    using that unfolding context_step_def
    by (metis (no_types, lifting) option.rel_sel session_step_trans)
qed

text \<open>The output window: a step of the session that stores only between \<open>off\<close> and \<open>off + n\<close>.\<close>

definition window_step :: "nat \<Rightarrow> nat \<Rightarrow> 'm cx \<Rightarrow> 'm cx \<Rightarrow> bool" where
  "window_step off n s s' \<longleftrightarrow> context_step s s' \<and> within off n s s'"

interpretation window_step: step_relation "window_step off n" for off n
  by unfold_locales
    (auto simp: window_step_def intro: context_step.R_refl within.R_refl context_step.R_trans within.R_trans)

lemma window_media [intro]:
  "state_io_rel (window_step off n) (media f)" "state_io_rel (window_step off n) (media_do g)"
  by (auto simp: state_io_rel_def media_def media_do_def window_step_def context_step_def within_def
      option.rel_refl session_step_refl Let_def split: prod.splits)

lemma window_media_only: "state_io_rel media_only p \<Longrightarrow> state_io_rel (window_step off n) p"
  unfolding state_io_rel_def media_only_def window_step_def context_step_def within_def
  by (metis cx.select_convs(1,3,4) cx.surjective cx.update_convs(5) option.rel_refl session_step_refl same_outside_refl)

lemma window_session_set:
  "(\<And>x. session_step x (f x)) \<Longrightarrow> state_io_rel (window_step off n) (session_set f)"
  unfolding session_set_def
  by (rule window_step.io_modify)
    (auto simp: window_step_def context_step_def within_def rel_option_iff split: option.splits)

lemma window_session_get [intro]: "state_io_rel (window_step off n) (session_get f)"
  by (simp add: session_get_def window_step.io_gets)

lemma window_error [intro]:
  "state_io_rel (window_step off n) (set_error text)"
  "state_io_rel (window_step off n) (fail text status)"
proof -
  show e: "state_io_rel (window_step off n) (set_error text)"
    unfolding set_error_def
    by (rule window_step.io_modify)
      (auto simp: window_step_def context_step_def within_def option.rel_refl session_step_refl)
  show "state_io_rel (window_step off n) (fail text status)"
    unfolding fail_def by (intro window_step.io_bind window_step.io_return e)
qed

lemma window_memory_set:
  "(\<And>m. same_outside off n m (f m)) \<Longrightarrow> state_io_rel (window_step off n) (memory_set f)"
  unfolding memory_set_def
  by (rule window_step.io_modify)
    (auto simp: window_step_def context_step_def within_def option.rel_refl session_step_refl)

lemmas window_intros = window_step.io_rules window_media window_session_set window_session_get
  window_error window_memory_set

lemmas session_step_simps = session_step_def config_of_def

lemma pump_attempts_window: "state_io_rel (window_step off n) (pump_attempts api timeout attempts)"
proof (induction attempts)
  case (Cons a as)
  show ?case
    unfolding pump_attempts.simps
    by (intro window_intros Cons.IH) (simp_all add: session_step_simps)
qed (auto intro: window_intros)

lemma pump_window: "state_io_rel (window_step off n) (pump_transcoder api timeout)"
  by (simp add: pump_transcoder_def pump_attempts_window)

lemma pumping_window:
  "state_io_rel (window_step off n) rest \<Longrightarrow> state_io_rel (window_step off n) (pumping api rest)"
  unfolding pumping_def by (intro window_intros pump_window)

lemma account_window:
  "(\<And>f x. session_step x (latency f x)) \<Longrightarrow> (\<And>x. session_step x (again x)) \<Longrightarrow>
   state_io_rel (window_step off n) (account api started latency again result)"
  unfolding account_def monotonic_ns_def
  by (intro window_intros) (simp_all add: session_step_simps)

lemma count_input_step: "session_step x (count_input len pts flags x)"
  by (simp add: count_input_def session_step_simps Let_def)

lemma accounting_steps [simp]:
  "session_step x (latency_input f x)" "session_step x (latency_output f x)"
  "session_step x (again_input x)" "session_step x (again_output x)"
  by (simp_all add: session_step_simps latency_input_def latency_output_def again_input_def again_output_def)

lemma queue_window: "state_io_rel (window_step off n) (dscw_codec_queue api data pts flags)"
  unfolding dscw_codec_queue_def queue_internal_def queue_record_def monotonic_ns_def
  by (intro window_intros pumping_window account_window count_input_step accounting_steps)

lemma queue_eos_window: "state_io_rel (window_step off n) (dscw_codec_queue_eos api pts)"
  unfolding dscw_codec_queue_eos_def monotonic_ns_def
  by (intro window_intros pumping_window pump_window accounting_steps) (simp_all add: session_step_simps)

lemma drain_loop_media_only: "state_io_rel media_only (drain_loop api reader fuel)"
  by (induction fuel) (auto intro!: media_only_intros)

lemma drain_images_media_only: "state_io_rel media_only (drain_images api reader)"
  unfolding drain_images_def by (intro media_only_intros drain_loop_media_only)

lemma flush_window: "state_io_rel (window_step off n) (dscw_codec_flush api)"
  unfolding dscw_codec_flush_def
  by (intro window_intros window_media_only [OF drain_images_media_only]) (simp_all add: session_step_simps)

lemma request_keyframe_window: "state_io_rel (window_step off n) (dscw_codec_request_keyframe api)"
  unfolding dscw_codec_request_keyframe_def
  by (intro window_intros) (simp_all add: session_step_simps)

lemma store_text_window: "0 < n \<Longrightarrow> same_outside output n m (store_text output n text m)"
  unfolding store_text_def by (rule same_outside_write) (auto simp: snprintf_def)

lemma statistics_window: "state_io_rel (window_step output n) (dscw_codec_statistics api sid output n)"
  unfolding dscw_codec_statistics_def monotonic_ns_def
  by (intro window_intros store_text_window) auto



text \<open>\<open>int32_t\<close> sizes in \<open>AMediaCodecBufferInfo\<close>.\<close>

definition sizes_sane :: "'m media_api \<Rightarrow> bool" where
  "sizes_sane api \<longleftrightarrow> (\<forall>codec t m.
     - (2 ^ 31) \<le> bi_size (snd (fst (AMediaCodec_dequeueOutputBuffer api codec t m)))
     \<and> bi_size (snd (fst (AMediaCodec_dequeueOutputBuffer api codec t m))) < 2 ^ 31)"

definition library_sane :: "'m media_api \<Rightarrow> bool" where
  "library_sane api \<longleftrightarrow> crops_sane api \<and> sizes_sane api"

text \<open>
  The contract of the output side: the mapping changes only in the buffer, the length fits
  the buffer, and a record's header carries its payload length.
\<close>

definition output_ok :: "nat \<Rightarrow> nat \<Rightarrow> 'm cx \<Rightarrow> int \<times> nat \<Rightarrow> 'm cx \<Rightarrow> bool" where
  "output_ok output capacity s r s' \<longleftrightarrow>
     window_step output capacity s s' \<and> snd r \<le> capacity \<and>
     fst r \<in> {DSCW_CODEC_OK, DSCW_CODEC_AGAIN, DSCW_CODEC_FORMAT_CHANGED, DSCW_CODEC_ERROR_PROTOCOL,
       DSCW_CODEC_ERROR_UNSUPPORTED, DSCW_CODEC_ERROR_LIMIT, DSCW_CODEC_ERROR_CODEC} \<and>
     (fst r = DSCW_CODEC_OK \<longrightarrow> get_u32 (cx_mem s') (output + 12) = of_nat (snd r) - 16) \<and>
     (fst r = DSCW_CODEC_FORMAT_CHANGED \<longrightarrow> snd r = 20)"

lemma output_ok_quiet:
  "window_step output capacity s s' \<Longrightarrow> st \<in> {DSCW_CODEC_AGAIN, DSCW_CODEC_ERROR_PROTOCOL,
     DSCW_CODEC_ERROR_UNSUPPORTED, DSCW_CODEC_ERROR_LIMIT, DSCW_CODEC_ERROR_CODEC} \<Longrightarrow>
   output_ok output capacity s (st, 0) s'"
  by (auto simp: output_ok_def)

lemma output_ok_trans:
  "window_step output capacity s s1 \<Longrightarrow> output_ok output capacity s1 r s' \<Longrightarrow>
   output_ok output capacity s r s'"
  by (auto simp: output_ok_def intro: window_step.R_trans)

lemma pump_attempts_status:
  "wp (pump_attempts api timeout attempts) (\<lambda>r _. r \<in> {DSCW_CODEC_OK, DSCW_CODEC_ERROR_CODEC}) s"
proof (induction attempts arbitrary: s)
  case (Cons a as)
  show ?case unfolding pump_attempts.simps by (intro wp_intros Cons.IH) auto
qed (auto intro: wp_intros)

lemma wp_pump:
  assumes "\<And>r s'. r \<in> {DSCW_CODEC_OK, DSCW_CODEC_ERROR_CODEC} \<Longrightarrow> (\<And>off n. window_step off n s s') \<Longrightarrow> Q r s'"
  shows "wp (pump_transcoder api timeout) Q s"
  using pump_attempts_status [of api timeout "[0..<16]" s] pump_window [of _ _ api timeout] assms
  unfolding pump_transcoder_def wp_run state_io_rel_def by blast

lemma window_step_media [simp]: "window_step off n s (s1\<lparr>cx_media := m\<rparr>) = window_step off n s s1"
  by (simp add: window_step_def context_step_def within_def)

lemma window_step_error [simp]: "window_step off n s (with_error text s1) = window_step off n s s1"
  by (simp add: window_step_def context_step_def within_def)

lemma window_step_memory:
  "window_step off n s s1 \<Longrightarrow> same_outside off n (cx_mem s1) m \<Longrightarrow> window_step off n s (s1\<lparr>cx_mem := m\<rparr>)"
  by (auto simp: window_step_def context_step_def within_def intro: same_outside_trans)

lemma window_step_iff:
  "window_step off n s s' \<longleftrightarrow> cx_error_size s' = cx_error_size s \<and>
     rel_option session_step (cx_session s) (cx_session s') \<and> same_outside off n (cx_mem s) (cx_mem s')"
  by (simp add: window_step_def context_step_def within_def)

lemma rel_option_step:
  assumes "rel_option session_step a b" "\<And>x. session_step x (f x)"
  shows "rel_option session_step a (map_option f b)"
  using assms by (cases a; cases b) (auto intro: session_step_trans)

lemma put_record_window:
  "16 \<le> n \<Longrightarrow> same_outside off n m (put_record off pts flags len m)"
  unfolding put_record_def by (intro same_outside_putD same_outside_refl) auto

lemma put_record_length: "get_u32 (put_record off pts flags len m) (off + 12) = len"
  by (simp add: put_record_def mem_simps)

lemma get_u32_write_above: "a + 4 \<le> p \<Longrightarrow> get_u32 (mem_write m p bs) a = get_u32 m a"
  by (simp add: mem_simps)

lemma acquire_loop_media_only: "state_io_rel media_only (acquire_loop api reader deadline fuel)"
  unfolding monotonic_ns_def
proof (induction fuel)
  case (Suc fuel)
  then show ?case
    unfolding acquire_loop.simps monotonic_ns_def by (intro media_only_intros)
qed (auto intro: media_only_intros)

lemma acquire_loop_status:
  "wp (acquire_loop api reader deadline fuel) (\<lambda>r _. fst r \<in> {DSCW_CODEC_OK, DSCW_CODEC_AGAIN, DSCW_CODEC_ERROR_CODEC}) s"
proof (induction fuel arbitrary: s)
  case (Suc fuel)
  show ?case unfolding acquire_loop.simps monotonic_ns_def by (intro wp_intros Suc.IH) auto
qed (auto intro: wp_intros)

lemma wp_acquire:
  assumes "\<And>st img m. st \<in> {DSCW_CODEC_OK, DSCW_CODEC_AGAIN, DSCW_CODEC_ERROR_CODEC} \<Longrightarrow>
    Q (st, img) (s\<lparr>cx_media := m\<rparr>)"
  shows "wp (acquire_image api timeout) Q s"
  unfolding acquire_image_def monotonic_ns_def session_get_def
  by (intro wp_intros wp_media_only_strong [OF acquire_loop_media_only acquire_loop_status])
    (use assms in auto)

lemma window_step_same:
  "cx_session s' = cx_session s \<Longrightarrow> cx_error_size s' = cx_error_size s \<Longrightarrow>
   same_outside off n (cx_mem s) (cx_mem s') \<Longrightarrow> window_step off n s s'"
  by (simp add: window_step_def context_step_def within_def option.rel_refl session_step_refl)

lemma output_pending_image_ok:
  assumes "crops_sane api" "20 \<le> capacity"
  shows "wp (output_pending_image api timeout output capacity) (output_ok output capacity s) s"
  unfolding output_pending_image_def
proof (intro wp_intros wp_acquire, goal_cases)
  case (1 st img m a b)
  then show ?case by (auto intro!: output_ok_quiet simp: window_step.R_refl)
next
  case (2 st img m a b)
  show ?case
  proof (rule wp_mono [OF normalize_image_frame [OF assms(1)]], intro wp_intros, goal_cases)
    case (1 r s1 status len)
    then have "window_step output capacity s s1"
      using assms(2) by (intro window_step_same) (auto elim!: same_outside_widen)
    with 1 show ?case by (auto intro!: output_ok_quiet)
  next
    case (2 r s1 status len)
    then have w: "window_step output capacity s s1"
      using assms(2) by (intro window_step_same) (auto elim!: same_outside_widen)
    have len: "len \<le> capacity - 16" using 2 assms(2) by auto
    show ?case
      unfolding output_ok_def
      using w len assms(2)
      by (auto intro!: rel_option_step same_outside_trans [OF _ put_record_window]
          simp: window_step_iff session_step_simps put_record_length)
  qed
qed

lemma format_fields_media_only: "state_io_rel media_only (format_fields api f w h)"
  unfolding format_fields_def format_int_def by (intro media_only_intros)

lemma wp_format_record:
  assumes "20 \<le> capacity" "\<And>s'. window_step output capacity s s' \<Longrightarrow> Q 20 s'"
  shows "wp (format_record api codec output capacity) Q s"
  unfolding format_record_def using assms(1)
  by (intro wp_intros wp_media_only [OF format_fields_media_only])
    (auto intro!: assms(2) window_step_memory same_outside_putD same_outside_refl simp: window_step.R_refl)

lemma record_length_int: "record_length info = unat (word_of_int (bi_size info + 16) :: u64)"
proof -
  have "(word_of_int (bi_size info) + 16 :: u64) = word_of_int (bi_size info + 16)" by simp
  then show ?thesis unfolding record_length_def by (rule arg_cong)
qed

lemma record_length_pos:
  assumes "0 < bi_size info" "bi_size info < 2 ^ 31"
  shows "record_length info = nat (bi_size info) + 16"
proof -
  have "uint (word_of_int (bi_size info + 16) :: u64) = bi_size info + 16"
    using assms by (simp only: uint_word_of_int) (simp add: take_bit_int_eq_self)
  then show ?thesis
    using assms by (simp only: record_length_int unat_eq_nat_uint nat_add_distrib)
qed

lemma record_length_word: "(of_nat (record_length info) :: u32) - 16 = u32_of_i32 (bi_size info)"
proof -
  have "(of_nat (record_length info) :: u32) = ucast (word_of_int (bi_size info + 16) :: u64)"
    by (simp only: record_length_int of_nat_unat)
  also have "\<dots> = word_of_int (bi_size info + 16)"
    by (rule bit_word_eqI) (simp only: bit_simps, auto simp: possible_bit_def)
  finally show ?thesis by (simp add: u32_of_i32_def)
qed

lemma copy_output_ok:
  assumes "bi_size info < 2 ^ 31" "20 \<le> capacity" "window_step output capacity s0 s"
  shows "wp (copy_output api codec index info output capacity) (output_ok output capacity s0) s"
proof -
  have fits: "16 + nat (bi_size info) \<le> capacity"
    if "0 < bi_size info" "record_length info \<le> capacity"
    using that assms(1) by (simp add: record_length_pos)
  have copy: "same_outside output capacity m0
      (mem_write (put_record output pts flags len m) (output + 16) (take (nat (bi_size info)) bs))"
    if "same_outside output capacity m0 m" "0 < bi_size info" "record_length info \<le> capacity"
    for m0 m pts flags len bs
    by (rule same_outside_trans [OF that(1) same_outside_trans [OF put_record_window same_outside_write]])
      (use fits [OF that(2,3)] assms(2) in auto)
  have count: "session_step x (count_output info x)" for x
    by (simp add: session_step_simps count_output_def Let_def)
  show ?thesis
    unfolding copy_output_def
    apply (intro wp_intros)
       apply (auto intro!: output_ok_quiet simp: assms(3)) [2]
    unfolding output_ok_def using assms
    by (auto intro!: rel_option_step same_outside_trans [OF _ put_record_window] copy count
        simp: window_step_iff put_record_length get_u32_write_above record_length_word
        split: option.splits)
qed

lemma sizes_saneD:
  "sizes_sane api \<Longrightarrow> AMediaCodec_dequeueOutputBuffer api codec t m = ((i, info), m') \<Longrightarrow> bi_size info < 2 ^ 31"
  unfolding sizes_sane_def by (metis fst_conv snd_conv)

lemma dequeue_attempts_ok:
  assumes "library_sane api" "20 \<le> capacity"
  shows "wp (dequeue_attempts api codec timeout output capacity attempts) (output_ok output capacity s) s"
proof (induction attempts arbitrary: s)
  case 0
  then show ?case by (auto intro!: wp_intros output_ok_quiet simp: window_step.R_refl)
next
  case (Suc attempts)
  note sane = assms(1) [unfolded library_sane_def]
  have retry: "wp (dequeue_attempts api codec timeout output capacity attempts)
      (output_ok output capacity s) (s\<lparr>cx_media := m\<rparr>)" for m
    by (rule wp_mono [OF Suc.IH]) (auto elim: output_ok_trans [rotated] simp: window_step.R_refl)
  have pending: "rel_option session_step (cx_session s) (map_option (\<lambda>x. x\<lparr>s_pending_image := True,
      s_pending_image_pts := p, s_pending_image_flags := f\<rparr>) (cx_session s))"
    if "\<not> s_encoder (the (cx_session s))" "\<not> s_transcoder (the (cx_session s))" for p f
    using that by (cases "cx_session s") (auto simp: session_step_simps)
  have image: "wp (output_pending_image api timeout output capacity) (output_ok output capacity s) s1"
    if "window_step output capacity s s1" for s1
    by (rule wp_mono [OF output_pending_image_ok])
      (use sane assms(2) that in \<open>auto intro: output_ok_trans\<close>)
  show ?case
    unfolding dequeue_attempts.simps
  proof (intro wp_intros wp_format_record retry copy_output_ok assms(2), goal_cases)
    case (3 a m index info s')
    then show ?case
      using assms(2) by (auto simp: output_ok_def window_step_iff intro!: rel_option_step
          simp: session_step_simps)
  next
    case (4 a m index info aa ma)
    then show ?case
      by (auto intro!: output_ok_quiet rel_option_step pending simp: window_step_iff session_step_simps)
  next
    case (5 a m index info aa ma)
    then show ?case by (intro image) (auto simp: window_step_iff pending)
  next
    case (6 a m index info)
    then show ?case using sizes_saneD [of api codec _ "cx_media s" index info m] sane by blast
  qed (auto intro!: output_ok_quiet simp: window_step.R_refl)
qed

text \<open>The output contract of \<open>dscw_codec_dequeue\<close>.\<close>

lemma dequeue_ok:
  assumes "library_sane api"
  shows "wp (dscw_codec_dequeue api timeout output capacity) (output_ok output capacity s) s"
proof -
  have inner: "wp (dequeue_internal api timeout output capacity) (output_ok output capacity s1) s1" for s1
    unfolding dequeue_internal_def
    apply (intro wp_intros wp_pump)
    subgoal by (auto intro!: output_ok_quiet simp: window_step.R_refl)
    subgoal by (auto intro!: output_ok_quiet simp: window_step.R_refl)
    subgoal using assms by (intro output_pending_image_ok) (auto simp: library_sane_def)
    subgoal by (auto intro!: output_ok_quiet simp: window_step.R_refl)
    subgoal by (rule wp_mono [OF dequeue_attempts_ok [OF assms]]) (auto elim: output_ok_trans [rotated])
    subgoal by (auto intro!: output_ok_quiet simp: window_step.R_refl)
    subgoal by (rule dequeue_attempts_ok [OF assms]) auto
    done
  have account: "wp (account api started latency_output again_output st) (\<lambda>_. wp (return (st, len)) (output_ok output capacity s)) s1"
    if "output_ok output capacity s (st, len) s1" for st len s1 started
  proof -
    have *: "state_io_rel (keeps cx_mem) (account api started latency_output again_output st)"
      unfolding account_def monotonic_ns_def by (intro keeps.io_rules keeps_media keeps_session) auto
    have "state_io_rel (window_step output capacity) (account api started latency_output again_output st)"
      by (intro account_window) simp_all
    from wp_conj [OF state_io_rel_wp [OF this] state_io_rel_wp [OF *]] show ?thesis
      by (rule wp_mono) (use that in \<open>auto simp: wp_simps output_ok_def keeps_def intro: window_step.R_trans\<close>)
  qed
  show ?thesis
    unfolding dscw_codec_dequeue_def monotonic_ns_def
    apply (intro wp_intros)
    apply (rule wp_mono [OF inner])
    apply (intro wp_intros)
     apply (rule account)
     apply (auto simp: output_ok_def window_step_iff)
    done
qed



section \<open>Input: order, end of stream, flush\<close>

lemma wp_pumping_plain:
  "\<not> s_transcoder (the (cx_session s)) \<Longrightarrow> wp rest Q s \<Longrightarrow> wp (pumping api rest) Q s"
  unfolding pumping_def by (intro wp_intros) (auto simp: wp_simps)

text \<open>The members of a session that decide about its input, and what leaves them alone.\<close>

definition input_view where
  "input_view x = (s_transcoder x, s_encoder x, s_input_eos x, s_have_encoder_pts x,
     s_last_encoder_pts x, s_input_frames x)"

abbreviation keeps_input :: "('m, 'a) ndk \<Rightarrow> bool" where
  "keeps_input p \<equiv> state_io_rel (keeps (\<lambda>s. map_option input_view (cx_session s))) p"

lemma keeps_input_set:
  "(\<And>x. input_view (f x) = input_view x) \<Longrightarrow> keeps_input (session_set f)"
  unfolding session_set_def
  by (rule keeps.io_modify) (auto simp: keeps_def option.map_comp comp_def)

lemma account_keeps_input:
  "keeps_input (account api started latency_input again_input r)"
  "keeps_input (account api started latency_output again_output r)"
  unfolding account_def monotonic_ns_def
  by (intro keeps.io_rules keeps_media keeps_input_set;
      simp add: input_view_def latency_input_def latency_output_def again_input_def again_output_def)+

definition encoder_clock :: "dscw_codec_session \<Rightarrow> bool \<times> u64" where
  "encoder_clock x = (s_have_encoder_pts x, s_last_encoder_pts x)"

text \<open>One input record of an encoder: what an accepted record implies and what it leaves.\<close>

definition encoder_input :: "u64 \<Rightarrow> u32 \<Rightarrow> dscw_codec_session \<Rightarrow> int \<Rightarrow> dscw_codec_session \<Rightarrow> bool" where
  "encoder_input pts flags x r x' \<longleftrightarrow>
     s_encoder x' \<and> \<not> s_transcoder x' \<and> s_input_eos x' = s_input_eos x \<and>
     (if r = DSCW_CODEC_OK \<and> \<not> config_flag flags
      then \<not> s_input_eos x \<and> (s_have_encoder_pts x \<longrightarrow> s_last_encoder_pts x < pts)
           \<and> encoder_clock x' = (True, pts) \<and> s_input_frames x' = s_input_frames x + 1
      else encoder_clock x' = encoder_clock x \<and> s_input_frames x' = s_input_frames x)"

lemma queue_encoder:
  assumes "cx_session s = Some x" "s_encoder x" "\<not> s_transcoder x"
  shows "wp (dscw_codec_queue api data pts flags)
    (\<lambda>r s'. \<exists>x'. cx_session s' = Some x' \<and> encoder_input pts flags x r x') s"
proof -
  have inner: "wp (queue_internal api data pts flags)
      (\<lambda>r s'. \<exists>x'. cx_session s' = Some x' \<and> encoder_input pts flags x r x') (s\<lparr>cx_media := m\<rparr>)" for m
    unfolding queue_internal_def queue_record_def
    by (intro wp_intros wp_pumping_plain)
      (use assms in \<open>auto simp: encoder_input_def encoder_clock_def count_input_def Let_def not_le\<close>)
  have tail: "wp (account api started latency_input again_input r)
      (\<lambda>_. wp (return r) (\<lambda>r s'. \<exists>x'. cx_session s' = Some x' \<and> encoder_input pts flags x r x')) s1"
    if "cx_session s1 = Some x1" "encoder_input pts flags x r x1" for s1 x1 r started
    by (rule wp_mono [OF state_io_rel_wp [OF account_keeps_input(1)]])
      (use that in \<open>auto simp: wp_simps keeps_def encoder_input_def encoder_clock_def input_view_def split: if_splits\<close>)
  show ?thesis
    unfolding dscw_codec_queue_def monotonic_ns_def
    by (intro wp_intros, rule wp_mono [OF inner], intro wp_intros) (auto intro: tail)
qed

text \<open>A batch of input records; the presentation times of the frames that were accepted.\<close>

fun queue_all :: "'m media_api \<Rightarrow> (byte list \<times> u64 \<times> u32) list \<Rightarrow> ('m, u64 list) ndk" where
  "queue_all api [] = return []"
| "queue_all api ((data, pts, flags) # rest) = do {
     r \<leftarrow> dscw_codec_queue api data pts flags;
     accepted \<leftarrow> queue_all api rest;
     return (if r = DSCW_CODEC_OK \<and> \<not> config_flag flags then pts # accepted else accepted)
   }"

lemma queue_all_increasing:
  assumes "cx_session s = Some x" "s_encoder x" "\<not> s_transcoder x"
  shows "wp (queue_all api records)
    (\<lambda>accepted s'. sorted_wrt (<) accepted \<and>
       (s_have_encoder_pts x \<longrightarrow> (\<forall>p \<in> set accepted. s_last_encoder_pts x < p)) \<and>
       (\<exists>x'. cx_session s' = Some x' \<and> s_input_frames x' = s_input_frames x + of_nat (length accepted))) s"
  using assms
proof (induction records arbitrary: s x)
  case Nil
  then show ?case by (auto simp: wp_simps)
next
  case (Cons rec rest)
  obtain data pts flags where rec: "rec = (data, pts, flags)" by (cases rec)
  show ?case
    unfolding rec queue_all.simps
    apply (intro wp_intros, rule wp_mono [OF queue_encoder [OF Cons.prems]])
    apply (elim exE conjE)
    subgoal for r s1 x1
      by (intro wp_intros, rule wp_mono [OF Cons.IH [of s1 x1]])
        (auto simp: wp_simps encoder_input_def encoder_clock_def split: if_splits
         intro: order.strict_trans)
    done
qed

text \<open>After the end of the stream no input reaches the codec: only the clock is read.\<close>

lemma queue_after_eos:
  assumes "cx_session s = Some x" "s_input_eos x"
  shows "wp (dscw_codec_queue api data pts flags)
    (\<lambda>r s'. r = DSCW_CODEC_ERROR_SESSION \<and> cx_error s' = (if cx_error_size s = 0 then cx_error s
        else take (cx_error_size s - 1) ''codec input is closed after EOS'')
      \<and> cx_media s' = snd (env_monotonic_ns api (snd (env_monotonic_ns api (cx_media s))))
      \<and> (\<exists>x'. cx_session s' = Some x' \<and> input_view x' = input_view x \<and> s_errors x' = s_errors x + 1)) s"
  using assms
  by (auto simp: dscw_codec_queue_def queue_internal_def account_def monotonic_ns_def wp_simps
      input_view_def latency_input_def split: prod.splits)

lemma eos_after_eos:
  assumes "cx_session s = Some x" "s_input_eos x"
  shows "wp (dscw_codec_queue_eos api pts)
    (\<lambda>r s'. r = DSCW_CODEC_ERROR_SESSION \<and> cx_media s' = snd (env_monotonic_ns api (cx_media s))
      \<and> (\<exists>x'. cx_session s' = Some x' \<and> input_view x' = input_view x \<and> s_errors x' = s_errors x + 1)) s"
  using assms
  by (auto simp: dscw_codec_queue_eos_def monotonic_ns_def wp_simps input_view_def split: prod.splits)

text \<open>An accepted end of stream closes the input of a session that has no transcoder.\<close>

lemma eos_closes_input:
  assumes "cx_session s = Some x" "\<not> s_transcoder x"
  shows "wp (dscw_codec_queue_eos api pts)
    (\<lambda>r s'. \<exists>x'. cx_session s' = Some x' \<and>
       (if r = DSCW_CODEC_OK then \<not> s_input_eos x \<and> s_input_eos x' \<and> s_input_eos_count x' = s_input_eos_count x + 1
        else s_input_eos x' = s_input_eos x \<and> s_input_eos_count x' = s_input_eos_count x)) s"
  unfolding dscw_codec_queue_eos_def monotonic_ns_def
  by (intro wp_intros wp_pumping_plain)
    (use assms in \<open>auto simp: again_input_def latency_input_def\<close>)

lemma flush_reopens:
  assumes "cx_session s = Some x"
  shows "wp (dscw_codec_flush api)
    (\<lambda>r s'. \<exists>x'. cx_session s' = Some x' \<and>
       (if r = DSCW_CODEC_OK
        then \<not> s_input_eos x' \<and> \<not> s_encoder_eos_signaled x' \<and> \<not> s_pending_image x' \<and> \<not> s_have_encoder_pts x'
        else r = DSCW_CODEC_ERROR_CODEC \<and> input_view x' = input_view x \<and> s_errors x' = s_errors x + 1)) s"
  unfolding dscw_codec_flush_def
  by (intro wp_intros wp_media_only [OF drain_images_media_only])
    (use assms in \<open>auto simp: input_view_def\<close>)

section \<open>Statistics\<close>

lemma statistics_ok:
  assumes "cx_session s = Some x" "0 < capacity"
  shows "wp (dscw_codec_statistics api sid output capacity)
    (\<lambda>r s'. window_step output capacity s s' \<and>
       (if r < 0 then r = -1 else nat r < capacity
          \<and> (\<exists>uptime cpu. text_of (mem_read (cx_mem s') output (nat r)) = statistics_text x sid uptime cpu))) s"
proof -
  have stored: "text_of (mem_read (store_text output capacity t m) output (length t)) = t"
    if "length t < capacity" for t m
  proof -
    have "mem_read (store_text output capacity t m) output (length t) = bytes_of t"
      using that shm.rd_wr_prefix [of "length t" "bytes_of t @ [0]" m "output"]
      by (simp add: store_text_def snprintf_def)
    then show ?thesis by simp
  qed
  show ?thesis
    unfolding dscw_codec_statistics_def monotonic_ns_def
    by (intro wp_intros)
      (use assms in \<open>auto simp: window_step_iff option.rel_refl session_step_refl store_text_window stored\<close>)
qed

section \<open>Statuses\<close>

text \<open>Every status the session operations return is one of the protocol's.\<close>

definition codec_status :: "int \<Rightarrow> bool" where
  "codec_status r \<longleftrightarrow> r \<in> {DSCW_CODEC_OK, DSCW_CODEC_AGAIN, DSCW_CODEC_FORMAT_CHANGED,
     DSCW_CODEC_ERROR_PROTOCOL, DSCW_CODEC_ERROR_UNSUPPORTED, DSCW_CODEC_ERROR_LIMIT,
     DSCW_CODEC_ERROR_CODEC, DSCW_CODEC_ERROR_SESSION, DSCW_CODEC_ERROR_IO}"

lemma pumping_status:
  "(\<And>s. wp rest (\<lambda>r _. codec_status r) s) \<Longrightarrow> wp (pumping api rest) (\<lambda>r _. codec_status r) s"
  unfolding pumping_def by (intro wp_intros wp_pump) (auto simp: codec_status_def)

lemma queue_status: "wp (dscw_codec_queue api data pts flags) (\<lambda>r _. codec_status r) s"
proof -
  have "wp (queue_internal api data pts flags) (\<lambda>r _. codec_status r) s" for s
    unfolding queue_internal_def queue_record_def
    by (intro wp_intros pumping_status) (auto simp: codec_status_def)
  then show ?thesis
    unfolding dscw_codec_queue_def account_def monotonic_ns_def
    by (intro wp_intros, rule wp_mono, intro wp_intros) auto
qed

lemma queue_eos_status: "wp (dscw_codec_queue_eos api pts) (\<lambda>r _. codec_status r) s"
  unfolding dscw_codec_queue_eos_def monotonic_ns_def
  by (intro wp_intros pumping_status wp_pump) (auto simp: codec_status_def)

lemma flush_status: "wp (dscw_codec_flush api) (\<lambda>r _. codec_status r) s"
  unfolding dscw_codec_flush_def
  by (intro wp_intros wp_media_only [OF drain_images_media_only]) (auto simp: codec_status_def)

lemma request_keyframe_status: "wp (dscw_codec_request_keyframe api) (\<lambda>r _. codec_status r) s"
  unfolding dscw_codec_request_keyframe_def by (intro wp_intros) (auto simp: codec_status_def)

end
