(* ===== verification/Codec_Worker.thy ===== *)
theory Codec_Worker
  imports Ndk_Session
begin

text \<open>
  The codec worker process (\<open>dawnshell_codec_worker.c\<close>): its session table, the dispatch of
  one protocol request, the response header, and the main loop. The request payload and the
  response buffer are windows of the shared mapping, so a pointer into them is an offset.
\<close>

section \<open>State\<close>

record worker_session =
  ws_id :: u64
  ws_codec :: "dscw_codec_session option"

record worker_state =
  sessions :: "worker_session list"
  next_session_id :: u64
  started_ns :: u64
  requests :: u64
  errors :: u64

record dispatch_result =
  dr_status :: int
  dr_session_id :: u64
  dr_payload_length :: nat

definition empty_session :: worker_session where
  "empty_session = \<lparr>ws_id = 0, ws_codec = None\<rparr>"

text \<open>The context of the worker: its state, the mapping, and the media library.\<close>

record 'm wx =
  wx_state :: worker_state
  wx_mem :: mem
  wx_media :: 'm

type_synonym ('m, 'a) worker = "('m wx, 'a) state"

definition state_get :: "(worker_state \<Rightarrow> 'a) \<Rightarrow> ('m, 'a) worker" where
  "state_get f = gets (f \<circ> wx_state)"

definition state_set :: "(worker_state \<Rightarrow> worker_state) \<Rightarrow> ('m, unit) worker" where
  "state_set f = modify (\<lambda>w. w\<lparr>wx_state := f (wx_state w)\<rparr>)"

definition map_get :: "(mem \<Rightarrow> 'a) \<Rightarrow> ('m, 'a) worker" where
  "map_get f = gets (f \<circ> wx_mem)"

definition map_set :: "(mem \<Rightarrow> mem) \<Rightarrow> ('m, unit) worker" where
  "map_set f = modify (\<lambda>w. w\<lparr>wx_mem := f (wx_mem w)\<rparr>)"

definition env :: "('m \<Rightarrow> 'a \<times> 'm) \<Rightarrow> ('m, 'a) worker" where
  "env f = State (\<lambda>w. let (a, m) = f (wx_media w) in (a, w\<lparr>wx_media := m\<rparr>))"

text \<open>
  A call into \<open>dawnshell_codec_ndk.c\<close> on the session of a slot with the caller's 256-byte
  error buffer: the result, the session afterwards, and the error text.
\<close>

definition codec_call ::
  "dscw_codec_session option \<Rightarrow> string \<Rightarrow> ('m, 'a) ndk \<Rightarrow>
   ('m, 'a \<times> dscw_codec_session option \<times> string) worker" where
  "codec_call session err p = State (\<lambda>w.
     let (a, s) = run_state p \<lparr>cx_session = session, cx_error = err, cx_error_size = 256,
                    cx_mem = wx_mem w, cx_media = wx_media w\<rparr>
     in ((a, cx_session s, cx_error s), w\<lparr>wx_mem := cx_mem s, wx_media := cx_media s\<rparr>))"

section \<open>Helpers\<close>

definition copy_text :: "nat \<Rightarrow> nat \<Rightarrow> string \<Rightarrow> ('m, nat) worker" where
  "copy_text output capacity text = do {
     let len = min (length text) capacity;
     map_set (\<lambda>m. mem_write m output (take len (bytes_of text)));
     return len
   }"

definition failure :: "int \<Rightarrow> u64 \<Rightarrow> nat \<Rightarrow> nat \<Rightarrow> string \<Rightarrow> ('m, dispatch_result) worker" where
  "failure status session_id output capacity message = do {
     len \<leftarrow> copy_text output capacity message;
     return \<lparr>dr_status = status, dr_session_id = session_id, dr_payload_length = len\<rparr>
   }"

definition success :: "u64 \<Rightarrow> nat \<Rightarrow> nat \<Rightarrow> string \<Rightarrow> ('m, dispatch_result) worker" where
  "success session_id output capacity text = do {
     len \<leftarrow> copy_text output capacity text;
     return \<lparr>dr_status = DSCW_CODEC_OK, dr_session_id = session_id, dr_payload_length = len\<rparr>
   }"

text \<open>The index of the first slot with an id, for both lookups.\<close>

fun slot_index :: "u64 \<Rightarrow> worker_session list \<Rightarrow> nat option" where
  "slot_index sid [] = None"
| "slot_index sid (x # xs) = (if ws_id x = sid then Some 0 else map_option Suc (slot_index sid xs))"

definition find_session :: "worker_state \<Rightarrow> u64 \<Rightarrow> nat option" where
  "find_session state sid = slot_index sid (sessions state)"

definition reserve_session :: "worker_state \<Rightarrow> nat option" where
  "reserve_session state = slot_index 0 (sessions state)"

definition set_slot :: "nat \<Rightarrow> worker_session \<Rightarrow> worker_state \<Rightarrow> worker_state" where
  "set_slot i x state = state\<lparr>sessions := (sessions state)[i := x]\<rparr>"

definition close_session :: "'m media_api \<Rightarrow> nat \<Rightarrow> ('m, unit) worker" where
  "close_session api i = do {
     slot \<leftarrow> state_get (\<lambda>st. sessions st ! i);
     if ws_id slot = 0 then return ()
     else do {
       codec_call (ws_codec slot) [] (dscw_codec_destroy api);
       state_set (set_slot i empty_session)
     }
   }"

section \<open>Creation\<close>

text \<open>\<open>++state->next_session_id\<close>, skipping 0.\<close>

definition fresh_id :: "u64 \<Rightarrow> u64" where
  "fresh_id n = (if n + 1 = 0 then n + 2 else n + 1)"

definition install :: "nat \<Rightarrow> dscw_codec_session option \<Rightarrow> worker_state \<Rightarrow> worker_state" where
  "install i codec state =
     (let sid = fresh_id (next_session_id state)
      in set_slot i \<lparr>ws_id = sid, ws_codec = codec\<rparr> (state\<lparr>next_session_id := sid\<rparr>))"

text \<open>What the two create requests share: the free slot, the call, the new id.\<close>

definition create_in_slot ::
  "nat \<Rightarrow> nat \<Rightarrow> ('m, int \<times> string) ndk \<Rightarrow> ('m, dispatch_result) worker" where
  "create_in_slot output capacity create = do {
     slot \<leftarrow> state_get reserve_session;
     (case slot of
        None \<Rightarrow> failure DSCW_CODEC_ERROR_LIMIT 0 output capacity ''worker codec session limit reached''
      | Some i \<Rightarrow> do {
          ((status, description), codec, err) \<leftarrow> codec_call None [] create;
          if status \<noteq> DSCW_CODEC_OK then failure status 0 output capacity err
          else do {
            state_set (install i codec);
            sid \<leftarrow> state_get next_session_id;
            success sid output capacity description
          }
        })
   }"

definition dispatch_create ::
  "'m media_api \<Rightarrow> nat \<Rightarrow> nat \<Rightarrow> nat \<Rightarrow> nat \<Rightarrow> ('m, dispatch_result) worker" where
  "dispatch_create api payload len output capacity =
     (if len \<noteq> 28 then failure DSCW_CODEC_ERROR_PROTOCOL 0 output capacity ''invalid create request''
      else do {
        m \<leftarrow> map_get id;
        create_in_slot output capacity
          (dscw_codec_create api (get_u32 m payload) (get_u32 m (payload + 4))
             (get_u32 m (payload + 8)) (get_u32 m (payload + 12)) (get_u32 m (payload + 16))
             (get_u32 m (payload + 20)) (get_u32 m (payload + 24)) 512)
      })"

definition dispatch_create_transcoder ::
  "'m media_api \<Rightarrow> nat \<Rightarrow> nat \<Rightarrow> nat \<Rightarrow> nat \<Rightarrow> ('m, dispatch_result) worker" where
  "dispatch_create_transcoder api payload len output capacity =
     (if len \<noteq> 24
      then failure DSCW_CODEC_ERROR_PROTOCOL 0 output capacity ''invalid create transcoder request''
      else do {
        m \<leftarrow> map_get id;
        create_in_slot output capacity
          (dscw_codec_create_transcoder api (get_u32 m payload) (get_u32 m (payload + 4))
             (get_u32 m (payload + 8)) (get_u32 m (payload + 12)) (get_u32 m (payload + 16))
             (get_u32 m (payload + 20)) 512)
      })"

section \<open>Session operations\<close>

text \<open>A codec call on a slot, with the changed session put back behind the slot's pointer.\<close>

definition slot_call :: "nat \<Rightarrow> ('m, 'a) ndk \<Rightarrow> ('m, 'a \<times> string) worker" where
  "slot_call i p = do {
     slot \<leftarrow> state_get (\<lambda>st. sessions st ! i);
     (r, codec, err) \<leftarrow> codec_call (ws_codec slot) ''codec operation failed'' p;
     state_set (set_slot i (slot\<lparr>ws_codec := codec\<rparr>));
     return (r, err)
   }"

text \<open>The common end of the switch: an error text for a negative status, else no payload.\<close>

definition finish ::
  "u64 \<Rightarrow> nat \<Rightarrow> nat \<Rightarrow> int \<times> string \<Rightarrow> ('m, dispatch_result) worker" where
  "finish session_id output capacity r =
     (if fst r < DSCW_CODEC_OK then failure (fst r) session_id output capacity (snd r)
      else return \<lparr>dr_status = fst r, dr_session_id = session_id, dr_payload_length = 0\<rparr>)"

definition dispatch_session ::
  "'m media_api \<Rightarrow> u16 \<Rightarrow> u64 \<Rightarrow> nat \<Rightarrow> nat \<Rightarrow> nat \<Rightarrow> nat \<Rightarrow> ('m, dispatch_result) worker" where
  "dispatch_session api type session_id payload len output capacity = do {
     found \<leftarrow> state_get (\<lambda>st. find_session st session_id);
     m \<leftarrow> map_get id;
     let protocol_error = failure DSCW_CODEC_ERROR_PROTOCOL session_id output capacity;
     (case found of
        None \<Rightarrow> failure DSCW_CODEC_ERROR_SESSION session_id output capacity ''unknown codec session''
      | Some i \<Rightarrow>
          if session_id = 0
          then failure DSCW_CODEC_ERROR_SESSION session_id output capacity ''unknown codec session''
          else if type = DSCB_INPUT then
            (if len < 16 \<or> unat (get_u32 m (payload + 12)) \<noteq> len - 16
             then protocol_error ''input payload length mismatch''
             else if get_u32 m (payload + 8) AND NOT DSCB_BUFFER_FLAG_CODEC_CONFIG \<noteq> 0
             then protocol_error ''unsupported input flags''
             else do {
               r \<leftarrow> slot_call i (dscw_codec_queue api (mem_read m (payload + 16) (len - 16))
                                 (get_u64 m payload) (get_u32 m (payload + 8)));
               finish session_id output capacity r
             })
          else if type = DSCB_OUTPUT then
            (if len \<noteq> 4 \<or> unat (get_u32 m payload) > 1000
             then failure DSCW_CODEC_ERROR_LIMIT session_id output capacity
                    ''output timeout must be 0..1000ms''
             else do {
               ((status, output_length), err) \<leftarrow>
                 slot_call i (dscw_codec_dequeue api (get_u32 m payload) output capacity);
               if status \<ge> DSCW_CODEC_OK
               then return \<lparr>dr_status = status, dr_session_id = session_id,
                            dr_payload_length = output_length\<rparr>
               else finish session_id output capacity (status, err)
             })
          else if type = DSCB_EOS then
            (if len \<noteq> 8 then protocol_error ''EOS request must contain pts_us''
             else do {
               r \<leftarrow> slot_call i (dscw_codec_queue_eos api (get_u64 m payload));
               finish session_id output capacity r
             })
          else if type = DSCB_FLUSH then
            (if len \<noteq> 0 then protocol_error ''flush payload must be empty''
             else do {
               r \<leftarrow> slot_call i (dscw_codec_flush api);
               finish session_id output capacity r
             })
          else if type = DSCB_REQUEST_KEYFRAME then
            (if len \<noteq> 0 then protocol_error ''keyframe payload must be empty''
             else do {
               r \<leftarrow> slot_call i (dscw_codec_request_keyframe api);
               finish session_id output capacity r
             })
          else if type = DSCB_SESSION_STATS then
            (if len \<noteq> 0 then protocol_error ''statistics payload must be empty''
             else do {
               (status, err) \<leftarrow> slot_call i (dscw_codec_statistics api session_id output capacity);
               if status < 0
               then failure DSCW_CODEC_ERROR_IO session_id output capacity
                      ''could not serialize statistics''
               else return \<lparr>dr_status = DSCW_CODEC_OK, dr_session_id = session_id,
                            dr_payload_length = nat status\<rparr>
             })
          else if type = DSCB_CLOSE then
            (if len \<noteq> 0 then protocol_error ''close payload must be empty''
             else do {
               close_session api i;
               finish session_id output capacity (DSCW_CODEC_OK, [])
             })
          else failure DSCW_CODEC_ERROR_UNSUPPORTED session_id output capacity
                 ''unsupported session operation'')
   }"

section \<open>Requests\<close>

definition hello_text :: string where
  "hello_text = ''{\"protocol\":1,\"transport\":\"inherited_memfd_eventfd\",\"worker\":\"ndk_mediacodec\",\"public_listener\":false,\"descriptor_transfer\":false,\"max_sessions\":2}''"

definition active_sessions :: "worker_state \<Rightarrow> nat" where
  "active_sessions st = length (filter (\<lambda>x. ws_id x \<noteq> 0) (sessions st))"

definition health_text :: "nat \<Rightarrow> u64 \<Rightarrow> worker_state \<Rightarrow> string" where
  "health_text pid uptime_ms st =
     ''{\"protocol\":1,\"worker_state\":\"ready\",\"transport\":\"inherited_memfd_eventfd\",\"pid\":'' @ dec pid
     @ '',\"uptime_ms\":'' @ dec (unat uptime_ms)
     @ '',\"active_sessions\":'' @ dec (active_sessions st)
     @ '',\"requests\":'' @ dec (unat (requests st))
     @ '',\"request_errors\":'' @ dec (unat (errors st))
     @ '',\"public_listener\":false,\"software_fallback\":false}''"

definition dispatch_health :: "'m media_api \<Rightarrow> nat \<Rightarrow> nat \<Rightarrow> ('m, dispatch_result) worker" where
  "dispatch_health api output capacity = do {
     now \<leftarrow> env (env_monotonic_ns api);
     st \<leftarrow> state_get id;
     let (count, health) =
       snprintf 512 (health_text (env_getpid api) ((now - started_ns st) div 1000000) st);
     if count \<ge> 512
     then failure DSCW_CODEC_ERROR_IO 0 output capacity ''health serialization failed''
     else success 0 output capacity health
   }"

text \<open>The protocol header in front of a payload, read at an offset of the mapping.\<close>

record request_header =
  rh_magic :: u32
  rh_version :: u16
  rh_type :: u16
  rh_flags :: u32
  rh_session_id :: u64
  rh_payload_length :: u32
  rh_request_id :: u32
  rh_reserved :: u32

definition read_header :: "mem \<Rightarrow> nat \<Rightarrow> request_header" where
  "read_header m request =
     \<lparr>rh_magic = get_u32 m request, rh_version = get_u16 m (request + 4),
      rh_type = get_u16 m (request + 6), rh_flags = get_u32 m (request + 8),
      rh_session_id = get_u64 m (request + 12), rh_payload_length = get_u32 m (request + 20),
      rh_request_id = get_u32 m (request + 24), rh_reserved = get_u32 m (request + 28)\<rparr>"

definition header_valid :: "request_header \<Rightarrow> nat \<Rightarrow> bool" where
  "header_valid h request_length \<longleftrightarrow>
     rh_magic h = DSCB_MAGIC \<and> rh_version h = DSCB_VERSION
     \<and> rh_type h AND DSCB_RESPONSE_BIT = 0 \<and> rh_flags h = 0 \<and> rh_reserved h = 0
     \<and> rh_request_id h \<noteq> 0 \<and> unat (rh_payload_length h) \<le> DSCW_MAX_PAYLOAD
     \<and> request_length = DSCW_PROTOCOL_HEADER_BYTES + unat (rh_payload_length h)"

text \<open>The switch on the request type of a valid request.\<close>

definition dispatch_type ::
  "'m media_api \<Rightarrow> request_header \<Rightarrow> nat \<Rightarrow> nat \<Rightarrow> nat \<Rightarrow> ('m, dispatch_result) worker" where
  "dispatch_type api h payload output capacity =
     (let type = rh_type h; sid = rh_session_id h; len = unat (rh_payload_length h)
      in if type = DSCB_HELLO then
           (if len \<noteq> 0
            then failure DSCW_CODEC_ERROR_PROTOCOL 0 output capacity ''hello payload must be empty''
            else success 0 output capacity hello_text)
         else if type = DSCB_CAPABILITIES then
           (if len \<noteq> 0
            then failure DSCW_CODEC_ERROR_PROTOCOL 0 output capacity ''capabilities payload must be empty''
            else success 0 output capacity dscw_codec_worker_capabilities)
         else if type = DSCB_HEALTH then
           (if len \<noteq> 0 \<or> sid \<noteq> 0
            then failure DSCW_CODEC_ERROR_PROTOCOL 0 output capacity
                   ''health request must be empty and use session 0''
            else dispatch_health api output capacity)
         else if type = DSCB_CREATE then
           (if sid \<noteq> 0
            then failure DSCW_CODEC_ERROR_PROTOCOL sid output capacity ''create must use session 0''
            else dispatch_create api payload len output capacity)
         else if type = DSCB_CREATE_TRANSCODER then
           (if sid \<noteq> 0
            then failure DSCW_CODEC_ERROR_PROTOCOL sid output capacity
                   ''create transcoder must use session 0''
            else dispatch_create_transcoder api payload len output capacity)
         else if type = DSCB_INPUT_SHARED_MEMORY \<or> type = DSCB_OUTPUT_SHARED_MEMORY then
           failure DSCW_CODEC_ERROR_UNSUPPORTED sid output capacity
             ''legacy descriptor transfer is unsupported; use the inherited shared slot''
         else dispatch_session api type sid payload len output capacity)"

definition count_error :: "worker_state \<Rightarrow> worker_state" where
  "count_error st = st\<lparr>errors := errors st + 1\<rparr>"

text \<open>The result with \<open>*response_type\<close> and \<open>*response_id\<close>, which a short header leaves alone.\<close>

definition dispatch_request ::
  "'m media_api \<Rightarrow> nat \<Rightarrow> nat \<Rightarrow> nat \<Rightarrow> nat \<Rightarrow> u16 \<Rightarrow> u32 \<Rightarrow> ('m, dispatch_result \<times> u16 \<times> u32) worker"
where
  "dispatch_request api request request_length output capacity response_type response_id = do {
     state_set (\<lambda>st. st\<lparr>requests := requests st + 1\<rparr>);
     if request_length < DSCW_PROTOCOL_HEADER_BYTES then do {
       state_set count_error;
       r \<leftarrow> failure DSCW_CODEC_ERROR_PROTOCOL 0 output capacity ''truncated protocol header'';
       return (r, response_type, response_id)
     } else do {
       h \<leftarrow> map_get (\<lambda>m. read_header m request);
       if \<not> header_valid h request_length then do {
         state_set count_error;
         r \<leftarrow> failure (if rh_version h \<noteq> DSCB_VERSION then -2 else DSCW_CODEC_ERROR_PROTOCOL)
                (rh_session_id h) output capacity ''invalid codec protocol request'';
         return (r, rh_type h, rh_request_id h)
       } else do {
         r \<leftarrow> dispatch_type api h (request + DSCW_PROTOCOL_HEADER_BYTES) output capacity;
         (if dr_status r < DSCW_CODEC_OK then state_set count_error else return ());
         return (r, rh_type h, rh_request_id h)
       }
     }
   }"

definition write_response_header ::
  "nat \<Rightarrow> u16 \<Rightarrow> u64 \<Rightarrow> u32 \<Rightarrow> u32 \<Rightarrow> int \<Rightarrow> mem \<Rightarrow> mem" where
  "write_response_header response type session_id payload_length request_id status m =
     put_u32 (response + 28) (u32_of_i32 status)
      (put_u32 (response + 24) request_id
        (put_u32 (response + 20) payload_length
          (put_u64 (response + 12) session_id
            (put_u16 (response + 6) (type OR DSCB_RESPONSE_BIT)
              (put_u16 (response + 4) DSCB_VERSION
                (put_u32 response DSCB_MAGIC
                  (mem_write m response (replicate DSCW_PROTOCOL_HEADER_BYTES 0))))))))"

section \<open>The main loop\<close>

text \<open>One round of the loop, from the loads of the request members to the response sequence.\<close>

definition serve_request :: "'m media_api \<Rightarrow> ('m, unit) worker" where
  "serve_request api = do {
     sequence \<leftarrow> map_get (\<lambda>m. control_load m ctl_request_sequence);
     len \<leftarrow> map_get (\<lambda>m. unat (control_load m ctl_request_bytes));
     type \<leftarrow> map_get (\<lambda>m. if len \<ge> 8 then get_u16 m (dscw_request_slot + 6) else 0);
     rid \<leftarrow> map_get (\<lambda>m. if len \<ge> 28 then get_u32 m (dscw_request_slot + 24) else 0);
     let output = dscw_response_slot + DSCW_PROTOCOL_HEADER_BYTES;
     (r, type, rid) \<leftarrow>
       (if len > DSCW_SLOT_BYTES then do {
          r \<leftarrow> failure DSCW_CODEC_ERROR_LIMIT 0 output DSCW_MAX_PAYLOAD
                 ''transport request exceeds shared slot'';
          return (r, type, rid)
        } else dispatch_request api dscw_request_slot len output DSCW_MAX_PAYLOAD type rid);
     map_set (write_response_header dscw_response_slot type (dr_session_id r)
                (of_nat (dr_payload_length r)) rid (dr_status r));
     map_set (control_store ctl_response_bytes
                (of_nat (DSCW_PROTOCOL_HEADER_BYTES + dr_payload_length r)));
     map_set (control_store ctl_response_sequence sequence)
   }"

text \<open>
  What the loop observes in one round: a stop signal, a poll that timed out with the parent
  alive or gone, a failed poll or read, or a request event together with the outcome of
  writing the response event.
\<close>

datatype worker_event =
    StopRequested
  | PollTimeout (parent_gone: bool)
  | WaitFailed
  | RequestEvent (event_written: bool)

fun worker_loop :: "'m media_api \<Rightarrow> worker_event list \<Rightarrow> ('m, unit) worker" where
  "worker_loop api [] = return ()"
| "worker_loop api (StopRequested # es) = return ()"
| "worker_loop api (PollTimeout gone # es) = (if gone then return () else worker_loop api es)"
| "worker_loop api (WaitFailed # es) = return ()"
| "worker_loop api (RequestEvent written # es) = do {
     flags \<leftarrow> map_get (\<lambda>m. control_load m ctl_flags);
     if flags AND DSCW_FLAG_SHUTDOWN \<noteq> 0 then return ()
     else do {
       serve_request api;
       if written then worker_loop api es else return ()
     }
   }"

definition transport_valid :: "mem \<Rightarrow> nat \<Rightarrow> bool" where
  "transport_valid m ppid \<longleftrightarrow>
     control_load m ctl_magic = DSCW_TRANSPORT_MAGIC
     \<and> control_load m ctl_version = DSCW_TRANSPORT_VERSION
     \<and> unat (control_load m ctl_mapping_bytes) = DSCW_MAPPING_BYTES
     \<and> unat (control_load m ctl_slot_bytes) = DSCW_SLOT_BYTES
     \<and> control_load m ctl_parent_pid \<noteq> 0 \<and> unat (control_load m ctl_parent_pid) = ppid"

text \<open>
  \<open>main\<close> after the signal handlers and the mapping are in place: the handshake, the loop over
  the events, and the closing of every session. The result is the exit code.
\<close>

definition worker_main ::
  "'m media_api \<Rightarrow> nat \<Rightarrow> bool \<Rightarrow> worker_event list \<Rightarrow> ('m, nat) worker" where
  "worker_main api ppid ready_written events = do {
     valid \<leftarrow> map_get (\<lambda>m. transport_valid m ppid);
     if \<not> valid then return 5
     else do {
       map_set (control_store ctl_worker_pid (of_nat (env_getpid api)));
       map_set (\<lambda>m. control_store ctl_flags (control_load m ctl_flags OR DSCW_FLAG_WORKER_READY) m);
       if \<not> ready_written then return 6
       else do {
         next_id \<leftarrow> env (env_monotonic_ns api);
         started \<leftarrow> env (env_monotonic_ns api);
         state_set (\<lambda>_. \<lparr>sessions = replicate DSCB_MAX_SESSIONS empty_session,
           next_session_id = next_id, started_ns = started, requests = 0, errors = 0\<rparr>);
         worker_loop api events;
         close_session api 0;
         close_session api 1;
         return 0
       }
     }
   }"



section \<open>Rules for the worker's steps\<close>

lemma wp_state_getI [wp_intros]: "Q (f (wx_state w)) w \<Longrightarrow> wp (state_get f) Q w"
  by (simp add: state_get_def wp_simps)

lemma wp_state_setI [wp_intros]: "Q () (w\<lparr>wx_state := f (wx_state w)\<rparr>) \<Longrightarrow> wp (state_set f) Q w"
  by (simp add: state_set_def wp_simps)

lemma wp_map_getI [wp_intros]: "Q (f (wx_mem w)) w \<Longrightarrow> wp (map_get f) Q w"
  by (simp add: map_get_def wp_simps)

lemma wp_map_setI [wp_intros]: "Q () (w\<lparr>wx_mem := f (wx_mem w)\<rparr>) \<Longrightarrow> wp (map_set f) Q w"
  by (simp add: map_set_def wp_simps)

lemma wp_envI [wp_intros]:
  "(\<And>a m. f (wx_media w) = (a, m) \<Longrightarrow> Q a (w\<lparr>wx_media := m\<rparr>)) \<Longrightarrow> wp (env f) Q w"
  by (simp add: env_def wp_State Let_def split: prod.splits)

lemma wp_codec_callI:
  assumes "wp p (\<lambda>a s. Q (a, cx_session s, cx_error s) (w\<lparr>wx_mem := cx_mem s, wx_media := cx_media s\<rparr>))
    \<lparr>cx_session = session, cx_error = err, cx_error_size = 256, cx_mem = wx_mem w, cx_media = wx_media w\<rparr>"
  shows "wp (codec_call session err p) Q w"
  using assms by (auto simp: codec_call_def wp_def Let_def split: prod.splits)

text \<open>What a reply to a request guarantees: it fits its buffer and nothing else is written.\<close>

definition replied :: "nat \<Rightarrow> nat \<Rightarrow> 'm wx \<Rightarrow> dispatch_result \<Rightarrow> 'm wx \<Rightarrow> bool" where
  "replied output capacity w r w' \<longleftrightarrow>
     same_outside output capacity (wx_mem w) (wx_mem w') \<and> dr_payload_length r \<le> capacity"

lemma wp_copy_text:
  assumes "\<And>m. same_outside output capacity (wx_mem w) m \<Longrightarrow>
      mem_read m output (min (length t) capacity) = take (min (length t) capacity) (bytes_of t) \<Longrightarrow>
      Q (min (length t) capacity) (w\<lparr>wx_mem := m\<rparr>)"
  shows "wp (copy_text output capacity t) Q w"
  unfolding copy_text_def Let_def
proof (intro wp_intros assms)
  show "same_outside output capacity (wx_mem w)
      (mem_write (wx_mem w) output (take (min (length t) capacity) (bytes_of t)))"
    by auto
  show "mem_read (mem_write (wx_mem w) output (take (min (length t) capacity) (bytes_of t))) output
      (min (length t) capacity) = take (min (length t) capacity) (bytes_of t)"
    using shm.rd_wr_same [of "wx_mem w" "output" "take (min (length t) capacity) (bytes_of t)"] by simp
qed

lemma wp_failure:
  assumes "\<And>m r. same_outside output capacity (wx_mem w) m \<Longrightarrow> dr_status r = status \<Longrightarrow>
      dr_session_id r = sid \<Longrightarrow> dr_payload_length r \<le> capacity \<Longrightarrow> Q r (w\<lparr>wx_mem := m\<rparr>)"
  shows "wp (failure status sid output capacity t) Q w"
  unfolding failure_def by (intro wp_intros wp_copy_text) (auto intro: assms)

lemma wp_success:
  assumes "\<And>m r. same_outside output capacity (wx_mem w) m \<Longrightarrow> dr_status r = DSCW_CODEC_OK \<Longrightarrow>
      dr_session_id r = sid \<Longrightarrow> dr_payload_length r \<le> capacity \<Longrightarrow> Q r (w\<lparr>wx_mem := m\<rparr>)"
  shows "wp (success sid output capacity t) Q w"
  unfolding success_def by (intro wp_intros wp_copy_text) (auto intro: assms)

lemma wp_finish:
  assumes "\<And>m r. same_outside output capacity (wx_mem w) m \<Longrightarrow> dr_status r = fst x \<Longrightarrow>
      dr_session_id r = sid \<Longrightarrow> dr_payload_length r \<le> capacity \<Longrightarrow> Q r (w\<lparr>wx_mem := m\<rparr>)"
  shows "wp (finish sid output capacity x) Q w"
  unfolding finish_def
  by (intro wp_intros wp_failure)
    (use assms [of "wx_mem w" "\<lparr>dr_status = fst x, dr_session_id = sid, dr_payload_length = 0\<rparr>"]
     in \<open>auto intro: assms\<close>)

section \<open>The session table\<close>

definition slot_ok :: "worker_session \<Rightarrow> bool" where
  "slot_ok x \<longleftrightarrow> (if ws_id x = 0 then ws_codec x = None else \<exists>c. ws_codec x = Some c \<and> session_ok c)"

definition ids_distinct :: "worker_session list \<Rightarrow> bool" where
  "ids_distinct xs \<longleftrightarrow>
     (\<forall>i j. i < j \<and> j < length xs \<and> ws_id (xs ! i) = ws_id (xs ! j) \<longrightarrow> ws_id (xs ! i) = 0)"

definition worker_ok :: "worker_state \<Rightarrow> bool" where
  "worker_ok st \<longleftrightarrow> length (sessions st) = DSCB_MAX_SESSIONS \<and>
     (\<forall>i < length (sessions st). slot_ok (sessions st ! i) \<and> ws_id (sessions st ! i) \<le> next_session_id st) \<and>
     ids_distinct (sessions st)"

lemma slot_index_Some:
  "slot_index sid xs = Some i \<Longrightarrow> i < length xs \<and> ws_id (xs ! i) = sid"
  by (induction xs arbitrary: i) (auto split: if_splits)

lemma slot_index_None: "slot_index sid xs = None \<longleftrightarrow> sid \<notin> ws_id ` set xs"
  by (induction xs) auto

lemma slot_index_first:
  "slot_index sid xs = Some i \<Longrightarrow> j < i \<Longrightarrow> ws_id (xs ! j) \<noteq> sid"
  by (induction xs arbitrary: i j) (auto simp: nth_Cons split: if_splits nat.splits)

lemma worker_ok_slot:
  assumes ok: "worker_ok st" and i: "i < length (sessions st)" and x: "slot_ok x"
    and fresh: "ws_id x = ws_id (sessions st ! i) \<or> ws_id x = 0"
  shows "worker_ok (set_slot i x st)"
proof -
  have le: "ws_id x \<le> next_session_id st"
    using ok i fresh by (auto simp: worker_ok_def)
  have dist: "ws_id (sessions st ! a) = 0"
    if "a < b" "b < length (sessions st)" "ws_id (sessions st ! a) = ws_id (sessions st ! b)" for a b
    using ok that unfolding worker_ok_def ids_distinct_def by blast
  have upd: "ws_id ((sessions st)[i := x] ! k) = (if k = i then ws_id x else ws_id (sessions st ! k))" for k
    using i by simp
  have "ws_id ((sessions st)[i := x] ! a) = 0"
    if "a < b" "b < length (sessions st)"
      "ws_id ((sessions st)[i := x] ! a) = ws_id ((sessions st)[i := x] ! b)" for a b
    using that fresh dist [of a b] by (auto simp: upd split: if_splits)
  then have "ids_distinct ((sessions st)[i := x])"
    by (auto simp: ids_distinct_def)
  then show ?thesis
    using ok i x le by (auto simp: worker_ok_def set_slot_def nth_list_update)
qed

lemma worker_ok_codec:
  assumes ok: "worker_ok st" and i: "i < length (sessions st)"
    and c: "ws_codec (sessions st ! i) = Some c" "session_step c c'"
  shows "worker_ok (set_slot i ((sessions st ! i)\<lparr>ws_codec := Some c'\<rparr>) st)"
proof (rule worker_ok_slot [OF ok i])
  have "slot_ok (sessions st ! i)"
    using ok i by (simp add: worker_ok_def)
  then show "slot_ok ((sessions st ! i)\<lparr>ws_codec := Some c'\<rparr>)"
    using c session_step_ok [of c c'] by (auto simp: slot_ok_def)
qed simp

lemma word_less_succ:
  fixes n :: u64
  assumes "n \<noteq> - 1"
  shows "n < n + 1"
proof -
  have "unat n < unat (- 1 :: u64)"
    using assms by (simp add: word_order.not_eq_extremum word_less_nat_alt)
  then have "unat n < 2 ^ 64 - 1"
    by (simp add: unsigned_minus_1_eq_mask mask_eq_exp_minus_1)
  then have "unat (n + 1) = unat n + 1"
    by (simp add: unat_word_ariths)
  then show ?thesis by (simp add: word_less_nat_alt)
qed

lemma worker_ok_install:
  assumes ok: "worker_ok st" and free: "reserve_session st = Some i" and c: "session_ok c"
    and room: "next_session_id st \<noteq> - 1"
  shows "worker_ok (install i (Some c) st)"
proof -
  let ?n = "next_session_id st" and ?xs = "sessions st"
  have lt: "?n < ?n + 1" using room by (rule word_less_succ)
  then have fresh: "fresh_id ?n = ?n + 1" and nz: "?n + 1 \<noteq> 0"
    by (auto simp: fresh_id_def)
  have i: "i < length ?xs"
    using slot_index_Some [of 0 ?xs i] free by (auto simp: reserve_session_def)
  have old: "ws_id (?xs ! k) \<noteq> ?n + 1" "ws_id (?xs ! k) \<le> ?n + 1" if "k < length ?xs" for k
    using ok that lt by (auto simp: worker_ok_def)
  have "ws_id (?xs[i := y] ! a) = 0"
    if "a < b" "b < length ?xs" "ws_id (?xs[i := y] ! a) = ws_id (?xs[i := y] ! b)" "ws_id y = ?n + 1" for y a b
    using that i old(1) [of a] old(1) [of b] ok
    by (auto simp: nth_list_update worker_ok_def ids_distinct_def split: if_splits)
  then have "ids_distinct (?xs[i := y])" if "ws_id y = ?n + 1" for y
    using that unfolding ids_distinct_def length_list_update by blast
  then show ?thesis
    using ok i c nz old(2)
    by (auto simp: worker_ok_def install_def set_slot_def fresh slot_ok_def Let_def nth_list_update)
qed

section \<open>Codec calls from the worker\<close>

text \<open>
  The contract between the worker and an operation of \<open>dawnshell_codec_ndk.c\<close> on a live
  session: given an output window it stores only there, reports a length that fits, returns a
  status of the protocol, and steps the session. The worker's half is proved once from it.
\<close>

locale codec_operation =
  fixes operation :: "nat \<Rightarrow> nat \<Rightarrow> ('m, 'a) ndk"
    and len_of :: "'a \<Rightarrow> nat" and status_of :: "'a \<Rightarrow> int"
  assumes op_contract: "wp (operation output capacity)
    (\<lambda>r s'. window_step output capacity s s' \<and> len_of r \<le> capacity \<and> codec_status (status_of r)) s"
begin

lemma slot_call_contract:
  assumes "ws_codec (sessions (wx_state w) ! i) = Some c"
    and "\<And>r err w' c'. same_outside output capacity (wx_mem w) (wx_mem w') \<Longrightarrow> len_of r \<le> capacity \<Longrightarrow>
      codec_status (status_of r) \<Longrightarrow> session_step c c' \<Longrightarrow>
      wx_state w' = set_slot i ((sessions (wx_state w) ! i)\<lparr>ws_codec := Some c'\<rparr>) (wx_state w) \<Longrightarrow>
      Q (r, err) w'"
  shows "wp (slot_call i (operation output capacity)) Q w"
  unfolding slot_call_def
  by (intro wp_intros wp_codec_callI, rule wp_mono [OF op_contract], intro wp_intros)
    (use assms in \<open>auto simp: window_step_iff rel_option_iff split: option.splits\<close>)

end

interpretation queue_op: codec_operation "\<lambda>_ _. dscw_codec_queue api data pts flags" "\<lambda>_. 0" id
  for api data pts flags
  by unfold_locales (rule wp_mono [OF wp_conj [OF state_io_rel_wp [OF queue_window] queue_status]]; simp)

interpretation eos_op: codec_operation "\<lambda>_ _. dscw_codec_queue_eos api pts" "\<lambda>_. 0" id for api pts
  by unfold_locales (rule wp_mono [OF wp_conj [OF state_io_rel_wp [OF queue_eos_window] queue_eos_status]]; simp)

interpretation flush_op: codec_operation "\<lambda>_ _. dscw_codec_flush api" "\<lambda>_. 0" id for api
  by unfold_locales (rule wp_mono [OF wp_conj [OF state_io_rel_wp [OF flush_window] flush_status]]; simp)

interpretation keyframe_op: codec_operation "\<lambda>_ _. dscw_codec_request_keyframe api" "\<lambda>_. 0" id for api
  by unfold_locales
    (rule wp_mono [OF wp_conj [OF state_io_rel_wp [OF request_keyframe_window] request_keyframe_status]]; simp)

lemma statistics_length:
  "wp (dscw_codec_statistics api sid output capacity) (\<lambda>r _. nat r \<le> capacity) s"
  unfolding dscw_codec_statistics_def monotonic_ns_def by (intro wp_intros) auto

interpretation statistics_op: codec_operation "\<lambda>output capacity. dscw_codec_statistics api sid output capacity"
  nat "\<lambda>r. if r < 0 then DSCW_CODEC_ERROR_IO else DSCW_CODEC_OK" for api sid
  by unfold_locales
    (rule wp_mono [OF wp_conj [OF state_io_rel_wp [OF statistics_window] statistics_length]];
     simp add: codec_status_def)

text \<open>Dequeueing meets the contract for every library whose sizes and crops are \<open>int32_t\<close>.\<close>

lemma dequeue_operation:
  "library_sane api \<Longrightarrow>
   codec_operation (\<lambda>output capacity. dscw_codec_dequeue api timeout output capacity) snd fst"
  by unfold_locales (rule wp_mono [OF dequeue_ok]; auto simp: output_ok_def codec_status_def)



section \<open>Dispatch\<close>

text \<open>
  What handling one request does: the reply fits, the table stays well formed, the counters
  are left to \<open>dispatch_request\<close>, and only the slot whose id the request names can change
  (a free slot, id 0, for the create requests).
\<close>

definition only_slot :: "u64 \<Rightarrow> worker_state \<Rightarrow> worker_state \<Rightarrow> bool" where
  "only_slot sid st st' \<longleftrightarrow> length (sessions st') = length (sessions st) \<and>
     (\<forall>j < length (sessions st). ws_id (sessions st ! j) \<noteq> sid \<longrightarrow> sessions st' ! j = sessions st ! j)"

definition handled :: "u64 \<Rightarrow> nat \<Rightarrow> nat \<Rightarrow> 'm wx \<Rightarrow> dispatch_result \<Rightarrow> 'm wx \<Rightarrow> bool" where
  "handled sid output capacity w r w' \<longleftrightarrow>
     same_outside output capacity (wx_mem w) (wx_mem w') \<and> dr_payload_length r \<le> capacity
     \<and> codec_status (dr_status r) \<and> worker_ok (wx_state w')
     \<and> only_slot sid (wx_state w) (wx_state w')
     \<and> requests (wx_state w') = requests (wx_state w) \<and> errors (wx_state w') = errors (wx_state w)
     \<and> started_ns (wx_state w') = started_ns (wx_state w)
     \<and> next_session_id (wx_state w') \<in> {next_session_id (wx_state w), next_session_id (wx_state w) + 1}"

lemma only_slot_refl [simp]: "only_slot sid st st"
  by (simp add: only_slot_def)

lemma only_slot_set: "ws_id (sessions st ! i) = sid \<Longrightarrow> only_slot sid st (set_slot i x st)"
  unfolding only_slot_def set_slot_def by (simp, metis nth_list_update_neq)

lemma only_slot_install: "ws_id (sessions st ! i) = 0 \<Longrightarrow> only_slot 0 st (install i x st)"
  unfolding only_slot_def install_def set_slot_def Let_def by (simp, metis nth_list_update_neq)

lemma set_slot_simps [simp]:
  "next_session_id (set_slot i x st) = next_session_id st" "requests (set_slot i x st) = requests st"
  "errors (set_slot i x st) = errors st" "started_ns (set_slot i x st) = started_ns st"
  by (simp_all add: set_slot_def)

lemma install_simps [simp]:
  "next_session_id (install i x st) = fresh_id (next_session_id st)"
  "requests (install i x st) = requests st" "errors (install i x st) = errors st"
  "started_ns (install i x st) = started_ns st"
  by (simp_all add: install_def Let_def)

lemma find_sessionD:
  assumes "find_session st sid = Some i" "worker_ok st" "sid \<noteq> 0"
  shows "i < length (sessions st)" "ws_id (sessions st ! i) = sid"
    "\<exists>c. ws_codec (sessions st ! i) = Some c \<and> session_ok c"
proof -
  show i: "i < length (sessions st)" "ws_id (sessions st ! i) = sid"
    using assms(1) slot_index_Some by (auto simp: find_session_def)
  then have "slot_ok (sessions st ! i)" using assms(2) by (simp add: worker_ok_def)
  then show "\<exists>c. ws_codec (sessions st ! i) = Some c \<and> session_ok c"
    using assms(3) i by (auto simp: slot_ok_def)
qed

lemma close_session_handled:
  assumes "worker_ok (wx_state w)" "i < length (sessions (wx_state w))"
    and "\<And>m. Q () (w\<lparr>wx_media := m, wx_state := set_slot i empty_session (wx_state w)\<rparr>)"
    and "ws_id (sessions (wx_state w) ! i) = 0 \<Longrightarrow> Q () w"
  shows "wp (close_session api i) Q w"
proof -
  have [simp]: "w\<lparr>wx_mem := wx_mem w, wx_media := m, wx_state := s\<rparr> = w\<lparr>wx_media := m, wx_state := s\<rparr>" for m s
    by simp
  show ?thesis
    unfolding close_session_def
    by (intro wp_intros wp_codec_callI, use assms in simp)
      (rule wp_mono [OF destroy_session], use assms in \<open>auto intro!: wp_intros\<close>)
qed

lemma protocol_statuses [simp]:
  "codec_status DSCW_CODEC_OK" "codec_status DSCW_CODEC_AGAIN" "codec_status DSCW_CODEC_FORMAT_CHANGED"
  "codec_status DSCW_CODEC_ERROR_PROTOCOL" "codec_status DSCW_CODEC_ERROR_UNSUPPORTED"
  "codec_status DSCW_CODEC_ERROR_LIMIT" "codec_status DSCW_CODEC_ERROR_CODEC"
  "codec_status DSCW_CODEC_ERROR_SESSION" "codec_status DSCW_CODEC_ERROR_IO"
  unfolding codec_status_def by blast+

lemmas protocol_numbers [simp] = protocol_statuses [unfolded status_defs]

text \<open>A reply that leaves the table alone, and one after a step of the slot's session.\<close>

lemma handled_reply:
  assumes "worker_ok (wx_state w)" "codec_status st"
  shows "wp (failure st sid' output capacity t) (handled sid output capacity w) w"
  by (rule wp_failure) (use assms in \<open>auto simp: handled_def\<close>)

lemma handled_success:
  assumes "worker_ok (wx_state w)"
  shows "wp (success sid' output capacity t) (handled sid output capacity w) w"
  by (rule wp_success) (use assms in \<open>auto simp: handled_def\<close>)

definition slot_stepped :: "u64 \<Rightarrow> nat \<Rightarrow> nat \<Rightarrow> 'm wx \<Rightarrow> 'm wx \<Rightarrow> bool" where
  "slot_stepped sid output capacity w w' \<longleftrightarrow>
     same_outside output capacity (wx_mem w) (wx_mem w') \<and> worker_ok (wx_state w')
     \<and> only_slot sid (wx_state w) (wx_state w')
     \<and> requests (wx_state w') = requests (wx_state w) \<and> errors (wx_state w') = errors (wx_state w)
     \<and> started_ns (wx_state w') = started_ns (wx_state w)
     \<and> next_session_id (wx_state w') = next_session_id (wx_state w)"

lemma slot_stepped_codec:
  assumes "worker_ok (wx_state w)" "find_session (wx_state w) sid = Some i" "sid \<noteq> 0"
    and "ws_codec (sessions (wx_state w) ! i) = Some c" "session_step c c'"
    and "same_outside output capacity (wx_mem w) (wx_mem w')"
    and "wx_state w' = set_slot i ((sessions (wx_state w) ! i)\<lparr>ws_codec := Some c'\<rparr>) (wx_state w)"
  shows "slot_stepped sid output capacity w w'"
  using assms find_sessionD [OF assms(2,1,3)]
  by (auto simp: slot_stepped_def intro: worker_ok_codec only_slot_set)

lemma slot_stepped_reply:
  assumes "slot_stepped sid output capacity w w1" "same_outside output capacity (wx_mem w1) (wx_mem w')"
    "wx_state w' = wx_state w1" "dr_payload_length r \<le> capacity" "codec_status (dr_status r)"
  shows "handled sid output capacity w r w'"
  using assms by (auto simp: slot_stepped_def handled_def intro: same_outside_trans)

lemma finish_handled:
  assumes "slot_stepped sid output capacity w w1" "codec_status (fst x)"
  shows "wp (finish sid' output capacity x) (handled sid output capacity w) w1"
  by (rule wp_finish) (use assms in \<open>auto intro: slot_stepped_reply\<close>)

lemma failure_stepped:
  assumes "slot_stepped sid output capacity w w1" "codec_status st"
  shows "wp (failure st sid' output capacity t) (handled sid output capacity w) w1"
  by (rule wp_failure) (use assms in \<open>auto intro: slot_stepped_reply\<close>)

lemma dispatch_session_handled:
  assumes sane: "library_sane api" and ok: "worker_ok (wx_state w)"
  shows "wp (dispatch_session api type sid payload len output capacity) (handled sid output capacity w) w"
proof (cases "sid = 0")
  case True
  then show ?thesis
    unfolding dispatch_session_def by (intro wp_intros handled_reply) (auto simp: ok)
next
  case nz: False
  have call: "wp (slot_call i (operation output capacity)) Q w"
    if "codec_operation operation len_of status_of" and found: "find_session (wx_state w) sid = Some i"
      and "\<And>r err w'. slot_stepped sid output capacity w w' \<Longrightarrow> len_of r \<le> capacity \<Longrightarrow>
        codec_status (status_of r) \<Longrightarrow> Q (r, err) w'" for operation len_of status_of i and Q
  proof -
    obtain c where c: "ws_codec (sessions (wx_state w) ! i) = Some c"
      using find_sessionD [OF found ok nz] by blast
    show ?thesis
      using codec_operation.slot_call_contract [OF that(1) c] that(3)
        slot_stepped_codec [OF ok found nz c] by blast
  qed
  have close: "slot_stepped sid output capacity w
      (w\<lparr>wx_media := m, wx_state := set_slot i empty_session (wx_state w)\<rparr>)"
    if "find_session (wx_state w) sid = Some i" for m i
    using find_sessionD [OF that ok nz] ok
    by (auto simp: slot_stepped_def empty_session_def slot_ok_def intro!: worker_ok_slot only_slot_set)
  note calls = call [OF queue_op.codec_operation_axioms] call [OF eos_op.codec_operation_axioms]
    call [OF flush_op.codec_operation_axioms] call [OF keyframe_op.codec_operation_axioms]
    call [OF statistics_op.codec_operation_axioms] call [OF dequeue_operation [OF sane]]
  show ?thesis
    unfolding dispatch_session_def Let_def
    by (intro wp_intros handled_reply calls finish_handled failure_stepped close_session_handled close ok)
      (auto simp: nz ok dest: find_sessionD(1,2) [OF _ ok nz] intro: slot_stepped_reply,
       auto intro!: finish_handled wp_returnI intro: slot_stepped_reply)
qed

lemma create_in_slot_handled:
  assumes ok: "worker_ok (wx_state w)" and room: "next_session_id (wx_state w) \<noteq> - 1"
    and create: "\<And>s. cx_session s = None \<Longrightarrow> wp create (created P s) s"
  shows "wp (create_in_slot output capacity create) (handled 0 output capacity w) w"
proof -
  have call: "wp (codec_call None [] create) Q w"
    if "\<And>status d c err m. status < 0 \<Longrightarrow> codec_status status \<Longrightarrow> Q ((status, d), None, err) (w\<lparr>wx_media := m\<rparr>)"
      "\<And>d c err m. session_ok c \<Longrightarrow> Q ((DSCW_CODEC_OK, d), Some c, err) (w\<lparr>wx_media := m\<rparr>)" for Q
    by (rule wp_codec_callI, rule wp_mono [OF create])
      (use that in \<open>auto simp: created_def split: if_splits\<close>)
  have installed: "wp (success n output capacity t) (handled 0 output capacity w)
      (w\<lparr>wx_media := m, wx_state := install i (Some c) (wx_state w)\<rparr>)"
    if "session_ok c" "reserve_session (wx_state w) = Some i" for m i c n t
  proof -
    have "worker_ok (install i (Some c) (wx_state w))"
      by (rule worker_ok_install [OF ok that(2,1) room])
    moreover have "ws_id (sessions (wx_state w) ! i) = 0"
      using that(2) slot_index_Some by (auto simp: reserve_session_def)
    moreover have "fresh_id (next_session_id (wx_state w)) = next_session_id (wx_state w) + 1"
      using word_less_succ [OF room] by (auto simp: fresh_id_def)
    ultimately show ?thesis
      by (intro wp_success) (auto simp: handled_def only_slot_install)
  qed
  show ?thesis
    unfolding create_in_slot_def
    by (intro wp_intros call handled_reply ok)
      (auto intro!: wp_failure wp_bindI wp_state_setI wp_state_getI installed simp: ok handled_def)
qed

lemma dispatch_create_handled:
  assumes "worker_ok (wx_state w)" "next_session_id (wx_state w) \<noteq> - 1"
  shows "wp (dispatch_create api payload len output capacity) (handled 0 output capacity w) w"
  unfolding dispatch_create_def
  by (intro wp_intros handled_reply create_in_slot_handled [OF assms create_result]) (simp_all add: assms)

lemma dispatch_create_transcoder_handled:
  assumes "worker_ok (wx_state w)" "next_session_id (wx_state w) \<noteq> - 1"
  shows "wp (dispatch_create_transcoder api payload len output capacity) (handled 0 output capacity w) w"
  unfolding dispatch_create_transcoder_def
  by (intro wp_intros handled_reply create_in_slot_handled [OF assms create_transcoder_result])
    (simp_all add: assms)

lemma dispatch_health_handled:
  assumes "worker_ok (wx_state w)"
  shows "wp (dispatch_health api output capacity) (handled sid output capacity w) w"
  unfolding dispatch_health_def
  by (intro wp_intros wp_failure wp_success) (auto simp: assms handled_def)

lemma dispatch_type_handled:
  assumes "library_sane api" "worker_ok (wx_state w)" "next_session_id (wx_state w) \<noteq> - 1"
  shows "wp (dispatch_type api h payload output capacity) (handled (rh_session_id h) output capacity w) w"
  unfolding dispatch_type_def Let_def
  using dispatch_create_handled [OF assms(2,3), of api payload "unat (rh_payload_length h)" "output" capacity]
    dispatch_create_transcoder_handled
      [OF assms(2,3), of api payload "unat (rh_payload_length h)" "output" capacity]
  by (intro wp_intros handled_reply handled_success dispatch_health_handled dispatch_session_handled assms)
    auto



text \<open>The result of \<open>dispatch_request\<close>, counters included.\<close>

definition answered ::
  "u64 \<Rightarrow> nat \<Rightarrow> nat \<Rightarrow> 'm wx \<Rightarrow> dispatch_result \<Rightarrow> 'm wx \<Rightarrow> bool" where
  "answered sid output capacity w r w' \<longleftrightarrow>
     same_outside output capacity (wx_mem w) (wx_mem w') \<and> dr_payload_length r \<le> capacity
     \<and> - 8 \<le> dr_status r \<and> dr_status r \<le> 2 \<and> worker_ok (wx_state w')
     \<and> only_slot sid (wx_state w) (wx_state w')
     \<and> requests (wx_state w') = requests (wx_state w) + 1
     \<and> errors (wx_state w') = errors (wx_state w) + (if dr_status r < 0 then 1 else 0)
     \<and> started_ns (wx_state w') = started_ns (wx_state w)
     \<and> next_session_id (wx_state w') \<in> {next_session_id (wx_state w), next_session_id (wx_state w) + 1}"

lemma worker_ok_counters [simp]:
  "worker_ok (st\<lparr>requests := a\<rparr>) = worker_ok st" "worker_ok (st\<lparr>errors := b\<rparr>) = worker_ok st"
  "worker_ok (count_error st) = worker_ok st"
  by (simp_all add: worker_ok_def count_error_def)

lemma only_slot_counters [simp]:
  "only_slot sid (st\<lparr>requests := a\<rparr>) st' = only_slot sid st st'"
  "only_slot sid st (st'\<lparr>requests := b\<rparr>) = only_slot sid st st'"
  "only_slot sid st (count_error st') = only_slot sid st st'"
  by (simp_all add: only_slot_def count_error_def)

lemma count_error_simps [simp]:
  "requests (count_error st) = requests st" "errors (count_error st) = errors st + 1"
  "started_ns (count_error st) = started_ns st" "next_session_id (count_error st) = next_session_id st"
  by (simp_all add: count_error_def)

lemma codec_status_range: "codec_status r \<Longrightarrow> - 8 \<le> r \<and> r \<le> 2"
  by (auto simp: codec_status_def)

definition request_session :: "mem \<Rightarrow> nat \<Rightarrow> nat \<Rightarrow> u64" where
  "request_session m request request_length =
     (if request_length < DSCW_PROTOCOL_HEADER_BYTES then 0 else rh_session_id (read_header m request))"

lemma dispatch_request_answered:
  assumes sane: "library_sane api" and ok: "worker_ok (wx_state w)"
    and room: "next_session_id (wx_state w) \<noteq> - 1"
  shows "wp (dispatch_request api request request_length output capacity t rid)
    (\<lambda>(r, t', rid') w'. answered (request_session (wx_mem w) request request_length) output capacity w r w'
       \<and> (request_length < DSCW_PROTOCOL_HEADER_BYTES \<longrightarrow> t' = t \<and> rid' = rid)
       \<and> (request_length \<ge> DSCW_PROTOCOL_HEADER_BYTES \<longrightarrow>
            t' = rh_type (read_header (wx_mem w) request) \<and> rid' = rh_request_id (read_header (wx_mem w) request))) w"
proof -
  let ?w = "w\<lparr>wx_state := (wx_state w)\<lparr>requests := requests (wx_state w) + 1\<rparr>\<rparr>"
  have type: "wp (dispatch_type api h payload output capacity)
      (handled (rh_session_id h) output capacity ?w) ?w" for h payload
    by (rule dispatch_type_handled) (use assms in simp_all)
  have counted: "dr_status r < 0 \<Longrightarrow>
      answered (rh_session_id h) output capacity w r (w1\<lparr>wx_state := count_error (wx_state w1)\<rparr>)"
    "\<not> dr_status r < 0 \<Longrightarrow> answered (rh_session_id h) output capacity w r w1"
    if "handled (rh_session_id h) output capacity ?w r w1" for h r w1
    using that codec_status_range [of "dr_status r"] by (auto simp: handled_def answered_def)
  show ?thesis
    unfolding dispatch_request_def
  proof (intro wp_intros wp_failure, goal_cases)
    case 3
    show ?case
      by (rule wp_mono [OF type], intro wp_intros)
        (use 3 counted in \<open>auto simp: request_session_def\<close>)
  qed (use ok in \<open>auto simp: answered_def request_session_def\<close>)
qed

section \<open>One round of the main loop\<close>

abbreviation response_payload :: nat where
  "response_payload \<equiv> dscw_response_slot + DSCW_PROTOCOL_HEADER_BYTES"

lemma write_response_header_window:
  "same_outside response DSCW_PROTOCOL_HEADER_BYTES m (write_response_header response t sid n rid st m)"
  unfolding write_response_header_def
  by (intro same_outside_putD same_outside_write) (auto simp: DSCW_PROTOCOL_HEADER_BYTES_def)

lemma write_response_header_read:
  "read_header (write_response_header response t sid n rid st m) response =
   \<lparr>rh_magic = DSCB_MAGIC, rh_version = DSCB_VERSION, rh_type = t OR DSCB_RESPONSE_BIT, rh_flags = 0,
    rh_session_id = sid, rh_payload_length = n, rh_request_id = rid, rh_reserved = u32_of_i32 st\<rparr>"
proof -
  have "mem_read (mem_write m response (replicate 32 0)) (response + 8) 4 = [0, 0, 0, 0]"
    using shm.rd_wr_inside [of 8 4 "replicate 32 0" m response] by (simp add: numeral_eq_Suc)
  then have "get_u32 (mem_write m response (replicate 32 0)) (response + 8) = 0"
    by (simp add: get_u32_def unhost32_def htonl_def)
  then show ?thesis
    by (simp add: read_header_def write_response_header_def mem_simps DSCW_PROTOCOL_HEADER_BYTES_def)
qed

text \<open>
  What the worker leaves in the mapping: the response slot and the two response members
  change, everything else stays.
\<close>

definition served :: "'m wx \<Rightarrow> 'm wx \<Rightarrow> bool" where
  "served w w' \<longleftrightarrow>
     worker_ok (wx_state w')
     \<and> (\<forall>f. f \<noteq> ctl_response_bytes \<and> f \<noteq> ctl_response_sequence \<longrightarrow>
          control_load (wx_mem w') f = control_load (wx_mem w) f)
     \<and> control_load (wx_mem w') ctl_response_sequence = control_load (wx_mem w) ctl_request_sequence
     \<and> (\<forall>a n. dscw_request_slot \<le> a \<and> a + n \<le> dscw_response_slot \<longrightarrow>
          mem_read (wx_mem w') a n = mem_read (wx_mem w) a n)
     \<and> (\<forall>a n. DSCW_MAPPING_BYTES \<le> a \<longrightarrow> mem_read (wx_mem w') a n = mem_read (wx_mem w) a n)
     \<and> next_session_id (wx_state w') \<in> {next_session_id (wx_state w), next_session_id (wx_state w) + 1}"

text \<open>The reply the mapping carries after a round.\<close>

definition reply_in :: "'m wx \<Rightarrow> dispatch_result \<Rightarrow> u16 \<Rightarrow> u32 \<Rightarrow> bool" where
  "reply_in w r t rid \<longleftrightarrow>
     read_header (wx_mem w) dscw_response_slot =
       \<lparr>rh_magic = DSCB_MAGIC, rh_version = DSCB_VERSION, rh_type = t OR DSCB_RESPONSE_BIT, rh_flags = 0,
        rh_session_id = dr_session_id r, rh_payload_length = of_nat (dr_payload_length r),
        rh_request_id = rid, rh_reserved = u32_of_i32 (dr_status r)\<rparr>
     \<and> control_load (wx_mem w) ctl_response_bytes =
         of_nat (DSCW_PROTOCOL_HEADER_BYTES + dr_payload_length r)
     \<and> dr_payload_length r \<le> DSCW_MAX_PAYLOAD \<and> - 8 \<le> dr_status r \<and> dr_status r \<le> 2"

definition reply_store :: "u16 \<Rightarrow> u32 \<Rightarrow> u32 \<Rightarrow> dispatch_result \<Rightarrow> mem \<Rightarrow> mem" where
  "reply_store t rid sequence r m =
     control_store ctl_response_sequence sequence
       (control_store ctl_response_bytes (of_nat (DSCW_PROTOCOL_HEADER_BYTES + dr_payload_length r))
         (write_response_header dscw_response_slot t (dr_session_id r) (of_nat (dr_payload_length r)) rid
           (dr_status r) m))"

lemma read_header_cong:
  "mem_read m a 32 = mem_read m' a 32 \<Longrightarrow> read_header m a = read_header m' a"
proof -
  assume *: "mem_read m a 32 = mem_read m' a 32"
  have "mem_read m (a + k) n = mem_read m' (a + k) n" if "k + n \<le> 32" for k n
    using * that by (intro nth_equalityI) (auto simp: list_eq_iff_nth_eq add.assoc)
  from this [of 0 4] this [of 4 2] this [of 6 2] this [of 8 4] this [of 12 8] this [of 20 4]
    this [of 24 4] this [of 28 4]
  show ?thesis
    by (simp add: read_header_def cong: get_u16_cong get_u32_cong get_u64_cong)
qed

lemma read_header_control_store:
  "DSCW_CONTROL_BYTES \<le> a \<Longrightarrow> read_header (control_store f v m) a = read_header m a"
  by (rule read_header_cong) (simp add: mem_simps)

lemma reply_store_served:
  assumes "worker_ok (wx_state w1)" "same_outside response_payload DSCW_MAX_PAYLOAD (wx_mem w) (wx_mem w1)"
    "next_session_id (wx_state w1) \<in> {next_session_id (wx_state w), next_session_id (wx_state w) + 1}"
    "dr_payload_length r \<le> DSCW_MAX_PAYLOAD" "- 8 \<le> dr_status r" "dr_status r \<le> 2"
  shows "served w (w1\<lparr>wx_mem := reply_store t rid (control_load (wx_mem w) ctl_request_sequence) r (wx_mem w1)\<rparr>)"
    "reply_in (w1\<lparr>wx_mem := reply_store t rid sequence r (wx_mem w1)\<rparr>) r t rid"
proof -
  let ?m = "wx_mem w" and ?m1 = "wx_mem w1"
  define M where "M = write_response_header dscw_response_slot t (dr_session_id r)
    (of_nat (dr_payload_length r)) rid (dr_status r) ?m1"
  have slot: "same_outside dscw_response_slot DSCW_SLOT_BYTES ?m M"
    unfolding M_def
    by (rule same_outside_trans [OF same_outside_widen [OF assms(2)]
          same_outside_widen [OF write_response_header_window]])
      (auto simp: layout_defs)
  have high: "DSCW_CONTROL_BYTES \<le> dscw_response_slot" "DSCW_CONTROL_BYTES \<le> dscw_request_slot"
    "DSCW_CONTROL_BYTES \<le> DSCW_MAPPING_BYTES"
    by (simp_all add: dscw_response_slot_def dscw_request_slot_def layout_defs)
  have load: "control_load M f = control_load ?m f" for f
    by (rule control_load_same_outside [OF slot high(1)])
  have req: "mem_read (reply_store t rid sq r ?m1) a n = mem_read ?m a n"
    if "dscw_request_slot \<le> a \<and> a + n \<le> dscw_response_slot" for a n sq
    using that high same_outside_read [OF slot, of a n]
    by (simp add: reply_store_def mem_simps flip: M_def)
  have above: "mem_read (reply_store t rid sq r ?m1) a n = mem_read ?m a n"
    if "DSCW_MAPPING_BYTES \<le> a" for a n sq
    using that high same_outside_read [OF slot, of a n] layout_tiles(3)
    by (simp add: reply_store_def mem_simps flip: M_def)
  show "served w (w1\<lparr>wx_mem := reply_store t rid (control_load ?m ctl_request_sequence) r ?m1\<rparr>)"
    using assms(1,3) req above
    by (auto simp: served_def reply_store_def mem_simps load simp flip: M_def)
  show "reply_in (w1\<lparr>wx_mem := reply_store t rid sequence r ?m1\<rparr>) r t rid"
    using assms(4-6) high(1)
    by (simp add: reply_in_def reply_store_def read_header_control_store write_response_header_read mem_simps)
qed

lemma reply_store_payload:
  "mem_read (reply_store t rid sequence r m) response_payload n = mem_read m response_payload n"
proof -
  have "mem_read (write_response_header dscw_response_slot t a b rid c m) response_payload n
      = mem_read m response_payload n" for a b c
    by (rule same_outside_read [OF write_response_header_window]) simp
  moreover have "DSCW_CONTROL_BYTES \<le> response_payload"
    by (simp add: dscw_response_slot_def layout_defs)
  ultimately show ?thesis
    by (simp add: reply_store_def mem_simps)
qed

text \<open>A round is the dispatch of the request in the slot, with its result stored as the reply.\<close>

definition dispatch_slot :: "'m media_api \<Rightarrow> ('m, dispatch_result \<times> u16 \<times> u32) worker" where
  "dispatch_slot api = do {
     len \<leftarrow> map_get (\<lambda>m. unat (control_load m ctl_request_bytes));
     t \<leftarrow> map_get (\<lambda>m. if len \<ge> 8 then get_u16 m (dscw_request_slot + 6) else 0);
     rid \<leftarrow> map_get (\<lambda>m. if len \<ge> 28 then get_u32 m (dscw_request_slot + 24) else 0);
     if len > DSCW_SLOT_BYTES then do {
       r \<leftarrow> failure DSCW_CODEC_ERROR_LIMIT 0 response_payload DSCW_MAX_PAYLOAD
              ''transport request exceeds shared slot'';
       return (r, t, rid)
     } else dispatch_request api dscw_request_slot len response_payload DSCW_MAX_PAYLOAD t rid
   }"

lemma serve_request_run:
  assumes "run_state (dispatch_slot api) w = ((r, t, rid), w1)"
  shows "run_state (serve_request api) w =
    ((), w1\<lparr>wx_mem := reply_store t rid (control_load (wx_mem w) ctl_request_sequence) r (wx_mem w1)\<rparr>)"
  using assms
  by (auto simp: serve_request_def dispatch_slot_def map_get_def map_set_def reply_store_def Let_def
      split: prod.splits if_splits)

lemma dispatch_slot_answered:
  assumes "library_sane api" "worker_ok (wx_state w)" "next_session_id (wx_state w) \<noteq> - 1"
  shows "wp (dispatch_slot api) (\<lambda>(r, t, rid) w'. worker_ok (wx_state w')
    \<and> same_outside response_payload DSCW_MAX_PAYLOAD (wx_mem w) (wx_mem w')
    \<and> next_session_id (wx_state w') \<in> {next_session_id (wx_state w), next_session_id (wx_state w) + 1}
    \<and> dr_payload_length r \<le> DSCW_MAX_PAYLOAD \<and> - 8 \<le> dr_status r \<and> dr_status r \<le> 2) w"
  unfolding dispatch_slot_def
  apply (intro wp_intros wp_failure)
   apply (use assms in simp)
  apply (rule wp_mono [OF dispatch_request_answered [OF assms]])
  apply (auto simp: answered_def)
  done

lemma serve_request_served:
  assumes "library_sane api" "worker_ok (wx_state w)" "next_session_id (wx_state w) \<noteq> - 1"
  shows "wp (serve_request api) (\<lambda>_ w'. served w w' \<and> (\<exists>r t rid. reply_in w' r t rid)) w"
proof -
  obtain r t rid w1 where run: "run_state (dispatch_slot api) w = ((r, t, rid), w1)"
    by (metis surj_pair)
  have post: "worker_ok (wx_state w1)" "same_outside response_payload DSCW_MAX_PAYLOAD (wx_mem w) (wx_mem w1)"
    "next_session_id (wx_state w1) \<in> {next_session_id (wx_state w), next_session_id (wx_state w) + 1}"
    "dr_payload_length r \<le> DSCW_MAX_PAYLOAD" "- 8 \<le> dr_status r" "dr_status r \<le> 2"
    using wpD [OF dispatch_slot_answered [OF assms] run] by simp_all
  show ?thesis
    unfolding wp_run serve_request_run [OF run] using reply_store_served [OF post] by auto blast
qed

section \<open>The whole life of a worker\<close>

text \<open>Every state a worker reaches keeps the invariant, as long as the ids do not run out.\<close>

lemma ids_last:
  fixes n :: u64
  assumes "unat n + Suc k < 2 ^ 64"
  shows "n \<noteq> - 1" "unat (n + 1) + k < 2 ^ 64"
proof -
  show "n \<noteq> - 1"
    using assms by (auto simp: unsigned_minus_1_eq_mask mask_eq_exp_minus_1)
  have "unat (n + 1) \<le> unat n + 1"
    by (simp add: unat_word_ariths)
  then show "unat (n + 1) + k < 2 ^ 64" using assms by simp
qed

lemma worker_loop_ok:
  assumes "library_sane api" "worker_ok (wx_state w)"
    and "unat (next_session_id (wx_state w)) + length events < 2 ^ 64"
  shows "wp (worker_loop api events) (\<lambda>_ w'. worker_ok (wx_state w')) w"
  using assms(2,3)
proof (induction events arbitrary: w)
  case (Cons e es)
  have room: "unat (next_session_id (wx_state w)) + Suc (length es) < 2 ^ 64"
    using Cons.prems by simp
  have quiet: "wp (worker_loop api es) (\<lambda>_ w'. worker_ok (wx_state w')) w"
    by (rule Cons.IH) (use Cons.prems in auto)
  have next_round: "wp (worker_loop api es) (\<lambda>_ w'. worker_ok (wx_state w')) w1" if "served w w1" for w1
    by (rule Cons.IH) (use that ids_last [OF room] room in \<open>auto simp: served_def\<close>)
  have serve: "wp (serve_request api) (\<lambda>_ w'. served w w') w"
    by (rule wp_mono [OF serve_request_served])
      (use assms(1) Cons.prems(1) ids_last(1) [OF room] in auto)
  show ?case
  proof (cases e)
    case (RequestEvent written)
    show ?thesis
      unfolding RequestEvent worker_loop.simps
      by (intro wp_intros, use Cons.prems in simp, rule wp_mono [OF serve], intro wp_intros)
        (use next_round in \<open>auto simp: served_def\<close>)
  qed (use Cons.prems quiet in \<open>auto intro!: wp_intros\<close>)
qed (auto intro!: wp_intros)

lemma worker_ok_start:
  "worker_ok \<lparr>sessions = replicate DSCB_MAX_SESSIONS empty_session, next_session_id = n,
     started_ns = t, requests = 0, errors = 0\<rparr>"
  by (auto simp: worker_ok_def ids_distinct_def slot_ok_def empty_session_def DSCB_MAX_SESSIONS_def
      less_2_cases_iff nth_Cons numeral_2_eq_2 split: nat.splits)

lemma worker_main_closes:
  assumes sane: "library_sane api"
    and clock: "\<And>m. unat (fst (env_monotonic_ns api m)) + length events < 2 ^ 64"
  shows "wp (worker_main api ppid ready events)
    (\<lambda>code w'. code = (if \<not> transport_valid (wx_mem w) ppid then 5 else if \<not> ready then 6 else 0) \<and>
       (code = 0 \<longrightarrow> sessions (wx_state w') = [empty_session, empty_session])) w"
proof -
  have close: "wp (do { close_session api 0; close_session api 1; return (0::nat) })
      (\<lambda>code w'. code = 0 \<and> sessions (wx_state w') = [empty_session, empty_session]) w1"
    if "worker_ok (wx_state w1)" for w1
  proof -
    have "length (sessions (wx_state w1)) = Suc (Suc 0)"
      using that by (simp add: worker_ok_def DSCB_MAX_SESSIONS_def)
    then obtain a b where ab: "sessions (wx_state w1) = [a, b]"
      by (auto simp: length_Suc_conv)
    have slots: "slot_ok a" "slot_ok b"
      using that ab by (auto simp: worker_ok_def DSCB_MAX_SESSIONS_def less_2_cases_iff all_conj_distrib
          nth_Cons split: nat.splits)
    have empty: "x = empty_session" if "slot_ok x" "ws_id x = 0" for x
      using that by (simp add: slot_ok_def empty_session_def)
    have ok0: "worker_ok (set_slot 0 empty_session (wx_state w1))"
      by (rule worker_ok_slot [OF that]) (auto simp: ab empty_session_def slot_ok_def)
    show ?thesis
      by (intro wp_intros close_session_handled)
        (use that ab slots empty ok0 in \<open>auto simp: set_slot_def\<close>)
  qed
  have loop: "wp (worker_loop api events) (\<lambda>_. wp (do { close_session api 0; close_session api 1; return (0::nat) })
      (\<lambda>code w'. code = 0 \<and> sessions (wx_state w') = [empty_session, empty_session]))
      (w1\<lparr>wx_state := \<lparr>sessions = replicate DSCB_MAX_SESSIONS empty_session, next_session_id = n,
         started_ns = t, requests = 0, errors = 0\<rparr>\<rparr>)"
    if "env_monotonic_ns api m = (n, m')" for w1 n t m m'
    by (rule wp_mono [OF worker_loop_ok [OF sane]])
      (use that clock [of m] in \<open>auto simp: worker_ok_start simp del: One_nat_def intro: close\<close>)
  show ?thesis
    unfolding worker_main_def
    by (intro wp_intros) (auto intro!: wp_mono [OF loop] elim!: wp_mono)
qed
end
