(* ===== verification/Codec_Rpc.thy ===== *)
theory Codec_Rpc
  imports Codec_Client Codec_Worker
begin

text \<open>
  Client and worker together. The two halves of the protocol meet in one mapping: what
  \<open>rpc\<close> posts is a request the worker accepts, what the worker stores is a response the
  client accepts, and a call returns exactly what the worker's dispatch computed. On top of
  that, sequences of calls, the start-up handshake and the built-in negative test.
\<close>

section \<open>The request as the worker reads it\<close>

lemma make_request_header_window:
  "same_outside header DSCW_PROTOCOL_HEADER_BYTES m (make_request_header header t sid n rid m)"
  unfolding make_request_header_def
  by (intro same_outside_putD same_outside_write) (auto simp: DSCW_PROTOCOL_HEADER_BYTES_def)

lemma make_request_header_read:
  "read_header (make_request_header header t sid n rid m) header =
   \<lparr>rh_magic = DSCB_MAGIC, rh_version = DSCB_VERSION, rh_type = t, rh_flags = 0,
    rh_session_id = sid, rh_payload_length = n, rh_request_id = rid, rh_reserved = 0\<rparr>"
proof -
  have "mem_read (mem_write m header (replicate 32 0)) (header + 8) 4 = [0, 0, 0, 0]"
    "mem_read (mem_write m header (replicate 32 0)) (header + 28) 4 = [0, 0, 0, 0]"
    using shm.rd_wr_inside [of 8 4 "replicate 32 0" m header]
      shm.rd_wr_inside [of 28 4 "replicate 32 0" m header] by (simp_all add: numeral_eq_Suc)
  then have "get_u32 (mem_write m header (replicate 32 0)) (header + 8) = 0"
    "get_u32 (mem_write m header (replicate 32 0)) (header + 28) = 0"
    by (simp_all add: get_u32_def unhost32_def htonl_def)
  then show ?thesis
    by (simp add: read_header_def make_request_header_def mem_simps DSCW_PROTOCOL_HEADER_BYTES_def)
qed

lemma read_header_write:
  "p \<ge> a + 32 \<Longrightarrow> read_header (mem_write m p bs) a = read_header m a"
  by (rule read_header_cong) (simp add: shm.rd_wr_below)

abbreviation request_payload :: nat where
  "request_payload \<equiv> dscw_request_slot + DSCW_PROTOCOL_HEADER_BYTES"

lemma post_request_read:
  assumes "length payload \<le> DSCW_MAX_PAYLOAD"
  shows "read_header (post_request t sid payload rid sq m) dscw_request_slot =
      \<lparr>rh_magic = DSCB_MAGIC, rh_version = DSCB_VERSION, rh_type = t, rh_flags = 0,
       rh_session_id = sid, rh_payload_length = of_nat (length payload), rh_request_id = rid,
       rh_reserved = 0\<rparr>"
    "mem_read (post_request t sid payload rid sq m) request_payload (length payload) = payload"
    "control_load (post_request t sid payload rid sq m) ctl_request_sequence = sq"
    "unat (control_load (post_request t sid payload rid sq m) ctl_request_bytes) =
       DSCW_PROTOCOL_HEADER_BYTES + length payload"
    "f \<noteq> ctl_request_sequence \<Longrightarrow> f \<noteq> ctl_request_bytes \<Longrightarrow>
       control_load (post_request t sid payload rid sq m) f = control_load m f"
proof -
  have high: "DSCW_CONTROL_BYTES \<le> dscw_request_slot" "DSCW_CONTROL_BYTES \<le> request_payload"
    by (simp_all add: dscw_request_slot_def layout_defs)
  show "read_header (post_request t sid payload rid sq m) dscw_request_slot =
      \<lparr>rh_magic = DSCB_MAGIC, rh_version = DSCB_VERSION, rh_type = t, rh_flags = 0,
       rh_session_id = sid, rh_payload_length = of_nat (length payload), rh_request_id = rid,
       rh_reserved = 0\<rparr>"
    unfolding post_request_def
    using high by (simp add: read_header_control_store read_header_write make_request_header_read
        DSCW_PROTOCOL_HEADER_BYTES_def)
  show "mem_read (post_request t sid payload rid sq m) request_payload (length payload) = payload"
    unfolding post_request_def using high by (simp add: mem_simps shm.rd_wr_same)
  show "control_load (post_request t sid payload rid sq m) ctl_request_sequence = sq"
    by (simp add: post_request_def mem_simps)
  have "DSCW_PROTOCOL_HEADER_BYTES + length payload < 2 ^ 32"
    using assms by (simp add: layout_defs)
  then show "unat (control_load (post_request t sid payload rid sq m) ctl_request_bytes) =
       DSCW_PROTOCOL_HEADER_BYTES + length payload"
    by (simp add: post_request_def mem_simps unat_of_nat_u32 del: of_nat_add)
  show "control_load (post_request t sid payload rid sq m) f = control_load m f"
    if "f \<noteq> ctl_request_sequence" "f \<noteq> ctl_request_bytes"
    using that high control_load_same_outside [OF make_request_header_window high(1)]
    by (simp add: post_request_def mem_simps)
qed

lemma request_accepted:
  assumes "length payload \<le> DSCW_MAX_PAYLOAD" "t AND DSCB_RESPONSE_BIT = 0" "rid \<noteq> 0"
  shows "header_valid (read_header (post_request t sid payload rid sq m) dscw_request_slot)
    (DSCW_PROTOCOL_HEADER_BYTES + length payload)"
proof -
  have "length payload < 2 ^ 32" using assms(1) by (simp add: layout_defs)
  then show ?thesis
    using assms by (simp add: header_valid_def post_request_read unat_of_nat_u32)
qed

section \<open>Client and worker over one mapping\<close>

text \<open>
  The world of the client is the worker: its state and the media library's. An exchange
  delivers the request event to the worker's loop and wakes the client when the round ends.
\<close>

definition worker_exchange ::
  "'m media_api \<Rightarrow> mem \<Rightarrow> worker_state \<times> 'm \<Rightarrow> (errno option \<times> mem) \<times> (worker_state \<times> 'm)" where
  "worker_exchange api m p =
     (let w = snd (run_state (worker_loop api [RequestEvent True])
                     \<lparr>wx_state = fst p, wx_mem = m, wx_media = snd p\<rparr>)
      in ((None, wx_mem w), (wx_state w, wx_media w)))"

definition paired :: "'m media_api \<Rightarrow> (worker_state \<times> 'm) client_env \<Rightarrow> bool" where
  "paired api e \<longleftrightarrow> exchange e = worker_exchange api \<and> malloc_ok e = (\<lambda>n w. (True, w))"

text \<open>The header of a posted request, and the context in which the worker dispatches it.\<close>

definition posted_header :: "u16 \<Rightarrow> u64 \<Rightarrow> byte list \<Rightarrow> u32 \<Rightarrow> request_header" where
  "posted_header t sid payload rid =
     \<lparr>rh_magic = DSCB_MAGIC, rh_version = DSCB_VERSION, rh_type = t, rh_flags = 0,
      rh_session_id = sid, rh_payload_length = of_nat (length payload), rh_request_id = rid,
      rh_reserved = 0\<rparr>"

definition posted :: "u16 \<Rightarrow> u64 \<Rightarrow> byte list \<Rightarrow> (worker_state \<times> 'm) kx \<Rightarrow> 'm wx" where
  "posted t sid payload k =
     \<lparr>wx_state = fst (kx_world k),
      wx_mem = post_request t sid payload (next_request_id (kx_client k))
                 (next_sequence (worker_sequence (kx_client k))) (kx_mem k),
      wx_media = snd (kx_world k)\<rparr>"

text \<open>What the worker computes for the request: the switch on its type, and the counters.\<close>

definition remote ::
  "'m media_api \<Rightarrow> u16 \<Rightarrow> u64 \<Rightarrow> byte list \<Rightarrow> (worker_state \<times> 'm) kx \<Rightarrow> dispatch_result \<times> 'm wx" where
  "remote api t sid payload k =
     run_state (do {
         state_set (\<lambda>st. st\<lparr>requests := requests st + 1\<rparr>);
         r \<leftarrow> dispatch_type api (posted_header t sid payload (next_request_id (kx_client k)))
                request_payload response_payload DSCW_MAX_PAYLOAD;
         (if dr_status r < DSCW_CODEC_OK then state_set count_error else return ());
         return r
       }) (posted t sid payload k)"

text \<open>The client may call: the worker runs, was not told to stop and the counters are in range.\<close>

definition connected :: "(worker_state \<times> 'm) kx \<Rightarrow> bool" where
  "connected k \<longleftrightarrow>
     worker_started (kx_client k) \<and> next_request_id (kx_client k) \<noteq> 0
     \<and> control_load (kx_mem k) ctl_flags AND DSCW_FLAG_SHUTDOWN = 0
     \<and> worker_ok (fst (kx_world k)) \<and> next_session_id (fst (kx_world k)) \<noteq> - 1"

lemma posted_header_read:
  "length payload \<le> DSCW_MAX_PAYLOAD \<Longrightarrow>
   read_header (wx_mem (posted t sid payload k)) dscw_request_slot =
     posted_header t sid payload (next_request_id (kx_client k))"
  by (simp add: posted_def posted_header_def post_request_read)

lemma posted_dispatch:
  assumes "length payload \<le> DSCW_MAX_PAYLOAD" "t AND DSCB_RESPONSE_BIT = 0"
    and "next_request_id (kx_client k) \<noteq> 0" "remote api t sid payload k = (r, w1)"
  shows "run_state (dispatch_slot api) (posted t sid payload k) =
    ((r, t, next_request_id (kx_client k)), w1)"
proof -
  let ?w = "posted t sid payload k"
  have bytes: "unat (control_load (wx_mem ?w) ctl_request_bytes) = DSCW_PROTOCOL_HEADER_BYTES + length payload"
    using post_request_read(4) [OF assms(1)] by (simp add: posted_def)
  have fits: "\<not> DSCW_SLOT_BYTES < DSCW_PROTOCOL_HEADER_BYTES + length payload"
    using assms(1) by (simp add: layout_defs)
  have valid: "header_valid (posted_header t sid payload (next_request_id (kx_client k)))
      (DSCW_PROTOCOL_HEADER_BYTES + length payload)"
    using request_accepted [OF assms(1-3)] post_request_read(1) [OF assms(1)]
    by (simp add: posted_header_def)
  show ?thesis
    using assms(4) valid
    by (auto simp: dispatch_slot_def dispatch_request_def map_get_def bytes fits remote_def
        posted_header_read [OF assms(1)] state_set_def posted_header_def
        split: prod.splits if_splits)
qed


lemma remote_answered:
  assumes "library_sane api" "connected k" "length payload \<le> DSCW_MAX_PAYLOAD"
    "t AND DSCB_RESPONSE_BIT = 0" "remote api t sid payload k = (r, w1)"
  shows "answered sid response_payload DSCW_MAX_PAYLOAD (posted t sid payload k) r w1"
    and "served (posted t sid payload k)
      (w1\<lparr>wx_mem := reply_store t (next_request_id (kx_client k))
         (next_sequence (worker_sequence (kx_client k))) r (wx_mem w1)\<rparr>)"
    and "reply_in (w1\<lparr>wx_mem := reply_store t (next_request_id (kx_client k)) sq r (wx_mem w1)\<rparr>)
      r t (next_request_id (kx_client k))"
proof -
  let ?w = "posted t sid payload k"
  have ok: "worker_ok (wx_state ?w)" "next_session_id (wx_state ?w) \<noteq> - 1"
    using assms(2) by (simp_all add: posted_def connected_def)
  have run: "run_state (dispatch_slot api) ?w = ((r, t, next_request_id (kx_client k)), w1)"
    using posted_dispatch assms by (auto simp: connected_def)
  have sq: "control_load (wx_mem ?w) ctl_request_sequence = next_sequence (worker_sequence (kx_client k))"
    using post_request_read(3) [OF assms(3)] by (simp add: posted_def)
  note post = wpD [OF dispatch_slot_answered [OF assms(1) ok] run, simplified]
  show "served ?w (w1\<lparr>wx_mem := reply_store t (next_request_id (kx_client k))
         (next_sequence (worker_sequence (kx_client k))) r (wx_mem w1)\<rparr>)"
    using reply_store_served(1) [of w1 ?w r t "next_request_id (kx_client k)"] post sq by simp
  show "reply_in (w1\<lparr>wx_mem := reply_store t (next_request_id (kx_client k)) sq r (wx_mem w1)\<rparr>)
      r t (next_request_id (kx_client k))"
    using reply_store_served(2) [of w1 ?w r] post by simp
  have bytes: "unat (control_load (wx_mem ?w) ctl_request_bytes) = DSCW_PROTOCOL_HEADER_BYTES + length payload"
    using post_request_read(4) [OF assms(3)] by (simp add: posted_def)
  have "\<exists>t0 rid0. run_state (dispatch_request api dscw_request_slot (DSCW_PROTOCOL_HEADER_BYTES + length payload)
      response_payload DSCW_MAX_PAYLOAD t0 rid0) ?w = ((r, t, next_request_id (kx_client k)), w1)"
    using run assms(3) by (auto simp: dispatch_slot_def map_get_def bytes layout_defs split: if_splits)
  then obtain t0 rid0 where "run_state (dispatch_request api dscw_request_slot
      (DSCW_PROTOCOL_HEADER_BYTES + length payload) response_payload DSCW_MAX_PAYLOAD t0 rid0) ?w =
      ((r, t, next_request_id (kx_client k)), w1)"
    by blast
  from wpD [OF dispatch_request_answered [OF assms(1) ok] this]
  show "answered sid response_payload DSCW_MAX_PAYLOAD ?w r w1"
    by (simp add: request_session_def posted_header_read [OF assms(3)] posted_header_def)
qed

text \<open>
  The call as a function of the dispatch: the response the client parses is the result the
  worker computed, and the worker's state is what the dispatch left.
\<close>

definition response_of :: "u16 \<Rightarrow> u32 \<Rightarrow> dispatch_result \<Rightarrow> mem \<Rightarrow> response" where
  "response_of t rid r m =
     \<lparr>r_type = t OR DSCB_RESPONSE_BIT, r_session_id = dr_session_id r, r_request_id = rid,
      r_status = dr_status r, r_payload = mem_read m response_payload (dr_payload_length r)\<rparr>"

definition after_rpc ::
  "u16 \<Rightarrow> dispatch_result \<Rightarrow> 'm wx \<Rightarrow> (worker_state \<times> 'm) kx \<Rightarrow> (worker_state \<times> 'm) kx" where
  "after_rpc t r w1 k =
     (let c = kx_client k; sq = next_sequence (worker_sequence c) in
      k\<lparr>kx_client := c\<lparr>next_request_id := next_request_id c + 1, worker_sequence := sq\<rparr>,
        kx_mem := reply_store t (next_request_id c) sq r (wx_mem w1),
        kx_world := (wx_state w1, wx_media w1)\<rparr>)"

lemma parse_reply:
  assumes "reply_in (w1\<lparr>wx_mem := M\<rparr>) r t rid" "malloc_ok e = (\<lambda>n w. (True, w))" "kx_mem k = M"
  shows "run_state (parse_response e dscw_response_slot (DSCW_PROTOCOL_HEADER_BYTES + dr_payload_length r) t rid) k
     = (Inr (response_of t rid r M), k)"
proof -
  have range: "- 8 \<le> dr_status r" "dr_status r \<le> 2" "dr_payload_length r \<le> DSCW_MAX_PAYLOAD"
    and head: "read_header M dscw_response_slot =
       \<lparr>rh_magic = DSCB_MAGIC, rh_version = DSCB_VERSION, rh_type = t OR DSCB_RESPONSE_BIT, rh_flags = 0,
        rh_session_id = dr_session_id r, rh_payload_length = of_nat (dr_payload_length r),
        rh_request_id = rid, rh_reserved = u32_of_i32 (dr_status r)\<rparr>"
    using assms(1) by (simp_all add: reply_in_def)
  have status: "i32_of_u32 (u32_of_i32 (dr_status r)) = dr_status r"
    using range by (simp add: i32_u32_i32)
  have len: "unat (of_nat (dr_payload_length r) :: u32) = dr_payload_length r"
    by (rule unat_of_nat_u32) (use range(3) in \<open>simp add: layout_defs\<close>)
  show ?thesis
    using head range assms(2,3) status len
    by (auto simp: parse_response_def slot_get_def read_header_def response_of_def world_def Let_def)
qed

lemma worker_exchange_posted:
  assumes "library_sane api" "connected k" "length payload \<le> DSCW_MAX_PAYLOAD"
    "t AND DSCB_RESPONSE_BIT = 0" "remote api t sid payload k = (r, w1)"
  shows "worker_exchange api (wx_mem (posted t sid payload k)) (kx_world k) =
    ((None, kx_mem (after_rpc t r w1 k)), kx_world (after_rpc t r w1 k))"
proof -
  let ?w = "posted t sid payload k"
  have run: "run_state (dispatch_slot api) ?w = ((r, t, next_request_id (kx_client k)), w1)"
    using posted_dispatch assms by (auto simp: connected_def)
  have sq: "control_load (wx_mem ?w) ctl_request_sequence = next_sequence (worker_sequence (kx_client k))"
    "control_load (wx_mem ?w) ctl_flags = control_load (kx_mem k) ctl_flags"
    using post_request_read [OF assms(3)] by (simp_all add: posted_def)
  have w: "\<lparr>wx_state = fst (kx_world k), wx_mem = wx_mem ?w, wx_media = snd (kx_world k)\<rparr> = ?w"
    by (simp add: posted_def)
  have "run_state (worker_loop api [RequestEvent True]) ?w =
      ((), w1\<lparr>wx_mem := kx_mem (after_rpc t r w1 k)\<rparr>)"
    using serve_request_run [OF run] assms(2)
    by (simp add: map_get_def sq connected_def after_rpc_def Let_def)
  then show ?thesis
    unfolding worker_exchange_def w by (simp add: after_rpc_def Let_def)
qed

lemma rpc_remote:
  assumes "paired api e" "library_sane api" "connected k" "length payload \<le> DSCW_MAX_PAYLOAD"
    "t AND DSCB_RESPONSE_BIT = 0" "remote api t sid payload k = (r, w1)"
  shows "run_state (rpc e t sid payload) k =
    (Inr (response_of t (next_request_id (kx_client k)) r (wx_mem w1)), after_rpc t r w1 k)"
proof -
  let ?k = "after_rpc t r w1 k"
  have mem: "kx_mem ?k = reply_store t (next_request_id (kx_client k))
      (next_sequence (worker_sequence (kx_client k))) r (wx_mem w1)"
    by (simp add: after_rpc_def Let_def)
  have reply: "reply_in (w1\<lparr>wx_mem := kx_mem ?k\<rparr>) r t (next_request_id (kx_client k))"
    unfolding mem by (rule remote_answered(3) [OF assms(2-6)])
  have bytes: "unat (control_load (kx_mem ?k) ctl_response_bytes) = DSCW_PROTOCOL_HEADER_BYTES + dr_payload_length r"
    and fits: "DSCW_PROTOCOL_HEADER_BYTES + dr_payload_length r \<le> DSCW_SLOT_BYTES"
    using reply unat_of_nat_u32 [of "DSCW_PROTOCOL_HEADER_BYTES + dr_payload_length r"]
    by (auto simp: reply_in_def layout_defs)
  have sq: "control_load (kx_mem ?k) ctl_response_sequence = next_sequence (worker_sequence (kx_client k))"
    by (simp add: mem reply_store_def mem_simps)
  have payload: "response_of t rid r (kx_mem ?k) = response_of t rid r (wx_mem w1)" for rid
    by (simp add: response_of_def mem reply_store_payload)
  have ex: "exchange e (post_request t sid payload (next_request_id (kx_client k))
      (next_sequence (worker_sequence (kx_client k))) (kx_mem k)) (kx_world k) = ((None, kx_mem ?k), kx_world ?k)"
    using worker_exchange_posted [OF assms(2-6)] assms(1) by (simp add: paired_def posted_def)
  have k: "k\<lparr>kx_client := (kx_client k)\<lparr>next_request_id := next_request_id (kx_client k) + 1,
       worker_sequence := next_sequence (worker_sequence (kx_client k))\<rparr>,
      kx_world := kx_world ?k, kx_mem := kx_mem ?k\<rparr> = ?k"
    by (simp add: after_rpc_def Let_def)
  have parse: "run_state (parse_response e dscw_response_slot (DSCW_PROTOCOL_HEADER_BYTES + dr_payload_length r)
      t (next_request_id (kx_client k))) ?k
      = (Inr (response_of t (next_request_id (kx_client k)) r (wx_mem w1)), ?k)"
    using parse_reply [OF reply _ refl] assms(1) payload by (simp add: paired_def)
  show ?thesis
    using assms(3,4) ex bytes fits sq parse k
    by (simp add: rpc_def client_get_def client_set_def slot_get_def slot_set_def world_def connected_def)
qed


section \<open>Sequences of calls\<close>

text \<open>
  The client may make \<open>n\<close> more calls before its request ids or the worker's session ids wrap
  around.
\<close>

definition calls_left :: "nat \<Rightarrow> (worker_state \<times> 'm) kx \<Rightarrow> bool" where
  "calls_left n k \<longleftrightarrow>
     connected k \<and> unat (next_request_id (kx_client k)) + n < 2 ^ 32
     \<and> unat (next_session_id (fst (kx_world k))) + n < 2 ^ 64"

lemma calls_left_connected: "calls_left n k \<Longrightarrow> connected k"
  by (simp add: calls_left_def)

lemma after_rpc_calls_left:
  assumes "library_sane api" "calls_left (Suc n) k" "0 < n" "length payload \<le> DSCW_MAX_PAYLOAD"
    "t AND DSCB_RESPONSE_BIT = 0" "remote api t sid payload k = (r, w1)"
  shows "calls_left n (after_rpc t r w1 k)"
proof -
  let ?k = "after_rpc t r w1 k" and ?rid = "next_request_id (kx_client k)"
  note conn = calls_left_connected [OF assms(2)]
  have s: "served (posted t sid payload k)
      (w1\<lparr>wx_mem := reply_store t ?rid (next_sequence (worker_sequence (kx_client k))) r (wx_mem w1)\<rparr>)"
    by (rule remote_answered(2) [OF assms(1) conn assms(4-6)])
  have flags: "control_load (kx_mem ?k) ctl_flags = control_load (kx_mem k) ctl_flags"
    using s post_request_read(5) [OF assms(4)] by (simp add: served_def posted_def after_rpc_def Let_def)
  have room: "unat (next_session_id (fst (kx_world k))) + Suc n < 2 ^ 64" "unat ?rid + Suc n < 2 ^ 32"
    using assms(2) by (simp_all add: calls_left_def)
  have rid: "unat (?rid + 1) = unat ?rid + 1"
    using room(2) by (simp add: unat_word_ariths)
  have sid: "next_session_id (wx_state w1) \<in> {next_session_id (fst (kx_world k)), next_session_id (fst (kx_world k)) + 1}"
    using s by (simp add: served_def posted_def)
  have sid_room: "unat (next_session_id (wx_state w1)) + n < 2 ^ 64"
    using sid ids_last(2) [OF room(1)] room(1) by auto
  then have "next_session_id (wx_state w1) \<noteq> - 1"
    using ids_last(1) [of _ "n - 1"] assms(3) by simp
  moreover have "?rid + 1 \<noteq> 0"
    using rid by auto
  ultimately show ?thesis
    using conn flags s sid_room rid room
    by (simp add: calls_left_def connected_def served_def after_rpc_def Let_def)
qed

lemma wp_rpc:
  assumes "paired api e" "library_sane api" "calls_left (Suc n) k" "0 < n"
    "length payload \<le> DSCW_MAX_PAYLOAD" "t AND DSCB_RESPONSE_BIT = 0"
    and "\<And>r w1. remote api t sid payload k = (r, w1) \<Longrightarrow> calls_left n (after_rpc t r w1 k) \<Longrightarrow>
       Q (Inr (response_of t (next_request_id (kx_client k)) r (wx_mem w1))) (after_rpc t r w1 k)"
  shows "wp (rpc e t sid payload) Q k"
proof -
  obtain r w1 where run: "remote api t sid payload k = (r, w1)"
    by fastforce
  note conn = calls_left_connected [OF assms(3)]
  show ?thesis
    unfolding wp_run rpc_remote [OF assms(1,2) conn assms(5,6) run]
    using assms(7) [OF run after_rpc_calls_left [OF assms(2-6) run]] by simp
qed

section \<open>The negative test\<close>

lemma remote_session_zero:
  assumes "remote api 0x1234 0 payload k = (r, w1)"
  shows "dr_status r = DSCW_CODEC_ERROR_SESSION"
  using assms
  by (auto simp: remote_def dispatch_type_def dispatch_session_def posted_header_def failure_def copy_text_def
      state_set_def state_get_def map_get_def map_set_def Let_def dscb_types DSCB_RESPONSE_BIT_def
      split: option.splits prod.splits if_splits)

lemma expect_status_connected:
  assumes "paired api e" "library_sane api" "calls_left (Suc n) k" "0 < n"
    "length payload \<le> DSCW_MAX_PAYLOAD" "t AND DSCB_RESPONSE_BIT = 0"
  shows "wp (expect_status e t sid payload st) (\<lambda>_ k'. calls_left n k') k"
  unfolding expect_status_def
  by (intro wp_intros wp_rpc [OF assms]) simp

lemma expect_status_unknown_type:
  assumes "paired api e" "library_sane api" "calls_left (Suc n) k" "0 < n"
  shows "wp (expect_status e 0x1234 0 [] DSCW_CODEC_ERROR_UNSUPPORTED) (\<lambda>r _. r = 1) k"
  unfolding expect_status_def
  by (intro wp_intros wp_rpc [OF assms]) (auto simp: response_of_def remote_session_zero DSCB_RESPONSE_BIT_def)

lemma first_failure_pass:
  assumes "wp c P k" "\<And>k'. P 0 k' \<Longrightarrow> wp (first_failure cs) (\<lambda>r _. r \<noteq> 0) k'"
  shows "wp (first_failure (c # cs)) (\<lambda>r _. r \<noteq> 0) k"
  unfolding first_failure.simps
  by (intro wp_intros) (rule wp_mono [OF assms(1)], use assms(2) in \<open>auto intro!: wp_intros\<close>)

lemma first_failure_stop:
  assumes "wp c (\<lambda>r _. r = 1) k"
  shows "wp (first_failure (c # cs)) (\<lambda>r _. r \<noteq> 0) k"
  by (rule first_failure_pass [OF assms]) simp

lemma check_pass:
  assumes "paired api e" "library_sane api" "calls_left (Suc n) k" "0 < n"
    and "length payload \<le> DSCW_MAX_PAYLOAD \<and> t AND DSCB_RESPONSE_BIT = 0"
    and "\<And>k'. calls_left n k' \<Longrightarrow> wp (first_failure cs) (\<lambda>r _. r \<noteq> 0) k'"
  shows "wp (first_failure (expect_status e t sid payload st # cs)) (\<lambda>r _. r \<noteq> 0) k"
  using assms(5) by (intro first_failure_pass [OF expect_status_connected [OF assms(1-4)]] assms(6)) auto

lemma negative_test_fails:
  assumes "paired api e" "library_sane api" "calls_left 5 k"
  shows "wp (run_negative_test e) (\<lambda>r _. r = 1) k"
proof -
  note types = dscb_types DSCB_RESPONSE_BIT_def layout_defs
  note pass = check_pass [OF assms(1,2)]
  have unknown: "wp (first_failure (expect_status e 0x1234 0 [] DSCW_CODEC_ERROR_UNSUPPORTED # cs))
      (\<lambda>r _. r \<noteq> 0) k" if "calls_left (Suc 1) k" for cs k
    by (rule first_failure_stop [OF expect_status_unknown_type [OF assms(1,2) that]]) simp
  have "wp (first_failure (stateless_checks e)) (\<lambda>r _. r \<noteq> 0) k"
    unfolding stateless_checks_def
    apply (rule pass [of 4], use assms(3) in simp, simp, simp add: types)
    apply (rule pass [of 3], simp, simp, simp add: types)
    apply (rule pass [of 2], simp, simp, simp add: types)
    apply (rule unknown, simp add: numeral_2_eq_2)
    done
  then show ?thesis
    unfolding run_negative_test_def
    by (intro wp_intros) (erule wp_mono, auto intro!: wp_intros)
qed


section \<open>What a client accepts from any worker\<close>

lemma rpc_accepts:
  "wp (rpc e t sid payload)
    (\<lambda>r k'. case r of
        Inl _ \<Rightarrow> True
      | Inr response \<Rightarrow>
          r_type response = t OR DSCB_RESPONSE_BIT
          \<and> r_request_id response = next_request_id (kx_client k)
          \<and> length (r_payload response) \<le> DSCW_MAX_PAYLOAD
          \<and> control_load (kx_mem k') ctl_response_sequence = worker_sequence (kx_client k')
          \<and> worker_sequence (kx_client k') = next_sequence (worker_sequence (kx_client k))
          \<and> length payload \<le> DSCW_MAX_PAYLOAD \<and> worker_started (kx_client k)) k"
  unfolding rpc_def parse_response_def client_get_def client_set_def slot_get_def slot_set_def world_def
  by (auto simp: wp_run Let_def split: prod.splits option.splits if_splits)

lemma next_sequence_fresh: "next_sequence n \<noteq> 0" "next_sequence n \<noteq> n"
  by (auto simp: next_sequence_def add_eq_0_iff2)

section \<open>Start-up\<close>

lemma init_transport_valid:
  assumes "0 < pid" "pid < 2 ^ 32"
  shows "transport_valid (init_transport pid) pid"
proof -
  have "unat (of_nat DSCW_MAPPING_BYTES :: u32) = DSCW_MAPPING_BYTES"
    "unat (of_nat DSCW_SLOT_BYTES :: u32) = DSCW_SLOT_BYTES" "unat (of_nat pid :: u32) = pid"
    using assms by (auto simp: unat_of_nat_u32 layout_defs)
  then show ?thesis
    using assms by (auto simp: transport_valid_def init_transport_def mem_simps
        simp del: of_nat_numeral dest: arg_cong [of _ _ unat])
qed

section \<open>The color format a client reads back\<close>

lemma strstr_quoted:
  assumes "CHR 0x22 \<notin> set name"
  shows "strstr color_marker (CHR 0x22 # name @ CHR 0x22 # CHR '','' # rest) = strstr color_marker rest"
proof -
  have "take 14 (name @ CHR 0x22 # CHR '','' # rest) \<noteq> ''color_format'' @ [CHR 0x22, CHR '':'']"
    using take_until [of "''color_format''" name "CHR 0x22" "CHR '',''" rest "CHR '':''"] assms
    by (auto simp: numeral_eq_Suc)
  then have "strstr color_marker (CHR 0x22 # name @ CHR 0x22 # CHR '','' # rest) =
      strstr color_marker (name @ CHR 0x22 # CHR '','' # rest)"
    by (simp add: color_marker_def numeral_eq_Suc)
  also have "\<dots> = strstr color_marker rest"
    using strstr_skip [of color_marker name] assms by (simp add: color_marker_def)
  finally show ?thesis .
qed

lemma described_color_description:
  assumes "CHR 0x22 \<notin> set name" "CHR 0x22 \<notin> set mime" "CHR 0x00 \<notin> set name" "CHR 0x00 \<notin> set mime"
  shows "described_color (bytes_of (create_description name mime color)) = Some color"
proof -
  let ?tail = "dec (unat color) @ ''}''"
  have "create_description name mime color =
      ''{\"codec_name\":'' @ CHR 0x22 # name @ CHR 0x22 # CHR '','' # (''\"mime\":''
        @ CHR 0x22 # mime @ CHR 0x22 # CHR '','' #
        (''\"classification\":\"ndk_hardware_proven\",\"transport\":\"inherited_memfd_eventfd\",'' @ color_marker @ ?tail))"
    by (simp add: create_description_def color_marker_def)
  moreover have "strstr color_marker (''{\"codec_name\":'' @ xs) = strstr color_marker xs"
    "strstr color_marker (''\"mime\":'' @ xs) = strstr color_marker xs" for xs
    by (simp_all add: color_marker_def)
  moreover have "strstr color_marker (''\"classification\":\"ndk_hardware_proven\",\"transport\":\"inherited_memfd_eventfd\",'' @ color_marker @ ?tail) = Some (color_marker @ ?tail)"
    by (simp add: color_marker_def)
  ultimately have "strstr color_marker (create_description name mime color) = Some (color_marker @ ?tail)"
    by (simp only: strstr_quoted [OF assms(1)] strstr_quoted [OF assms(2)])
  moreover have "strtou 64 ?tail = Some (unat color, ''}'', False)"
    by (rule strtou_dec) (use unsigned_less [of color, where 'a = nat] in \<open>auto simp: is_digit_def\<close>)
  moreover have "CHR 0x00 \<notin> set (create_description name mime color)"
    using assms by (simp add: create_description_def)
  ultimately show ?thesis
    using unsigned_less [of color, where 'a = nat]
    by (simp add: described_color_def takeWhile_bytes_of)
qed

section \<open>Creation end to end\<close>

lemma create_payload_fields:
  assumes "mem_read m a 28 = create_payload mode codec width height rate bitrate"
  shows "get_u32 m a = mode" "get_u32 m (a + 4) = codec" "get_u32 m (a + 8) = width"
    "get_u32 m (a + 12) = height" "get_u32 m (a + 16) = rate" "get_u32 m (a + 20) = bitrate"
    "get_u32 m (a + 24) = 0"
  using assms
    get_u32_field [of m a "[]" mode "be32 codec @ be32 width @ be32 height @ be32 rate @ be32 bitrate @ be32 0"]
    get_u32_field [of m a "be32 mode" codec "be32 width @ be32 height @ be32 rate @ be32 bitrate @ be32 0"]
    get_u32_field [of m a "be32 mode @ be32 codec" width "be32 height @ be32 rate @ be32 bitrate @ be32 0"]
    get_u32_field [of m a "be32 mode @ be32 codec @ be32 width" height "be32 rate @ be32 bitrate @ be32 0"]
    get_u32_field [of m a "be32 mode @ be32 codec @ be32 width @ be32 height" rate "be32 bitrate @ be32 0"]
    get_u32_field [of m a "be32 mode @ be32 codec @ be32 width @ be32 height @ be32 rate" bitrate "be32 0"]
    get_u32_field [of m a "be32 mode @ be32 codec @ be32 width @ be32 height @ be32 rate @ be32 bitrate" 0 "[]"]
  by (simp_all add: create_payload_def)

text \<open>A creation either leaves every slot as it was or adds one running session under a new id.\<close>

definition opened :: "(dscw_codec_session \<Rightarrow> bool) \<Rightarrow> worker_state \<Rightarrow> int \<Rightarrow> u64 \<Rightarrow> worker_state \<Rightarrow> bool" where
  "opened P st status sid st' \<longleftrightarrow>
     (if status = DSCW_CODEC_OK
      then sid \<noteq> 0 \<and> find_session st sid = None
        \<and> (\<exists>i x. reserve_session st = Some i \<and> find_session st' sid = Some i
             \<and> sessions st' = (sessions st)[i := \<lparr>ws_id = sid, ws_codec = Some x\<rparr>] \<and> session_ok x \<and> P x)
      else sid = 0 \<and> sessions st' = sessions st)"

lemma slot_index_update:
  "slot_index (ws_id y) xs = None \<Longrightarrow> i < length xs \<Longrightarrow> slot_index (ws_id y) (xs[i := y]) = Some i"
  by (induction xs arbitrary: i) (auto split: if_splits nat.splits)

lemma opened_install:
  assumes "worker_ok st" "next_session_id st \<noteq> - 1" "reserve_session st = Some i" "session_ok x" "P x"
  shows "opened P st DSCW_CODEC_OK (fresh_id (next_session_id st)) (install i (Some x) st)"
proof -
  let ?sid = "fresh_id (next_session_id st)" and ?y = "\<lparr>ws_id = fresh_id (next_session_id st), ws_codec = Some x\<rparr>"
  have lt: "next_session_id st < next_session_id st + 1"
    by (rule word_less_succ [OF assms(2)])
  then have sid: "?sid = next_session_id st + 1" "?sid \<noteq> 0"
    by (auto simp: fresh_id_def)
  have i: "i < length (sessions st)"
    using slot_index_Some assms(3) by (auto simp: reserve_session_def)
  have new: "find_session st ?sid = None"
    using assms(1) lt unfolding find_session_def slot_index_None sid
    by (fastforce simp: worker_ok_def in_set_conv_nth)
  have sess: "sessions (install i (Some x) st) = (sessions st)[i := ?y]"
    by (simp add: install_def set_slot_def Let_def)
  have "find_session (install i (Some x) st) ?sid = Some i"
    using slot_index_update [of ?y "sessions st" i] new i by (simp add: find_session_def sess)
  then show ?thesis
    using sid(2) new sess assms by (auto simp: opened_def)
qed

lemma opened_refused:
  "status \<noteq> 0 \<Longrightarrow> opened P st status 0 st' \<longleftrightarrow> sessions st' = sessions st"
  by (simp add: opened_def)

lemma create_in_slot_opened:
  assumes ok: "worker_ok (wx_state w)" and room: "next_session_id (wx_state w) \<noteq> - 1"
    and create: "\<And>s. cx_session s = None \<Longrightarrow> wp create (created P s) s"
  shows "wp (create_in_slot output capacity create)
    (\<lambda>r w'. opened P (wx_state w) (dr_status r) (dr_session_id r) (wx_state w')) w"
proof -
  have call: "wp (codec_call None [] create) Q w"
    if "\<And>status d c err m. status < 0 \<Longrightarrow> Q ((status, d), None, err) (w\<lparr>wx_media := m\<rparr>)"
      "\<And>d c err m. session_ok c \<Longrightarrow> P c \<Longrightarrow> Q ((DSCW_CODEC_OK, d), Some c, err) (w\<lparr>wx_media := m\<rparr>)" for Q
    by (rule wp_codec_callI, rule wp_mono [OF create])
      (use that in \<open>auto simp: created_def split: if_splits\<close>)
  show ?thesis
    unfolding create_in_slot_def
    by (intro wp_intros call wp_failure)
      (auto intro!: wp_failure wp_success wp_bindI wp_state_setI wp_state_getI opened_install [OF ok room, simplified]
        simp: opened_refused)
qed

text \<open>The create request as the worker reads it from the mapping.\<close>

definition new_session :: "u32 \<Rightarrow> u32 \<Rightarrow> u32 \<Rightarrow> u32 \<Rightarrow> u32 \<Rightarrow> dscw_codec_session \<Rightarrow> bool" where
  "new_session mode w h r b x \<longleftrightarrow>
     \<not> s_transcoder x \<and> (s_encoder x \<longleftrightarrow> mode = DSCW_MODE_ENCODE)
     \<and> fresh_session w h r x \<and> valid_parameters w h r b"

lemma dispatch_create_opened:
  assumes "worker_ok (wx_state w)" "next_session_id (wx_state w) \<noteq> - 1"
    and "mem_read (wx_mem w) payload 28 = create_payload mode codec width height r b"
  shows "wp (dispatch_create api payload 28 output capacity)
     (\<lambda>result w'. opened (new_session mode width height r b) (wx_state w) (dr_status result)
        (dr_session_id result) (wx_state w')) w"
  unfolding dispatch_create_def
  by (simp, intro wp_intros)
    (simp add: create_payload_fields [OF assms(3)] create_in_slot_opened [OF assms(1,2)]
      create_result new_session_def [abs_def])

lemma opened_counters [simp]:
  "opened P (st\<lparr>requests := n\<rparr>) = opened P st" "opened P st status sid (count_error st') = opened P st status sid st'"
  by (auto simp: opened_def find_session_def reserve_session_def count_error_def fun_eq_iff)

lemma remote_create:
  assumes "connected k" "remote api DSCB_CREATE 0 (create_payload mode codec w h r b) k = (result, w1)"
  shows "opened (new_session mode w h r b) (fst (kx_world k)) (dr_status result) (dr_session_id result)
    (wx_state w1)"
proof -
  let ?payload = "create_payload mode codec w h r b"
  let ?w = "posted DSCB_CREATE 0 ?payload k"
  let ?w' = "?w\<lparr>wx_state := (wx_state ?w)\<lparr>requests := requests (wx_state ?w) + 1\<rparr>\<rparr>"
  have len: "length ?payload = 28"
    by (simp add: create_payload_def)
  have read: "mem_read (wx_mem ?w') request_payload 28 = ?payload"
    using post_request_read(2) [of ?payload] len by (simp add: posted_def layout_defs)
  have st: "wx_state ?w = fst (kx_world k)"
    by (simp add: posted_def)
  have "wp (dispatch_create api request_payload 28 response_payload DSCW_MAX_PAYLOAD)
     (\<lambda>result w'. opened (new_session mode w h r b) (fst (kx_world k)) (dr_status result)
        (dr_session_id result) (wx_state w')) ?w'"
    using dispatch_create_opened [OF _ _ read] assms(1) by (simp add: connected_def st)
  then show ?thesis
    using assms(2)
    by (auto simp: remote_def dispatch_type_def posted_header_def len dscb_types state_set_def wp_run
        split: prod.splits if_splits)
qed

text \<open>
  \<open>create_session\<close> end to end: on success the worker holds a running session of the requested
  kind and size under the id the client got, in a slot that was free; otherwise the client
  gets no id and the worker's sessions are as before.
\<close>

lemma create_session_opened:
  assumes "paired api e" "library_sane api" "calls_left (Suc n) k" "0 < n"
  shows "wp (create_session e mode codec w h r b)
    (\<lambda>(result, sid, color) k'. calls_left n k'
       \<and> opened (new_session mode w h r b) (fst (kx_world k)) result sid (fst (kx_world k'))) k"
proof -
  have payload: "be32 mode @ be32 codec @ be32 w @ be32 h @ be32 r @ be32 b @ be32 0 =
      create_payload mode codec w h r b"
    by (simp add: create_payload_def)
  have "length (create_payload mode codec w h r b) \<le> DSCW_MAX_PAYLOAD"
    by (simp add: create_payload_def layout_defs)
  moreover have "opened (new_session mode w h r b) (fst (kx_world k)) 1 0 st'"
    if "opened (new_session mode w h r b) (fst (kx_world k)) status sid st'" "status \<noteq> 0 \<or> sid = 0" for status sid st'
    using that by (auto simp: opened_def split: if_splits)
  ultimately show ?thesis
    unfolding create_session_def payload
    by (intro wp_intros wp_rpc [OF assms])
      (auto simp: dscb_types DSCB_RESPONSE_BIT_def response_of_def report_error_def after_rpc_def Let_def
        dest!: remote_create [OF calls_left_connected [OF assms(3)], unfolded dscb_types] intro!: wp_intros
        split: option.splits)
qed


section \<open>Input end to end\<close>

lemma record_fields:
  assumes "mem_read m a (16 + length data) = record_header pts flags n @ data"
  shows "get_u64 m a = pts" "get_u32 m (a + 8) = flags" "get_u32 m (a + 12) = n"
    "mem_read m (a + 16) (length data) = data"
proof -
  show "get_u64 m a = pts" "get_u32 m (a + 8) = flags" "get_u32 m (a + 12) = n"
    using assms get_u64_field [of m a "[]" pts "be32 flags @ be32 n @ data"]
      get_u32_field [of m a "be64 pts" flags "be32 n @ data"]
      get_u32_field [of m a "be64 pts @ be32 flags" n data]
    by (simp_all add: record_header_def)
  have "drop 16 (mem_read m a (16 + length data)) = data"
    unfolding assms by (simp add: record_header_def)
  then show "mem_read m (a + 16) (length data) = data"
    by (simp add: shm.rd_split)
qed

text \<open>
  What the worker does with an input record: the codec operation runs on the session of the
  slot with the time stamp, the flags and the bytes the client put in, and its status is the
  status of the response.
\<close>

definition operation_context :: "dscw_codec_session \<Rightarrow> mem \<Rightarrow> 'm \<Rightarrow> 'm cx" where
  "operation_context x m library =
     \<lparr>cx_session = Some x, cx_error = ''codec operation failed'', cx_error_size = 256, cx_mem = m, cx_media = library\<rparr>"

lemma dispatch_session_input:
  assumes found: "find_session (wx_state w) sid = Some i" "sid \<noteq> 0" "ws_codec (sessions (wx_state w) ! i) = Some x"
    and input: "get_u64 (wx_mem w) p = pts" "get_u32 (wx_mem w) (p + 8) = flags"
      "get_u32 (wx_mem w) (p + 12) = of_nat (length data)" "mem_read (wx_mem w) (p + 16) (length data) = data"
    and legal: "flags AND NOT DSCB_BUFFER_FLAG_CODEC_CONFIG = 0" "length data < 2 ^ 32"
    and run: "run_state (dscw_codec_queue api data pts flags) (operation_context x (wx_mem w) (wx_media w)) = (status, s')"
  shows "wp (dispatch_session api DSCB_INPUT sid p (16 + length data) output capacity)
    (\<lambda>r w'. dr_status r = status \<and> wx_media w' = cx_media s'
      \<and> sessions (wx_state w') = (sessions (wx_state w))[i := (sessions (wx_state w) ! i)\<lparr>ws_codec := cx_session s'\<rparr>]) w"
proof -
  have n: "unat (of_nat (length data) :: u32) = length data"
    using legal(2) by (simp add: unat_of_nat_u32)
  have call: "wp (slot_call i (dscw_codec_queue api data pts flags)) Q w"
    if "Q (status, cx_error s') (w\<lparr>wx_mem := cx_mem s', wx_media := cx_media s',
      wx_state := set_slot i ((sessions (wx_state w) ! i)\<lparr>ws_codec := cx_session s'\<rparr>) (wx_state w)\<rparr>)" for Q
    unfolding slot_call_def
    by (intro wp_intros wp_codec_callI)
      (use that run in \<open>auto simp: found wp_run operation_context_def state_set_def\<close>)
  show ?thesis
    unfolding dispatch_session_def
    by (intro wp_intros)
      (use found legal in \<open>auto simp: input n intro!: wp_intros call wp_finish simp: set_slot_def\<close>)
qed

lemma remote_input:
  assumes "connected k" "find_session (fst (kx_world k)) sid = Some i" "sid \<noteq> 0"
    and "ws_codec (sessions (fst (kx_world k)) ! i) = Some x"
    and "length data \<le> DSCW_MAX_PAYLOAD - 16" "flags AND NOT DSCB_BUFFER_FLAG_CODEC_CONFIG = 0"
    and payload: "payload = record_header pts flags (of_nat (length data)) @ data"
    and "remote api DSCB_INPUT sid payload k = (r, w1)"
    and "run_state (dscw_codec_queue api data pts flags)
      (operation_context x (wx_mem (posted DSCB_INPUT sid payload k)) (snd (kx_world k))) = (status, s')"
  shows "dr_status r = status \<and> wx_media w1 = cx_media s'
    \<and> sessions (wx_state w1) = (sessions (fst (kx_world k)))
        [i := (sessions (fst (kx_world k)) ! i)\<lparr>ws_codec := cx_session s'\<rparr>]"
proof -
  let ?w = "posted DSCB_INPUT sid payload k"
  let ?w' = "?w\<lparr>wx_state := (wx_state ?w)\<lparr>requests := requests (wx_state ?w) + 1\<rparr>\<rparr>"
  have len: "length payload = 16 + length data"
    by (simp add: payload record_header_def)
  have small: "16 + length data \<le> DSCW_MAX_PAYLOAD"
    using assms(5) by (simp add: layout_defs)
  have n: "unat (of_nat (length payload) :: u32) = 16 + length data"
    unfolding len by (rule unat_of_nat_u32) (use small in \<open>simp add: layout_defs\<close>)
  have "mem_read (wx_mem ?w) request_payload (16 + length data) = record_header pts flags (of_nat (length data)) @ data"
    using post_request_read(2) [of payload] small len payload by (simp add: posted_def)
  note fields = record_fields [OF this]
  have st: "wx_state (posted t sid payload k) = fst (kx_world k)" "wx_media (posted t sid payload k) = snd (kx_world k)" for t
    by (simp_all add: posted_def)
  have "wp (dispatch_session api DSCB_INPUT sid request_payload (16 + length data) response_payload DSCW_MAX_PAYLOAD)
    (\<lambda>r w'. dr_status r = status \<and> wx_media w' = cx_media s'
      \<and> sessions (wx_state w') = (sessions (wx_state ?w'))[i := (sessions (wx_state ?w') ! i)\<lparr>ws_codec := cx_session s'\<rparr>]) ?w'"
    by (rule dispatch_session_input [where x = x and flags = flags and pts = pts and data = data])
      (use assms(2-4,6,9) fields small in \<open>simp_all add: st find_session_def layout_defs\<close>)
  then show ?thesis
    using assms(8) n
    by (auto simp: remote_def dispatch_type_def posted_header_def state_set_def wp_run st count_error_def
        dscb_types split: prod.splits if_splits)
qed

section \<open>Hello\<close>

lemma remote_hello:
  assumes "remote api DSCB_HELLO 0 [] k = (r, w1)"
  shows "dr_status r = 0" "mem_read (wx_mem w1) response_payload (dr_payload_length r) = bytes_of hello_text"
proof -
  have n: "length hello_text \<le> DSCW_MAX_PAYLOAD"
    by (simp add: hello_text_def layout_defs)
  show "dr_status r = 0" "mem_read (wx_mem w1) response_payload (dr_payload_length r) = bytes_of hello_text"
    using assms n shm.rd_wr_same [of _ response_payload "bytes_of hello_text"]
    by (auto simp: remote_def dispatch_type_def posted_header_def dscb_types success_def copy_text_def
        state_set_def map_set_def Let_def min_def split: prod.splits if_splits)
qed

lemma hello_marker: "strstr ''inherited_memfd_eventfd'' (text_of (takeWhile (\<lambda>b. b \<noteq> 0) (bytes_of hello_text))) \<noteq> None"
proof -
  have "takeWhile (\<lambda>b. b \<noteq> 0) (bytes_of hello_text) = bytes_of hello_text"
    by (rule takeWhile_bytes_of) (simp add: hello_text_def)
  moreover have "strstr ''inherited_memfd_eventfd'' hello_text \<noteq> None"
    by (simp add: hello_text_def)
  ultimately show ?thesis by (simp only: text_of_bytes_of not_False_eq_True)
qed

lemma hello_accepted:
  assumes "paired api e" "library_sane api" "calls_left (Suc n) k" "0 < n"
  shows "wp (hello e) (\<lambda>r k'. r = 0 \<and> shared_memory_supported (kx_client k') \<and> calls_left n k') k"
proof -
  have bit: "DSCB_HELLO AND DSCB_RESPONSE_BIT = 0"
    by (simp add: dscb_types DSCB_RESPONSE_BIT_def)
  have "bytes_of hello_text \<noteq> []"
    by (simp add: bytes_of_def hello_text_def)
  then show ?thesis
    unfolding hello_def request_def
    by (intro wp_intros wp_rpc [OF assms _ bit])
      (use hello_marker in \<open>auto simp: response_of_def remote_hello client_set_def calls_left_def connected_def
        wp_simps\<close>)
qed

section \<open>Retries\<close>

text \<open>The answers within \<open>n\<close> rounds include one other than \<open>AGAIN\<close>.\<close>

fun settles :: "'w client_env \<Rightarrow> u16 \<Rightarrow> u64 \<Rightarrow> byte list \<Rightarrow> nat \<Rightarrow> 'w kx \<Rightarrow> bool" where
  "settles e t sid payload 0 k = False"
| "settles e t sid payload (Suc n) k =
     (case run_state (rpc e t sid payload) k of
        (Inl _, _) \<Rightarrow> True
      | (Inr response, k') \<Rightarrow>
          r_status response \<noteq> DSCW_CODEC_AGAIN
          \<or> settles e t sid payload n (k'\<lparr>kx_world := sleep_us e 2000 (kx_world k')\<rparr>))"

lemma retry_request_settles:
  assumes "settles e t sid payload n k" "n \<le> m"
  shows "run_state (retry_request e t sid payload m) k = run_state (retry_request e t sid payload n) k"
  using assms
proof (induction n arbitrary: k m)
  case (Suc n)
  then obtain l where m: "m = Suc l" "n \<le> l" by (cases m) auto
  show ?case
    using Suc.prems(1) Suc.IH [OF _ m(2)]
    by (auto simp: m(1) world_do_def split: prod.splits sum.splits if_splits)
qed simp

end
