(* ===== verification/Worker_Process.thy ===== *)
theory Worker_Process
  imports Codec_Worker
begin

text \<open>
  The worker as a process (\<open>main\<close> of \<open>dawnshell_codec_worker.c\<close>): its arguments, the signal handlers and
  the mapping before the handshake, and the calls that make up one round of its loop. A call that a
  signal interrupts is repeated until it returns something else or a stop was requested.
\<close>

section \<open>Interrupted calls\<close>

text \<open>One attempt: the result, whether it failed with \<open>EINTR\<close>, and \<open>stop_requested\<close> when it returned.\<close>

record attempt =
  at_result :: int
  at_interrupted :: bool
  at_stop :: bool

definition repeats :: "attempt \<Rightarrow> bool" where
  "repeats a \<longleftrightarrow> at_result a < 0 \<and> at_interrupted a \<and> \<not> at_stop a"

text \<open>The loop around a call, over the attempts before the last one and the last one.\<close>

fun settle :: "attempt list \<Rightarrow> attempt \<Rightarrow> attempt" where
  "settle [] final = final"
| "settle (a # attempts) final = (if repeats a then settle attempts final else a)"

type_synonym attempts = "attempt list \<times> attempt"

text \<open>Whether the result is 0, that is, whether the eight bytes of the counter were transferred.\<close>

definition eventfd_read_one :: "attempts \<Rightarrow> bool" where
  "eventfd_read_one as \<longleftrightarrow> at_result (settle (fst as) (snd as)) = 8"

definition eventfd_write_one :: "attempts \<Rightarrow> bool" where
  "eventfd_write_one as \<longleftrightarrow> at_result (settle (fst as) (snd as)) = 8"

section \<open>One round of the loop\<close>

text \<open>
  What the kernel answers in a round: \<open>stop_requested\<close> before it, the attempts to poll, whether the
  parent is gone when the poll timed out, the attempts to read the request event and, for a request
  that was served, to write the response event.
\<close>

record worker_round =
  rd_stop :: bool
  rd_polls :: attempts
  rd_parent_gone :: bool
  rd_reads :: attempts
  rd_writes :: attempts

definition round_event :: "worker_round \<Rightarrow> worker_event" where
  "round_event r =
     (if rd_stop r then StopRequested
      else let polled = settle (fst (rd_polls r)) (snd (rd_polls r)) in
        if at_stop polled then StopRequested
        else if at_result polled = 0 then PollTimeout (rd_parent_gone r)
        else if at_result polled < 0 \<or> \<not> eventfd_read_one (rd_reads r) then WaitFailed
        else RequestEvent (eventfd_write_one (rd_writes r)))"

section \<open>The process\<close>

text \<open>
  What the kernel answers before the loop: whether the handlers could be set, whether the worker may
  ask for a signal at its parent's end, whether the memory could be mapped, the parent's pid and the
  attempts to announce itself.
\<close>

record worker_start =
  st_signals :: bool
  st_death_signal :: bool
  st_mapped :: bool
  st_parent :: nat
  st_announce :: attempts

definition worker_process ::
  "'m media_api \<Rightarrow> string list \<Rightarrow> worker_start \<Rightarrow> worker_round list \<Rightarrow> ('m, nat) worker" where
  "worker_process api argv st rounds =
     (if length argv \<noteq> 2 \<or> argv ! 1 \<noteq> ''--inherited-transport'' then return 2
      else if \<not> st_signals st then return 3
      else if \<not> st_death_signal st then return 3
      else if \<not> st_mapped st then return 4
      else worker_main api (st_parent st) (eventfd_write_one (st_announce st)) (map round_event rounds))"

section \<open>Facts\<close>

text \<open>The loop around a call ends with an attempt that is not repeated, if the last one is not.\<close>

lemma settle_final: "\<not> repeats final \<Longrightarrow> \<not> repeats (settle attempts final)"
  by (induction attempts) auto

text \<open>Interruptions before the call succeeds do not change its outcome.\<close>

lemma settle_interrupted: "list_all repeats attempts \<Longrightarrow> settle attempts final = final"
  by (induction attempts) auto

text \<open>A stop that was requested is never taken for a request.\<close>

lemma stop_ends_round:
  "rd_stop r \<or> list_all repeats (fst (rd_polls r)) \<and> at_stop (snd (rd_polls r)) \<Longrightarrow> round_event r = StopRequested"
  by (auto simp: round_event_def settle_interrupted)

definition worker_exit_code :: "string list \<Rightarrow> worker_start \<Rightarrow> mem \<Rightarrow> nat" where
  "worker_exit_code argv st m =
     (if length argv \<noteq> 2 \<or> argv ! 1 \<noteq> ''--inherited-transport'' then 2
      else if \<not> (st_signals st \<and> st_death_signal st) then 3
      else if \<not> st_mapped st then 4
      else if \<not> transport_valid m (st_parent st) then 5
      else if \<not> eventfd_write_one (st_announce st) then 6 else 0)"

lemma worker_process_closes:
  assumes "library_sane api" "\<And>m. unat (fst (env_monotonic_ns api m)) + length rounds < 2 ^ 64"
  shows "wp (worker_process api argv st rounds)
    (\<lambda>code w'. code = worker_exit_code argv st (wx_mem w) \<and>
       (code = 0 \<longrightarrow> sessions (wx_state w') = [empty_session, empty_session])) w"
proof -
  have main: "wp (worker_main api (st_parent st) (eventfd_write_one (st_announce st)) (map round_event rounds))
    (\<lambda>code w'. code = (if \<not> transport_valid (wx_mem w) (st_parent st) then 5 else if \<not> eventfd_write_one (st_announce st) then 6 else 0)
       \<and> (code = 0 \<longrightarrow> sessions (wx_state w') = [empty_session, empty_session])) w"
    by (rule worker_main_closes [OF assms(1)]) (use assms(2) in simp)
  then show ?thesis
    by (simp add: worker_process_def worker_exit_code_def wp_if wp_return)
qed

text \<open>What the worker has stored in the mapping once it has announced itself and before any request.\<close>

definition announced :: "nat \<Rightarrow> mem \<Rightarrow> mem" where
  "announced pid m = (let m' = control_store ctl_worker_pid (of_nat pid) m
     in control_store ctl_flags (control_load m' ctl_flags OR DSCW_FLAG_WORKER_READY) m')"

lemma worker_main_announces:
  assumes "transport_valid (wx_mem w) ppid"
  shows "wp (worker_main api ppid True []) (\<lambda>code w'. code = 0 \<and> wx_mem w' = announced (env_getpid api) (wx_mem w)) w"
proof -
  have start: "worker_ok \<lparr>sessions = replicate 2 empty_session, next_session_id = n, started_ns = t, requests = 0, errors = 0\<rparr>" for n t
    using worker_ok_start [of n t] by (simp add: DSCB_MAX_SESSIONS_def)
  have same: "(replicate 2 empty_session)[0 := empty_session] = replicate 2 empty_session"
    by (simp add: numeral_2_eq_2)
  show ?thesis
    using assms unfolding worker_main_def worker_loop.simps
    by (intro wp_intros close_session_handled)
      (auto simp: announced_def Let_def start same DSCB_MAX_SESSIONS_def set_slot_def)
qed

end
