(* ===== verification/Demo_Library.thy ===== *)
theory Demo_Library
  imports Codec_Rpc Worker_Process
begin

text \<open>
  A concrete media library, in which every call succeeds: handles are numbered by a counter,
  every codec has room for a megabyte of input and always has a four-byte output buffer
  ready, and every image is a 2x2 picture. It shows that the hypotheses the theorems make
  about the library can be met. A client started on a fresh mapping, with a worker on that
  library at the other end, does the same for the hypotheses about a connection.
\<close>

definition demo_info :: buffer_info where
  "demo_info = \<lparr>bi_offset = 0, bi_size = 4, bi_presentationTimeUs = 7, bi_flags = 0\<rparr>"

definition demo_crop :: crop_rect where
  "demo_crop = \<lparr>crop_left = 0, crop_top = 0, crop_right = 2, crop_bottom = 2\<rparr>"

definition demo_plane :: "nat \<Rightarrow> byte list \<times> int \<times> int" where
  "demo_plane p = (if p = 0 then [1, 2, 3, 4] else if p = 1 then [5] else [6], if p = 0 then 2 else 1, 1)"

definition demo_new :: "nat \<Rightarrow> nat option \<times> nat" where
  "demo_new m = (Some m, m + 1)"

definition demo_api :: "nat media_api" where
  "demo_api = \<lparr>
     AMediaFormat_new = demo_new,
     AMediaFormat_setString = (\<lambda>f k v m. m),
     AMediaFormat_setInt32 = (\<lambda>f k v m. m),
     AMediaFormat_getInt32 = (\<lambda>f k m. (None, m)),
     AMediaFormat_delete = (\<lambda>f m. m),
     AMediaCodec_createEncoderByType = (\<lambda>mime. demo_new),
     AMediaCodec_createDecoderByType = (\<lambda>mime. demo_new),
     AMediaCodec_createCodecByName = (\<lambda>name. demo_new),
     AMediaCodec_configure = (\<lambda>c f w fl m. (0, m)),
     AMediaCodec_start = (\<lambda>c m. (0, m)),
     AMediaCodec_stop = (\<lambda>c m. (0, m)),
     AMediaCodec_flush = (\<lambda>c m. (0, m)),
     AMediaCodec_delete = (\<lambda>c m. (0, m)),
     AMediaCodec_dequeueInputBuffer = (\<lambda>c t m. (0, m)),
     AMediaCodec_getInputBuffer = (\<lambda>c i m. (Some 1000000, m)),
     input_buffer_store = (\<lambda>c i bs m. m),
     AMediaCodec_queueInputBuffer = (\<lambda>c i n p f m. (0, m)),
     AMediaCodec_dequeueOutputBuffer = (\<lambda>c t m. ((0, demo_info), m)),
     AMediaCodec_getOutputBuffer = (\<lambda>c i m. (Some [1, 2, 3, 4], m)),
     AMediaCodec_releaseOutputBuffer = (\<lambda>c i r m. (0, m)),
     AMediaCodec_getOutputFormat = (\<lambda>c m. (None, m)),
     AImageReader_new = (\<lambda>w h m. ((0, Some m), m + 1)),
     AImageReader_getWindow = (\<lambda>r m. ((0, Some m), m + 1)),
     AImageReader_acquireNextImage = (\<lambda>r m. ((0, Some m), m + 1)),
     AImageReader_delete = (\<lambda>r m. m),
     AImage_getFormat = (\<lambda>i m. ((0, AIMAGE_FORMAT_YUV_420_888), m)),
     AImage_getNumberOfPlanes = (\<lambda>i m. ((0, 3), m)),
     AImage_getCropRect = (\<lambda>i m. ((0, demo_crop), m)),
     AImage_getPlaneData = (\<lambda>i p m. ((0, Some (fst (demo_plane p))), m)),
     AImage_getPlaneRowStride = (\<lambda>i p m. ((0, fst (snd (demo_plane p))), m)),
     AImage_getPlanePixelStride = (\<lambda>i p m. ((0, snd (snd (demo_plane p))), m)),
     AImage_delete = (\<lambda>i m. m),
     ANativeWindow_release = (\<lambda>w m. m),
     env_monotonic_ns = (\<lambda>m. (1000, m)),
     env_process_cpu_ms = (\<lambda>m. (5, m)),
     env_usleep = (\<lambda>n m. m),
     env_calloc = (\<lambda>m. (True, m)),
     env_getpid = 42,
     opt_get_name = None,
     opt_release_name = None,
     opt_find_decoder = None,
     opt_find_encoder = None,
     opt_info_name = None,
     opt_info_type = None,
     opt_create_input_surface = Some (\<lambda>c m. ((0, Some m), m + 1)),
     opt_signal_input_eos = Some (\<lambda>c m. (0, m)),
     opt_set_parameters = Some (\<lambda>c p m. (0, m)),
     loop_fuel = 4 \<rparr>"

lemma demo_library_sane: "library_sane demo_api"
  by (simp add: library_sane_def crops_sane_def sizes_sane_def crop_sane_def demo_api_def demo_crop_def
      demo_info_def)

definition demo_start :: worker_state where
  "demo_start = \<lparr>sessions = replicate DSCB_MAX_SESSIONS empty_session, next_session_id = 7,
     started_ns = 7, requests = 0, errors = 0\<rparr>"

definition demo_wx :: "nat wx" where
  "demo_wx = \<lparr>wx_state = demo_start, wx_mem = (\<lambda>_. 0), wx_media = 1\<rparr>"

lemma demo_worker_ok: "worker_ok (wx_state demo_wx)"
  by (simp add: demo_wx_def demo_start_def worker_ok_start)

definition demo_cx :: "dscw_codec_session option \<Rightarrow> nat cx" where
  "demo_cx s = \<lparr>cx_session = s, cx_error = [], cx_error_size = 256, cx_mem = (\<lambda>_. 0), cx_media = 1\<rparr>"

definition demo_encoder :: dscw_codec_session where
  "demo_encoder = zero_session\<lparr>s_encoder := True, s_width := 64, s_height := 64, s_frame_rate := 30,
     s_codec := Some 1\<rparr>"

lemma demo_encoder_ok: "session_ok demo_encoder"
  by (simp add: session_ok_def demo_encoder_def zero_session_def valid_parameters_def frame_bytes_def
      MAX_CODEC_NAME_def DSCW_MAX_PAYLOAD_def)

definition demo_client :: "(worker_state \<times> nat) client_env" where
  "demo_client = \<lparr>exchange = worker_exchange demo_api, malloc_ok = (\<lambda>n w. (True, w)),
     write_ok = (\<lambda>n w. (True, w)), sleep_us = (\<lambda>n w. w), clock_us = (\<lambda>w. (0, w)),
     file_bytes = (\<lambda>path. None), loop_limit = 8\<rparr>"

definition demo_kx :: "(worker_state \<times> nat) kx" where
  "demo_kx = \<lparr>kx_client = \<lparr>worker_started = True, worker_sequence = 0, next_request_id = 1,
       shared_memory_supported = False\<rparr>,
     kx_mem = init_transport 42, kx_in = [], kx_out = [], kx_world = (demo_start, 1)\<rparr>"

lemma demo_paired: "paired demo_api demo_client"
  by (simp add: paired_def demo_client_def)

lemma demo_calls_left: "calls_left 1000 demo_kx"
proof -
  have "mem_read (\<lambda>_. 0) a 4 = [0, 0, 0, 0]" for a
    by (simp add: mem_read_def numeral_eq_Suc upt_conv_Cons)
  then have "control_load (init_transport 42) ctl_flags = 0"
    by (simp add: init_transport_def mem_simps) (simp add: control_load_def unhost32_def)
  moreover have "worker_ok demo_start"
    by (simp add: demo_start_def worker_ok_start)
  ultimately show ?thesis
    by (simp add: calls_left_def connected_def demo_kx_def) (simp add: demo_start_def)
qed

lemma calls_left_mono: "calls_left n k \<Longrightarrow> m \<le> n \<Longrightarrow> calls_left m k"
  by (auto simp: calls_left_def)

lemma demo_clock: "env_monotonic_ns demo_api m = (1000, m)"
  by (simp add: demo_api_def)

text \<open>The same connection with an encoder session already open under id 5.\<close>

definition demo_encoder_kx :: "(worker_state \<times> nat) kx" where
  "demo_encoder_kx = demo_kx\<lparr>kx_world :=
     (demo_start\<lparr>sessions := [\<lparr>ws_id = 5, ws_codec = Some demo_encoder\<rparr>, empty_session]\<rparr>, 1)\<rparr>"

lemma demo_encoder_connected: "connected demo_encoder_kx"
proof -
  have "worker_ok (demo_start\<lparr>sessions := [\<lparr>ws_id = 5, ws_codec = Some demo_encoder\<rparr>, empty_session]\<rparr>)"
    using demo_encoder_ok
    by (auto simp: worker_ok_def demo_start_def DSCB_MAX_SESSIONS_def slot_ok_def empty_session_def ids_distinct_def
        less_Suc_eq less_2_cases_iff)
  then show ?thesis
    using calls_left_connected [OF demo_calls_left] by (simp add: connected_def demo_encoder_kx_def demo_kx_def)
qed

text \<open>A file with two access units.\<close>

definition demo_stream :: "byte list" where
  "demo_stream = [0, 0, 0, 1, 9, 16, 7, 0, 0, 0, 1, 9, 48, 8]"

end
