(* ===== verification/Codec_Properties.thy ===== *)
theory Codec_Properties
  imports Demo_Library
begin

text \<open>
  The properties of the codec service that span its components: what a client can rely on
  when it talks to a worker over the shared mapping, and what a worker guarantees to any
  client. Each is stated over the model's definitions; the witnesses instantiate the media
  library, the connection and the inputs.
\<close>

section \<open>Calls\<close>

text \<open>
  C1. A call is the dispatch. For a running, connected worker, \<open>rpc\<close> returns a response with
  the type, session, status and payload that the worker's dispatch of that request computed,
  under the id the client chose, and leaves exactly the state the dispatch left.
\<close>

theorem rpc_returns_dispatch:
  assumes "paired api e" "library_sane api" "connected k" "length payload \<le> DSCW_MAX_PAYLOAD"
    "t AND DSCB_RESPONSE_BIT = 0" "remote api t sid payload k = (r, w1)"
  shows "run_state (rpc e t sid payload) k =
    (Inr (response_of t (next_request_id (kx_client k)) r (wx_mem w1)), after_rpc t r w1 k)"
  by (rule rpc_remote [OF assms])

theorem rpc_returns_dispatch_witness:
  "\<exists>r w1. run_state (rpc demo_client DSCB_HEALTH 0 [1]) demo_kx =
    (Inr (response_of DSCB_HEALTH 1 r (wx_mem w1)), after_rpc DSCB_HEALTH r w1 demo_kx)"
proof -
  obtain r w1 where "remote demo_api DSCB_HEALTH 0 [1] demo_kx = (r, w1)"
    by fastforce
  from rpc_returns_dispatch [OF demo_paired demo_library_sane calls_left_connected [OF demo_calls_left] _ _ this]
  show ?thesis
    by (auto simp: demo_kx_def dscb_types DSCB_RESPONSE_BIT_def layout_defs)
qed

text \<open>
  C14. What a client accepts, whatever is at the other end of the mapping: a response is only
  returned when it carries the request's type with the response bit, the request's id, the
  sequence number just posted and a payload within the bound.
\<close>

theorem rpc_rejects_foreign_response:
  "wp (rpc e t sid payload)
    (\<lambda>r k'. case r of
        Inl _ \<Rightarrow> True
      | Inr response \<Rightarrow>
          r_type response = t OR DSCB_RESPONSE_BIT
          \<and> r_request_id response = next_request_id (kx_client k)
          \<and> length (r_payload response) \<le> DSCW_MAX_PAYLOAD
          \<and> control_load (kx_mem k') ctl_response_sequence = worker_sequence (kx_client k')
          \<and> worker_sequence (kx_client k') = next_sequence (worker_sequence (kx_client k))
          \<and> length payload \<le> DSCW_MAX_PAYLOAD \<and> worker_started (kx_client k)) k"
  by (rule rpc_accepts)

text \<open>
  C2. The worker's side of a request, whatever the bytes in the slot: the reply stays inside
  the response buffer, the status is one of the protocol's, the session table stays valid, no
  other session is touched, the request is counted and an error exactly when it failed, and
  the type and id echoed are those of the request.
\<close>

theorem dispatch_request_contained:
  assumes "library_sane api" "worker_ok (wx_state w)" "next_session_id (wx_state w) \<noteq> - 1"
  shows "wp (dispatch_request api slot request_length output capacity t rid)
    (\<lambda>(r, t', rid') w'. answered (request_session (wx_mem w) slot request_length) output capacity w r w'
       \<and> (request_length < DSCW_PROTOCOL_HEADER_BYTES \<longrightarrow> t' = t \<and> rid' = rid)
       \<and> (request_length \<ge> DSCW_PROTOCOL_HEADER_BYTES \<longrightarrow>
            t' = rh_type (read_header (wx_mem w) slot) \<and> rid' = rh_request_id (read_header (wx_mem w) slot))) w"
  by (rule dispatch_request_answered [OF assms])

theorem dispatch_request_contained_witness:
  "wp (dispatch_request demo_api 4096 8 100 64 3 9)
    (\<lambda>(r, t, rid) w'. answered 0 100 64 demo_wx r w' \<and> t = 3 \<and> rid = 9) demo_wx"
  by (rule wp_mono [OF dispatch_request_contained [OF demo_library_sane demo_worker_ok]])
    (auto simp: demo_wx_def demo_start_def request_session_def DSCW_PROTOCOL_HEADER_BYTES_def)

text \<open>
  A round of the worker's loop on any request in the slot: a well-formed response whose
  byte count and header agree, the request slot and every other control member unchanged, the
  response sequence equal to the request sequence.
\<close>

theorem serve_request_replies:
  assumes "library_sane api" "worker_ok (wx_state w)" "next_session_id (wx_state w) \<noteq> - 1"
  shows "wp (serve_request api) (\<lambda>_ w'. served w w' \<and> (\<exists>r t rid. reply_in w' r t rid)) w"
  by (rule serve_request_served [OF assms])

theorem serve_request_replies_witness:
  "wp (serve_request demo_api) (\<lambda>_ w'. served demo_wx w' \<and> (\<exists>r t rid. reply_in w' r t rid)) demo_wx"
  by (rule serve_request_replies [OF demo_library_sane demo_worker_ok])
    (simp add: demo_wx_def demo_start_def)

text \<open>
  C8. The whole life of a worker process: its exit code says exactly what failed (arguments 2, signals 3,
  mapping 4, handshake 5, announcement 6, otherwise 0), and when it exits normally, after any sequence of
  rounds with calls interrupted or not, every session has been closed.
\<close>

theorem worker_exit_leaves_no_session:
  assumes "library_sane api" "\<And>m. unat (fst (env_monotonic_ns api m)) + length rounds < 2 ^ 64"
  shows "wp (worker_process api argv st rounds)
    (\<lambda>code w'. code = (if length argv \<noteq> 2 \<or> argv ! 1 \<noteq> ''--inherited-transport'' then 2
        else if \<not> (st_signals st \<and> st_death_signal st) then 3
        else if \<not> st_mapped st then 4
        else if \<not> transport_valid (wx_mem w) (st_parent st) then 5
        else if \<not> eventfd_write_one (st_announce st) then 6 else 0)
     \<and> (code = 0 \<longrightarrow> sessions (wx_state w') = [empty_session, empty_session])) w"
  using worker_process_closes [OF assms, of argv st w] unfolding worker_exit_code_def .

definition demo_attempts :: attempts where
  "demo_attempts = ([\<lparr>at_result = -1, at_interrupted = True, at_stop = False\<rparr>], \<lparr>at_result = 8, at_interrupted = False, at_stop = False\<rparr>)"

definition demo_worker_start :: worker_start where
  "demo_worker_start = \<lparr>st_signals = True, st_death_signal = True, st_mapped = True, st_parent = 42, st_announce = demo_attempts\<rparr>"

definition demo_round :: worker_round where
  "demo_round = \<lparr>rd_stop = False, rd_polls = ([], \<lparr>at_result = 1, at_interrupted = False, at_stop = False\<rparr>),
     rd_parent_gone = False, rd_reads = demo_attempts, rd_writes = demo_attempts\<rparr>"

theorem worker_exit_leaves_no_session_witness:
  "wp (worker_process demo_api [''w'', ''--inherited-transport''] demo_worker_start [demo_round])
    (\<lambda>code w'. code = 0 \<and> sessions (wx_state w') = [empty_session, empty_session]) (demo_wx\<lparr>wx_mem := init_transport 42\<rparr>)"
proof -
  have "transport_valid (init_transport 42) 42"
    by (rule init_transport_valid) simp_all
  then show ?thesis
    by (intro wp_mono [OF worker_exit_leaves_no_session [OF demo_library_sane, where rounds = "[demo_round]"]])
      (auto simp: demo_clock demo_worker_start_def demo_attempts_def eventfd_write_one_def repeats_def)
qed

text \<open>
  C9. The worker's state is well formed in every round: two slots, each free or holding a running
  codec session of its kind with accepted parameters, under different ids that were given out, whatever
  requests arrive.
\<close>

theorem worker_state_well_formed:
  assumes "library_sane api" "worker_ok (wx_state w)"
    and "unat (next_session_id (wx_state w)) + length rounds < 2 ^ 64"
  shows "wp (worker_loop api (map round_event rounds)) (\<lambda>_ w'. worker_ok (wx_state w')) w"
  by (rule worker_loop_ok) (use assms in simp_all)

theorem worker_state_well_formed_witness:
  "wp (worker_loop demo_api (map round_event [demo_round])) (\<lambda>_ w'. worker_ok (wx_state w')) demo_wx"
  by (rule worker_state_well_formed [OF demo_library_sane demo_worker_ok]) (simp add: demo_wx_def demo_start_def)



text \<open>
  C4. Input end to end: the bytes, time stamp and flags a client posts are those the codec
  operation of the addressed session is called with, its status is the status of the response,
  and of the sessions only that one changes, to what the operation left.
\<close>

theorem input_reaches_codec:
  assumes "connected k" "find_session (fst (kx_world k)) sid = Some i" "sid \<noteq> 0"
    and "ws_codec (sessions (fst (kx_world k)) ! i) = Some x"
    and "length data \<le> DSCW_MAX_PAYLOAD - 16" "flags AND NOT DSCB_BUFFER_FLAG_CODEC_CONFIG = 0"
    and "payload = record_header pts flags (of_nat (length data)) @ data"
    and "remote api DSCB_INPUT sid payload k = (r, w1)"
    and "run_state (dscw_codec_queue api data pts flags)
      (operation_context x (wx_mem (posted DSCB_INPUT sid payload k)) (snd (kx_world k))) = (status, s')"
  shows "dr_status r = status \<and> wx_media w1 = cx_media s'
    \<and> sessions (wx_state w1) = (sessions (fst (kx_world k)))
        [i := (sessions (fst (kx_world k)) ! i)\<lparr>ws_codec := cx_session s'\<rparr>]"
  by (rule remote_input [OF assms])

theorem input_reaches_codec_witness:
  "\<exists>r w1 status s'. remote demo_api DSCB_INPUT 5 (record_header 100 0 1 @ [9]) demo_encoder_kx = (r, w1)
    \<and> run_state (dscw_codec_queue demo_api [9] 100 0) (operation_context demo_encoder
        (wx_mem (posted DSCB_INPUT 5 (record_header 100 0 1 @ [9]) demo_encoder_kx)) 1) = (status, s')
    \<and> dr_status r = status \<and> wx_media w1 = cx_media s'
    \<and> sessions (wx_state w1) = [\<lparr>ws_id = 5, ws_codec = cx_session s'\<rparr>, empty_session]"
proof -
  obtain r w1 where r: "remote demo_api DSCB_INPUT 5 (record_header 100 0 1 @ [9]) demo_encoder_kx = (r, w1)"
    by fastforce
  have world: "fst (kx_world demo_encoder_kx) =
      demo_start\<lparr>sessions := [\<lparr>ws_id = 5, ws_codec = Some demo_encoder\<rparr>, empty_session]\<rparr>"
    "snd (kx_world demo_encoder_kx) = 1"
    by (simp_all add: demo_encoder_kx_def)
  obtain status s' where s: "run_state (dscw_codec_queue demo_api [9] 100 0) (operation_context demo_encoder
        (wx_mem (posted DSCB_INPUT 5 (record_header 100 0 1 @ [9]) demo_encoder_kx))
        (snd (kx_world demo_encoder_kx))) = (status, s')"
    by fastforce
  show ?thesis
    using input_reaches_codec [OF demo_encoder_connected, of 5 0 demo_encoder "[9]" 0
        "record_header 100 0 1 @ [9]" 100 demo_api r w1 status s'] r s
    by (auto simp: world find_session_def layout_defs)
qed

section \<open>The codec sessions\<close>

text \<open>
  C5. A picture from the decoder becomes the I420 frame of its crop: for a readable image with
  an accepted crop that lies inside its planes, \<open>normalize_image\<close> succeeds, reports the frame's
  size, and the buffer holds row by row exactly the cropped luma and chroma samples, whatever
  the row and pixel strides of the planes.
\<close>

theorem image_becomes_i420:
  assumes "image_readable api img (cx_media s) crop P" "crop_sane crop" "crop_accepted capacity crop"
    and "\<forall>p \<in> {0, 1, 2}. crop_in_plane crop (crop_width crop) (crop_height crop) p (P p)"
  shows "wp (normalize_image api img output capacity)
    (\<lambda>(status, len) s'. status = DSCW_CODEC_OK \<and> len = frame_size crop \<and>
       same_outside output capacity (cx_mem s) (cx_mem s') \<and>
       mem_read (cx_mem s') output len = i420_frame crop (map P [0, 1, 2])) s"
  by (rule normalize_image_exact [OF assms])

theorem image_becomes_i420_witness:
  "wp (normalize_image demo_api 3 100 64)
    (\<lambda>(status, len) s'. status = DSCW_CODEC_OK \<and> len = 6 \<and>
       mem_read (cx_mem s') 100 len = [1, 2, 3, 4, 5, 6]) (demo_cx None)"
proof -
  have frame: "i420_frame demo_crop (map demo_plane [0, 1, 2]) = [1, 2, 3, 4, 5, 6]" "frame_size demo_crop = 6"
    by code_simp+
  have inside: "\<forall>p \<in> {0, 1, 2}. crop_in_plane demo_crop (crop_width demo_crop) (crop_height demo_crop) p (demo_plane p)"
    by code_simp
  have accepted: "crop_sane demo_crop" "crop_accepted 64 demo_crop"
    by code_simp+
  have readable: "image_readable demo_api 3 m demo_crop demo_plane" for m
    by (auto simp: image_readable_def demo_api_def demo_plane_def AMEDIA_OK_def)
  show ?thesis
    by (rule wp_mono [OF image_becomes_i420 [OF readable accepted inside]]) (auto simp: frame simp del: list.map One_nat_def)
qed

text \<open>
  Whatever the image answers, \<open>normalize_image\<close> writes only inside the buffer it was given
  and reports a length that fits, also when it fails half way.
\<close>

theorem image_copy_contained:
  assumes "crops_sane api"
  shows "wp (normalize_image api img output capacity)
    (\<lambda>(status, len) s'. cx_session s' = cx_session s \<and> cx_error_size s' = cx_error_size s \<and>
       same_outside output capacity (cx_mem s) (cx_mem s') \<and> len \<le> capacity \<and>
       status \<in> {DSCW_CODEC_OK, DSCW_CODEC_ERROR_UNSUPPORTED, DSCW_CODEC_ERROR_LIMIT, DSCW_CODEC_ERROR_CODEC}) s"
  by (rule normalize_image_frame [OF assms])

theorem image_copy_contained_witness:
  "wp (normalize_image demo_api 3 100 5)
    (\<lambda>(status, len) s'. same_outside 100 5 (\<lambda>_. 0) (cx_mem s') \<and> len \<le> 5) (demo_cx None)"
  by (rule wp_mono [OF image_copy_contained])
    (use demo_library_sane in \<open>auto simp: library_sane_def demo_cx_def\<close>)



text \<open>
  C7. The time stamps an encoder accepts increase strictly over any sequence of input records,
  and every accepted frame is counted once.
\<close>

theorem encoder_time_stamps_increase:
  assumes "cx_session s = Some x" "s_encoder x" "\<not> s_transcoder x"
  shows "wp (queue_all api records)
    (\<lambda>accepted s'. sorted_wrt (<) accepted \<and>
       (s_have_encoder_pts x \<longrightarrow> (\<forall>p \<in> set accepted. s_last_encoder_pts x < p)) \<and>
       (\<exists>x'. cx_session s' = Some x' \<and> s_input_frames x' = s_input_frames x + of_nat (length accepted))) s"
  by (rule queue_all_increasing [OF assms])

theorem encoder_time_stamps_increase_witness:
  "wp (queue_all demo_api [([1], 5, 0), ([2], 3, 0), ([3], 9, 0)]) (\<lambda>accepted _. sorted_wrt (<) accepted)
     (demo_cx (Some demo_encoder))"
  by (rule wp_mono [OF encoder_time_stamps_increase [where x = demo_encoder]])
    (auto simp: demo_cx_def demo_encoder_def zero_session_def)

text \<open>
  \<open>dscw_codec_create\<close> either returns a session of the requested mode, size and rate with
  its codec running and parameters in bounds, or an error of the protocol and no session, after
  releasing what it had opened.
\<close>

theorem create_all_or_nothing:
  assumes "cx_session s = None"
  shows "wp (dscw_codec_create api mode codec w h r b requested n)
    (created (\<lambda>x. \<not> s_transcoder x \<and> (s_encoder x \<longleftrightarrow> mode = DSCW_MODE_ENCODE) \<and> fresh_session w h r x
       \<and> valid_parameters w h r b) s) s"
  by (rule create_result [OF assms])

theorem create_all_or_nothing_witness:
  "wp (dscw_codec_create demo_api DSCW_MODE_ENCODE DSCW_CODEC_AVC 64 64 30 100000 0 512)
    (created (\<lambda>x. \<not> s_transcoder x \<and> s_encoder x \<and> fresh_session 64 64 30 x \<and> valid_parameters 64 64 30 100000)
       (demo_cx None)) (demo_cx None)"
  by (rule wp_mono [OF create_all_or_nothing]) (auto simp: demo_cx_def created_def)

text \<open>C12. The same for \<open>dscw_codec_create_transcoder\<close>, with decoder, encoder and surface.\<close>

theorem create_transcoder_all_or_nothing:
  assumes "cx_session s = None"
  shows "wp (dscw_codec_create_transcoder api from_codec to_codec w h r b n)
    (created (\<lambda>x. s_transcoder x \<and> fresh_session w h r x) s) s"
  by (rule create_transcoder_result [OF assms])

theorem create_transcoder_all_or_nothing_witness:
  "wp (dscw_codec_create_transcoder demo_api DSCW_CODEC_AVC DSCW_CODEC_HEVC 64 64 30 100000 512)
    (created (\<lambda>x. s_transcoder x \<and> fresh_session 64 64 30 x) (demo_cx None)) (demo_cx None)"
  by (rule create_transcoder_all_or_nothing) (simp add: demo_cx_def)

text \<open>
  The candidates a session is tried on: at most 24, without duplicates, names that fit
  their field, and one is marked as proven hardware only on evidence, a vendor prefix in its
  name or the platform's own hardware flag for that name.
\<close>

theorem candidates_have_evidence:
  "wp (collect_candidates api codec enc) (\<lambda>cs _. candidates_ok (hardware_evidence api) cs) s"
  by (rule collect_candidates_ok)

text \<open>
  No software fallback: a codec object is only kept when its candidate was proven hardware
  or the name the object reports is a hardware name.
\<close>

theorem no_software_fallback:
  "wp (new_codec api c enc mime MAX_CODEC_NAME)
     (\<lambda>r _. \<forall>h name. r = Some (h, name) \<longrightarrow>
        length name < MAX_CODEC_NAME \<and> (hardware_proven c \<or> hardware_name name)) s"
  by (rule new_codec_proven)

theorem no_software_fallback_witness:
  "wp (new_codec demo_api \<lparr>cand_name = ''c2.android.avc.encoder'', hardware_proven = False\<rparr> True ''video/avc''
      MAX_CODEC_NAME) (\<lambda>r _. \<forall>h name. r = Some (h, name) \<longrightarrow> hardware_name name) (demo_cx None)"
  by (rule wp_mono [OF no_software_fallback]) auto

text \<open>
  End of stream closes the input of a session exactly when \<open>dscw_codec_queue_eos\<close> succeeds,
  which it does at most once before a flush.
\<close>

theorem eos_closes_input_once:
  assumes "cx_session s = Some x" "\<not> s_transcoder x"
  shows "wp (dscw_codec_queue_eos api pts)
    (\<lambda>r s'. \<exists>x'. cx_session s' = Some x' \<and>
       (if r = DSCW_CODEC_OK then \<not> s_input_eos x \<and> s_input_eos x' \<and> s_input_eos_count x' = s_input_eos_count x + 1
        else s_input_eos x' = s_input_eos x \<and> s_input_eos_count x' = s_input_eos_count x)) s"
  by (rule eos_closes_input [OF assms])

theorem eos_closes_input_once_witness:
  "wp (dscw_codec_queue_eos demo_api 5) (\<lambda>r s'. \<exists>x'. cx_session s' = Some x' \<and>
     (r = DSCW_CODEC_OK \<longrightarrow> s_input_eos x')) (demo_cx (Some demo_encoder))"
  by (rule wp_mono [OF eos_closes_input_once [where x = demo_encoder]])
    (auto simp: demo_cx_def demo_encoder_def zero_session_def split: if_splits)

text \<open>
  Input after end of stream is refused before any codec is touched: status, error text and
  the session's input state are as documented, and the library only sees two clock reads.
\<close>

theorem input_after_eos_refused:
  assumes "cx_session s = Some x" "s_input_eos x"
  shows "wp (dscw_codec_queue api data pts flags)
    (\<lambda>r s'. r = DSCW_CODEC_ERROR_SESSION \<and> cx_error s' = (if cx_error_size s = 0 then cx_error s
        else take (cx_error_size s - 1) ''codec input is closed after EOS'')
      \<and> cx_media s' = snd (env_monotonic_ns api (snd (env_monotonic_ns api (cx_media s))))
      \<and> (\<exists>x'. cx_session s' = Some x' \<and> input_view x' = input_view x \<and> s_errors x' = s_errors x + 1)) s"
  by (rule queue_after_eos [OF assms])

theorem input_after_eos_refused_witness:
  "wp (dscw_codec_queue demo_api [1, 2] 5 0) (\<lambda>r s'. r = DSCW_CODEC_ERROR_SESSION \<and> cx_media s' = 1)
     (demo_cx (Some (demo_encoder\<lparr>s_input_eos := True\<rparr>)))"
  by (rule wp_mono [OF input_after_eos_refused [where x = "demo_encoder\<lparr>s_input_eos := True\<rparr>"]])
    (auto simp: demo_cx_def demo_clock)

text \<open>
  A successful flush reopens the session: end of stream, pending picture and the time stamp
  order start afresh; a failed one changes none of them and counts an error.
\<close>

theorem flush_reopens_session:
  assumes "cx_session s = Some x"
  shows "wp (dscw_codec_flush api)
    (\<lambda>r s'. \<exists>x'. cx_session s' = Some x' \<and>
       (if r = DSCW_CODEC_OK
        then \<not> s_input_eos x' \<and> \<not> s_encoder_eos_signaled x' \<and> \<not> s_pending_image x' \<and> \<not> s_have_encoder_pts x'
        else r = DSCW_CODEC_ERROR_CODEC \<and> input_view x' = input_view x \<and> s_errors x' = s_errors x + 1)) s"
  by (rule flush_reopens [OF assms])

theorem flush_reopens_session_witness:
  "wp (dscw_codec_flush demo_api) (\<lambda>r s'. \<exists>x'. cx_session s' = Some x' \<and> (r = DSCW_CODEC_OK \<longrightarrow> \<not> s_input_eos x'))
     (demo_cx (Some (demo_encoder\<lparr>s_input_eos := True\<rparr>)))"
  by (rule wp_mono [OF flush_reopens_session [where x = "demo_encoder\<lparr>s_input_eos := True\<rparr>"]])
    (auto simp: demo_cx_def split: if_splits)

text \<open>
  The statistics of a session fit the buffer, are the text of its counters, and change
  nothing outside the buffer.
\<close>

theorem statistics_text_stored:
  assumes "cx_session s = Some x" "0 < capacity"
  shows "wp (dscw_codec_statistics api sid output capacity)
    (\<lambda>r s'. window_step output capacity s s' \<and>
       (if r < 0 then r = -1 else nat r < capacity
          \<and> (\<exists>uptime cpu. text_of (mem_read (cx_mem s') output (nat r)) = statistics_text x sid uptime cpu))) s"
  by (rule statistics_ok [OF assms])

theorem statistics_text_stored_witness:
  "wp (dscw_codec_statistics demo_api 5 100 4096) (\<lambda>r s'. r < 4096) (demo_cx (Some demo_encoder))"
  by (rule wp_mono [OF statistics_text_stored [where x = demo_encoder]]) (auto simp: demo_cx_def split: if_splits)

section \<open>The client's commands\<close>


text \<open>
  Splitting a vector file into access units loses nothing: the packets are not empty, there
  are as many as were asked for, and joined together they are the file.
\<close>

theorem access_units_partition_file:
  assumes "load_access_units e path frames = Some (vector, boundaries)"
  shows "concat (packets vector boundaries) = vector \<and> length (packets vector boundaries) = unat frames
    \<and> (\<forall>p \<in> set (packets vector boundaries). p \<noteq> [])"
  by (rule load_access_units_packets [OF assms])

theorem access_units_partition_file_witness:
  "\<exists>boundaries. load_access_units (demo_client\<lparr>file_bytes := (\<lambda>_. Some demo_stream)\<rparr>) ''v'' 2 = Some (demo_stream, boundaries)
    \<and> concat (packets demo_stream boundaries) = demo_stream \<and> length (packets demo_stream boundaries) = 2"
proof -
  have "find_aud demo_stream 0 = Some 0" "find_aud demo_stream 4 = Some 7" "find_aud demo_stream 11 = None"
    by (simp_all add: find_aud.simps demo_stream_def aud_at_def aud_prefix_def Let_def)
  then have "aud_boundaries demo_stream (Suc (Suc (Suc 1021))) 0 = [0, 7]"
    by (simp only: aud_boundaries.simps) simp
  then have "load_access_units (demo_client\<lparr>file_bytes := (\<lambda>_. Some demo_stream)\<rparr>) ''v'' 2 = Some (demo_stream, [0, 7, 14])"
    by (simp add: load_access_units_def read_file_def DSCB_MAX_PAYLOAD_FILE_def layout_defs) (simp add: demo_stream_def)
  from access_units_partition_file [OF this] this show ?thesis by auto
qed

text \<open>
  Conversion for a semi-planar encoder keeps every sample: luma in place, the two chroma
  planes interleaved, and nothing else in the buffer.
\<close>

theorem semiplanar_keeps_samples:
  assumes "length i420 = width * height + 2 * (width * height div 4)"
    and "convert_i420_for_encoder DSCB_COLOR_YUV420_SEMIPLANAR width height i420 = Some out"
  shows "length out = length i420 \<and>
    (\<forall>i < width * height. out ! i = i420 ! i) \<and>
    (\<forall>i < width * height div 4.
       out ! (width * height + 2 * i) = i420 ! (width * height + i) \<and>
       out ! (width * height + 2 * i + 1) = i420 ! (width * height + width * height div 4 + i))"
  by (rule convert_semiplanar [OF assms])

theorem semiplanar_keeps_samples_witness:
  "\<exists>out. convert_i420_for_encoder DSCB_COLOR_YUV420_SEMIPLANAR 2 2 [1, 2, 3, 4, 5, 6] = Some out
     \<and> length out = 6 \<and> out ! 4 = 5 \<and> out ! 5 = 6"
proof -
  have "convert_i420_for_encoder DSCB_COLOR_YUV420_SEMIPLANAR 2 2 [1, 2, 3, 4, 5, 6] = Some [1, 2, 3, 4, 5, 6]"
    by code_simp
  from semiplanar_keeps_samples [OF _ this] this show ?thesis by auto
qed

text \<open>A number printed in decimal parses back to itself when it is in range.\<close>

theorem parse_u32_round_trip:
  assumes "minimum \<le> n" "n \<le> maximum" "maximum < 2 ^ 64"
  shows "parse_u32 (dec n) minimum maximum = Some (of_nat n)"
  by (rule parse_u32_dec [OF assms])

theorem parse_u32_round_trip_witness: "parse_u32 (dec 96) 16 4096 = Some 96"
  using parse_u32_round_trip [of 16 96 4096] by simp

text \<open>
  The color format survives its trip through the session's description: what the worker
  prints is what the client reads back, for every name and type without quotes.
\<close>

theorem color_format_round_trip:
  assumes "CHR 0x22 \<notin> set name" "CHR 0x22 \<notin> set mime" "CHR 0x00 \<notin> set name" "CHR 0x00 \<notin> set mime"
  shows "described_color (bytes_of (create_description name mime color)) = Some color"
  by (rule described_color_description [OF assms])

theorem color_format_round_trip_witness:
  "described_color (bytes_of (create_description ''c2.qti.avc.encoder'' ''video/avc'' 21)) = Some 21"
  by (rule color_format_round_trip) simp_all

text \<open>
  The mapping a client prepares passes the worker's handshake for that client.
\<close>

theorem handshake_accepts_client:
  assumes "0 < pid" "pid < 2 ^ 32"
  shows "transport_valid (init_transport pid) pid"
  by (rule init_transport_valid [OF assms])

theorem handshake_accepts_client_witness: "transport_valid (init_transport 4242) 4242"
  by (rule handshake_accepts_client) simp_all

text \<open>
  \<open>hello\<close> to a connected worker succeeds and learns that the shared slots may be used.
\<close>

theorem hello_enables_input:
  assumes "paired api e" "library_sane api" "calls_left (Suc n) k" "0 < n"
  shows "wp (hello e) (\<lambda>r k'. r = 0 \<and> shared_memory_supported (kx_client k') \<and> calls_left n k') k"
  by (rule hello_accepted [OF assms])

theorem hello_enables_input_witness:
  "wp (hello demo_client) (\<lambda>r k'. r = 0 \<and> shared_memory_supported (kx_client k') \<and> calls_left 1 k') demo_kx"
  by (rule hello_enables_input [OF demo_paired demo_library_sane calls_left_mono [OF demo_calls_left]]) simp_all

text \<open>
  The retry loop is determined by its first answer other than \<open>AGAIN\<close>: once the bound on
  the rounds covers that answer, a larger bound changes nothing.
\<close>

theorem retry_bound_irrelevant:
  assumes "settles e t sid payload n k" "n \<le> m"
  shows "run_state (retry_request e t sid payload m) k = run_state (retry_request e t sid payload n) k"
  by (rule retry_request_settles [OF assms])

theorem retry_bound_irrelevant_witness:
  "run_state (retry_request demo_client DSCB_EOS 5 [] 100) (demo_kx\<lparr>kx_client := (kx_client demo_kx)\<lparr>worker_started := False\<rparr>\<rparr>)
   = run_state (retry_request demo_client DSCB_EOS 5 [] 1) (demo_kx\<lparr>kx_client := (kx_client demo_kx)\<lparr>worker_started := False\<rparr>\<rparr>)"
  by (rule retry_bound_irrelevant) (simp_all add: rpc_def client_get_def layout_defs)

text \<open>
  C16. The built-in negative test cannot pass against this worker: it expects \<open>UNSUPPORTED\<close> for
  an unknown request type on session 0, and the worker answers \<open>ERROR_SESSION\<close> because it looks
  the session up first.
\<close>

theorem negative_test_always_fails:
  assumes "paired api e" "library_sane api" "calls_left 5 k"
  shows "wp (run_negative_test e) (\<lambda>r _. r = 1) k"
  by (rule negative_test_fails [OF assms])

theorem negative_test_always_fails_witness: "wp (run_negative_test demo_client) (\<lambda>r _. r = 1) demo_kx"
  by (rule negative_test_always_fails [OF demo_paired demo_library_sane calls_left_mono [OF demo_calls_left]]) simp

end
