(* ===== verification/Client_Process.thy ===== *)
theory Client_Process
  imports Codec_Client "HOL-Library.Sublist"
begin

text \<open>
  The client's side of a worker process (\<open>dawnshell_codec_client.c\<close>): creating the shared memory and
  the event descriptors, forking and awaiting the worker, stopping and reaping it, and what the
  forked child does before it executes the worker. The kernel's answers are functions of the calls so
  far; a call that was interrupted is repeated, its answer here is the first other one. Messages to
  standard error are not modelled.
\<close>

unbundle bit_operations_syntax

section \<open>State and calls\<close>

text \<open>The static \<open>worker\<close>: \<open>tr_mapped\<close> stands for \<open>mapping\<close> and \<open>control\<close>, -1 for no descriptor or child.\<close>

record worker_transport =
  tr_mapped :: bool
  tr_memfd :: int
  tr_request_eventfd :: int
  tr_response_eventfd :: int
  tr_child :: int
  tr_sequence :: u32
  tr_started :: bool

definition no_transport :: worker_transport where
  "no_transport = \<lparr>tr_mapped = False, tr_memfd = -1, tr_request_eventfd = -1, tr_response_eventfd = -1,
     tr_child = -1, tr_sequence = 0, tr_started = False\<rparr>"

text \<open>\<open>waitpid\<close> with \<open>WNOHANG\<close>; \<open>poll\<close> and \<open>read\<close> of an event descriptor.\<close>

datatype reap_answer = Reap_running | Reap_gone | Reap_errno nat

datatype event_answer =
    Event_read | Event_short | Event_timeout | Event_broken | Event_poll_errno nat | Event_read_errno nat

text \<open>The calls with their results; -1 where a descriptor or child was not created.\<close>

datatype process_call =
    Create_memory int
  | Size_memory int bool
  | Create_event int
  | Map_memory bool
  | Unmap_memory
  | Close_fd int
  | Dup_fd int int
  | Fork_worker int
  | Reap_worker int reap_answer
  | Join_worker int
  | Kill_worker int nat
  | Signal_event int bool
  | Wait_event int nat event_answer
  | Pause nat
  | At_exit bool

record client_process =
  cp_worker :: worker_transport
  cp_errno :: nat
  cp_mem :: mem
  cp_calls :: "process_call list"

text \<open>\<open>pe_stored\<close> is what the worker did to the shared memory by the time the client has waited.\<close>

record process_env =
  pe_pid :: nat
  pe_memory :: "process_call list \<Rightarrow> nat + nat"
  pe_truncate :: "process_call list \<Rightarrow> nat option"
  pe_event :: "process_call list \<Rightarrow> nat + nat"
  pe_map :: "process_call list \<Rightarrow> nat option"
  pe_fork :: "process_call list \<Rightarrow> nat + nat"
  pe_reap :: "process_call list \<Rightarrow> reap_answer"
  pe_wait :: "process_call list \<Rightarrow> event_answer"
  pe_signal :: "process_call list \<Rightarrow> nat option"
  pe_dup :: "process_call list \<Rightarrow> nat + nat"
  pe_atexit :: "process_call list \<Rightarrow> bool"
  pe_stored :: "process_call list \<Rightarrow> mem \<Rightarrow> mem"

type_synonym 'a process = "(client_process, 'a) state"

definition made :: "process_call \<Rightarrow> unit process" where
  "made c = modify (\<lambda>p. p\<lparr>cp_calls := cp_calls p @ [c]\<rparr>)"

definition answer :: "(process_call list \<Rightarrow> 'a) \<Rightarrow> 'a process" where
  "answer f = gets (\<lambda>p. f (cp_calls p))"

definition worker_get :: "(worker_transport \<Rightarrow> 'a) \<Rightarrow> 'a process" where
  "worker_get f = gets (\<lambda>p. f (cp_worker p))"

definition worker_set :: "(worker_transport \<Rightarrow> worker_transport) \<Rightarrow> unit process" where
  "worker_set f = modify (\<lambda>p. p\<lparr>cp_worker := f (cp_worker p)\<rparr>)"

definition set_errno :: "nat \<Rightarrow> unit process" where
  "set_errno e = modify (\<lambda>p. p\<lparr>cp_errno := e\<rparr>)"

definition errno_INTR :: nat where "errno_INTR = 4"
definition errno_CHILD :: nat where "errno_CHILD = 10"
definition errno_PIPE :: nat where "errno_PIPE = 32"
definition errno_PROTO :: nat where "errno_PROTO = 71"
definition errno_TIMEDOUT :: nat where "errno_TIMEDOUT = 110"
definition signal_KILL :: nat where "signal_KILL = 9"
definition signal_TERM :: nat where "signal_TERM = 15"

text \<open>A descriptor the kernel creates, or -1 and \<open>errno\<close>.\<close>

definition kernel_created :: "(int \<Rightarrow> process_call) \<Rightarrow> (process_call list \<Rightarrow> nat + nat) \<Rightarrow> int process" where
  "kernel_created c f = do {
     r \<leftarrow> answer f;
     case r of
       Inl e \<Rightarrow> do { made (c (-1)); set_errno e; return (-1) }
     | Inr n \<Rightarrow> do { made (c (int n)); return (int n) }
   }"

section \<open>Descriptors and events\<close>

definition create_shared_memory :: "process_env \<Rightarrow> int process" where
  "create_shared_memory env = do {
     descriptor \<leftarrow> kernel_created Create_memory (pe_memory env);
     if descriptor < 0 then return (-1)
     else do {
       t \<leftarrow> answer (pe_truncate env);
       made (Size_memory descriptor (t = None));
       case t of
         None \<Rightarrow> return descriptor
       | Some e \<Rightarrow> do {
           made (Close_fd descriptor);
           set_errno e;
           return (-1)
         }
     }
   }"

text \<open>Whether the result is 0.\<close>

definition wait_eventfd :: "process_env \<Rightarrow> int \<Rightarrow> nat \<Rightarrow> bool process" where
  "wait_eventfd env descriptor timeout_ms = do {
     a \<leftarrow> answer (pe_wait env);
     made (Wait_event descriptor timeout_ms a);
     modify (\<lambda>p. p\<lparr>cp_mem := pe_stored env (cp_calls p) (cp_mem p)\<rparr>);
     case a of
       Event_read \<Rightarrow> return True
     | Event_short \<Rightarrow> return False
     | Event_timeout \<Rightarrow> do { set_errno errno_TIMEDOUT; return False }
     | Event_broken \<Rightarrow> do { set_errno errno_PIPE; return False }
     | Event_poll_errno e \<Rightarrow> do { set_errno e; return False }
     | Event_read_errno e \<Rightarrow> do { set_errno e; return False }
   }"

definition signal_eventfd :: "process_env \<Rightarrow> int \<Rightarrow> bool process" where
  "signal_eventfd env descriptor = do {
     r \<leftarrow> answer (pe_signal env);
     made (Signal_event descriptor (r = None));
     case r of None \<Rightarrow> return True | Some e \<Rightarrow> do { set_errno e; return False }
   }"

section \<open>Stopping the worker\<close>

text \<open>One \<open>waitpid\<close>: reaped or gone, an error, or \<open>None\<close> to try again.\<close>

definition reap_attempt :: "process_env \<Rightarrow> bool option process" where
  "reap_attempt env = do {
     child \<leftarrow> worker_get tr_child;
     a \<leftarrow> answer (pe_reap env);
     made (Reap_worker child a);
     case a of
       Reap_running \<Rightarrow> return None
     | Reap_gone \<Rightarrow> do { worker_set (\<lambda>w. w\<lparr>tr_child := -1\<rparr>); return (Some True) }
     | Reap_errno e \<Rightarrow> do {
         set_errno e;
         if e = errno_CHILD then do { worker_set (\<lambda>w. w\<lparr>tr_child := -1\<rparr>); return (Some True) }
         else return (if e = errno_INTR then None else Some False)
       }
   }"

text \<open>\<open>waited_ms\<close> counts up in steps of 10: so many pauses are left.\<close>

fun reap_rounds :: "nat \<Rightarrow> process_env \<Rightarrow> bool process" where
  "reap_rounds 0 env = do {
     r \<leftarrow> reap_attempt env;
     return (r = Some True)
   }"
| "reap_rounds (Suc n) env = do {
     r \<leftarrow> reap_attempt env;
     case r of
       Some b \<Rightarrow> return b
     | None \<Rightarrow> do {
         made (Pause 10000);
         reap_rounds n env
       }
   }"

definition reap_worker_for :: "process_env \<Rightarrow> nat \<Rightarrow> bool process" where
  "reap_worker_for env timeout_ms = do {
     child \<leftarrow> worker_get tr_child;
     if child \<le> 0 then return True else reap_rounds ((timeout_ms + 9) div 10) env
   }"

definition end_child :: "process_env \<Rightarrow> unit process" where
  "end_child env = do {
     child \<leftarrow> worker_get tr_child;
     if child \<le> 0 then return ()
     else do {
       first \<leftarrow> reap_worker_for env 500;
       (if first then return () else made (Kill_worker child signal_TERM));
       second \<leftarrow> reap_worker_for env 1000;
       rest \<leftarrow> worker_get tr_child;
       if second \<or> rest \<le> 0 then return ()
       else do {
         made (Kill_worker rest signal_KILL);
         made (Join_worker rest);
         worker_set (\<lambda>w. w\<lparr>tr_child := -1\<rparr>)
       }
     }
   }"

definition close_valid :: "int \<Rightarrow> unit process" where
  "close_valid descriptor = (if descriptor \<ge> 0 then made (Close_fd descriptor) else return ())"

definition stop_worker :: "process_env \<Rightarrow> unit process" where
  "stop_worker env = do {
     w \<leftarrow> worker_get id;
     if \<not> tr_started w then return ()
     else do {
       (if tr_mapped w then do {
          modify (\<lambda>p. p\<lparr>cp_mem := control_store ctl_flags (control_load (cp_mem p) ctl_flags OR DSCW_FLAG_SHUTDOWN) (cp_mem p)\<rparr>);
          _ \<leftarrow> signal_eventfd env (tr_request_eventfd w);
          return ()
        } else return ());
       end_child env;
       (if tr_mapped w then made Unmap_memory else return ());
       close_valid (tr_memfd w);
       close_valid (tr_request_eventfd w);
       close_valid (tr_response_eventfd w);
       worker_set (\<lambda>w. w\<lparr>tr_mapped := False, tr_memfd := -1, tr_request_eventfd := -1, tr_response_eventfd := -1,
         tr_child := -1, tr_started := False\<rparr>)
     }
   }"

section \<open>Starting the worker\<close>

text \<open>
  The wait for the worker's first event, 100 ms a round: 0 when it came, otherwise the failure path is
  taken with the \<open>errno\<close> that is set.
\<close>

fun await_worker :: "nat \<Rightarrow> process_env \<Rightarrow> bool process" where
  "await_worker 0 env = do { set_errno errno_TIMEDOUT; return False }"
| "await_worker (Suc n) env = do {
     w \<leftarrow> worker_get id;
     came \<leftarrow> wait_eventfd env (tr_response_eventfd w) 100;
     if came then return True
     else do {
       e \<leftarrow> gets cp_errno;
       if e \<noteq> errno_TIMEDOUT then return False
       else do {
         a \<leftarrow> answer (pe_reap env);
         made (Reap_worker (tr_child w) a);
         case a of
           Reap_gone \<Rightarrow> do {
             worker_set (\<lambda>w. w\<lparr>tr_child := -1\<rparr>);
             set_errno errno_CHILD;
             return False
           }
         | Reap_running \<Rightarrow> await_worker n env
         | Reap_errno e \<Rightarrow> do {
             set_errno e;
             if e \<noteq> errno_INTR then return False else await_worker n env
           }
       }
     }
   }"

definition DSCB_WORKER_START_TIMEOUT_MS :: nat where "DSCB_WORKER_START_TIMEOUT_MS = 10000"

text \<open>The steps before the fork; whether they succeeded.\<close>

definition prepare_transport :: "process_env \<Rightarrow> bool process" where
  "prepare_transport env = do {
     memfd \<leftarrow> create_shared_memory env;
     worker_set (\<lambda>w. w\<lparr>tr_memfd := memfd\<rparr>);
     request \<leftarrow> kernel_created Create_event (pe_event env);
     worker_set (\<lambda>w. w\<lparr>tr_request_eventfd := request\<rparr>);
     response \<leftarrow> kernel_created Create_event (pe_event env);
     worker_set (\<lambda>w. w\<lparr>tr_response_eventfd := response\<rparr>);
     if memfd < 0 \<or> request < 0 \<or> response < 0 then return False
     else do {
       r \<leftarrow> answer (pe_map env);
       made (Map_memory (r = None));
       case r of
         Some e \<Rightarrow> do { set_errno e; return False }
       | None \<Rightarrow> do {
           worker_set (\<lambda>w. w\<lparr>tr_mapped := True, tr_sequence := 0\<rparr>);
           modify (\<lambda>p. p\<lparr>cp_mem := init_transport (pe_pid env)\<rparr>);
           return True
         }
     }
   }"

text \<open>The fork and what follows it in the parent; whether the worker runs.\<close>

definition launch_worker :: "process_env \<Rightarrow> bool process" where
  "launch_worker env = do {
     child \<leftarrow> kernel_created Fork_worker (pe_fork env);
     worker_set (\<lambda>w. w\<lparr>tr_child := child\<rparr>);
     if child < 0 then return False
     else do {
       ready \<leftarrow> await_worker (DSCB_WORKER_START_TIMEOUT_MS div 100) env;
       if \<not> ready then return False
       else do {
         good \<leftarrow> gets (\<lambda>p. worker_is_ready (cp_mem p));
         if \<not> good then do { set_errno errno_PROTO; return False }
         else do {
           worker_set (\<lambda>w. w\<lparr>tr_started := True\<rparr>);
           ok \<leftarrow> answer (pe_atexit env);
           made (At_exit ok);
           return ok
         }
       }
     }
   }"

definition give_descriptor :: "process_env \<Rightarrow> int process" where
  "give_descriptor env = do {
     w \<leftarrow> worker_get id;
     kernel_created (Dup_fd (tr_memfd w)) (pe_dup env)
   }"

definition start_failure :: "process_env \<Rightarrow> int process" where
  "start_failure env = do {
     saved \<leftarrow> gets cp_errno;
     worker_set (\<lambda>w. w\<lparr>tr_started := True\<rparr>);
     stop_worker env;
     set_errno saved;
     return (-1)
   }"

definition start_worker :: "process_env \<Rightarrow> int process" where
  "start_worker env = do {
     started \<leftarrow> worker_get tr_started;
     if started then give_descriptor env
     else do {
       prepared \<leftarrow> prepare_transport env;
       if \<not> prepared then start_failure env
       else do {
         running \<leftarrow> launch_worker env;
         if \<not> running then start_failure env else give_descriptor env
       }
     }
   }"

section \<open>The child before it executes the worker\<close>

text \<open>The descriptors of a process: the object and whether \<open>exec\<close> closes it.\<close>

type_synonym descriptors = "nat \<rightharpoonup> nat \<times> bool"

text \<open>
  The kernel's answers in the child; \<open>ch_spare\<close> is \<open>F_DUPFD_CLOEXEC\<close> with 64, \<open>ch_flags\<close> the reading and
  setting of a descriptor's flags.
\<close>

record child_answers =
  ch_death_signal :: bool
  ch_parent :: nat
  ch_spare :: "descriptors \<Rightarrow> nat option"
  ch_dup2 :: "nat \<Rightarrow> bool"
  ch_flags :: "nat \<Rightarrow> bool"
  ch_unset :: "string \<Rightarrow> bool"
  ch_readable :: "string \<Rightarrow> bool"
  ch_setenv :: bool
  ch_exec :: bool

definition child_install_descriptor :: "child_answers \<Rightarrow> nat \<Rightarrow> nat \<Rightarrow> descriptors \<Rightarrow> descriptors option" where
  "child_install_descriptor a source target fds =
     (case (fds source, ch_spare a fds) of
        (Some (object, _), Some temporary) \<Rightarrow>
          if \<not> ch_dup2 a target then None
          else let fds' = (fds(temporary \<mapsto> (object, True), target \<mapsto> (object, False)))(temporary := None)
               in if ch_flags a target then Some fds' else None
      | _ \<Rightarrow> None)"

definition unsafe_variables :: "string list" where
  "unsafe_variables = [''LD_AUDIT'', ''LD_CONFIG_FILE'', ''LD_DEBUG'', ''LD_PRELOAD'', ''LD_LIBRARY_PATH'']"

definition icu_directory :: "bool \<Rightarrow> string" where
  "icu_directory lp64 = (if lp64 then ''/apex/com.android.i18n/lib64'' else ''/apex/com.android.i18n/lib'')"

fun unset_all :: "child_answers \<Rightarrow> string list \<Rightarrow> (string \<rightharpoonup> string) \<Rightarrow> (string \<rightharpoonup> string) option" where
  "unset_all a [] vars = Some vars"
| "unset_all a (name # names) vars = (if \<not> ch_unset a name then None else unset_all a names (vars(name := None)))"

definition child_configure_android_linker ::
  "child_answers \<Rightarrow> bool \<Rightarrow> (string \<rightharpoonup> string) \<Rightarrow> (string \<rightharpoonup> string) option" where
  "child_configure_android_linker a lp64 vars =
     (case unset_all a unsafe_variables vars of
        None \<Rightarrow> None
      | Some vars' \<Rightarrow>
          if \<not> ch_readable a (icu_directory lp64 @ ''/libandroidicu.so'') then Some vars'
          else if ch_setenv a then Some (vars'(''LD_LIBRARY_PATH'' \<mapsto> icu_directory lp64))
          else None)"

definition installed_worker :: string where "installed_worker = ''/usr/local/libexec/dawnshell-codec-worker''"

text \<open>
  The variable \<open>DAWNSHELL_CODEC_WORKER\<close>, whether the installed worker can be executed, and the link
  \<open>/proc/self/exe\<close>, of which 4095 bytes are read.
\<close>

definition worker_path :: "string option \<Rightarrow> bool \<Rightarrow> nat + string \<Rightarrow> string" where
  "worker_path configured executable link =
     (let installed = installed_worker;
          beside = (case link of
             Inl e \<Rightarrow> installed
           | Inr text \<Rightarrow>
               if text = [] \<or> length text \<ge> 4095 \<or> CHR ''/'' \<notin> set text then installed
               else rev (dropWhile (\<lambda>c. c \<noteq> CHR ''/'') (rev text)) @ ''dawnshell-codec-worker'')
      in case configured of
           Some path \<Rightarrow> if path \<noteq> [] then path else if executable then installed else beside
         | None \<Rightarrow> if executable then installed else beside)"

text \<open>Where the child ends: an exit code, or the worker with its arguments, descriptors and variables.\<close>

datatype child_end =
    Child_exit nat
  | Child_executes string "string list" descriptors "string \<rightharpoonup> string"

definition worker_child ::
  "child_answers \<Rightarrow> bool \<Rightarrow> string \<Rightarrow> nat \<Rightarrow> nat \<Rightarrow> nat \<Rightarrow> descriptors \<Rightarrow> (string \<rightharpoonup> string) \<Rightarrow> child_end" where
  "worker_child a lp64 path memfd request_fd response_fd fds vars =
     (if \<not> ch_death_signal a \<or> ch_parent a = 1 then Child_exit 126
      else case child_install_descriptor a memfd 3 fds of
        None \<Rightarrow> Child_exit 126
      | Some fds1 \<Rightarrow>
          (case child_install_descriptor a request_fd 4 fds1 of
             None \<Rightarrow> Child_exit 126
           | Some fds2 \<Rightarrow>
               (case child_install_descriptor a response_fd 5 fds2 of
                  None \<Rightarrow> Child_exit 126
                | Some fds3 \<Rightarrow>
                    (case child_configure_android_linker a lp64 vars of
                       None \<Rightarrow> Child_exit 126
                     | Some vars' \<Rightarrow>
                         if ch_exec a then Child_executes path [path, ''--inherited-transport''] fds3 vars'
                         else Child_exit 127))))"

end
