(* ===== verification/Client_Process_Facts.thy ===== *)
theory Client_Process_Facts
  imports Client_Process
begin

text \<open>
  Facts on the client's worker process: what it holds of descriptors, mappings and children is recorded,
  and given back when the worker is stopped or could not be started.
\<close>

section \<open>What the client holds\<close>

text \<open>The descriptors, mappings and children that the calls leave behind.\<close>

fun fd_change :: "process_call \<Rightarrow> int set \<Rightarrow> int set" where
  "fd_change (Create_memory d) X = (if d \<ge> 0 then insert d X else X)"
| "fd_change (Create_event d) X = (if d \<ge> 0 then insert d X else X)"
| "fd_change (Dup_fd s d) X = (if d \<ge> 0 then insert d X else X)"
| "fd_change (Close_fd d) X = X - {d}"
| "fd_change _ X = X"

fun map_change :: "process_call \<Rightarrow> int \<Rightarrow> int" where
  "map_change (Map_memory True) n = n + 1"
| "map_change Unmap_memory n = n - 1"
| "map_change _ n = n"

text \<open>A child is gone once it was reaped, joined, or is reported not to be a child.\<close>

fun child_change :: "process_call \<Rightarrow> int set \<Rightarrow> int set" where
  "child_change (Fork_worker c) X = (if c > 0 then insert c X else X)"
| "child_change (Reap_worker c a) X = (if a = Reap_gone \<or> a = Reap_errno errno_CHILD then X - {c} else X)"
| "child_change (Join_worker c) X = X - {c}"
| "child_change _ X = X"

definition open_fds :: "process_call list \<Rightarrow> int set" where "open_fds calls = fold fd_change calls {}"
definition mappings :: "process_call list \<Rightarrow> int" where "mappings calls = fold map_change calls 0"
definition children :: "process_call list \<Rightarrow> int set" where "children calls = fold child_change calls {}"

lemma held_append [simp]:
  "open_fds (calls @ cs) = fold fd_change cs (open_fds calls)" "mappings (calls @ cs) = fold map_change cs (mappings calls)"
  "children (calls @ cs) = fold child_change cs (children calls)"
  by (simp_all add: open_fds_def mappings_def children_def)

lemma held_Nil [simp]: "open_fds [] = {}" "mappings [] = 0" "children [] = {}"
  by (simp_all add: open_fds_def mappings_def children_def)

text \<open>Everything held is recorded in \<open>worker\<close>, but for the descriptors of \<open>D\<close>.\<close>

definition owns :: "int set \<Rightarrow> client_process \<Rightarrow> bool" where
  "owns D p \<longleftrightarrow> (let w = cp_worker p; calls = cp_calls p in
     open_fds calls \<subseteq> {tr_memfd w, tr_request_eventfd w, tr_response_eventfd w} \<union> D
     \<and> (\<forall>d \<in> open_fds calls. 0 \<le> d)
     \<and> mappings calls = (if tr_mapped w then 1 else 0)
     \<and> children calls \<subseteq> {tr_child w} \<and> (\<forall>c \<in> children calls. 0 < c))"

text \<open>Nothing is held but the descriptors of \<open>D\<close>.\<close>

definition released :: "int set \<Rightarrow> client_process \<Rightarrow> bool" where
  "released D p \<longleftrightarrow> open_fds (cp_calls p) \<subseteq> D \<and> mappings (cp_calls p) = 0 \<and> children (cp_calls p) = {}
     \<and> (\<exists>n. cp_worker p = no_transport\<lparr>tr_sequence := n\<rparr>)"

section \<open>Laws of the calls\<close>

lemma wp_process [wp_simps]:
  "wp (made c) Q p = Q () (p\<lparr>cp_calls := cp_calls p @ [c]\<rparr>)"
  "wp (answer f) R p = R (f (cp_calls p)) p"
  "wp (worker_get g) S p = S (g (cp_worker p)) p"
  "wp (worker_set u) Q p = Q () (p\<lparr>cp_worker := u (cp_worker p)\<rparr>)"
  "wp (set_errno e) Q p = Q () (p\<lparr>cp_errno := e\<rparr>)"
  by (simp_all add: made_def answer_def worker_get_def worker_set_def set_errno_def wp_simps)

lemma wp_sum [wp_simps]:
  "wp (case x of Inl a \<Rightarrow> m1 a | Inr b \<Rightarrow> m2 b) Q p = (case x of Inl a \<Rightarrow> wp (m1 a) Q p | Inr b \<Rightarrow> wp (m2 b) Q p)"
  by (simp split: sum.split)

text \<open>What the waits and signals leave alone.\<close>

definition same_held :: "client_process \<Rightarrow> client_process \<Rightarrow> bool" where
  "same_held p p' \<longleftrightarrow> cp_worker p' = cp_worker p \<and> open_fds (cp_calls p') = open_fds (cp_calls p)
     \<and> mappings (cp_calls p') = mappings (cp_calls p) \<and> children (cp_calls p') = children (cp_calls p)"

lemma same_owns: "same_held p p' \<Longrightarrow> owns D p \<Longrightarrow> owns D p'"
  by (simp add: same_held_def owns_def Let_def)

lemma wait_same: "wp (wait_eventfd env d n) (\<lambda>_ p'. same_held p p') p"
  by (auto simp: wait_eventfd_def wp_simps same_held_def split: event_answer.split)

lemma signal_same: "wp (signal_eventfd env d) (\<lambda>_ p'. same_held p p') p"
  by (auto simp: signal_eventfd_def wp_simps same_held_def split: option.split)

lemma owns_worker:
  "owns D p \<Longrightarrow> owns D (p\<lparr>cp_errno := e\<rparr>)" "owns D p \<Longrightarrow> owns D (p\<lparr>cp_mem := m\<rparr>)"
  "owns D p \<Longrightarrow> owns D (p\<lparr>cp_worker := (cp_worker p)\<lparr>tr_started := b\<rparr>\<rparr>)"
  "owns D p \<Longrightarrow> owns D (p\<lparr>cp_calls := cp_calls p @ [Pause n]\<rparr>)"
  "owns D p \<Longrightarrow> owns D (p\<lparr>cp_calls := cp_calls p @ [Kill_worker c k]\<rparr>)"
  "owns D p \<Longrightarrow> owns D (p\<lparr>cp_calls := cp_calls p @ [At_exit b]\<rparr>)"
  by (simp_all add: owns_def Let_def)

text \<open>Reaping: the rest of the record stays, and the child is gone when it succeeds.\<close>

definition reaped :: "client_process \<Rightarrow> bool \<Rightarrow> client_process \<Rightarrow> bool" where
  "reaped p b p' \<longleftrightarrow> (\<exists>c. cp_worker p' = (cp_worker p)\<lparr>tr_child := c\<rparr> \<and> (b \<longrightarrow> c \<le> 0))"

lemma reaped_same: "cp_worker p' = cp_worker p \<Longrightarrow> (b \<longrightarrow> tr_child (cp_worker p) \<le> 0) \<Longrightarrow> reaped p b p'"
  unfolding reaped_def by (rule exI [of _ "tr_child (cp_worker p)"]) (cases "cp_worker p", simp)

lemma reaped_gone: "cp_worker p' = (cp_worker p)\<lparr>tr_child := -1\<rparr> \<Longrightarrow> reaped p b p'"
  unfolding reaped_def by (rule exI [of _ "-1"]) simp

lemma reaped_trans: "reaped p b p' \<Longrightarrow> reaped p' b' p'' \<Longrightarrow> reaped p b' p''"
  by (auto simp: reaped_def)

lemma reap_attempt_owns:
  "owns D p \<Longrightarrow> wp (reap_attempt env) (\<lambda>r p'. owns D p' \<and> reaped p (r = Some True) p') p"
  by (auto simp: reap_attempt_def wp_simps owns_def Let_def split: reap_answer.split intro: reaped_same reaped_gone)

lemma reap_rounds_owns: "owns D p \<Longrightarrow> wp (reap_rounds n env) (\<lambda>b p'. owns D p' \<and> reaped p b p') p"
proof (induction n arbitrary: p)
  case 0
  show ?case
    unfolding reap_rounds.simps wp_bind by (rule wp_mono [OF reap_attempt_owns [OF 0]]) (auto simp: wp_simps)
next
  case (Suc n)
  show ?case
    unfolding reap_rounds.simps wp_bind
  proof (rule wp_mono [OF reap_attempt_owns [OF Suc.prems]])
    fix r p1 assume r: "owns D p1 \<and> reaped p (r = Some True) p1"
    let ?p = "p1\<lparr>cp_calls := cp_calls p1 @ [Pause 10000]\<rparr>"
    have "wp (reap_rounds n env) (\<lambda>b p'. owns D p' \<and> reaped ?p b p') ?p"
      using r by (intro Suc.IH owns_worker) simp
    moreover have "reaped p (r = Some True) ?p"
      using r by (auto simp: reaped_def)
    ultimately have "wp (reap_rounds n env) (\<lambda>b p'. owns D p' \<and> reaped p b p') ?p"
      by (auto elim!: wp_mono elim: reaped_trans)
    then show "wp (case r of None \<Rightarrow> do { made (Pause 10000); reap_rounds n env } | Some b \<Rightarrow> return b)
        (\<lambda>b p'. owns D p' \<and> reaped p b p') p1"
      using r by (cases r) (auto simp: wp_simps)
  qed
qed

lemma reap_worker_owns: "owns D p \<Longrightarrow> wp (reap_worker_for env ms) (\<lambda>b p'. owns D p' \<and> reaped p b p') p"
  unfolding reap_worker_for_def by (auto simp: wp_simps intro: reap_rounds_owns reaped_same)

text \<open>After \<open>end_child\<close> there is no child.\<close>

lemma end_child_owns: "owns D p \<Longrightarrow> wp (end_child env) (\<lambda>_ p'. owns D p' \<and> reaped p True p') p"
proof -
  assume p: "owns D p"
  let ?Q = "\<lambda>_ :: unit. \<lambda>p'. owns D p' \<and> reaped p True p'"
  let ?kill = "\<lambda>second rest. if second \<or> rest \<le> 0 then return ()
       else do { made (Kill_worker rest signal_KILL); made (Join_worker rest); worker_set (\<lambda>w. w\<lparr>tr_child := -1\<rparr>) }"
  have kill: "wp (?kill second (tr_child (cp_worker p2))) ?Q p2" if "owns D p2" "reaped p second p2" for p2 second
    using that by (auto simp: wp_simps owns_def Let_def reaped_def)
  have second: "wp (do { second \<leftarrow> reap_worker_for env 1000; rest \<leftarrow> worker_get tr_child; ?kill second rest }) ?Q p1"
    if "owns D p1" "reaped p b p1" for p1 b
    unfolding wp_bind
  proof (rule wp_mono [OF reap_worker_owns [OF that(1)]])
    fix b' p2 assume r: "owns D p2 \<and> reaped p1 b' p2"
    show "wp (worker_get tr_child) (\<lambda>rest. wp (?kill b' rest) ?Q) p2"
      unfolding wp_process by (rule kill) (use r that(2) in \<open>auto elim: reaped_trans\<close>)
  qed
  have first: "wp (do { (if first then return () else made (Kill_worker c signal_TERM));
      second \<leftarrow> reap_worker_for env 1000; rest \<leftarrow> worker_get tr_child; ?kill second rest }) ?Q p1"
    if "owns D p1" "reaped p first p1" for p1 c first
  proof -
    have "owns D (p1\<lparr>cp_calls := cp_calls p1 @ [Kill_worker c signal_TERM]\<rparr>)" "reaped p first (p1\<lparr>cp_calls := cp_calls p1 @ [Kill_worker c signal_TERM]\<rparr>)"
      using that by (auto intro: owns_worker simp: reaped_def)
    then show ?thesis
      unfolding wp_bind [of "if first then return () else made (Kill_worker c signal_TERM)"]
      using second that by (cases first) (simp_all add: wp_return wp_process)
  qed
  show ?thesis
  proof (cases "tr_child (cp_worker p) \<le> 0")
    case False
    show ?thesis
      unfolding end_child_def wp_bind [of "worker_get tr_child"] wp_process if_not_P [OF False] wp_bind [of "reap_worker_for env 500"]
      by (rule wp_mono [OF reap_worker_owns [OF p]]) (rule first, auto)
  qed (use p in \<open>auto simp: end_child_def wp_simps intro: reaped_same\<close>)
qed

definition closing :: "int \<Rightarrow> process_call list" where
  "closing d = (if d \<ge> 0 then [Close_fd d] else [])"

lemma wp_close: "wp (close_valid d) Q p = Q () (p\<lparr>cp_calls := cp_calls p @ closing d\<rparr>)"
  by (simp add: close_valid_def closing_def wp_simps)

lemma fold_closing: "\<forall>x \<in> X. 0 \<le> x \<Longrightarrow> fold fd_change (closing d) X = X - {d}"
  by (auto simp: closing_def)

lemma cleared_worker:
  "\<exists>n. w\<lparr>tr_child := c, tr_mapped := False, tr_memfd := -1, tr_request_eventfd := -1, tr_response_eventfd := -1,
     tr_child := -1, tr_started := False\<rparr> = no_transport\<lparr>tr_sequence := n\<rparr>"
  by (rule exI [of _ "tr_sequence w"]) (cases w, simp add: no_transport_def)

lemma stop_worker_releases:
  assumes "owns D p" "tr_started (cp_worker p)"
  shows "wp (stop_worker env) (\<lambda>_ p'. released D p') p"
proof -
  let ?w = "cp_worker p"
  let ?teardown = "do {
       (if tr_mapped ?w then made Unmap_memory else return ());
       close_valid (tr_memfd ?w);
       close_valid (tr_request_eventfd ?w);
       close_valid (tr_response_eventfd ?w);
       worker_set (\<lambda>w. w\<lparr>tr_mapped := False, tr_memfd := -1, tr_request_eventfd := -1, tr_response_eventfd := -1,
         tr_child := -1, tr_started := False\<rparr>)
     }"
  have freed: "wp ?teardown (\<lambda>_ p'. released D p') p2" if own: "owns D p2" and reap: "reaped p True p2" for p2
  proof -
    let ?cs = "(if tr_mapped ?w then [Unmap_memory] else []) @ closing (tr_memfd ?w) @ closing (tr_request_eventfd ?w) @ closing (tr_response_eventfd ?w)"
    obtain c where w: "cp_worker p2 = ?w\<lparr>tr_child := c\<rparr>" "c \<le> 0"
      using reap by (auto simp: reaped_def)
    have nonneg: "\<forall>x \<in> open_fds (cp_calls p2). 0 \<le> x" and sub: "open_fds (cp_calls p2) \<subseteq> {tr_memfd ?w, tr_request_eventfd ?w, tr_response_eventfd ?w} \<union> D"
      using own w by (auto simp: owns_def Let_def)
    have "open_fds (cp_calls p2 @ ?cs) = open_fds (cp_calls p2) - {tr_memfd ?w} - {tr_request_eventfd ?w} - {tr_response_eventfd ?w}"
      using nonneg by (simp add: fold_closing)
    then have fds: "open_fds (cp_calls p2 @ ?cs) \<subseteq> D" using sub by blast
    have "children (cp_calls p2) = {}"
      using own w by (force simp: owns_def Let_def)
    then have maps: "mappings (cp_calls p2 @ ?cs) = 0" "children (cp_calls p2 @ ?cs) = {}"
      using own w by (simp_all add: owns_def Let_def closing_def)
    show ?thesis
      using fds maps
      by (cases "tr_mapped ?w") (simp_all add: wp_bind wp_process wp_close wp_return released_def w cleared_worker [simplified])
  qed
  have child: "wp (do { end_child env; ?teardown }) (\<lambda>_ p'. released D p') p1" if "owns D p1" "cp_worker p1 = ?w" for p1
    unfolding wp_bind [of "end_child env"]
  proof (rule wp_mono [OF end_child_owns [OF that(1)]])
    fix u :: unit and p2 assume "owns D p2 \<and> reaped p1 True p2"
    then show "wp ?teardown (\<lambda>_ p'. released D p') p2"
      using that(2) by (intro freed) (auto simp: reaped_def)
  qed
  let ?send = "if tr_mapped ?w then do {
          modify (\<lambda>p. p\<lparr>cp_mem := control_store ctl_flags (control_load (cp_mem p) ctl_flags OR DSCW_FLAG_SHUTDOWN) (cp_mem p)\<rparr>);
          _ \<leftarrow> signal_eventfd env (tr_request_eventfd ?w);
          return ()
        } else return ()"
  have send: "wp ?send (\<lambda>_ p1. owns D p1 \<and> cp_worker p1 = ?w) p"
  proof (cases "tr_mapped ?w")
    case True
    let ?p = "p\<lparr>cp_mem := control_store ctl_flags (control_load (cp_mem p) ctl_flags OR DSCW_FLAG_SHUTDOWN) (cp_mem p)\<rparr>"
    have "owns D ?p" using assms(1) by (rule owns_worker)
    then have "wp (signal_eventfd env (tr_request_eventfd ?w)) (\<lambda>_ p1. owns D p1 \<and> cp_worker p1 = ?w) ?p"
      by (intro wp_mono [OF signal_same]) (simp add: same_held_def owns_def Let_def)
    then show ?thesis
      using True by (simp add: wp_bind wp_modify) (erule wp_mono, simp add: wp_return)
  qed (use assms(1) in \<open>simp add: wp_return\<close>)
  show ?thesis
    unfolding stop_worker_def wp_bind [of "worker_get id"] wp_process id_apply if_not_P [OF not_not [THEN iffD2, OF assms(2)]]
      wp_bind [of ?send]
    by (rule wp_mono [OF send]) (use child in auto)
qed

section \<open>Starting\<close>

definition fresh :: "client_process \<Rightarrow> bool" where
  "fresh p \<longleftrightarrow> cp_worker p = no_transport \<and> cp_calls p = []"

lemma wp_kernel_created:
  "wp (kernel_created c f) Q p = (case f (cp_calls p) of
     Inl e \<Rightarrow> Q (-1) (p\<lparr>cp_calls := cp_calls p @ [c (-1)], cp_errno := e\<rparr>)
   | Inr n \<Rightarrow> Q (int n) (p\<lparr>cp_calls := cp_calls p @ [c (int n)]\<rparr>))"
  by (simp add: kernel_created_def wp_simps split: sum.split)

lemma prepare_owns:
  assumes "fresh p"
  shows "wp (prepare_transport env) (\<lambda>b p'. owns {} p' \<and> tr_child (cp_worker p') = -1) p"
  using assms
  by (auto simp: prepare_transport_def create_shared_memory_def wp_simps wp_kernel_created owns_def Let_def fresh_def no_transport_def
      open_fds_def mappings_def children_def split: sum.split option.split)

lemma await_owns: "owns D p \<Longrightarrow> wp (await_worker n env) (\<lambda>_ p'. owns D p') p"
proof (induction n arbitrary: p)
  case (Suc n)
  have reap: "wp (do { a \<leftarrow> answer (pe_reap env);
         made (Reap_worker (tr_child w) a);
         case a of
           Reap_gone \<Rightarrow> do { worker_set (\<lambda>w. w\<lparr>tr_child := -1\<rparr>); set_errno errno_CHILD; return False }
         | Reap_running \<Rightarrow> await_worker n env
         | Reap_errno e \<Rightarrow> do { set_errno e; if e \<noteq> errno_INTR then return False else await_worker n env } })
      (\<lambda>_ p'. owns D p') p1" if own: "owns D p1" and w: "w = cp_worker p1" for p1 w
  proof -
    have same: "owns D (p1\<lparr>cp_calls := cp_calls p1 @ [Reap_worker (tr_child w) a]\<rparr>)" for a
      using own w by (auto simp: owns_def Let_def)
    have gone: "owns D (p1\<lparr>cp_calls := cp_calls p1 @ [Reap_worker (tr_child w) Reap_gone], cp_worker := (cp_worker p1)\<lparr>tr_child := -1\<rparr>, cp_errno := e\<rparr>)" for e
      using own w by (auto simp: owns_def Let_def)
    show ?thesis
      using same gone by (auto simp: wp_simps split: reap_answer.split intro!: Suc.IH owns_worker)
  qed
  show ?case
    unfolding await_worker.simps wp_bind [of "worker_get id"] wp_process id_apply wp_bind [of "wait_eventfd env d 100" for d]
  proof (rule wp_mono [OF wait_same])
    fix came p1 assume "same_held p p1"
    then have "owns D p1" "cp_worker p = cp_worker p1"
      using Suc.prems by (auto intro: same_owns simp: same_held_def)
    then show "wp (if came then return True else do {
       e \<leftarrow> gets cp_errno;
       if e \<noteq> errno_TIMEDOUT then return False
       else do {
         a \<leftarrow> answer (pe_reap env);
         made (Reap_worker (tr_child (cp_worker p)) a);
         case a of
           Reap_gone \<Rightarrow> do { worker_set (\<lambda>w. w\<lparr>tr_child := -1\<rparr>); set_errno errno_CHILD; return False }
         | Reap_running \<Rightarrow> await_worker n env
         | Reap_errno e \<Rightarrow> do { set_errno e; if e \<noteq> errno_INTR then return False else await_worker n env }
       }}) (\<lambda>_ p'. owns D p') p1"
      using reap [of p1 "cp_worker p"] by (simp add: wp_if wp_return wp_gets wp_bind [of "gets cp_errno"])
  qed
qed (auto simp: wp_simps intro: owns_worker)

lemma launch_owns:
  assumes "owns D p" "tr_child (cp_worker p) = -1"
  shows "wp (launch_worker env) (\<lambda>b p'. owns D p' \<and> (b \<longrightarrow> tr_started (cp_worker p') \<and> worker_is_ready (cp_mem p'))) p"
proof -
  have "owns D (p\<lparr>cp_calls := cp_calls p @ [Fork_worker c], cp_worker := (cp_worker p)\<lparr>tr_child := c\<rparr>\<rparr>)"
    "owns D (p\<lparr>cp_calls := cp_calls p @ [Fork_worker c], cp_errno := e, cp_worker := (cp_worker p)\<lparr>tr_child := c\<rparr>\<rparr>)" for c e
    using assms by (fastforce simp: owns_def Let_def)+
  note forked = this
  have wait: "wp (do { ready \<leftarrow> await_worker n env;
       if \<not> ready then return False
       else do {
         good \<leftarrow> gets (\<lambda>p. worker_is_ready (cp_mem p));
         if \<not> good then do { set_errno errno_PROTO; return False }
         else do {
           worker_set (\<lambda>w. w\<lparr>tr_started := True\<rparr>);
           ok \<leftarrow> answer (pe_atexit env);
           made (At_exit ok);
           return ok
         }}}) (\<lambda>b p'. owns D p' \<and> (b \<longrightarrow> tr_started (cp_worker p') \<and> worker_is_ready (cp_mem p'))) p1"
    if "owns D p1" for n p1
    unfolding wp_bind [of "await_worker n env"]
    by (rule wp_mono [OF await_owns [OF that]]) (auto simp: wp_simps owns_def Let_def)
  show ?thesis
    unfolding launch_worker_def wp_bind [of "kernel_created Fork_worker (pe_fork env)"] wp_kernel_created
    using forked wait
    by (auto simp: wp_simps(1-8) wp_process owns_worker split: sum.split)
qed

lemma start_worker_outcome:
  assumes "fresh p"
  shows "wp (start_worker env) (\<lambda>r p'.
    if tr_started (cp_worker p') then owns (if r < 0 then {} else {r}) p' \<and> worker_is_ready (cp_mem p')
    else r = -1 \<and> released {} p') p"
proof -
  let ?Q = "\<lambda>r p'. if tr_started (cp_worker p') then owns (if r < 0 then {} else {r}) p' \<and> worker_is_ready (cp_mem p')
    else r = -1 \<and> released {} p'"
  have failed: "wp (start_failure env) ?Q p1" if "owns {} p1" for p1
  proof -
    have "wp (stop_worker env) (\<lambda>_ p'. released {} p') (p1\<lparr>cp_worker := (cp_worker p1)\<lparr>tr_started := True\<rparr>\<rparr>)"
      by (rule stop_worker_releases) (use that in \<open>auto intro: owns_worker\<close>)
    then show ?thesis
      unfolding start_failure_def wp_bind wp_gets wp_process
      by (rule wp_mono) (auto simp: wp_simps released_def no_transport_def)
  qed
  have given: "wp (give_descriptor env) ?Q p1" if "owns {} p1" "tr_started (cp_worker p1)" "worker_is_ready (cp_mem p1)" for p1
    using that by (auto simp: give_descriptor_def wp_simps wp_kernel_created owns_def Let_def split: sum.split)
  have launched: "wp (do { running \<leftarrow> launch_worker env; if \<not> running then start_failure env else give_descriptor env }) ?Q p1"
    if "owns {} p1" "tr_child (cp_worker p1) = -1" for p1
    unfolding wp_bind
    by (rule wp_mono [OF launch_owns [OF that]]) (use failed given in \<open>simp add: wp_if\<close>)
  have "\<not> tr_started (cp_worker p)"
    using assms by (simp add: fresh_def no_transport_def)
  then show ?thesis
    unfolding start_worker_def wp_bind [of "worker_get tr_started"] wp_process
    by (simp only: if_False, unfold wp_bind [of "prepare_transport env"], intro wp_mono [OF prepare_owns [OF assms]])
      (use failed launched in \<open>simp add: wp_if\<close>)
qed

end
