(* ===== verification/Client_Properties.thy ===== *)
theory Client_Properties
  imports Client_Process_Facts Demo_Library
begin

text \<open>
  The properties of the client's worker process: starting it, and what the worker is executed with.
\<close>

section \<open>Start and stop\<close>

text \<open>
  C10. Starting the worker: either it runs, its handshake flags were seen, and everything the client
  holds is recorded for the stop at exit; or the result is -1 and the client holds nothing, no
  descriptor, no mapping and no child. A stop after a start leaves only the descriptor that was given out.
\<close>

theorem start_worker_all_or_nothing:
  assumes "fresh p" "run_state (start_worker os) p = (r, p')"
  shows "if tr_started (cp_worker p')
    then worker_is_ready (cp_mem p') \<and> released (if r < 0 then {} else {r}) (snd (run_state (stop_worker os') p'))
    else r = -1 \<and> released {} p'"
proof -
  have out: "if tr_started (cp_worker p') then owns (if r < 0 then {} else {r}) p' \<and> worker_is_ready (cp_mem p')
      else r = -1 \<and> released {} p'"
    by (rule wpD [OF start_worker_outcome [OF assms(1)] assms(2)])
  have "released D (snd (run_state (stop_worker os') p'))" if "owns D p'" "tr_started (cp_worker p')" for D
    using stop_worker_releases [OF that, of os'] by (simp add: wp_def split: prod.splits)
  then show ?thesis
    using out by simp
qed

text \<open>A kernel on which everything succeeds and a worker that is ready at once.\<close>

definition ready_env :: process_env where
  "ready_env = \<lparr>pe_pid = 10, pe_memory = (\<lambda>_. Inr 3), pe_truncate = (\<lambda>_. None), pe_event = (\<lambda>t. Inr (length t + 2)),
     pe_map = (\<lambda>_. None), pe_fork = (\<lambda>_. Inr 50), pe_reap = (\<lambda>_. Reap_running), pe_wait = (\<lambda>_. Event_read),
     pe_signal = (\<lambda>_. None), pe_dup = (\<lambda>_. Inr 9), pe_atexit = (\<lambda>_. True),
     pe_stored = (\<lambda>_. control_store ctl_flags DSCW_FLAG_WORKER_READY)\<rparr>"

definition fresh_process :: client_process where
  "fresh_process = \<lparr>cp_worker = no_transport, cp_errno = 0, cp_mem = (\<lambda>_. 0), cp_calls = []\<rparr>"

lemma ready_answers [simp]:
  "pe_memory ready_env t = Inr 3" "pe_truncate ready_env t = None" "pe_event ready_env t = Inr (length t + 2)"
  "pe_map ready_env t = None" "pe_fork ready_env t = Inr 50" "pe_wait ready_env t = Event_read" "pe_dup ready_env t = Inr 9"
  "pe_atexit ready_env t" "pe_stored ready_env t = control_store ctl_flags DSCW_FLAG_WORKER_READY"
  by (simp_all add: ready_env_def)

lemma ready_await:
  assumes "0 < n"
  shows "wp (await_worker n ready_env) (\<lambda>b p'. b \<and> worker_is_ready (cp_mem p')) p"
proof -
  have "worker_is_ready (control_store ctl_flags DSCW_FLAG_WORKER_READY m)" for m
    by (simp add: worker_is_ready_def control_load_store DSCW_FLAG_WORKER_READY_def DSCW_FLAG_WORKER_FAILED_def)
  then show ?thesis
    using assms by (cases n) (simp_all add: wait_eventfd_def wp_simps)
qed

lemma ready_launch: "wp (launch_worker ready_env) (\<lambda>b p'. b \<and> tr_started (cp_worker p')) p"
  by (simp add: launch_worker_def wp_simps wp_kernel_created, rule wp_mono [OF ready_await])
    (simp_all add: DSCB_WORKER_START_TIMEOUT_MS_def wp_simps)

lemma ready_start: "wp (start_worker ready_env) (\<lambda>r p'. r = 9 \<and> tr_started (cp_worker p')) fresh_process"
  by (simp add: start_worker_def prepare_transport_def create_shared_memory_def wp_simps wp_kernel_created fresh_process_def no_transport_def,
      rule wp_mono [OF ready_launch])
    (simp add: give_descriptor_def wp_simps wp_kernel_created)

theorem start_worker_all_or_nothing_witness:
  "released {9} (snd (run_state (stop_worker ready_env) (snd (run_state (start_worker ready_env) fresh_process))))"
proof -
  obtain r p' where run: "run_state (start_worker ready_env) fresh_process = (r, p')" by fastforce
  have "r = 9 \<and> tr_started (cp_worker p')"
    using wpD [OF ready_start run] .
  then show ?thesis
    using start_worker_all_or_nothing [OF _ run, of ready_env] run by (simp add: fresh_def fresh_process_def)
qed

section \<open>Client and worker together\<close>

text \<open>The number of waits so far.\<close>

definition waits :: "process_call list \<Rightarrow> nat" where
  "waits t = length (filter (\<lambda>c. \<exists>d n a. c = Wait_event d n a) t)"

lemma waits_simps [simp]:
  "waits [] = 0" "waits (t @ u) = waits t + waits u" "waits (c # t) = (if \<exists>d n a. c = Wait_event d n a then 1 else 0) + waits t"
  by (simp_all add: waits_def)

text \<open>
  A kernel that creates what it is asked for, and on it a worker that runs the worker's code as a child
  of the client and has announced itself after \<open>n\<close> waits that timed out.
\<close>

definition hosts_worker :: "'m media_api \<Rightarrow> 'm wx \<Rightarrow> process_env \<Rightarrow> nat \<Rightarrow> bool" where
  "hosts_worker api w os n \<longleftrightarrow>
     (\<forall>t. (\<exists>d. pe_memory os t = Inr d) \<and> pe_truncate os t = None \<and> (\<exists>d. pe_event os t = Inr d) \<and> pe_map os t = None
        \<and> (\<exists>c. pe_fork os t = Inr c) \<and> (\<exists>d. pe_dup os t = Inr d) \<and> pe_atexit os t \<and> pe_reap os t = Reap_running
        \<and> pe_wait os t = (if waits t < n then Event_timeout else Event_read))
     \<and> (\<forall>t m. pe_stored os t m = (if waits t \<le> n then m
          else wx_mem (snd (run_state (worker_main api (pe_pid os) True []) (w\<lparr>wx_mem := m\<rparr>)))))"

lemma init_flags: "control_load (init_transport pid) ctl_flags = 0"
proof -
  have "control_load (\<lambda>_. 0) ctl_flags = 0"
    by (simp add: control_load_def unhost32_def mem_read_def)
  then show ?thesis
    by (simp add: init_transport_def mem_simps)
qed

lemma announced_ready:
  "control_load m ctl_flags = 0 \<Longrightarrow> worker_is_ready (announced pid m) \<and> control_load (announced pid m) ctl_worker_pid = of_nat pid"
  by (simp add: announced_def Let_def worker_is_ready_def mem_simps DSCW_FLAG_WORKER_READY_def DSCW_FLAG_WORKER_FAILED_def)

lemma hosts_stored:
  assumes "hosts_worker api w os n" "transport_valid m (pe_pid os)"
  shows "pe_stored os t m = (if waits t \<le> n then m else announced (env_getpid api) m)"
  using worker_main_announces [of "w\<lparr>wx_mem := m\<rparr>" "pe_pid os" api] assms
  by (auto simp: hosts_worker_def wp_def split: prod.splits)

lemma hosts_await:
  assumes "hosts_worker api w os n" "0 < pe_pid os" "pe_pid os < 2 ^ 32" "cp_mem p = init_transport (pe_pid os)"
    "waits (cp_calls p) + k = n" "k < rounds"
  shows "wp (await_worker rounds os)
    (\<lambda>b p'. b \<and> cp_worker p' = cp_worker p \<and> cp_mem p' = announced (env_getpid api) (init_transport (pe_pid os))) p"
  using assms(4-6)
proof (induction k arbitrary: p rounds)
  case 0
  then obtain r where "rounds = Suc r" by (cases rounds) auto
  moreover have "pe_wait os (cp_calls p) = Event_read"
    using 0 assms(1) by (simp add: hosts_worker_def)
  ultimately show ?case
    using 0 hosts_stored [OF assms(1) init_transport_valid [OF assms(2,3)]]
    by (simp add: wait_eventfd_def wp_simps)
next
  case (Suc k)
  then obtain r where r: "rounds = Suc r" by (cases rounds) auto
  have "pe_wait os (cp_calls p) = Event_timeout" "pe_reap os t = Reap_running" for t
    using Suc.prems assms(1) by (auto simp: hosts_worker_def)
  then show ?case
    using Suc.prems hosts_stored [OF assms(1) init_transport_valid [OF assms(2,3)]]
    by (simp add: r wait_eventfd_def wp_simps) (rule wp_mono [OF Suc.IH], auto)
qed

text \<open>
  C11. A client and the worker's own code meet: on a kernel that grants what it is asked for, with the
  worker announced within the timeout of ten seconds, the start succeeds, hands out a descriptor, and
  the mapping names the worker.
\<close>

theorem start_reaches_worker:
  assumes "hosts_worker api w os n" "n < 100" "0 < pe_pid os" "pe_pid os < 2 ^ 32" "fresh p"
  shows "wp (start_worker os) (\<lambda>r p'. 0 \<le> r \<and> tr_started (cp_worker p') \<and> worker_is_ready (cp_mem p')
    \<and> control_load (cp_mem p') ctl_worker_pid = of_nat (env_getpid api)) p"
proof -
  let ?m = "announced (env_getpid api) (init_transport (pe_pid os))"
  have m: "worker_is_ready ?m" "control_load ?m ctl_worker_pid = of_nat (env_getpid api)"
    using announced_ready [OF init_flags] by blast+
  have await: "wp (await_worker 100 os) (\<lambda>b p'. b \<and> cp_worker p' = cp_worker q \<and> cp_mem p' = ?m) q"
    if "cp_mem q = init_transport (pe_pid os)" "waits (cp_calls q) = 0" for q
    by (rule hosts_await [OF assms(1,3,4)]) (use that assms(2) in auto)
  have launch: "wp (launch_worker os) (\<lambda>b p'. b \<and> tr_started (cp_worker p') \<and> cp_mem p' = ?m) q"
    if "cp_mem q = init_transport (pe_pid os)" "waits (cp_calls q) = 0" for q
  proof -
    obtain c where c: "pe_fork os (cp_calls q) = Inr c"
      using assms(1) unfolding hosts_worker_def by blast
    have exit: "pe_atexit os t" for t
      using assms(1) by (simp add: hosts_worker_def)
    show ?thesis
      by (simp add: launch_worker_def wp_simps wp_kernel_created c DSCB_WORKER_START_TIMEOUT_MS_def, rule wp_mono [OF await])
        (use that in \<open>auto simp: wp_simps m exit\<close>)
  qed
  obtain dm de dd where creates: "\<And>t. pe_memory os t = Inr (dm t)" "\<And>t. pe_event os t = Inr (de t)" "\<And>t. pe_dup os t = Inr (dd t)"
    using assms(1) unfolding hosts_worker_def by metis
  have grants: "pe_truncate os t = None" "pe_map os t = None" for t
    using assms(1) by (auto simp: hosts_worker_def)
  show ?thesis
    using assms(5) unfolding fresh_def
    by (simp add: start_worker_def prepare_transport_def create_shared_memory_def wp_simps wp_kernel_created no_transport_def creates grants,
        intro wp_mono [OF launch]) (auto simp: give_descriptor_def wp_simps wp_kernel_created creates m)
qed

definition slow_env :: process_env where
  "slow_env = ready_env\<lparr>pe_pid := 42, pe_wait := (\<lambda>t. if waits t < 2 then Event_timeout else Event_read),
     pe_stored := (\<lambda>t m. if waits t \<le> 2 then m
       else wx_mem (snd (run_state (worker_main demo_api 42 True []) (demo_wx\<lparr>wx_mem := m\<rparr>))))\<rparr>"

theorem start_reaches_worker_witness:
  "wp (start_worker slow_env) (\<lambda>r p'. 0 \<le> r \<and> tr_started (cp_worker p') \<and> worker_is_ready (cp_mem p')) fresh_process"
proof -
  have "hosts_worker demo_api demo_wx slow_env 2"
    by (simp add: hosts_worker_def slow_env_def ready_env_def)
  then show ?thesis
    by (rule wp_mono [OF start_reaches_worker]) (simp_all add: slow_env_def fresh_def fresh_process_def)
qed

section \<open>The worker's descriptors and environment\<close>

definition spare_ok :: "child_answers \<Rightarrow> bool" where
  "spare_ok a \<longleftrightarrow> (\<forall>fds t. ch_spare a fds = Some t \<longrightarrow> 64 \<le> t \<and> fds t = None)"

lemma installed:
  assumes "spare_ok a" "child_install_descriptor a source target fds = Some fds'" "target < 64"
  shows "fds source \<noteq> None" "fds' fd = (if fd = target then Some (fst (the (fds source)), False) else fds fd)"
proof -
  obtain object f t where s: "fds source = Some (object, f)" "ch_spare a fds = Some t"
    and fds': "fds' = (fds(t \<mapsto> (object, True), target \<mapsto> (object, False)))(t := None)"
    using assms(2) by (auto simp: child_install_descriptor_def Let_def split: option.splits if_splits prod.splits)
  have "64 \<le> t" "fds t = None"
    using assms(1) s(2) by (auto simp: spare_ok_def)
  then show "fds source \<noteq> None" "fds' fd = (if fd = target then Some (fst (the (fds source)), False) else fds fd)"
    using assms(3) by (auto simp: fds' s(1))
qed

lemma unset_all_vars:
  "unset_all a names vars = Some vars' \<Longrightarrow> vars' name = (if name \<in> set names then None else vars name)"
  by (induction names arbitrary: vars) (auto split: if_splits)

lemma executes_steps:
  assumes "worker_child a lp64 path memfd request_fd response_fd fds vars = Child_executes path' args fds' vars'"
  obtains fds1 fds2 where "child_install_descriptor a memfd 3 fds = Some fds1" "child_install_descriptor a request_fd 4 fds1 = Some fds2"
    "child_install_descriptor a response_fd 5 fds2 = Some fds'" "child_configure_android_linker a lp64 vars = Some vars'"
    "path' = path" "args = [path, ''--inherited-transport'']"
  using assms by (auto simp: worker_child_def split: if_splits option.splits)

text \<open>
  C12. When the child executes the worker, its descriptors 3, 4 and 5 are the shared memory, the request
  and the response events, inherited, as long as these were created above the standard streams; and
  of the linker's variables none is set but the library path, and that only to the system's ICU
  directory. All other variables are kept.
\<close>

theorem worker_executed_safely:
  assumes "spare_ok a" "worker_child a lp64 path memfd request_fd response_fd fds vars = Child_executes path' args fds' vars'"
  shows "(3 \<le> memfd \<and> memfd < request_fd \<and> request_fd < response_fd \<longrightarrow>
      fds' 3 = Some (fst (the (fds memfd)), False) \<and> fds' 4 = Some (fst (the (fds request_fd)), False)
      \<and> fds' 5 = Some (fst (the (fds response_fd)), False))
    \<and> vars' ''LD_PRELOAD'' = None \<and> vars' ''LD_AUDIT'' = None \<and> vars' ''LD_CONFIG_FILE'' = None \<and> vars' ''LD_DEBUG'' = None
    \<and> (vars' ''LD_LIBRARY_PATH'' = None \<or> vars' ''LD_LIBRARY_PATH'' = Some (icu_directory lp64))
    \<and> (\<forall>name. name \<notin> set unsafe_variables \<longrightarrow> vars' name = vars name)"
proof -
  obtain fds1 fds2 where i: "child_install_descriptor a memfd 3 fds = Some fds1" "child_install_descriptor a request_fd 4 fds1 = Some fds2"
    "child_install_descriptor a response_fd 5 fds2 = Some fds'" and linker: "child_configure_android_linker a lp64 vars = Some vars'"
    by (rule executes_steps [OF assms(2)])
  note fds = installed(2) [OF assms(1) i(1)] installed(2) [OF assms(1) i(2)] installed(2) [OF assms(1) i(3)]
  obtain vars1 where v: "unset_all a unsafe_variables vars = Some vars1" "vars' = vars1 \<or> vars' = vars1(''LD_LIBRARY_PATH'' \<mapsto> icu_directory lp64)"
    using linker by (auto simp: child_configure_android_linker_def split: option.splits if_splits)
  have vars1: "vars1 name = (if name \<in> set unsafe_variables then None else vars name)" for name
    by (rule unset_all_vars [OF v(1)])
  have "vars' ''LD_PRELOAD'' = None \<and> vars' ''LD_AUDIT'' = None \<and> vars' ''LD_CONFIG_FILE'' = None \<and> vars' ''LD_DEBUG'' = None
    \<and> (vars' ''LD_LIBRARY_PATH'' = None \<or> vars' ''LD_LIBRARY_PATH'' = Some (icu_directory lp64))"
    using v(2) by (auto simp: vars1 unsafe_variables_def)
  moreover have "vars' name = vars name" if "name \<notin> set unsafe_variables" for name
    using v(2) that by (auto simp: vars1) (simp_all add: unsafe_variables_def)
  moreover have "fds' 3 = Some (fst (the (fds memfd)), False) \<and> fds' 4 = Some (fst (the (fds request_fd)), False)
      \<and> fds' 5 = Some (fst (the (fds response_fd)), False)" if "3 \<le> memfd \<and> memfd < request_fd \<and> request_fd < response_fd"
    using that by (simp add: fds)
  ultimately show ?thesis by blast
qed

definition plain_child :: child_answers where
  "plain_child = \<lparr>ch_death_signal = True, ch_parent = 2, ch_spare = (\<lambda>fds. if fds 64 = None then Some 64 else None), ch_dup2 = (\<lambda>_. True),
     ch_flags = (\<lambda>_. True), ch_unset = (\<lambda>_. True), ch_readable = (\<lambda>_. True), ch_setenv = True, ch_exec = True\<rparr>"

lemma plain_spare: "spare_ok plain_child"
  by (simp add: spare_ok_def plain_child_def)

lemma plain_answers: "ch_death_signal plain_child" "ch_parent plain_child = 2" "ch_exec plain_child"
  by (simp_all add: plain_child_def)

lemma plain_install:
  "fds source \<noteq> None \<Longrightarrow> fds 64 = None \<Longrightarrow> target < 64
    \<Longrightarrow> child_install_descriptor plain_child source target fds = Some (fds(target \<mapsto> (fst (the (fds source)), False)))"
  by (auto simp: child_install_descriptor_def plain_child_def intro!: ext)

lemma plain_linker:
  "child_configure_android_linker plain_child lp64 (\<lambda>_. None) = Some [''LD_LIBRARY_PATH'' \<mapsto> icu_directory lp64]"
  by (simp add: child_configure_android_linker_def unsafe_variables_def plain_child_def)

lemma plain_child_executes:
  "worker_child plain_child True ''w'' 3 4 5 [3 \<mapsto> (30, True), 4 \<mapsto> (40, True), 5 \<mapsto> (50, True)] (\<lambda>_. None)
    = Child_executes ''w'' [''w'', ''--inherited-transport''] [3 \<mapsto> (30, False), 4 \<mapsto> (40, False), 5 \<mapsto> (50, False)]
        [''LD_LIBRARY_PATH'' \<mapsto> icu_directory True]"
  "worker_child plain_child True ''w'' 0 3 4 [0 \<mapsto> (30, True), 3 \<mapsto> (40, True), 4 \<mapsto> (50, True)] (\<lambda>_. None)
    = Child_executes ''w'' [''w'', ''--inherited-transport'']
        [0 \<mapsto> (30, True), 3 \<mapsto> (30, False), 4 \<mapsto> (30, False), 5 \<mapsto> (30, False)] [''LD_LIBRARY_PATH'' \<mapsto> icu_directory True]"
  by (simp_all add: worker_child_def plain_install plain_linker plain_answers fun_upd_twist)

theorem worker_executed_safely_witness:
  "\<exists>fds' vars'. worker_child plain_child True ''w'' 3 4 5 [3 \<mapsto> (30, True), 4 \<mapsto> (40, True), 5 \<mapsto> (50, True)] (\<lambda>_. None)
      = Child_executes ''w'' [''w'', ''--inherited-transport''] fds' vars'
    \<and> fds' 3 = Some (30, False) \<and> fds' 4 = Some (40, False) \<and> fds' 5 = Some (50, False) \<and> vars' ''HOME'' = None"
  using plain_child_executes(1) worker_executed_safely [OF plain_spare plain_child_executes(1)]
  by (simp add: unsafe_variables_def)

text \<open>
  C13. The sequential installation of the descriptors is not safe when a standard stream is closed: with
  standard input closed, the shared memory is created as 0 and the events as 3 and 4, and the worker
  gets the shared memory in place of both events.
\<close>

theorem closed_stdin_misroutes:
  assumes "spare_ok a" "worker_child a lp64 path 0 3 4 fds vars = Child_executes path' args fds' vars'"
  shows "fds' 4 = fds' 3 \<and> fds' 5 = fds' 3 \<and> fds' 3 = Some (fst (the (fds 0)), False)"
proof -
  obtain fds1 fds2 where i: "child_install_descriptor a 0 3 fds = Some fds1" "child_install_descriptor a 3 4 fds1 = Some fds2"
    "child_install_descriptor a 4 5 fds2 = Some fds'"
    by (rule executes_steps [OF assms(2)])
  note fds = installed(2) [OF assms(1) i(1)] installed(2) [OF assms(1) i(2)] installed(2) [OF assms(1) i(3)]
  show ?thesis by (simp add: fds)
qed

theorem closed_stdin_misroutes_witness:
  "\<exists>fds' vars'. worker_child plain_child True ''w'' 0 3 4 [0 \<mapsto> (30, True), 3 \<mapsto> (40, True), 4 \<mapsto> (50, True)] (\<lambda>_. None)
      = Child_executes ''w'' [''w'', ''--inherited-transport''] fds' vars'
    \<and> fds' 4 = fds' 3 \<and> fds' 5 = fds' 3 \<and> fds' 3 = Some (30, False)"
  using plain_child_executes(2) closed_stdin_misroutes [OF plain_spare plain_child_executes(2)] by simp

end
