(* ===== verification/Launcher_Config.thy ===== *)
theory Launcher_Config
  imports Prelude
begin

text \<open>
  The launcher's configuration (\<open>bfu_namespace_probe.c\<close>): the policy and mode enumerations, their
  parsers and names, and the list of USB devices for exclusive use. A missing argument
  (\<open>NULL\<close>) is \<open>None\<close>; a parser's failure \<open>-1\<close> is \<open>None\<close> as its result.
\<close>

unbundle bit_operations_syntax

section \<open>Modes and policies\<close>

datatype CgroupMode =
    CGROUP_MODE_UNKNOWN
  | CGROUP_MODE_V1
  | CGROUP_MODE_V1_NO_DEVICES
  | CGROUP_MODE_V2

datatype CgroupPolicy = CGROUP_POLICY_AUTO | CGROUP_POLICY_FORCE_V2 | CGROUP_POLICY_FORCE_V1

datatype LaunchMode = LAUNCH_MODE_SYSTEMD | LAUNCH_MODE_COMPAT

datatype HostUsbPolicy = HOST_USB_OFF | HOST_USB_DIRECT | HOST_USB_EXCLUSIVE

definition host_usb_policy_name :: "HostUsbPolicy \<Rightarrow> string" where
  "host_usb_policy_name policy =
     (if policy = HOST_USB_DIRECT then ''direct''
      else if policy = HOST_USB_EXCLUSIVE then ''exclusive''
      else ''off'')"

definition parse_host_usb_policy :: "string option \<Rightarrow> HostUsbPolicy option" where
  "parse_host_usb_policy value =
     (case value of
        None \<Rightarrow> Some HOST_USB_OFF
      | Some v \<Rightarrow>
          if v = ''off'' \<or> v = ''blocked'' then Some HOST_USB_OFF
          else if v = ''direct'' \<or> v = ''shared'' then Some HOST_USB_DIRECT
          else if v = ''exclusive'' then Some HOST_USB_EXCLUSIVE
          else None)"

definition cgroup_mode_name :: "CgroupMode \<Rightarrow> string" where
  "cgroup_mode_name mode =
     (if mode = CGROUP_MODE_V2 then ''v2''
      else if mode = CGROUP_MODE_V1 then ''v1''
      else if mode = CGROUP_MODE_V1_NO_DEVICES then ''v1-nodev''
      else ''unknown'')"

definition launch_mode_name :: "LaunchMode \<Rightarrow> string" where
  "launch_mode_name mode = (if mode = LAUNCH_MODE_COMPAT then ''compat'' else ''systemd'')"

text \<open>The result is whether the fallback to compatibility mode is allowed.\<close>

definition parse_launch_policy :: "string option \<Rightarrow> bool option" where
  "parse_launch_policy value =
     (case value of
        None \<Rightarrow> Some False
      | Some v \<Rightarrow>
          if v = ''strict'' \<or> v = ''off'' then Some False
          else if v = ''fallback'' \<or> v = ''compat'' \<or> v = ''allow'' then Some True
          else None)"

definition is_explicit_launch_policy :: "string option \<Rightarrow> bool" where
  "is_explicit_launch_policy value \<longleftrightarrow>
     (case value of
        None \<Rightarrow> False
      | Some v \<Rightarrow> v = ''strict'' \<or> v = ''fallback'' \<or> v = ''compat'' \<or> v = ''allow'')"

definition parse_cgroup_mode :: "string option \<Rightarrow> CgroupMode" where
  "parse_cgroup_mode value =
     (if value = Some ''v2'' then CGROUP_MODE_V2
      else if value = Some ''v1'' then CGROUP_MODE_V1
      else if value = Some ''v1-nodev'' then CGROUP_MODE_V1_NO_DEVICES
      else CGROUP_MODE_UNKNOWN)"

definition cgroup_mode_is_legacy :: "CgroupMode \<Rightarrow> bool" where
  "cgroup_mode_is_legacy mode \<longleftrightarrow> mode = CGROUP_MODE_V1 \<or> mode = CGROUP_MODE_V1_NO_DEVICES"

definition parse_cgroup_policy :: "string option \<Rightarrow> CgroupPolicy option" where
  "parse_cgroup_policy value =
     (case value of
        None \<Rightarrow> Some CGROUP_POLICY_AUTO
      | Some v \<Rightarrow>
          if v = ''auto'' then Some CGROUP_POLICY_AUTO
          else if v = ''v2'' then Some CGROUP_POLICY_FORCE_V2
          else if v = ''v1'' then Some CGROUP_POLICY_FORCE_V1
          else None)"

section \<open>The USB device filter\<close>

definition MAX_USB_DEVICE_FILTERS :: nat where "MAX_USB_DEVICE_FILTERS = 32"

record UsbDeviceId =
  vendor :: u32
  product :: u32

definition hex_digit_value :: "char \<Rightarrow> int" where
  "hex_digit_value c =
     (let v = (of_char c :: int)
      in if 48 \<le> v \<and> v \<le> 57 then v - 48
         else if 97 \<le> v \<and> v \<le> 102 then v - 97 + 10
         else if 65 \<le> v \<and> v \<le> 70 then v - 65 + 10
         else -1)"

text \<open>The four characters a word is read from; the caller has checked that they are there.\<close>

fun hex_word :: "u32 \<Rightarrow> string \<Rightarrow> u32 option" where
  "hex_word result [] = Some result"
| "hex_word result (c # cs) =
     (if hex_digit_value c < 0 then None
      else hex_word (push_bit 4 result OR word_of_int (hex_digit_value c)) cs)"

definition parse_usb_hex_word :: "string \<Rightarrow> u32 option" where
  "parse_usb_hex_word value = hex_word 0 (take 4 value)"

text \<open>The loop of \<open>parse_usb_device_filter\<close> on the text from \<open>offset\<close> on.\<close>

function usb_filter_entries :: "string \<Rightarrow> UsbDeviceId list \<Rightarrow> UsbDeviceId list option" where
  "usb_filter_entries value entries =
     (if value = [] then Some entries
      else if length entries \<ge> MAX_USB_DEVICE_FILTERS \<or> length value < 9 \<or> value ! 4 \<noteq> CHR '':'' then None
      else if length value > 9 \<and> value ! 9 \<noteq> CHR '','' then None
      else (case (parse_usb_hex_word value, parse_usb_hex_word (drop 5 value)) of
              (Some v, Some p) \<Rightarrow>
                let candidate = \<lparr>vendor = v, product = p\<rparr>;
                    entries' = (if candidate \<in> set entries then entries else entries @ [candidate])
                in if length value = 9 then Some entries'
                   else if length value = 10 then None
                   else usb_filter_entries (drop 10 value) entries'
            | _ \<Rightarrow> None))"
  by pat_completeness auto
termination
  by (relation "measure (\<lambda>(value, _). length value)") auto

declare usb_filter_entries.simps [simp del]

definition parse_usb_device_filter :: "string option \<Rightarrow> UsbDeviceId list option" where
  "parse_usb_device_filter value =
     (case value of
        None \<Rightarrow> Some []
      | Some v \<Rightarrow>
          if v = [] \<or> v = ''-'' then Some []
          else if length v > 512 then None
          else usb_filter_entries v [])"

section \<open>Names and parsers\<close>

lemma cgroup_mode_round_trip: "parse_cgroup_mode (Some (cgroup_mode_name mode)) = mode"
  by (cases mode) (simp_all add: parse_cgroup_mode_def cgroup_mode_name_def)

lemma host_usb_policy_round_trip: "parse_host_usb_policy (Some (host_usb_policy_name policy)) = Some policy"
  by (cases policy) (simp_all add: parse_host_usb_policy_def host_usb_policy_name_def)

section \<open>The device list\<close>

definition hex_char :: "nat \<Rightarrow> char" where
  "hex_char d = char_of (if d < 10 then 48 + d else 87 + d)"

definition hex4 :: "nat \<Rightarrow> string" where
  "hex4 n = [hex_char (n div 4096), hex_char (n div 256 mod 16), hex_char (n div 16 mod 16), hex_char (n mod 16)]"

definition usb_id_text :: "UsbDeviceId \<Rightarrow> string" where
  "usb_id_text x = hex4 (unat (vendor x)) @ CHR '':'' # hex4 (unat (product x))"

text \<open>The text of a list of devices, as the option is written.\<close>

fun usb_filter_text :: "UsbDeviceId list \<Rightarrow> string" where
  "usb_filter_text [] = []"
| "usb_filter_text [x] = usb_id_text x"
| "usb_filter_text (x # y # ys) = usb_id_text x @ CHR '','' # usb_filter_text (y # ys)"

definition usb_word :: "u32 \<Rightarrow> bool" where
  "usb_word w \<longleftrightarrow> unat w < 65536"

definition usb_id_ok :: "UsbDeviceId \<Rightarrow> bool" where
  "usb_id_ok x \<longleftrightarrow> usb_word (vendor x) \<and> usb_word (product x)"

lemma hex_digit_hex_char: "d < 16 \<Longrightarrow> hex_digit_value (hex_char d) = int d"
proof -
  assume d: "d < 16"
  have "(of_char (hex_char d) :: nat) = (if d < 10 then 48 + d else 87 + d)"
    using d by (simp add: hex_char_def of_char_of)
  then have "(of_char (hex_char d) :: int) = int (if d < 10 then 48 + d else 87 + d)"
    by (metis of_nat_of_char)
  then show ?thesis
    using d by (auto simp: hex_digit_value_def Let_def)
qed

lemma length_hex4 [simp]: "length (hex4 n) = 4"
  by (simp add: hex4_def)

lemma length_usb_id_text [simp]: "length (usb_id_text x) = 9"
  by (simp add: usb_id_text_def)

lemma shift_digit:
  fixes r :: u32
  assumes "d < 16"
  shows "push_bit 4 r OR of_nat d = r * 16 + of_nat d"
proof -
  have "take_bit 4 d = d"
    using assms by (simp add: take_bit_nat_eq_self_iff)
  then have low: "bit d n \<Longrightarrow> n < 4" for n
    by (metis bit_take_bit_iff)
  have "push_bit 4 r AND of_nat d = 0"
    by (rule bit_eqI) (auto simp: bit_simps dest: low)
  then have "push_bit 4 r OR of_nat d = push_bit 4 r + of_nat d"
    by (simp add: disjunctive_add_eq_or)
  then show ?thesis
    by (simp add: push_bit_eq_mult)
qed

lemma parse_hex4:
  assumes "n < 65536"
  shows "parse_usb_hex_word (hex4 n @ rest) = Some (of_nat n)"
proof -
  let ?d = "[n div 4096, n div 256 mod 16, n div 16 mod 16, n mod 16]"
  have small: "n div 4096 < 16" using assms by simp
  have sum: "((n div 4096 * 16 + n div 256 mod 16) * 16 + n div 16 mod 16) * 16 + n mod 16 = n"
    using div_mult_mod_eq [of n 16] div_mult_mod_eq [of "n div 16" 16] div_mult_mod_eq [of "n div 256" 16]
    by (simp add: div_mult2_eq [symmetric])
  have "parse_usb_hex_word (hex4 n @ rest) =
      Some (((of_nat (n div 4096) * 16 + of_nat (n div 256 mod 16)) * 16 + of_nat (n div 16 mod 16)) * 16 + of_nat (n mod 16))"
    using small by (simp add: parse_usb_hex_word_def hex4_def hex_digit_hex_char shift_digit)
  also have "\<dots> = Some (of_nat (((n div 4096 * 16 + n div 256 mod 16) * 16 + n div 16 mod 16) * 16 + n mod 16))"
    by simp
  finally show ?thesis by (simp only: sum)
qed

lemma hex_digit_bound: "hex_digit_value c < 16"
  by (simp add: hex_digit_value_def Let_def)

lemma hex_word_bound:
  assumes "hex_word r cs = Some w" "unat r < 16 ^ j" "j + length cs \<le> 8"
  shows "unat w < 16 ^ (j + length cs)"
  using assms
proof (induction cs arbitrary: r j)
  case (Cons c cs)
  obtain d where d: "hex_digit_value c = int d" "d < 16"
    using Cons.prems(1) hex_digit_bound [of c]
    by (metis hex_word.simps(2) int_nat_eq linorder_not_less nat_less_iff of_nat_numeral option.distinct(1))
  have next_r: "push_bit 4 r OR word_of_int (hex_digit_value c) = r * 16 + of_nat d"
    using shift_digit [OF d(2), of r] by (simp add: d)
  have "unat r * 16 + d < 16 ^ Suc j"
    using Cons.prems(2) d by simp
  moreover have "16 ^ Suc j \<le> (16 :: nat) ^ 8"
    by (rule power_increasing) (use Cons.prems(3) in auto)
  ultimately have "unat (r * 16 + of_nat d) = unat r * 16 + d"
    using d by (simp add: unat_word_ariths unat_of_nat_u32)
  then show ?case
    using Cons.IH [of "r * 16 + of_nat d" "Suc j"] Cons.prems d next_r by simp
qed simp

lemma parse_usb_hex_word_bound: "parse_usb_hex_word v = Some w \<Longrightarrow> 4 \<le> length v \<Longrightarrow> usb_word w"
  using hex_word_bound [of 0 "take 4 v" w 0] by (simp add: parse_usb_hex_word_def usb_word_def)

text \<open>Whatever text is accepted, the list has at most 32 entries, none twice, each of 16-bit ids.\<close>

lemma usb_filter_entries_ok:
  assumes "usb_filter_entries v entries = Some r"
    and "distinct entries" "length entries \<le> MAX_USB_DEVICE_FILTERS" "\<forall>x \<in> set entries. usb_id_ok x"
  shows "distinct r \<and> length r \<le> MAX_USB_DEVICE_FILTERS \<and> (\<forall>x \<in> set r. usb_id_ok x)"
  using assms
proof (induction v entries rule: usb_filter_entries.induct)
  case (1 v entries)
  show ?case
  proof (cases "v = []")
    case True
    with 1 show ?thesis by (simp add: usb_filter_entries.simps [of "[]"])
  next
    case False
    with 1(2) obtain a b where ab: "parse_usb_hex_word v = Some a" "parse_usb_hex_word (drop 5 v) = Some b"
      and len: "9 \<le> length v" "length entries < MAX_USB_DEVICE_FILTERS"
      by (auto simp: usb_filter_entries.simps [of "v"] Let_def split: if_splits option.splits)
    let ?e = "if \<lparr>vendor = a, product = b\<rparr> \<in> set entries then entries else entries @ [\<lparr>vendor = a, product = b\<rparr>]"
    have ok: "distinct ?e" "length ?e \<le> MAX_USB_DEVICE_FILTERS" "\<forall>x \<in> set ?e. usb_id_ok x"
      using 1(3-5) len ab parse_usb_hex_word_bound [OF ab(1)] parse_usb_hex_word_bound [OF ab(2)]
      by (auto simp: usb_id_ok_def)
    from 1(2) False ab len have "length v = 9 \<and> r = ?e
        \<or> usb_filter_entries (drop 10 v) ?e = Some r"
      by (auto simp: usb_filter_entries.simps [of "v"] Let_def split: if_splits)
    then show ?thesis
      using ok 1(1) False ab len 1(2)
      by (auto simp: usb_filter_entries.simps [of "v"] Let_def split: if_splits)
  qed
qed


lemma usb_filter_entries_step:
  assumes "usb_id_ok x" "length entries < MAX_USB_DEVICE_FILTERS"
  shows "usb_filter_entries (usb_id_text x) entries = Some (if x \<in> set entries then entries else entries @ [x])"
    "rest \<noteq> [] \<Longrightarrow> usb_filter_entries (usb_id_text x @ CHR '','' # rest) entries =
       usb_filter_entries rest (if x \<in> set entries then entries else entries @ [x])"
proof -
  have v: "parse_usb_hex_word (usb_id_text x @ r) = Some (vendor x)" for r
    using parse_hex4 [of "unat (vendor x)"] assms(1) by (simp add: usb_id_text_def usb_id_ok_def usb_word_def)
  have p: "parse_usb_hex_word (drop 5 (usb_id_text x @ r)) = Some (product x)" for r
    using parse_hex4 [of "unat (product x)"] assms(1) by (simp add: usb_id_text_def usb_id_ok_def usb_word_def)
  have colon: "(usb_id_text x @ r) ! 4 = CHR '':''" for r
    by (simp add: usb_id_text_def nth_append)
  have x: "\<lparr>vendor = vendor x, product = product x\<rparr> = x"
    by simp
  have nonempty: "usb_id_text x \<noteq> []"
    by (simp add: usb_id_text_def)
  show "usb_filter_entries (usb_id_text x) entries = Some (if x \<in> set entries then entries else entries @ [x])"
    using v [of "[]"] p [of "[]"] colon [of "[]"] assms(2) nonempty
    by (subst usb_filter_entries.simps) (simp add: x)
  assume "rest \<noteq> []"
  then show "usb_filter_entries (usb_id_text x @ CHR '','' # rest) entries =
       usb_filter_entries rest (if x \<in> set entries then entries else entries @ [x])"
    using v [of "CHR '','' # rest"] p [of "CHR '','' # rest"] colon [of "CHR '','' # rest"] assms(2) nonempty
    by (subst usb_filter_entries.simps) (simp add: x nth_append)
qed

lemma usb_filter_text_neq_Nil: "xs \<noteq> [] \<Longrightarrow> usb_filter_text xs \<noteq> []"
  by (induction xs rule: usb_filter_text.induct) (auto simp: usb_id_text_def)

lemma usb_filter_entries_text:
  assumes "\<forall>x \<in> set xs. usb_id_ok x" "distinct (entries @ xs)" "xs \<noteq> []"
    and "length entries + length xs \<le> MAX_USB_DEVICE_FILTERS"
  shows "usb_filter_entries (usb_filter_text xs) entries = Some (entries @ xs)"
  using assms
proof (induction xs arbitrary: entries rule: usb_filter_text.induct)
  case (2 x)
  then show ?case by (simp add: usb_filter_entries_step)
next
  case (3 x y ys)
  have "usb_filter_entries (usb_filter_text (y # ys)) (entries @ [x]) = Some ((entries @ [x]) @ y # ys)"
    by (rule 3(1)) (use 3(2-5) in auto)
  then show ?case
    using 3(2-5) usb_filter_text_neq_Nil [of "y # ys"] by (simp add: usb_filter_entries_step(2))
qed simp

lemma length_usb_filter_text: "length (usb_filter_text xs) = 10 * length xs - 1"
  by (induction xs rule: usb_filter_text.induct) auto

lemma usb_filter_round_trip:
  assumes "\<forall>x \<in> set xs. usb_id_ok x" "distinct xs" "length xs \<le> MAX_USB_DEVICE_FILTERS"
  shows "parse_usb_device_filter (Some (usb_filter_text xs)) = Some xs"
proof (cases "xs = []")
  case False
  then have "usb_filter_text xs \<noteq> ''-''" "length (usb_filter_text xs) \<le> 512"
    using length_usb_filter_text [of xs] assms(3) by (cases xs; auto simp: MAX_USB_DEVICE_FILTERS_def)+
  then show ?thesis
    using usb_filter_entries_text [of xs "[]"] assms False usb_filter_text_neq_Nil [OF False]
    by (simp add: parse_usb_device_filter_def)
qed (simp add: parse_usb_device_filter_def)

end
