(* ===== verification/Launcher_State.thy ===== *)
theory Launcher_State
  imports Launcher_Config
begin

text \<open>
  The launcher's state file and the identity of the processes it names
  (\<open>bfu_namespace_probe.c\<close>). The file system is a map from paths to contents; which system calls
  fail is an argument. \<open>/proc\<close> is an argument too: what it shows of a process.
\<close>

section \<open>Numbers\<close>

text \<open>\<open>strtoll\<close> without its end pointer, and \<open>atoi\<close>, which is \<open>(int) strtol\<close> on a 64-bit ABI.\<close>

definition strtoll :: "string \<Rightarrow> int" where
  "strtoll s =
     (let t = dropWhile is_space s;
          neg = (t \<noteq> [] \<and> hd t = CHR ''-'');
          u = (if t \<noteq> [] \<and> (hd t = CHR ''-'' \<or> hd t = CHR ''+'') then tl t else t);
          v = int (digits_val 0 (takeWhile is_digit u))
      in if neg then max (- (2 ^ 63)) (- v) else min (2 ^ 63 - 1) v)"

definition atoi :: "string \<Rightarrow> int" where
  "atoi s = sint (word_of_int (strtoll s) :: u32)"

definition parse_u64 :: "string \<Rightarrow> u64 option" where
  "parse_u64 v =
     (case strtou 64 v of
        None \<Rightarrow> None
      | Some (parsed, rest, overflow) \<Rightarrow> if overflow \<or> rest \<noteq> [] then None else Some (of_nat parsed))"

definition INT_MAX :: nat where "INT_MAX = 2147483647"

definition parse_pid_value :: "string \<Rightarrow> int option" where
  "parse_pid_value v =
     (case parse_u64 v of
        None \<Rightarrow> None
      | Some parsed \<Rightarrow> if unat parsed > INT_MAX then None else Some (int (unat parsed)))"

section \<open>Paths\<close>

definition PATH_MAX :: nat where "PATH_MAX = 4096"

definition joined_path :: "nat \<Rightarrow> string \<Rightarrow> string \<Rightarrow> string option" where
  "joined_path output_size base relative =
     (let text = base @ ''/'' @ relative
      in if length text \<ge> output_size then None else Some text)"

definition kStateName :: string where "kStateName = ''debian-supervisor.state''"

definition state_path :: "string \<Rightarrow> string option" where
  "state_path control_dir = joined_path PATH_MAX control_dir kStateName"

section \<open>The state\<close>

record LauncherState =
  ls_state :: string
  ls_cgroup_mode :: string
  ls_host_usb_mode :: string
  ls_launch_mode :: string
  ls_supervisor_pid :: int
  ls_supervisor_start_ticks :: u64
  ls_supervisor_exe_dev :: u64
  ls_supervisor_exe_ino :: u64
  ls_init_host_pid :: int
  ls_init_start_ticks :: u64
  ls_init_exe_dev :: u64
  ls_init_exe_ino :: u64
  ls_init_pid_ns_ino :: u64
  ls_init_mnt_ns_ino :: u64
  ls_init_uts_ns_ino :: u64
  ls_init_ipc_ns_ino :: u64
  ls_init_cgroup_ns_ino :: u64
  ls_init_net_ns_ino :: u64
  ls_wait_status :: int
  ls_updated_epoch :: int

text \<open>\<open>snprintf(field, size, "%s", value)\<close>.\<close>

definition field_text :: "nat \<Rightarrow> string \<Rightarrow> string" where
  "field_text n v = snd (snprintf n v)"

definition initialize_state :: "int \<Rightarrow> string \<Rightarrow> LauncherState" where
  "initialize_state now name =
     \<lparr>ls_state = field_text 24 name, ls_cgroup_mode = ''unknown'', ls_host_usb_mode = ''unknown'',
      ls_launch_mode = ''systemd'', ls_supervisor_pid = 0, ls_supervisor_start_ticks = 0,
      ls_supervisor_exe_dev = 0, ls_supervisor_exe_ino = 0, ls_init_host_pid = 0, ls_init_start_ticks = 0,
      ls_init_exe_dev = 0, ls_init_exe_ino = 0, ls_init_pid_ns_ino = 0, ls_init_mnt_ns_ino = 0,
      ls_init_uts_ns_ino = 0, ls_init_ipc_ns_ino = 0, ls_init_cgroup_ns_ino = 0, ls_init_net_ns_ino = 0,
      ls_wait_status = -1, ls_updated_epoch = now\<rparr>"

section \<open>Writing\<close>

definition u64_text :: "u64 \<Rightarrow> string" where
  "u64_text v = dec (unat v)"

definition state_fields :: "LauncherState \<Rightarrow> (string \<times> string) list" where
  "state_fields s =
     [(''format'', ''7''),
      (''state'', ls_state s),
      (''cgroup_mode'', ls_cgroup_mode s),
      (''host_usb_mode'', ls_host_usb_mode s),
      (''launch_mode'', ls_launch_mode s),
      (''supervisor_pid'', dec_int (ls_supervisor_pid s)),
      (''supervisor_start_ticks'', u64_text (ls_supervisor_start_ticks s)),
      (''supervisor_exe_dev'', u64_text (ls_supervisor_exe_dev s)),
      (''supervisor_exe_ino'', u64_text (ls_supervisor_exe_ino s)),
      (''init_host_pid'', dec_int (ls_init_host_pid s)),
      (''init_start_ticks'', u64_text (ls_init_start_ticks s)),
      (''init_exe_dev'', u64_text (ls_init_exe_dev s)),
      (''init_exe_ino'', u64_text (ls_init_exe_ino s)),
      (''init_pid_ns_ino'', u64_text (ls_init_pid_ns_ino s)),
      (''init_mnt_ns_ino'', u64_text (ls_init_mnt_ns_ino s)),
      (''init_uts_ns_ino'', u64_text (ls_init_uts_ns_ino s)),
      (''init_ipc_ns_ino'', u64_text (ls_init_ipc_ns_ino s)),
      (''init_cgroup_ns_ino'', u64_text (ls_init_cgroup_ns_ino s)),
      (''init_net_ns_ino'', u64_text (ls_init_net_ns_ino s)),
      (''wait_status'', dec_int (ls_wait_status s)),
      (''updated_epoch'', dec_int (ls_updated_epoch s))]"

definition state_line :: "string \<times> string \<Rightarrow> string" where
  "state_line kv = fst kv @ CHR ''='' # snd kv"

definition state_contents :: "LauncherState \<Rightarrow> string" where
  "state_contents s = concat (map (\<lambda>kv. state_line kv @ [CHR 0x0A]) (state_fields s))"

type_synonym files = "string \<rightharpoonup> string"

text \<open>
  \<open>write_all\<close>: each \<open>write\<close> either stores some of what is left or fails (an interrupted one is
  repeated); after the listed results a \<open>write\<close> stores the rest. The result is the outcome and
  the contents of the file after each call.
\<close>

fun write_all :: "nat option list \<Rightarrow> string \<Rightarrow> string \<Rightarrow> bool \<times> string list" where
  "write_all rs written [] = (True, [])"
| "write_all [] written rest = (True, [written @ rest])"
| "write_all (None # rs) written rest = (False, [])"
| "write_all (Some n # rs) written rest =
     (case write_all rs (written @ take n rest) (drop n rest) of
        (ok, steps) \<Rightarrow> (ok, (written @ take n rest) # steps))"

text \<open>Which of the system calls of \<open>write_state\<close> succeed.\<close>

record state_io =
  io_open :: bool
  io_writes :: "nat option list"
  io_fsync :: bool
  io_rename :: bool

text \<open>
  \<open>write_state\<close>: the result, the state with its new time, and the file system after each call
  that changes it, the last one being what is left.
\<close>

definition write_state ::
  "state_io \<Rightarrow> int \<Rightarrow> int \<Rightarrow> string \<Rightarrow> LauncherState \<Rightarrow> files \<Rightarrow> int \<times> LauncherState \<times> files list" where
  "write_state io pid now control_dir s fs =
     (case state_path control_dir of
        None \<Rightarrow> (-1, s, [])
      | Some destination \<Rightarrow>
          let temporary = destination @ ''.new.'' @ dec_int pid
          in if length temporary \<ge> PATH_MAX then (-1, s, [])
             else
               let s' = s\<lparr>ls_updated_epoch := now\<rparr>;
                   contents = state_contents s'
               in if length contents \<ge> 1024 then (-1, s', [])
                  else if \<not> io_open io \<or> fs temporary \<noteq> None then (-1, s', [])
                  else (case write_all (io_writes io) [] contents of
                          (written, steps) \<Rightarrow>
                            let stored = fs(temporary \<mapsto> []) # map (\<lambda>c. fs(temporary \<mapsto> c)) steps
                            in if \<not> written \<or> \<not> io_fsync io then (-1, s', stored @ [fs(temporary := None)])
                               else if \<not> io_rename io then (-1, s', stored @ [fs(temporary := None)])
                               else (0, s', stored @ [(last stored)(destination := last stored temporary, temporary := None)])))"

section \<open>Reading\<close>

text \<open>The branch of \<open>read_state\<close> for one key; a number that does not parse leaves the field.\<close>

definition set_u64 :: "(u64 \<Rightarrow> LauncherState \<Rightarrow> LauncherState) \<Rightarrow> string \<Rightarrow> LauncherState \<Rightarrow> LauncherState" where
  "set_u64 f v s = (case parse_u64 v of None \<Rightarrow> s | Some x \<Rightarrow> f x s)"

definition set_pid :: "(int \<Rightarrow> LauncherState \<Rightarrow> LauncherState) \<Rightarrow> string \<Rightarrow> LauncherState \<Rightarrow> LauncherState" where
  "set_pid f v s = (case parse_pid_value v of None \<Rightarrow> s | Some x \<Rightarrow> f x s)"

definition apply_field :: "string \<Rightarrow> string \<Rightarrow> LauncherState \<Rightarrow> LauncherState" where
  "apply_field key v s =
     (if key = ''state'' then s\<lparr>ls_state := field_text 24 v\<rparr>
      else if key = ''cgroup_mode'' then s\<lparr>ls_cgroup_mode := field_text 16 v\<rparr>
      else if key = ''host_usb_mode'' then s\<lparr>ls_host_usb_mode := field_text 16 v\<rparr>
      else if key = ''launch_mode'' then s\<lparr>ls_launch_mode := field_text 16 v\<rparr>
      else if key = ''supervisor_pid'' then set_pid (\<lambda>x s. s\<lparr>ls_supervisor_pid := x\<rparr>) v s
      else if key = ''supervisor_start_ticks'' then set_u64 (\<lambda>x s. s\<lparr>ls_supervisor_start_ticks := x\<rparr>) v s
      else if key = ''supervisor_exe_dev'' then set_u64 (\<lambda>x s. s\<lparr>ls_supervisor_exe_dev := x\<rparr>) v s
      else if key = ''supervisor_exe_ino'' then set_u64 (\<lambda>x s. s\<lparr>ls_supervisor_exe_ino := x\<rparr>) v s
      else if key = ''init_host_pid'' then set_pid (\<lambda>x s. s\<lparr>ls_init_host_pid := x\<rparr>) v s
      else if key = ''init_start_ticks'' then set_u64 (\<lambda>x s. s\<lparr>ls_init_start_ticks := x\<rparr>) v s
      else if key = ''init_exe_dev'' then set_u64 (\<lambda>x s. s\<lparr>ls_init_exe_dev := x\<rparr>) v s
      else if key = ''init_exe_ino'' then set_u64 (\<lambda>x s. s\<lparr>ls_init_exe_ino := x\<rparr>) v s
      else if key = ''init_pid_ns_ino'' then set_u64 (\<lambda>x s. s\<lparr>ls_init_pid_ns_ino := x\<rparr>) v s
      else if key = ''init_mnt_ns_ino'' then set_u64 (\<lambda>x s. s\<lparr>ls_init_mnt_ns_ino := x\<rparr>) v s
      else if key = ''init_uts_ns_ino'' then set_u64 (\<lambda>x s. s\<lparr>ls_init_uts_ns_ino := x\<rparr>) v s
      else if key = ''init_ipc_ns_ino'' then set_u64 (\<lambda>x s. s\<lparr>ls_init_ipc_ns_ino := x\<rparr>) v s
      else if key = ''init_cgroup_ns_ino'' then set_u64 (\<lambda>x s. s\<lparr>ls_init_cgroup_ns_ino := x\<rparr>) v s
      else if key = ''init_net_ns_ino'' then set_u64 (\<lambda>x s. s\<lparr>ls_init_net_ns_ino := x\<rparr>) v s
      else if key = ''wait_status'' then s\<lparr>ls_wait_status := atoi v\<rparr>
      else if key = ''updated_epoch'' then s\<lparr>ls_updated_epoch := strtoll v\<rparr>
      else s)"

definition apply_line :: "string \<Rightarrow> LauncherState \<Rightarrow> LauncherState" where
  "apply_line line s =
     (if CHR ''='' \<in> set line
      then apply_field (takeWhile (\<lambda>c. c \<noteq> CHR ''='') line) (tl (dropWhile (\<lambda>c. c \<noteq> CHR ''='') line)) s
      else s)"

text \<open>
  The buffer holds 4095 characters and text ends at the first NUL; \<open>None\<close> is the result \<open>-1\<close>.
\<close>

definition c_text :: "nat \<Rightarrow> string \<Rightarrow> string" where
  "c_text n contents = takeWhile (\<lambda>c. c \<noteq> CHR 0x00) (take n contents)"

definition read_state :: "int \<Rightarrow> string \<Rightarrow> files \<Rightarrow> LauncherState option" where
  "read_state now control_dir fs =
     (case state_path control_dir of
        None \<Rightarrow> None
      | Some path \<Rightarrow>
          (case fs path of
             None \<Rightarrow> None
           | Some contents \<Rightarrow>
               if contents = [] then None
               else Some (fold apply_line (tokens (\<lambda>c. c = CHR 0x0A) (c_text 4095 contents))
                      (initialize_state now ''unknown''))))"

section \<open>Facts on the numbers\<close>

lemma parse_u64_text: "parse_u64 (u64_text v) = Some v"
  using strtou_dec [of "unat v" 64 "[]"] unsigned_less [of v, where 'a = nat]
  by (simp add: parse_u64_def u64_text_def)

lemma parse_pid_text: "0 \<le> p \<Longrightarrow> p < 2 ^ 31 \<Longrightarrow> parse_pid_value (dec_int p) = Some p"
proof -
  assume p: "0 \<le> p" "p < 2 ^ 31"
  then have "parse_u64 (dec_int p) = Some (of_nat (nat p))"
    using strtou_dec [of "nat p" 64 "[]"] by (simp add: parse_u64_def dec_int_def)
  moreover have "unat (of_nat (nat p) :: u64) = nat p"
    using p by (intro unat_of_nat_u64) simp
  ultimately show ?thesis
    using p by (simp add: parse_pid_value_def INT_MAX_def)
qed

lemma dec_digits: "takeWhile is_digit (dec n) = dec n" "dropWhile is_space (dec n) = dec n"
  "hd (dec n) \<noteq> CHR ''-''" "hd (dec n) \<noteq> CHR ''+''"
proof -
  obtain c cs where d: "dec n = c # cs" by (cases "dec n") simp_all
  then have c: "is_digit c" using dec_is_digit [of c n] by simp
  show "takeWhile is_digit (dec n) = dec n"
    by (rule takeWhile_eq_all_conv [THEN iffD2]) (use dec_is_digit in blast)
  show "dropWhile is_space (dec n) = dec n"
    using c d by (simp add: digit_not_space)
  show "hd (dec n) \<noteq> CHR ''-''" "hd (dec n) \<noteq> CHR ''+''"
    using c d digit_not_sign by auto
qed

lemma strtoll_dec_int: "- (2 ^ 63) \<le> i \<Longrightarrow> i < 2 ^ 63 \<Longrightarrow> strtoll (dec_int i) = i"
  by (cases "i < 0")
    (auto simp: strtoll_def dec_int_def dec_digits digits_val_dec Let_def is_space_def)

lemma atoi_dec_int: "- (2 ^ 31) \<le> i \<Longrightarrow> i < 2 ^ 31 \<Longrightarrow> atoi (dec_int i) = i"
  using strtoll_dec_int [of i] i32_u32_i32 [of i] by (simp add: atoi_def i32_of_u32_def u32_of_i32_def)

section \<open>Facts on the lines\<close>

lemma apply_line_field:
  "CHR ''='' \<notin> set k \<Longrightarrow> apply_line (state_line (k, v)) s = apply_field k v s"
proof -
  assume k: "CHR ''='' \<notin> set k"
  then have "takeWhile (\<lambda>c. c \<noteq> CHR ''='') (k @ CHR ''='' # v) = k"
    "dropWhile (\<lambda>c. c \<noteq> CHR ''='') (k @ CHR ''='' # v) = CHR ''='' # v"
    by (auto simp: takeWhile_append dropWhile_append takeWhile_eq_all_conv)
  then show ?thesis
    by (simp add: apply_line_def state_line_def)
qed

lemma tokens_lines:
  assumes "\<forall>kv \<in> set kvs. CHR 0x0A \<notin> set (state_line kv)"
  shows "tokens (\<lambda>c. c = CHR 0x0A) (concat (map (\<lambda>kv. state_line kv @ [CHR 0x0A]) kvs)) = map state_line kvs"
  using assms
proof (induction kvs)
  case (Cons kv kvs)
  have "\<forall>c \<in> set (state_line kv). c \<noteq> CHR 0x0A" "state_line kv \<noteq> []"
    using Cons.prems by (auto simp: state_line_def)
  then show ?case
    using Cons by (simp add: tokens_line)
qed simp

lemma dec_chars: "is_digit c \<Longrightarrow> c \<noteq> CHR 0x0A \<and> c \<noteq> CHR 0x00 \<and> c \<noteq> CHR ''=''"
  by (auto simp: is_digit_def)

lemma dec_int_plain: "CHR 0x0A \<notin> set (dec_int i)" "CHR 0x00 \<notin> set (dec_int i)"
  "CHR 0x0A \<notin> set (u64_text v)" "CHR 0x00 \<notin> set (u64_text v)"
  using dec_is_digit dec_chars by (auto simp: dec_int_def u64_text_def)

text \<open>A state that fits its fields, as every state the launcher builds.\<close>

definition plain_text :: "nat \<Rightarrow> string \<Rightarrow> bool" where
  "plain_text n v \<longleftrightarrow> length v < n \<and> CHR 0x0A \<notin> set v \<and> CHR 0x00 \<notin> set v"

definition state_ok :: "LauncherState \<Rightarrow> bool" where
  "state_ok s \<longleftrightarrow>
     plain_text 24 (ls_state s) \<and> plain_text 16 (ls_cgroup_mode s) \<and> plain_text 16 (ls_host_usb_mode s)
     \<and> plain_text 16 (ls_launch_mode s)
     \<and> 0 \<le> ls_supervisor_pid s \<and> ls_supervisor_pid s < 2 ^ 31
     \<and> 0 \<le> ls_init_host_pid s \<and> ls_init_host_pid s < 2 ^ 31
     \<and> - (2 ^ 31) \<le> ls_wait_status s \<and> ls_wait_status s < 2 ^ 31
     \<and> - (2 ^ 63) \<le> ls_updated_epoch s \<and> ls_updated_epoch s < 2 ^ 63"

lemma field_text_plain: "plain_text n v \<Longrightarrow> field_text n v = v"
  by (auto simp: field_text_def snprintf_def plain_text_def)

lemma fields_plain:
  assumes "state_ok s" "kv \<in> set (state_fields s)"
  shows "CHR 0x0A \<notin> set (state_line kv)" "CHR 0x00 \<notin> set (state_line kv)" "CHR ''='' \<notin> set (fst kv)"
  using assms by (auto simp: state_fields_def state_line_def state_ok_def plain_text_def dec_int_plain)

lemma state_fields_applied:
  assumes "state_ok s"
  shows "fold (\<lambda>kv. apply_field (fst kv) (snd kv)) (state_fields s) s0 = s"
  using assms
  by (cases s)
    (simp add: state_fields_def apply_field_def set_u64_def set_pid_def parse_u64_text parse_pid_text
      atoi_dec_int strtoll_dec_int field_text_plain state_ok_def)

lemma number_lengths: "length (u64_text v) \<le> 20" "\<bar>i\<bar> < 10 ^ 19 \<Longrightarrow> length (dec_int i) \<le> 20"
proof -
  have "unat v < 10 ^ 20"
    using unsigned_less [of v, where 'a = nat] by simp
  then show "length (u64_text v) \<le> 20"
    unfolding u64_text_def by (rule length_dec_le) simp
  assume "\<bar>i\<bar> < 10 ^ 19"
  then have "length (dec (nat \<bar>i\<bar>)) \<le> 19"
    by (intro length_dec_le) auto
  then show "length (dec_int i) \<le> 20"
    by (auto simp: dec_int_def abs_if split: if_splits)
qed

lemma length_state_contents:
  assumes "state_ok s"
  shows "length (state_contents s) < 1024"
proof -
  have "length (dec_int (ls_supervisor_pid s)) \<le> 20" "length (dec_int (ls_init_host_pid s)) \<le> 20"
    "length (dec_int (ls_wait_status s)) \<le> 20" "length (dec_int (ls_updated_epoch s)) \<le> 20"
    using assms by (auto simp: state_ok_def intro!: number_lengths(2))
  moreover have "length (ls_state s) < 24" "length (ls_cgroup_mode s) < 16" "length (ls_host_usb_mode s) < 16"
    "length (ls_launch_mode s) < 16"
    using assms by (auto simp: state_ok_def plain_text_def)
  ultimately show ?thesis
    using number_lengths(1) [of "ls_supervisor_start_ticks s"] number_lengths(1) [of "ls_supervisor_exe_dev s"]
      number_lengths(1) [of "ls_supervisor_exe_ino s"] number_lengths(1) [of "ls_init_start_ticks s"]
      number_lengths(1) [of "ls_init_exe_dev s"] number_lengths(1) [of "ls_init_exe_ino s"]
      number_lengths(1) [of "ls_init_pid_ns_ino s"] number_lengths(1) [of "ls_init_mnt_ns_ino s"]
      number_lengths(1) [of "ls_init_uts_ns_ino s"] number_lengths(1) [of "ls_init_ipc_ns_ino s"]
      number_lengths(1) [of "ls_init_cgroup_ns_ino s"] number_lengths(1) [of "ls_init_net_ns_ino s"]
    by (simp add: state_contents_def state_fields_def state_line_def)
qed

lemma state_round_trip:
  assumes "state_ok s"
  shows "fold apply_line (tokens (\<lambda>c. c = CHR 0x0A) (state_contents s)) s0 = s"
proof -
  have "fold apply_line (map state_line kvs) t = fold (\<lambda>kv. apply_field (fst kv) (snd kv)) kvs t"
    if "\<forall>kv \<in> set kvs. CHR ''='' \<notin> set (fst kv)" for kvs t
    using that by (induction kvs arbitrary: t) (auto simp: apply_line_field)
  then show ?thesis
    unfolding state_contents_def
    using tokens_lines [of "state_fields s"] fields_plain [OF assms] state_fields_applied [OF assms] by simp
qed


section \<open>Writing and reading back\<close>

lemma write_all_ok:
  "write_all rs w rest = (True, steps) \<Longrightarrow> rest \<noteq> [] \<Longrightarrow> steps \<noteq> [] \<and> last steps = w @ rest"
proof (induction rs w rest arbitrary: steps rule: write_all.induct)
  case (4 n rs w c cs)
  obtain ok st where r: "write_all rs (w @ take n (c # cs)) (drop n (c # cs)) = (ok, st)"
    by fastforce
  have steps: "ok" "steps = (w @ take n (c # cs)) # st"
    using 4(2) r by auto
  show ?case
  proof (cases "drop n (c # cs) = []")
    case True
    then show ?thesis
      using steps r by (auto simp: take_all_iff)
  next
    case False
    then have "st \<noteq> [] \<and> last st = (w @ take n (c # cs)) @ drop n (c # cs)"
      using 4(1) [of st] r steps by simp
    then show ?thesis
      using steps by simp
  qed
qed auto

text \<open>Every file system a write passes through has the old state file or the complete new one.\<close>

lemma write_state_atomic:
  assumes "write_state io pid now control_dir s fs = (r, s', trace)" "state_path control_dir = Some path"
  shows "\<forall>fs' \<in> set trace. fs' path = fs path \<or> fs' path = Some (state_contents s')"
    and "r = 0 \<Longrightarrow> trace \<noteq> [] \<and> last trace = fs(path \<mapsto> state_contents s')"
    and "r \<noteq> 0 \<Longrightarrow> r = - 1 \<and> (trace = [] \<or> last trace = fs)"
    and "s' = s \<or> s' = s\<lparr>ls_updated_epoch := now\<rparr>"
    and "r = 0 \<Longrightarrow> s' = s\<lparr>ls_updated_epoch := now\<rparr>"
proof -
  let ?temp = "path @ ''.new.'' @ dec_int pid"
  let ?s = "s\<lparr>ls_updated_epoch := now\<rparr>"
  have neq: "path \<noteq> ?temp" "?temp \<noteq> path" by auto
  obtain ok steps where w: "write_all (io_writes io) [] (state_contents ?s) = (ok, steps)"
    by fastforce
  have nonempty: "state_contents ?s \<noteq> []"
    by (simp add: state_contents_def state_fields_def)
  have complete: "steps \<noteq> [] \<and> last steps = state_contents ?s" if ok
    using write_all_ok [OF w [unfolded eqTrueI [OF that]] nonempty] by simp
  show "s' = s \<or> s' = ?s" "r = 0 \<Longrightarrow> s' = ?s"
    using assms w by (auto simp: write_state_def Let_def split: if_splits)
  show "\<forall>fs' \<in> set trace. fs' path = fs path \<or> fs' path = Some (state_contents s')"
    "r = 0 \<Longrightarrow> trace \<noteq> [] \<and> last trace = fs(path \<mapsto> state_contents s')"
    "r \<noteq> 0 \<Longrightarrow> r = - 1 \<and> (trace = [] \<or> last trace = fs)"
    using assms w neq complete
    by (auto simp: write_state_def Let_def last_map fun_upd_idem_iff fun_upd_twist split: if_splits)
qed

lemma write_read_state:
  assumes "write_state io pid now control_dir s fs = (0, s', trace)" "state_ok s" "- (2 ^ 63) \<le> now" "now < 2 ^ 63"
  shows "read_state now' control_dir (last trace) = Some (s\<lparr>ls_updated_epoch := now\<rparr>)"
proof -
  obtain path where path: "state_path control_dir = Some path"
    using assms(1) by (auto simp: write_state_def split: option.splits)
  have s': "s' = s\<lparr>ls_updated_epoch := now\<rparr>"
    by (rule write_state_atomic(5) [OF assms(1) path]) simp
  have ok: "state_ok s'"
    using assms(2-4) by (simp add: s' state_ok_def)
  have "last trace path = Some (state_contents s')"
    using write_state_atomic(2) [OF assms(1) path] by simp
  moreover have "c_text 4095 (state_contents s') = state_contents s'"
  proof -
    have "CHR 0x00 \<notin> set (state_contents s')"
      using fields_plain(2) [OF ok] by (auto simp: state_contents_def)
    then show ?thesis
      using length_state_contents [OF ok] by (auto simp: c_text_def takeWhile_eq_all_conv)
  qed
  moreover have "state_contents s' \<noteq> []"
    by (simp add: state_contents_def state_fields_def)
  ultimately show ?thesis
    using state_round_trip [OF ok] by (simp add: read_state_def path s')
qed

end
