(* ===== verification/Launcher_Identity.thy ===== *)
theory Launcher_Identity
  imports Launcher_State
begin

text \<open>
  The identity of the processes a state file names (\<open>bfu_namespace_probe.c\<close>): what the launcher
  reads of them in \<open>/proc\<close>, what it records, and the checks it makes before it trusts or signals
  a recorded process. \<open>/proc\<close> is an argument: what it shows of each process at one moment.
\<close>

section \<open>Reading \<open>/proc\<close>\<close>

definition ENOENT :: nat where "ENOENT = 2"

definition ENAMETOOLONG :: nat where "ENAMETOOLONG = 36"

text \<open>
  The contents of \<open>/proc/<pid>/stat\<close>, the device and inode of \<open>/proc/<pid>/exe\<close>, the inode of
  \<open>/proc/<pid>/ns/<name>\<close> or the error of \<open>stat\<close>, and whether \<open>kill(pid, 0)\<close> succeeds.
\<close>

record procfs =
  proc_stat :: "int \<Rightarrow> string option"
  proc_exe :: "int \<Rightarrow> (u64 \<times> u64) option"
  proc_ns :: "int \<Rightarrow> string \<Rightarrow> nat + u64"
  proc_alive :: "int \<Rightarrow> bool"

text \<open>\<open>strrchr(text, c) + 1\<close>.\<close>

definition after_last :: "char \<Rightarrow> string \<Rightarrow> string option" where
  "after_last c s = (if c \<in> set s then Some (rev (takeWhile (\<lambda>x. x \<noteq> c) (rev s))) else None)"

fun start_ticks_field :: "nat \<Rightarrow> string list \<Rightarrow> u64 option" where
  "start_ticks_field field [] = None"
| "start_ticks_field field (token # rest) =
     (if field = 22 then parse_u64 token else start_ticks_field (field + 1) rest)"

definition read_proc_start_ticks :: "procfs \<Rightarrow> int \<Rightarrow> u64 option" where
  "read_proc_start_ticks p pid =
     (case proc_stat p pid of
        None \<Rightarrow> None
      | Some contents \<Rightarrow>
          if contents = [] then None
          else (case after_last (CHR '')'') (c_text 4095 contents) of
                  None \<Rightarrow> None
                | Some rest \<Rightarrow>
                    if rest = [] \<or> hd rest \<noteq> CHR '' '' then None
                    else start_ticks_field 3 (tokens (\<lambda>c. c = CHR '' '') (tl rest))))"

definition read_proc_exe_identity :: "procfs \<Rightarrow> int \<Rightarrow> (u64 \<times> u64) option" where
  "read_proc_exe_identity p pid = proc_exe p pid"

definition read_proc_namespace_inode :: "procfs \<Rightarrow> int \<Rightarrow> string \<Rightarrow> nat + u64" where
  "read_proc_namespace_inode p pid name =
     (if length (''/proc/'' @ dec_int pid @ ''/ns/'' @ name) \<ge> 96 then Inl ENAMETOOLONG
      else proc_ns p pid name)"

definition read_optional_proc_namespace_inode :: "procfs \<Rightarrow> int \<Rightarrow> string \<Rightarrow> nat + u64" where
  "read_optional_proc_namespace_inode p pid name =
     (case read_proc_namespace_inode p pid name of
        Inr inode \<Rightarrow> Inr inode
      | Inl e \<Rightarrow> if e = ENOENT then Inr 0 else Inl e)"

section \<open>Recording\<close>

text \<open>One conjunct of the \<open>&&\<close> chain: a read into a field, and the next one if it succeeded.\<close>

definition store_inode ::
  "nat + u64 \<Rightarrow> (u64 \<Rightarrow> LauncherState \<Rightarrow> LauncherState) \<Rightarrow> (LauncherState \<Rightarrow> int \<times> LauncherState)
   \<Rightarrow> LauncherState \<Rightarrow> int \<times> LauncherState" where
  "store_inode r f next_read s = (case r of Inl _ \<Rightarrow> (-1, s) | Inr inode \<Rightarrow> next_read (f inode s))"

text \<open>
  A read whose result is ignored: the field keeps the value it has on an error. An optional read
  that fails has set its field to 0, which is the value it already has.
\<close>

definition note_inode ::
  "nat + u64 \<Rightarrow> (u64 \<Rightarrow> LauncherState \<Rightarrow> LauncherState) \<Rightarrow> LauncherState \<Rightarrow> LauncherState" where
  "note_inode r f s = (case r of Inl _ \<Rightarrow> s | Inr inode \<Rightarrow> f inode s)"

definition capture_init_namespace_identity :: "procfs \<Rightarrow> int \<Rightarrow> LauncherState \<Rightarrow> int \<times> LauncherState" where
  "capture_init_namespace_identity p pid s =
     (store_inode (read_proc_namespace_inode p pid ''pid'') (\<lambda>i s. s\<lparr>ls_init_pid_ns_ino := i\<rparr>) (
      store_inode (read_proc_namespace_inode p pid ''mnt'') (\<lambda>i s. s\<lparr>ls_init_mnt_ns_ino := i\<rparr>) (
      store_inode (read_proc_namespace_inode p pid ''uts'') (\<lambda>i s. s\<lparr>ls_init_uts_ns_ino := i\<rparr>) (
      store_inode (read_optional_proc_namespace_inode p pid ''ipc'') (\<lambda>i s. s\<lparr>ls_init_ipc_ns_ino := i\<rparr>) (
      store_inode (read_proc_namespace_inode p pid ''cgroup'') (\<lambda>i s. s\<lparr>ls_init_cgroup_ns_ino := i\<rparr>) (
      store_inode (read_optional_proc_namespace_inode p pid ''net'') (\<lambda>i s. s\<lparr>ls_init_net_ns_ino := i\<rparr>) (
      \<lambda>s. (0, s)))))))
     ) (s\<lparr>ls_init_ipc_ns_ino := 0, ls_init_net_ns_ino := 0\<rparr>)"

definition capture_compat_namespace_identity :: "procfs \<Rightarrow> int \<Rightarrow> LauncherState \<Rightarrow> int \<times> LauncherState" where
  "capture_compat_namespace_identity p pid s =
     (store_inode (read_proc_namespace_inode p pid ''mnt'') (\<lambda>i s. s\<lparr>ls_init_mnt_ns_ino := i\<rparr>) (
      store_inode (read_proc_namespace_inode p pid ''uts'') (\<lambda>i s. s\<lparr>ls_init_uts_ns_ino := i\<rparr>) (
      \<lambda>s. (0,
        note_inode (read_proc_namespace_inode p pid ''net'') (\<lambda>i s. s\<lparr>ls_init_net_ns_ino := i\<rparr>) (
        note_inode (read_proc_namespace_inode p pid ''cgroup'') (\<lambda>i s. s\<lparr>ls_init_cgroup_ns_ino := i\<rparr>) (
        note_inode (read_proc_namespace_inode p pid ''ipc'') (\<lambda>i s. s\<lparr>ls_init_ipc_ns_ino := i\<rparr>) (
        note_inode (read_proc_namespace_inode p pid ''pid'') (\<lambda>i s. s\<lparr>ls_init_pid_ns_ino := i\<rparr>) s)))))))
     (s\<lparr>ls_init_pid_ns_ino := 0, ls_init_mnt_ns_ino := 0, ls_init_uts_ns_ino := 0,
        ls_init_ipc_ns_ino := 0, ls_init_cgroup_ns_ino := 0, ls_init_net_ns_ino := 0\<rparr>)"

section \<open>Checking\<close>

definition validate_init_namespace_topology :: "procfs \<Rightarrow> LauncherState \<Rightarrow> int" where
  "validate_init_namespace_topology p s =
     (case (read_proc_namespace_inode p 1 ''pid'', read_proc_namespace_inode p 1 ''mnt'',
            read_proc_namespace_inode p 1 ''uts'', read_optional_proc_namespace_inode p 1 ''ipc'',
            read_proc_namespace_inode p 1 ''cgroup'', read_optional_proc_namespace_inode p 1 ''net'') of
        (Inr host_pid, Inr host_mnt, Inr host_uts, Inr host_ipc, Inr host_cgroup, Inr host_net) \<Rightarrow>
          if ls_init_pid_ns_ino s = host_pid
             \<or> ls_init_mnt_ns_ino s = host_mnt
             \<or> ls_init_uts_ns_ino s = host_uts
             \<or> ls_init_cgroup_ns_ino s = host_cgroup
             \<or> (host_ipc \<noteq> 0 \<and> ls_init_ipc_ns_ino s \<noteq> host_ipc)
             \<or> (host_net \<noteq> 0 \<and> ls_init_net_ns_ino s \<noteq> host_net)
          then -1 else 0
      | _ \<Rightarrow> -1)"

text \<open>One round of the loop over the namespaces compatibility mode shares.\<close>

definition shared_namespace_ok :: "procfs \<Rightarrow> int \<Rightarrow> string \<times> u64 \<Rightarrow> bool" where
  "shared_namespace_ok p pid nr =
     (snd nr = 0
      \<or> (case (read_proc_namespace_inode p pid (fst nr), read_proc_namespace_inode p 1 (fst nr)) of
           (Inr service_namespace, Inr host_namespace) \<Rightarrow>
             service_namespace = snd nr \<and> service_namespace = host_namespace
         | _ \<Rightarrow> False))"

definition validate_compat_namespace_topology :: "procfs \<Rightarrow> LauncherState \<Rightarrow> int" where
  "validate_compat_namespace_topology p s =
     (if ls_init_mnt_ns_ino s = 0 \<or> ls_init_uts_ns_ino s = 0 then -1
      else (case (read_proc_namespace_inode p (ls_init_host_pid s) ''mnt'',
                  read_proc_namespace_inode p (ls_init_host_pid s) ''uts'',
                  read_proc_namespace_inode p 1 ''mnt'', read_proc_namespace_inode p 1 ''uts'') of
              (Inr service_mnt, Inr service_uts, Inr host_mnt, Inr host_uts) \<Rightarrow>
                if service_mnt \<noteq> ls_init_mnt_ns_ino s \<or> service_uts \<noteq> ls_init_uts_ns_ino s
                   \<or> service_mnt = host_mnt \<or> service_uts = host_uts
                then -1
                else if \<forall>nr \<in> set [(''pid'', ls_init_pid_ns_ino s), (''ipc'', ls_init_ipc_ns_ino s),
                       (''cgroup'', ls_init_cgroup_ns_ino s), (''net'', ls_init_net_ns_ino s)].
                       shared_namespace_ok p (ls_init_host_pid s) nr
                then 0 else -1
            | _ \<Rightarrow> -1))"

definition validate_supervisor_identity :: "procfs \<Rightarrow> LauncherState \<Rightarrow> bool" where
  "validate_supervisor_identity p s =
     (if ls_supervisor_pid s \<le> 1 \<or> ls_supervisor_start_ticks s = 0 \<or> ls_supervisor_exe_ino s = 0 then False
      else read_proc_start_ticks p (ls_supervisor_pid s) = Some (ls_supervisor_start_ticks s)
        \<and> read_proc_exe_identity p (ls_supervisor_pid s) = Some (ls_supervisor_exe_dev s, ls_supervisor_exe_ino s)
        \<and> proc_alive p (ls_supervisor_pid s))"

definition validate_init_identity :: "procfs \<Rightarrow> LauncherState \<Rightarrow> bool" where
  "validate_init_identity p s =
     (if ls_init_host_pid s \<le> 1 \<or> ls_init_start_ticks s = 0 \<or> ls_init_exe_ino s = 0
         \<or> ls_init_pid_ns_ino s = 0 \<or> ls_init_mnt_ns_ino s = 0 \<or> ls_init_uts_ns_ino s = 0
         \<or> ls_init_cgroup_ns_ino s = 0 then False
      else read_proc_start_ticks p (ls_init_host_pid s) = Some (ls_init_start_ticks s)
        \<and> read_proc_exe_identity p (ls_init_host_pid s) = Some (ls_init_exe_dev s, ls_init_exe_ino s)
        \<and> read_proc_namespace_inode p (ls_init_host_pid s) ''pid'' = Inr (ls_init_pid_ns_ino s)
        \<and> read_proc_namespace_inode p (ls_init_host_pid s) ''mnt'' = Inr (ls_init_mnt_ns_ino s)
        \<and> read_proc_namespace_inode p (ls_init_host_pid s) ''uts'' = Inr (ls_init_uts_ns_ino s)
        \<and> (ls_init_ipc_ns_ino s = 0
           \<or> read_proc_namespace_inode p (ls_init_host_pid s) ''ipc'' = Inr (ls_init_ipc_ns_ino s))
        \<and> read_proc_namespace_inode p (ls_init_host_pid s) ''cgroup'' = Inr (ls_init_cgroup_ns_ino s)
        \<and> (ls_init_net_ns_ino s = 0
           \<or> read_proc_namespace_inode p (ls_init_host_pid s) ''net'' = Inr (ls_init_net_ns_ino s))
        \<and> proc_alive p (ls_init_host_pid s))"

definition validate_compat_service_identity :: "procfs \<Rightarrow> LauncherState \<Rightarrow> bool" where
  "validate_compat_service_identity p s =
     (if ls_init_host_pid s \<le> 1 \<or> ls_init_start_ticks s = 0 \<or> ls_init_exe_ino s = 0 then False
      else read_proc_start_ticks p (ls_init_host_pid s) = Some (ls_init_start_ticks s)
        \<and> read_proc_exe_identity p (ls_init_host_pid s) = Some (ls_init_exe_dev s, ls_init_exe_ino s)
        \<and> proc_alive p (ls_init_host_pid s))"

section \<open>The stat line\<close>

text \<open>
  A line of \<open>/proc/<pid>/stat\<close>: the pid, the command in parentheses, which may hold any
  character, the fields from the third on, and the rest of the line.
\<close>

definition stat_line :: "int \<Rightarrow> string \<Rightarrow> string list \<Rightarrow> string \<Rightarrow> string" where
  "stat_line pid comm flds rest =
     dec_int pid @ '' ('' @ comm @ '') '' @ concat (map (\<lambda>f. f @ '' '') flds) @ rest"

definition stat_text :: "string \<Rightarrow> bool" where
  "stat_text s \<longleftrightarrow> CHR '')'' \<notin> set s \<and> CHR 0x00 \<notin> set s"

definition stat_field :: "string \<Rightarrow> bool" where
  "stat_field f \<longleftrightarrow> f \<noteq> [] \<and> CHR '' '' \<notin> set f \<and> stat_text f"

lemma after_last_append:
  "c \<notin> set t \<Longrightarrow> after_last c (s @ c # t) = Some t"
  by (simp add: after_last_def takeWhile_append takeWhile_eq_all_conv [THEN iffD2])

lemma tokens_fields:
  "list_all stat_field flds \<Longrightarrow>
   tokens (\<lambda>c. c = CHR '' '') (concat (map (\<lambda>f. f @ '' '') flds) @ rest)
   = flds @ tokens (\<lambda>c. c = CHR '' '') rest"
proof (induction flds)
  case (Cons f flds)
  have "f \<noteq> []" "\<forall>c \<in> set f. c \<noteq> CHR '' ''"
    using Cons.prems by (auto simp: stat_field_def)
  then show ?case
    using Cons by (simp add: tokens_line)
qed simp

lemma start_ticks_field_nth:
  "field \<le> 22 \<Longrightarrow> 22 - field < length flds \<Longrightarrow>
   start_ticks_field field flds = parse_u64 (flds ! (22 - field))"
proof (induction flds arbitrary: field)
  case (Cons f fs)
  then show ?case
    by (cases "field = 22") (auto simp: nth_Cons' numeral_2_eq_2 intro!: arg_cong [of _ _ "\<lambda>i. parse_u64 (fs ! i)"])
qed simp

lemma start_ticks_read:
  assumes line: "proc_stat p pid = Some (stat_line pid comm flds rest)"
    and len: "length (stat_line pid comm flds rest) \<le> 4095"
    and comm: "CHR 0x00 \<notin> set comm"
    and flds: "list_all stat_field flds" "20 \<le> length flds"
    and rest: "stat_text rest"
  shows "read_proc_start_ticks p pid = parse_u64 (flds ! 19)"
proof -
  let ?tail = "concat (map (\<lambda>f. f @ '' '') flds) @ rest"
  have tail: "CHR 0x00 \<notin> set ?tail" "CHR '')'' \<notin> set ?tail"
    using flds rest by (auto simp: list_all_iff stat_field_def stat_text_def)
  have line_eq: "stat_line pid comm flds rest = (dec_int pid @ '' ('' @ comm) @ CHR '')'' # CHR '' '' # ?tail"
    by (simp add: stat_line_def)
  have "\<forall>c \<in> set (stat_line pid comm flds rest). c \<noteq> CHR 0x00"
    using comm tail(1) dec_int_plain(2) [of pid] unfolding line_eq by auto
  then have "c_text 4095 (stat_line pid comm flds rest) = stat_line pid comm flds rest"
    using len by (simp add: c_text_def takeWhile_eq_all_conv)
  moreover have "after_last (CHR '')'') (stat_line pid comm flds rest) = Some (CHR '' '' # ?tail)"
    unfolding line_eq by (rule after_last_append) (use tail(2) in auto)
  moreover have "stat_line pid comm flds rest \<noteq> []"
    by (simp add: stat_line_def)
  ultimately show ?thesis
    using line tokens_fields [OF flds(1), of rest]
      start_ticks_field_nth [of 3 "flds @ tokens (\<lambda>c. c = CHR '' '') rest"] flds(2)
    by (simp add: read_proc_start_ticks_def nth_append)
qed

section \<open>Recorded processes\<close>

text \<open>
  The state the supervisor records of its init: the pid, its start time and executable, and its
  namespaces, all read from \<open>/proc\<close>.
\<close>

definition init_recorded :: "procfs \<Rightarrow> int \<Rightarrow> LauncherState \<Rightarrow> bool" where
  "init_recorded p pid s \<longleftrightarrow>
     ls_init_host_pid s = pid
     \<and> read_proc_start_ticks p pid = Some (ls_init_start_ticks s)
     \<and> read_proc_exe_identity p pid = Some (ls_init_exe_dev s, ls_init_exe_ino s)
     \<and> (\<exists>s0. capture_init_namespace_identity p pid s0 = (0, s))"

text \<open>Two views of \<open>/proc\<close> show the same process under a pid: same start, executable and namespaces.\<close>

definition same_process :: "procfs \<Rightarrow> procfs \<Rightarrow> int \<Rightarrow> bool" where
  "same_process p p' pid \<longleftrightarrow>
     read_proc_start_ticks p' pid = read_proc_start_ticks p pid
     \<and> read_proc_exe_identity p' pid = read_proc_exe_identity p pid
     \<and> (\<forall>name \<in> {''pid'', ''mnt'', ''uts'', ''cgroup''}.
          read_proc_namespace_inode p' pid name = read_proc_namespace_inode p pid name)
     \<and> (\<forall>name \<in> {''ipc'', ''net''}.
          read_proc_namespace_inode p pid name = Inl ENOENT \<or> read_proc_namespace_inode p pid name = Inr 0
          \<or> read_proc_namespace_inode p' pid name = read_proc_namespace_inode p pid name)"

lemma capture_init:
  assumes "capture_init_namespace_identity p pid s0 = (0, s)"
  shows "read_proc_namespace_inode p pid ''pid'' = Inr (ls_init_pid_ns_ino s)"
    "read_proc_namespace_inode p pid ''mnt'' = Inr (ls_init_mnt_ns_ino s)"
    "read_proc_namespace_inode p pid ''uts'' = Inr (ls_init_uts_ns_ino s)"
    "read_optional_proc_namespace_inode p pid ''ipc'' = Inr (ls_init_ipc_ns_ino s)"
    "read_proc_namespace_inode p pid ''cgroup'' = Inr (ls_init_cgroup_ns_ino s)"
    "read_optional_proc_namespace_inode p pid ''net'' = Inr (ls_init_net_ns_ino s)"
  using assms by (auto simp: capture_init_namespace_identity_def store_inode_def split: sum.splits)

lemma optional_inode:
  "read_optional_proc_namespace_inode p pid name = Inr i \<longleftrightarrow>
   read_proc_namespace_inode p pid name = Inr i
   \<or> i = 0 \<and> read_proc_namespace_inode p pid name = Inl ENOENT"
  by (auto simp: read_optional_proc_namespace_inode_def split: sum.splits if_splits)

lemma validate_recorded:
  assumes "init_recorded p pid s"
  shows "validate_init_identity p' s \<longleftrightarrow>
    1 < pid \<and> ls_init_start_ticks s \<noteq> 0 \<and> ls_init_exe_ino s \<noteq> 0 \<and> ls_init_pid_ns_ino s \<noteq> 0
    \<and> ls_init_mnt_ns_ino s \<noteq> 0 \<and> ls_init_uts_ns_ino s \<noteq> 0 \<and> ls_init_cgroup_ns_ino s \<noteq> 0
    \<and> same_process p p' pid \<and> proc_alive p' pid"
proof -
  obtain s0 where capture: "capture_init_namespace_identity p pid s0 = (0, s)"
    using assms by (auto simp: init_recorded_def)
  show ?thesis
    using assms capture_init [OF capture]
    by (auto simp: validate_init_identity_def init_recorded_def same_process_def optional_inode)
qed

lemma init_boundaries:
  assumes "validate_init_identity p s" "validate_init_namespace_topology p s = 0"
    and "name \<in> {''pid'', ''mnt'', ''uts'', ''cgroup''}"
  shows "read_proc_namespace_inode p (ls_init_host_pid s) name \<noteq> read_proc_namespace_inode p 1 name"
  using assms
  by (auto simp: validate_init_identity_def validate_init_namespace_topology_def split: sum.splits if_splits)

lemma init_shares:
  assumes "validate_init_identity p s" "validate_init_namespace_topology p s = 0"
    and "name \<in> {''ipc'', ''net''}" "read_proc_namespace_inode p 1 name = Inr i" "i \<noteq> 0"
  shows "read_proc_namespace_inode p (ls_init_host_pid s) name = Inr i"
  using assms
  by (auto simp: validate_init_identity_def validate_init_namespace_topology_def optional_inode
      read_optional_proc_namespace_inode_def split: sum.splits if_splits)

lemma shared_namespace:
  "shared_namespace_ok p pid (name, i) \<Longrightarrow> i \<noteq> 0 \<Longrightarrow>
   read_proc_namespace_inode p pid name = Inr i \<and> read_proc_namespace_inode p 1 name = Inr i"
  by (auto simp: shared_namespace_ok_def split: sum.splits)

lemma compat_topology:
  assumes "validate_compat_namespace_topology p s = 0"
  obtains service_mnt service_uts host_mnt host_uts
  where "read_proc_namespace_inode p (ls_init_host_pid s) ''mnt'' = Inr service_mnt"
    "read_proc_namespace_inode p (ls_init_host_pid s) ''uts'' = Inr service_uts"
    "read_proc_namespace_inode p 1 ''mnt'' = Inr host_mnt" "read_proc_namespace_inode p 1 ''uts'' = Inr host_uts"
    "service_mnt \<noteq> host_mnt" "service_uts \<noteq> host_uts"
    "\<forall>nr \<in> {(''pid'', ls_init_pid_ns_ino s), (''ipc'', ls_init_ipc_ns_ino s),
        (''cgroup'', ls_init_cgroup_ns_ino s), (''net'', ls_init_net_ns_ino s)}.
       shared_namespace_ok p (ls_init_host_pid s) nr"
  using assms unfolding validate_compat_namespace_topology_def
  by (simp split: sum.splits if_splits)

lemma compat_boundaries:
  assumes "validate_compat_namespace_topology p s = 0"
  shows "name \<in> {''mnt'', ''uts''} \<Longrightarrow>
      read_proc_namespace_inode p (ls_init_host_pid s) name \<noteq> read_proc_namespace_inode p 1 name"
    and "(name, i) \<in> {(''pid'', ls_init_pid_ns_ino s), (''ipc'', ls_init_ipc_ns_ino s),
        (''cgroup'', ls_init_cgroup_ns_ino s), (''net'', ls_init_net_ns_ino s)} \<Longrightarrow> i \<noteq> 0 \<Longrightarrow>
      read_proc_namespace_inode p (ls_init_host_pid s) name = Inr i
      \<and> read_proc_namespace_inode p 1 name = Inr i"
  by (rule compat_topology [OF assms]; auto)
    (rule compat_topology [OF assms]; blast dest: shared_namespace)

end
