(* ===== verification/Device_Policy.thy ===== *)
theory Device_Policy
  imports Launcher_State
begin

text \<open>
  The device policy of a version 2 cgroup (\<open>bfu_namespace_probe.c\<close>): the eBPF programs the launcher
  loads and attaches, the probe that checks the kernel supports them, and the policy that denies
  the USB device nodes. eBPF instructions have the semantics the kernel documents for the opcodes
  the programs use; which of the kernel's calls fail is an argument.
\<close>

section \<open>Device programs\<close>

record bpf_insn =
  insn_code :: byte
  insn_dst :: nat
  insn_src :: nat
  insn_off :: int
  insn_imm :: int

text \<open>An instruction after \<open>memset\<close>.\<close>

definition bpf_zero :: bpf_insn where
  "bpf_zero = \<lparr>insn_code = 0, insn_dst = 0, insn_src = 0, insn_off = 0, insn_imm = 0\<rparr>"

definition BPF_LDX_W_MEM :: byte where "BPF_LDX_W_MEM = 0x61"
definition BPF_ALU64_MOV_K :: byte where "BPF_ALU64_MOV_K = 0xb7"
definition BPF_JMP_JNE_K :: byte where "BPF_JMP_JNE_K = 0x55"
definition BPF_JMP_EXIT :: byte where "BPF_JMP_EXIT = 0x95"

lemmas bpf_codes = BPF_LDX_W_MEM_def BPF_ALU64_MOV_K_def BPF_JMP_JNE_K_def BPF_JMP_EXIT_def

text \<open>The members of \<open>struct bpf_cgroup_dev_ctx\<close>, read by offset.\<close>

record device_access =
  access_type :: u32
  access_major :: u32
  access_minor :: u32

definition ctx_word :: "device_access \<Rightarrow> int \<Rightarrow> u32 option" where
  "ctx_word a off =
     (if off = 0 then Some (access_type a)
      else if off = 4 then Some (access_major a)
      else if off = 8 then Some (access_minor a)
      else None)"

text \<open>
  A run: register 1 holds the context. \<open>None\<close> is a program the kernel's verifier refuses: an
  unknown opcode, a load from anything but the context, a jump back or past the end.
\<close>

function bpf_exec :: "device_access \<Rightarrow> (nat \<Rightarrow> u64) \<Rightarrow> bpf_insn list \<Rightarrow> u64 option" where
  "bpf_exec a regs [] = None"
| "bpf_exec a regs (i # rest) =
     (if insn_code i = BPF_LDX_W_MEM then
        (if insn_src i \<noteq> 1 then None
         else case ctx_word a (insn_off i) of
                None \<Rightarrow> None
              | Some w \<Rightarrow> bpf_exec a (regs(insn_dst i := ucast w)) rest)
      else if insn_code i = BPF_ALU64_MOV_K then
        bpf_exec a (regs(insn_dst i := word_of_int (insn_imm i))) rest
      else if insn_code i = BPF_JMP_JNE_K then
        (if insn_off i < 0 then None
         else if regs (insn_dst i) \<noteq> word_of_int (insn_imm i) then bpf_exec a regs (drop (nat (insn_off i)) rest)
         else bpf_exec a regs rest)
      else if insn_code i = BPF_JMP_EXIT then Some (regs 0)
      else None)"
  by pat_completeness auto
termination
  by (relation "measure (\<lambda>(a, regs, is). length is)") auto

definition program_allows :: "bpf_insn list \<Rightarrow> device_access \<Rightarrow> bool" where
  "program_allows prog a \<longleftrightarrow> bpf_exec a (\<lambda>_. 0) prog = Some 1"

text \<open>The two instructions of the probe and the five of the policy.\<close>

definition probe_instructions :: "bpf_insn list" where
  "probe_instructions =
     [bpf_zero\<lparr>insn_code := BPF_ALU64_MOV_K, insn_dst := 0, insn_imm := 1\<rparr>,
      bpf_zero\<lparr>insn_code := BPF_JMP_EXIT\<rparr>]"

definition usb_off_instructions :: "bpf_insn list" where
  "usb_off_instructions =
     [bpf_zero\<lparr>insn_code := BPF_LDX_W_MEM, insn_dst := 2, insn_src := 1, insn_off := 4\<rparr>,
      bpf_zero\<lparr>insn_code := BPF_ALU64_MOV_K, insn_dst := 0, insn_imm := 1\<rparr>,
      bpf_zero\<lparr>insn_code := BPF_JMP_JNE_K, insn_dst := 2, insn_off := 1, insn_imm := 189\<rparr>,
      bpf_zero\<lparr>insn_code := BPF_ALU64_MOV_K, insn_dst := 0, insn_imm := 0\<rparr>,
      bpf_zero\<lparr>insn_code := BPF_JMP_EXIT\<rparr>]"

section \<open>The kernel's side\<close>

datatype bpf_fd = Program_fd "bpf_insn list" | Cgroup_fd string

text \<open>The cgroup directories that exist, the programs attached to each, the open descriptors.\<close>

record cgroup_kernel =
  ck_dirs :: "string set"
  ck_attached :: "string \<Rightarrow> bpf_insn list list"
  ck_fds :: "bpf_fd list"

record bpf_outcomes =
  ok_mkdir :: bool
  ok_load :: bool
  ok_open :: bool
  ok_attach :: bool
  ok_detach :: bool
  ok_rmdir :: bool

definition open_fd :: "bpf_fd \<Rightarrow> cgroup_kernel \<Rightarrow> cgroup_kernel" where
  "open_fd fd k = k\<lparr>ck_fds := fd # ck_fds k\<rparr>"

definition close_fd :: "bpf_fd \<Rightarrow> cgroup_kernel \<Rightarrow> cgroup_kernel" where
  "close_fd fd k = k\<lparr>ck_fds := remove1 fd (ck_fds k)\<rparr>"

text \<open>\<open>BPF_F_ALLOW_MULTI\<close>: the program is added to those already attached.\<close>

definition attach_program :: "string \<Rightarrow> bpf_insn list \<Rightarrow> cgroup_kernel \<Rightarrow> cgroup_kernel" where
  "attach_program path prog k = k\<lparr>ck_attached := (ck_attached k)(path := ck_attached k path @ [prog])\<rparr>"

definition detach_program :: "string \<Rightarrow> bpf_insn list \<Rightarrow> cgroup_kernel \<Rightarrow> cgroup_kernel" where
  "detach_program path prog k = k\<lparr>ck_attached := (ck_attached k)(path := remove1 prog (ck_attached k path))\<rparr>"

text \<open>\<open>mkdir\<close> makes a cgroup with no program; \<open>rmdir\<close> takes its programs with it.\<close>

definition make_cgroup :: "string \<Rightarrow> cgroup_kernel \<Rightarrow> cgroup_kernel" where
  "make_cgroup path k = k\<lparr>ck_dirs := insert path (ck_dirs k), ck_attached := (ck_attached k)(path := [])\<rparr>"

definition remove_cgroup :: "bool \<Rightarrow> string \<Rightarrow> cgroup_kernel \<Rightarrow> cgroup_kernel" where
  "remove_cgroup ok path k =
     (if ok then k\<lparr>ck_dirs := ck_dirs k - {path}, ck_attached := (ck_attached k)(path := [])\<rparr> else k)"

text \<open>A device access in a cgroup passes when every attached program allows it.\<close>

definition device_allowed :: "cgroup_kernel \<Rightarrow> string \<Rightarrow> device_access \<Rightarrow> bool" where
  "device_allowed k path a \<longleftrightarrow> list_all (\<lambda>prog. program_allows prog a) (ck_attached k path)"

section \<open>The probe and the policy\<close>

definition kCgroupProbeName :: string where "kCgroupProbeName = ''.device-probe''"

definition probe_cgroup_device_bpf :: "bpf_outcomes \<Rightarrow> string \<Rightarrow> cgroup_kernel \<Rightarrow> int \<times> cgroup_kernel" where
  "probe_cgroup_device_bpf ok child_path k =
     (case joined_path PATH_MAX child_path kCgroupProbeName of
        None \<Rightarrow> (114, k)
      | Some probe_path \<Rightarrow>
          if \<not> ok_mkdir ok \<or> probe_path \<in> ck_dirs k then (114, k)
          else
            let k1 = make_cgroup probe_path k;
                program_fd = Program_fd probe_instructions;
                cgroup_fd = Cgroup_fd probe_path
            in if \<not> ok_load ok then (114, remove_cgroup (ok_rmdir ok) probe_path k1)
               else let k2 = open_fd program_fd k1
               in if \<not> ok_open ok then (114, remove_cgroup (ok_rmdir ok) probe_path (close_fd program_fd k2))
               else let k3 = open_fd cgroup_fd k2
               in if \<not> ok_attach ok
                  then (114, remove_cgroup (ok_rmdir ok) probe_path (close_fd program_fd (close_fd cgroup_fd k3)))
               else let k4 = attach_program probe_path probe_instructions k3;
                        k5 = (if ok_detach ok then detach_program probe_path probe_instructions k4 else k4);
                        k6 = close_fd program_fd (close_fd cgroup_fd k5);
                        k7 = remove_cgroup (ok_rmdir ok) probe_path k6
               in (if ok_rmdir ok then 0 else 114, k7))"

definition apply_host_usb_v2_policy ::
  "bpf_outcomes \<Rightarrow> string \<Rightarrow> HostUsbPolicy \<Rightarrow> cgroup_kernel \<Rightarrow> int \<times> cgroup_kernel" where
  "apply_host_usb_v2_policy ok payload_path policy k =
     (if policy \<noteq> HOST_USB_OFF then (0, k)
      else
        let program_fd = Program_fd usb_off_instructions;
            cgroup_fd = Cgroup_fd payload_path
        in if \<not> ok_load ok then (118, k)
           else let k1 = open_fd program_fd k
           in if \<not> ok_open ok then (118, close_fd program_fd k1)
           else let k2 = open_fd cgroup_fd k1;
                    k3 = (if ok_attach ok then attach_program payload_path usb_off_instructions k2 else k2);
                    k4 = close_fd program_fd (close_fd cgroup_fd k3)
           in (if ok_attach ok then 0 else 118, k4))"

section \<open>What the programs decide\<close>

lemma probe_program_allows: "program_allows probe_instructions a"
  by (simp add: program_allows_def probe_instructions_def bpf_zero_def bpf_codes)

lemma usb_off_program_allows: "program_allows usb_off_instructions a \<longleftrightarrow> access_major a \<noteq> 189"
proof -
  have "(ucast (access_major a) :: u64) = 189 \<longleftrightarrow> access_major a = 189"
    using unsigned_less [of "access_major a", where 'a = int]
    by (subst (1 2) word_uint_eq_iff) (simp add: unsigned_ucast_eq take_bit_int_eq_self)
  then show ?thesis
    by (simp add: program_allows_def usb_off_instructions_def bpf_zero_def bpf_codes ctx_word_def)
qed

section \<open>What the launcher leaves behind\<close>

lemmas kernel_ops = open_fd_def close_fd_def attach_program_def detach_program_def make_cgroup_def remove_cgroup_def

lemma policy_effect:
  assumes "apply_host_usb_v2_policy ok payload_path policy k = (r, k')"
  shows "ck_fds k' = ck_fds k" "ck_dirs k' = ck_dirs k"
    and "device_allowed k' path a \<longleftrightarrow>
      device_allowed k path a \<and> (r = 0 \<and> policy = HOST_USB_OFF \<and> path = payload_path \<longrightarrow> access_major a \<noteq> 189)"
    and "r = 0 \<or> r = 118 \<and> k' = k"
  using assms
  by (auto simp: apply_host_usb_v2_policy_def kernel_ops device_allowed_def usb_off_program_allows Let_def
      split: if_splits)

lemma probe_effect:
  assumes "probe_cgroup_device_bpf ok child_path k = (r, k')"
  shows "ck_fds k' = ck_fds k"
    and "r = 0 \<or> r = 114"
    and "r = 0 \<longleftrightarrow> (\<exists>probe_path. joined_path PATH_MAX child_path kCgroupProbeName = Some probe_path
           \<and> probe_path \<notin> ck_dirs k)
         \<and> ok_mkdir ok \<and> ok_load ok \<and> ok_open ok \<and> ok_attach ok \<and> ok_rmdir ok"
    and "ok_rmdir ok \<Longrightarrow> ck_dirs k' = ck_dirs k"
    and "path \<in> ck_dirs k \<Longrightarrow> ck_attached k' path = ck_attached k path"
  using assms
  by (auto simp: probe_cgroup_device_bpf_def kernel_ops Let_def split: if_splits option.splits)

end
