(* ===== verification/Seccomp.thy ===== *)
theory Seccomp
  imports Prelude
begin

text \<open>
  The system call filters: the slow-\<open>close_range\<close> guard (\<open>dawnshell_close_range_guard.h\<close>) and
  its wrapper command (\<open>dawnshell_fdguard.c\<close>), the session keyring guard
  (\<open>dawnshell_keyring_guard.h\<close>) and the IPC namespace filter of the launcher
  (\<open>block_ipc_namespace_creation\<close> in \<open>bfu_namespace_probe.c\<close>). The programs are run by a model
  of the kernel's classic BPF machine on \<open>struct seccomp_data\<close>; what an ABI defines (audit
  architecture, system call numbers) and how the kernel answers the calls of the probes are
  arguments.
\<close>

unbundle bit_operations_syntax

section \<open>The filter machine\<close>

record seccomp_data =
  sd_nr :: u32
  sd_arch :: u32
  sd_instruction_pointer :: u64
  sd_args :: "u64 list"

text \<open>
  A 32-bit load at an offset of the structure, on a little-endian machine (each ABI the guards
  are built for): the low half of an argument comes first. The loader only admits aligned
  offsets inside the structure.
\<close>

definition arg_of :: "seccomp_data \<Rightarrow> nat \<Rightarrow> u64" where
  "arg_of d i = (if i < length (sd_args d) then sd_args d ! i else 0)"

definition load_abs :: "seccomp_data \<Rightarrow> nat \<Rightarrow> u32" where
  "load_abs d off =
     (if off = 0 then sd_nr d
      else if off = 4 then sd_arch d
      else let v = (if off < 16 then sd_instruction_pointer d else arg_of d ((off - 16) div 8))
           in if off mod 8 = 0 then ucast v else ucast (drop_bit 32 v))"

definition nr_offset :: nat where "nr_offset = 0"
definition arch_offset :: nat where "arch_offset = 4"
definition args_offset :: "nat \<Rightarrow> nat" where "args_offset i = 16 + 8 * i"
definition sizeof_seccomp_data :: nat where "sizeof_seccomp_data = 64"

datatype sock_filter =
    LD_W_ABS nat
  | JEQ_K u32 nat nat
  | JSET_K u32 nat nat
  | RET_K u32

text \<open>Jumps only go forward, so a run works on what is left of the program.\<close>

function bpf_run :: "sock_filter list \<Rightarrow> u32 \<Rightarrow> seccomp_data \<Rightarrow> u32 option" where
  "bpf_run [] a d = None"
| "bpf_run (LD_W_ABS off # p) a d = bpf_run p (load_abs d off) d"
| "bpf_run (JEQ_K k jt jf # p) a d = bpf_run (drop (if a = k then jt else jf) p) a d"
| "bpf_run (JSET_K k jt jf # p) a d = bpf_run (drop (if a AND k \<noteq> 0 then jt else jf) p) a d"
| "bpf_run (RET_K v # p) a d = Some v"
  by pat_completeness auto
termination
  by (relation "measure (\<lambda>(p, _, _). length p)") auto

text \<open>What the kernel checks when a filter is loaded: targets, offsets and the last instruction.\<close>

fun insn_ok :: "sock_filter \<Rightarrow> nat \<Rightarrow> bool" where
  "insn_ok (LD_W_ABS off) rest = (off mod 4 = 0 \<and> off < sizeof_seccomp_data)"
| "insn_ok (JEQ_K k jt jf) rest = (jt < rest \<and> jf < rest)"
| "insn_ok (JSET_K k jt jf) rest = (jt < rest \<and> jf < rest)"
| "insn_ok (RET_K v) rest = True"

fun insns_ok :: "sock_filter list \<Rightarrow> bool" where
  "insns_ok [] = True"
| "insns_ok (x # p) = (insn_ok x (length p) \<and> insns_ok p)"

fun is_ret :: "sock_filter \<Rightarrow> bool" where
  "is_ret (RET_K v) = True"
| "is_ret _ = False"

definition bpf_check :: "sock_filter list \<Rightarrow> bool" where
  "bpf_check p \<longleftrightarrow> p \<noteq> [] \<and> length p \<le> 4096 \<and> insns_ok p \<and> is_ret (last p)"

text \<open>
  The verdict of all installed filters, newest first: the lowest action wins, and among equal
  actions the newest filter's value.
\<close>

definition SECCOMP_RET_ALLOW :: u32 where "SECCOMP_RET_ALLOW = 0x7fff0000"
definition SECCOMP_RET_ERRNO :: u32 where "SECCOMP_RET_ERRNO = 0x00050000"
definition EPERM :: u32 where "EPERM = 1"
definition ENOSYS :: u32 where "ENOSYS = 38"
definition CLONE_NEWIPC :: u32 where "CLONE_NEWIPC = 0x08000000"
definition KEYCTL_JOIN_SESSION_KEYRING :: u32 where "KEYCTL_JOIN_SESSION_KEYRING = 1"

definition action_only :: "u32 \<Rightarrow> int" where
  "action_only v = i32_of_u32 (v AND 0xffff0000)"

fun run_filters :: "u32 \<Rightarrow> sock_filter list list \<Rightarrow> seccomp_data \<Rightarrow> u32" where
  "run_filters ret [] d = ret"
| "run_filters ret (f # fs) d =
     (case bpf_run f 0 d of
        None \<Rightarrow> run_filters ret fs d
      | Some v \<Rightarrow> run_filters (if action_only v < action_only ret then v else ret) fs d)"

definition seccomp_verdict :: "sock_filter list list \<Rightarrow> seccomp_data \<Rightarrow> u32" where
  "seccomp_verdict fs d = run_filters SECCOMP_RET_ALLOW fs d"

section \<open>The three programs\<close>

text \<open>What the headers of an ABI define; \<open>None\<close> where a macro is missing.\<close>

record abi =
  audit_arch :: "u32 option"
  nr_close_range :: "u32 option"
  nr_keyctl :: "u32 option"
  nr_unshare :: "u32 option"
  nr_clone :: "u32 option"
  nr_clone3 :: "u32 option"

text \<open>The 64-bit ARM ABI, for examples.\<close>

definition aarch64 :: abi where
  "aarch64 = \<lparr>audit_arch = Some 0xc00000b7, nr_close_range = Some 436, nr_keyctl = Some 219,
     nr_unshare = Some 97, nr_clone = Some 220, nr_clone3 = Some 435\<rparr>"

definition close_range_filter :: "u32 \<Rightarrow> u32 \<Rightarrow> sock_filter list" where
  "close_range_filter arch nr =
     [LD_W_ABS arch_offset,
      JEQ_K arch 1 0,
      RET_K SECCOMP_RET_ALLOW,
      LD_W_ABS nr_offset,
      JEQ_K nr 0 1,
      RET_K (SECCOMP_RET_ERRNO OR ENOSYS),
      RET_K SECCOMP_RET_ALLOW]"

definition keyring_filter :: "u32 \<Rightarrow> u32 \<Rightarrow> sock_filter list" where
  "keyring_filter arch nr =
     [LD_W_ABS arch_offset,
      JEQ_K arch 1 0,
      RET_K SECCOMP_RET_ALLOW,
      LD_W_ABS nr_offset,
      JEQ_K nr 0 3,
      LD_W_ABS (args_offset 0),
      JEQ_K KEYCTL_JOIN_SESSION_KEYRING 0 1,
      RET_K (SECCOMP_RET_ERRNO OR ENOSYS),
      RET_K SECCOMP_RET_ALLOW]"

definition deny_newipc :: "u32 option \<Rightarrow> sock_filter list" where
  "deny_newipc nr =
     (case nr of
        None \<Rightarrow> []
      | Some n \<Rightarrow>
          [JEQ_K n 0 3,
           LD_W_ABS (args_offset 0),
           JSET_K CLONE_NEWIPC 0 1,
           RET_K (SECCOMP_RET_ERRNO OR EPERM)])"

definition ipc_filter :: "u32 \<Rightarrow> abi \<Rightarrow> sock_filter list" where
  "ipc_filter arch a =
     [LD_W_ABS arch_offset,
      JEQ_K arch 1 0,
      RET_K SECCOMP_RET_ALLOW,
      LD_W_ABS nr_offset]
     @ deny_newipc (nr_unshare a)
     @ [LD_W_ABS nr_offset]
     @ deny_newipc (nr_clone a)
     @ [LD_W_ABS nr_offset]
     @ (case nr_clone3 a of
          None \<Rightarrow> []
        | Some n \<Rightarrow> [JEQ_K n 0 1, RET_K (SECCOMP_RET_ERRNO OR ENOSYS)])
     @ [RET_K SECCOMP_RET_ALLOW]"

section \<open>Installing\<close>

text \<open>
  How the kernel answers the calls around an installation: \<open>seccomp(2)\<close> and the older
  \<open>prctl(2)\<close> may be refused; both check the program.
\<close>

record guard_kernel =
  seccomp_allowed :: bool
  prctl_allowed :: bool

definition load_filter ::
  "guard_kernel \<Rightarrow> sock_filter list \<Rightarrow> sock_filter list list \<Rightarrow> bool \<times> sock_filter list list" where
  "load_filter k program fs =
     (if bpf_check program \<and> seccomp_allowed k then (True, program # fs)
      else if bpf_check program \<and> prctl_allowed k then (True, program # fs)
      else (False, fs))"

text \<open>How a forked probe ends for its parent, after interrupted waits have been resumed.\<close>

datatype wait_result = WaitError | Signaled | Exited nat

definition probe_result :: "wait_result \<Rightarrow> int" where
  "probe_result w =
     (case w of WaitError \<Rightarrow> -1 | Signaled \<Rightarrow> -1 | Exited code \<Rightarrow> if code = 2 then 1 else 0)"

definition DAWNSHELL_CLOSE_RANGE_PROBE_LIMIT_NS :: int where
  "DAWNSHELL_CLOSE_RANGE_PROBE_LIMIT_NS = 2000000"

text \<open>
  The probe of \<open>close_range\<close>: whether the fork succeeds, the clock readings in nanoseconds, the
  result of the system call, and what becomes of a child that exits with a code.
\<close>

record close_range_probe =
  cp_forked :: bool
  cp_started :: "int option"
  cp_outcome :: int
  cp_finished :: "int option"
  cp_wait :: "nat \<Rightarrow> wait_result"

definition close_range_child :: "close_range_probe \<Rightarrow> nat" where
  "close_range_child p =
     (case (cp_started p, cp_finished p) of
        (Some started, Some finished) \<Rightarrow>
          if cp_outcome p \<noteq> 0 then 0
          else if finished - started > DAWNSHELL_CLOSE_RANGE_PROBE_LIMIT_NS then 2 else 0
      | _ \<Rightarrow> 0)"

definition dawnshell_close_range_is_pathological :: "abi \<Rightarrow> close_range_probe \<Rightarrow> int" where
  "dawnshell_close_range_is_pathological a p =
     (if nr_close_range a = None \<or> audit_arch a = None then 0
      else if \<not> cp_forked p then -1
      else probe_result (cp_wait p (close_range_child p)))"

definition dawnshell_install_close_range_guard ::
  "abi \<Rightarrow> guard_kernel \<Rightarrow> close_range_probe \<Rightarrow> string option \<Rightarrow> sock_filter list list \<Rightarrow>
   int \<times> sock_filter list list" where
  "dawnshell_install_close_range_guard a k p policy fs =
     (case (nr_close_range a, audit_arch a) of
        (Some nr, Some arch) \<Rightarrow>
          if policy = Some ''off'' then (0, fs)
          else if policy \<noteq> Some ''force'' \<and> dawnshell_close_range_is_pathological a p \<le> 0 then (0, fs)
          else (case load_filter k (close_range_filter arch nr) fs of
                  (loaded, fs') \<Rightarrow> (if loaded then 1 else -1, fs'))
      | _ \<Rightarrow> (0, fs))"

text \<open>
  The probe of the session keyring: creating the file before and after joining a new keyring,
  each \<open>None\<close> for success or the error, and the result of the join.
\<close>

record keyring_probe =
  kp_path_fits :: bool
  kp_forked :: bool
  kp_before_ok :: bool
  kp_join_ok :: bool
  kp_after_errno :: "nat option"
  kp_wait :: "nat \<Rightarrow> wait_result"

definition ENOKEY :: nat where "ENOKEY = 126"

definition keyring_child :: "keyring_probe \<Rightarrow> nat" where
  "keyring_child p =
     (if \<not> kp_before_ok p then 0
      else if \<not> kp_join_ok p then 0
      else (case kp_after_errno p of None \<Rightarrow> 0 | Some e \<Rightarrow> if e = ENOKEY then 2 else 0))"

definition dawnshell_session_keyring_join_breaks_writes :: "abi \<Rightarrow> keyring_probe \<Rightarrow> int" where
  "dawnshell_session_keyring_join_breaks_writes a p =
     (if nr_keyctl a = None \<or> audit_arch a = None then 0
      else if \<not> kp_path_fits p then -1
      else if \<not> kp_forked p then -1
      else probe_result (kp_wait p (keyring_child p)))"

definition dawnshell_install_keyring_guard ::
  "abi \<Rightarrow> guard_kernel \<Rightarrow> keyring_probe \<Rightarrow> string option \<Rightarrow> sock_filter list list \<Rightarrow>
   int \<times> sock_filter list list" where
  "dawnshell_install_keyring_guard a k p policy fs =
     (case (nr_keyctl a, audit_arch a) of
        (Some nr, Some arch) \<Rightarrow>
          if policy = Some ''off'' then (0, fs)
          else if policy \<noteq> Some ''force'' \<and> dawnshell_session_keyring_join_breaks_writes a p \<le> 0 then (0, fs)
          else (case load_filter k (keyring_filter arch nr) fs of
                  (loaded, fs') \<Rightarrow> (if loaded then 1 else -1, fs'))
      | _ \<Rightarrow> (0, fs))"

text \<open>The launcher's IPC filter: 53 is the failure code, an unknown architecture is only reported.\<close>

definition block_ipc_namespace_creation ::
  "abi \<Rightarrow> guard_kernel \<Rightarrow> sock_filter list list \<Rightarrow> nat \<times> sock_filter list list" where
  "block_ipc_namespace_creation a k fs =
     (case audit_arch a of
        None \<Rightarrow> (0, fs)
      | Some arch \<Rightarrow>
          (case load_filter k (ipc_filter arch a) fs of (loaded, fs') \<Rightarrow> (if loaded then 0 else 53, fs')))"

text \<open>The launcher's wrapper reports a failed guard and goes on.\<close>

definition install_close_range_guard ::
  "abi \<Rightarrow> guard_kernel \<Rightarrow> close_range_probe \<Rightarrow> string option \<Rightarrow> sock_filter list list \<Rightarrow>
   nat \<times> sock_filter list list" where
  "install_close_range_guard a k p policy fs =
     (0, snd (dawnshell_install_close_range_guard a k p policy fs))"

text \<open>
  \<open>dawnshell-fdguard\<close>: the exit code, or \<open>None\<close> when the command was executed in its place with
  the filters given.
\<close>

definition fdguard_main ::
  "abi \<Rightarrow> guard_kernel \<Rightarrow> close_range_probe \<Rightarrow> string option \<Rightarrow> (string list \<Rightarrow> bool) \<Rightarrow> string list \<Rightarrow>
   sock_filter list list \<Rightarrow> nat option \<times> sock_filter list list" where
  "fdguard_main a k p policy execvp_ok args fs =
     (if args = [] then (Some 2, fs)
      else let fs' = snd (dawnshell_install_close_range_guard a k p policy fs)
           in (if execvp_ok args then None else Some 127, fs'))"

section \<open>The machine\<close>

lemma insns_ok_drop: "insns_ok p \<Longrightarrow> insns_ok (drop n p)"
  by (induction p arbitrary: n) (auto simp: drop_Cons split: nat.splits)

lemma bpf_run_returns:
  assumes "insns_ok p" "p \<noteq> []" "is_ret (last p)"
  shows "\<exists>v. bpf_run p a d = Some v"
  using assms
proof (induction p a d rule: bpf_run.induct)
  case (2 off p a d)
  then show ?case by (cases p) auto
next
  case (3 k jt jf p a d)
  then show ?case by (cases p) (auto simp: insns_ok_drop)
next
  case (4 k jt jf p a d)
  then show ?case by (cases p) (auto simp: insns_ok_drop)
qed auto

lemma bpf_check_total: "bpf_check p \<Longrightarrow> \<exists>v. bpf_run p a d = Some v"
  using bpf_run_returns by (auto simp: bpf_check_def)

definition errno_verdict :: "u32 option \<Rightarrow> u32" where
  "errno_verdict r = (case r of None \<Rightarrow> SECCOMP_RET_ALLOW | Some e \<Rightarrow> SECCOMP_RET_ERRNO OR e)"

lemma actions [simp]:
  "action_only SECCOMP_RET_ALLOW = 0x7fff0000"
  "action_only (SECCOMP_RET_ERRNO OR EPERM) = 0x50000"
  "action_only (SECCOMP_RET_ERRNO OR ENOSYS) = 0x50000"
  by (simp_all add: action_only_def i32_of_u32_def SECCOMP_RET_ALLOW_def SECCOMP_RET_ERRNO_def EPERM_def ENOSYS_def)

section \<open>A filter and what it refuses\<close>

text \<open>
  The contract of a guard's program: the kernel admits it, it decides every system call, and
  it refuses exactly the calls given, with the error given.
\<close>

locale syscall_filter =
  fixes program :: "sock_filter list" and refused :: "seccomp_data \<Rightarrow> u32 option"
  assumes admitted: "bpf_check program"
    and decides: "bpf_run program 0 d = Some (errno_verdict (refused d))"
    and errors: "refused d = Some e \<Longrightarrow> e = EPERM \<or> e = ENOSYS"
begin

lemma loaded:
  "load_filter k program fs =
     (if seccomp_allowed k \<or> prctl_allowed k then (True, program # fs) else (False, fs))"
  using admitted by (simp add: load_filter_def)

lemma newest:
  "run_filters SECCOMP_RET_ALLOW (program # fs) d =
     (case refused d of None \<Rightarrow> run_filters SECCOMP_RET_ALLOW fs d
      | Some e \<Rightarrow> run_filters (SECCOMP_RET_ERRNO OR e) fs d)"
  using errors [of d] by (auto simp: decides errno_verdict_def split: option.splits)

lemma overruled:
  assumes "e = EPERM \<or> e = ENOSYS"
  shows "run_filters (SECCOMP_RET_ERRNO OR e) (program # fs) d = run_filters (SECCOMP_RET_ERRNO OR e) fs d"
  using errors [of d] assms by (auto simp: decides errno_verdict_def split: option.splits)

end

text \<open>The combined verdict of a stack of such filters is that of the newest one that refuses.\<close>

fun first_refusal :: "(seccomp_data \<Rightarrow> u32 option) list \<Rightarrow> seccomp_data \<Rightarrow> u32 option" where
  "first_refusal [] d = None"
| "first_refusal (r # rs) d = (case r d of None \<Rightarrow> first_refusal rs d | Some e \<Rightarrow> Some e)"

lemma run_filters_refused:
  assumes "list_all2 syscall_filter fs rs" "e = EPERM \<or> e = ENOSYS"
  shows "run_filters (SECCOMP_RET_ERRNO OR e) fs d = SECCOMP_RET_ERRNO OR e"
  using assms(1)
proof (induction rule: list_all2_induct)
  case (Cons f fs r rs)
  then show ?case
    using syscall_filter.overruled [OF Cons(1) assms(2)] by simp
qed simp

lemma seccomp_verdict_stack:
  assumes "list_all2 syscall_filter fs rs"
  shows "seccomp_verdict fs d = errno_verdict (first_refusal rs d)"
  unfolding seccomp_verdict_def
  using assms
proof (induction rule: list_all2_induct)
  case (Cons f fs r rs)
  show ?case
  proof (cases "r d")
    case None
    then show ?thesis
      using syscall_filter.newest [OF Cons(1), of fs d] Cons(3) by simp
  next
    case (Some e)
    then show ?thesis
      using syscall_filter.newest [OF Cons(1), of fs d] syscall_filter.errors [OF Cons(1) Some]
        run_filters_refused [OF Cons(2)] by (simp add: errno_verdict_def)
  qed
qed (simp add: errno_verdict_def)

section \<open>What the three guards refuse\<close>

definition close_range_refused :: "u32 \<Rightarrow> u32 \<Rightarrow> seccomp_data \<Rightarrow> u32 option" where
  "close_range_refused arch nr d = (if sd_arch d = arch \<and> sd_nr d = nr then Some ENOSYS else None)"

definition keyring_refused :: "u32 \<Rightarrow> u32 \<Rightarrow> seccomp_data \<Rightarrow> u32 option" where
  "keyring_refused arch nr d =
     (if sd_arch d = arch \<and> sd_nr d = nr \<and> ucast (arg_of d 0) = KEYCTL_JOIN_SESSION_KEYRING
      then Some ENOSYS else None)"

definition ipc_refused :: "u32 \<Rightarrow> abi \<Rightarrow> seccomp_data \<Rightarrow> u32 option" where
  "ipc_refused arch a d =
     (if sd_arch d \<noteq> arch then None
      else if (nr_unshare a = Some (sd_nr d) \<or> nr_clone a = Some (sd_nr d)) \<and> bit (arg_of d 0) 27 then Some EPERM
      else if nr_clone3 a = Some (sd_nr d) then Some ENOSYS
      else None)"

lemma loads [simp]:
  "load_abs d nr_offset = sd_nr d" "load_abs d arch_offset = sd_arch d"
  "load_abs d (args_offset 0) = ucast (arg_of d 0)"
  by (simp_all add: load_abs_def nr_offset_def arch_offset_def args_offset_def)

lemma newipc_bit: "(ucast (v :: u64) :: u32) AND CLONE_NEWIPC \<noteq> 0 \<longleftrightarrow> bit v 27"
proof -
  have "(ucast v :: u32) AND 2 ^ 27 \<noteq> 0 \<longleftrightarrow> bit v 27"
    unfolding and_exp_eq_0_iff_not_bit by (simp add: bit_simps)
  then show ?thesis
    by (simp add: CLONE_NEWIPC_def)
qed

lemmas filter_programs = close_range_filter_def keyring_filter_def ipc_filter_def deny_newipc_def

lemmas offset_defs = nr_offset_def arch_offset_def args_offset_def sizeof_seccomp_data_def

interpretation close_range_guard: syscall_filter "close_range_filter arch nr" "close_range_refused arch nr"
  for arch nr
  by unfold_locales
    (auto simp: filter_programs bpf_check_def offset_defs close_range_refused_def errno_verdict_def
      load_abs_def split: if_splits)

interpretation keyring_guard: syscall_filter "keyring_filter arch nr" "keyring_refused arch nr" for arch nr
  by unfold_locales
    (auto simp: filter_programs bpf_check_def offset_defs keyring_refused_def errno_verdict_def load_abs_def
      split: if_splits)

interpretation ipc_guard: syscall_filter "ipc_filter arch a" "ipc_refused arch a" for arch a
proof unfold_locales
  show "bpf_check (ipc_filter arch a)"
    by (auto simp: filter_programs bpf_check_def offset_defs split: option.splits)
  show "bpf_run (ipc_filter arch a) 0 d = Some (errno_verdict (ipc_refused arch a d))" for d
    by (simp add: filter_programs ipc_refused_def errno_verdict_def newipc_bit split: option.splits)
qed (auto simp: ipc_refused_def split: if_splits)

section \<open>Properties\<close>

lemma close_range_guard_outcome:
  "dawnshell_install_close_range_guard a k p policy fs = (r, fs') \<Longrightarrow>
   if r = 1 then \<exists>arch nr. audit_arch a = Some arch \<and> nr_close_range a = Some nr \<and> fs' = close_range_filter arch nr # fs
      \<and> policy \<noteq> Some ''off'' \<and> (policy = Some ''force'' \<or> dawnshell_close_range_is_pathological a p = 1)
   else fs' = fs \<and> (r = 0 \<or> r = - 1)"
  by (auto simp: dawnshell_install_close_range_guard_def close_range_guard.loaded
      dawnshell_close_range_is_pathological_def probe_result_def
      split: option.splits prod.splits if_splits wait_result.splits)

lemma keyring_guard_outcome:
  "dawnshell_install_keyring_guard a k p policy fs = (r, fs') \<Longrightarrow>
   if r = 1 then \<exists>arch nr. audit_arch a = Some arch \<and> nr_keyctl a = Some nr \<and> fs' = keyring_filter arch nr # fs
      \<and> policy \<noteq> Some ''off'' \<and> (policy = Some ''force'' \<or> dawnshell_session_keyring_join_breaks_writes a p = 1)
   else fs' = fs \<and> (r = 0 \<or> r = - 1)"
  by (auto simp: dawnshell_install_keyring_guard_def keyring_guard.loaded
      dawnshell_session_keyring_join_breaks_writes_def probe_result_def
      split: option.splits prod.splits if_splits wait_result.splits)

text \<open>
  C38. The guards together, installed by the launcher in its order: whatever subset of them was
  needed, a system call gets the error of the newest installed guard that refuses it and is
  allowed when none does. The IPC guard refuses exactly \<open>unshare\<close> and \<open>clone\<close> with the
  \<open>CLONE_NEWIPC\<close> bit and every \<open>clone3\<close> of the native architecture.
\<close>

theorem guards_refuse_exactly:
  assumes "audit_arch a = Some arch" "nr_close_range a = Some cr" "nr_keyctl a = Some kc"
    and "seccomp_allowed k \<or> prctl_allowed k"
    and "block_ipc_namespace_creation a k [] = (code, fs1)"
    and "dawnshell_install_close_range_guard a k p policy fs1 = (r2, fs2)"
    and "dawnshell_install_keyring_guard a k q policy' fs2 = (r3, fs3)"
  shows "code = 0 \<and> seccomp_verdict fs3 d = errno_verdict (first_refusal
    ((if r3 = 1 then [keyring_refused arch kc] else [])
     @ (if r2 = 1 then [close_range_refused arch cr] else []) @ [ipc_refused arch a]) d)"
proof -
  have fs1: "code = 0" "fs1 = [ipc_filter arch a]"
    using assms(1,4,5) by (auto simp: block_ipc_namespace_creation_def ipc_guard.loaded split: if_splits)
  have fs2: "fs2 = (if r2 = 1 then [close_range_filter arch cr] else []) @ fs1"
    using close_range_guard_outcome [OF assms(6)] assms(1,2) by (auto split: if_splits)
  have fs3: "fs3 = (if r3 = 1 then [keyring_filter arch kc] else []) @ fs2"
    using keyring_guard_outcome [OF assms(7)] assms(1,3) by (auto split: if_splits)
  have "list_all2 syscall_filter fs3 ((if r3 = 1 then [keyring_refused arch kc] else [])
     @ (if r2 = 1 then [close_range_refused arch cr] else []) @ [ipc_refused arch a])"
    unfolding fs3 fs2 fs1
    by (auto simp: close_range_guard.syscall_filter_axioms keyring_guard.syscall_filter_axioms
        ipc_guard.syscall_filter_axioms)
  then show ?thesis
    using fs1(1) seccomp_verdict_stack by blast
qed

theorem guards_refuse_exactly_witness:
  "let k = \<lparr>seccomp_allowed = True, prctl_allowed = False\<rparr>;
       (code, fs1) = block_ipc_namespace_creation aarch64 k [];
       (r2, fs2) = dawnshell_install_close_range_guard aarch64 k
         \<lparr>cp_forked = True, cp_started = Some 0, cp_outcome = 0, cp_finished = Some 50000000, cp_wait = Exited\<rparr> None fs1;
       (r3, fs3) = dawnshell_install_keyring_guard aarch64 k
         \<lparr>kp_path_fits = True, kp_forked = True, kp_before_ok = True, kp_join_ok = True, kp_after_errno = None,
          kp_wait = Exited\<rparr> None fs2
   in r2 = 1 \<and> r3 = 0 \<and> (\<forall>ip. seccomp_verdict fs3
      \<lparr>sd_nr = 97, sd_arch = 0xc00000b7, sd_instruction_pointer = ip, sd_args = [0x28000000]\<rparr> = 0x50001)"
proof -
  define k where "k = \<lparr>seccomp_allowed = True, prctl_allowed = False\<rparr>"
  define p where "p = \<lparr>cp_forked = True, cp_started = Some 0, cp_outcome = 0, cp_finished = Some 50000000,
    cp_wait = Exited\<rparr>"
  define q where "q = \<lparr>kp_path_fits = True, kp_forked = True, kp_before_ok = True, kp_join_ok = True,
    kp_after_errno = None, kp_wait = Exited\<rparr>"
  obtain code fs1 where 1: "block_ipc_namespace_creation aarch64 k [] = (code, fs1)" by fastforce
  obtain r2 fs2 where 2: "dawnshell_install_close_range_guard aarch64 k p None fs1 = (r2, fs2)" by fastforce
  obtain r3 fs3 where 3: "dawnshell_install_keyring_guard aarch64 k q None fs2 = (r3, fs3)" by fastforce
  have r2: "r2 = 1"
    using 2 by (auto simp: dawnshell_install_close_range_guard_def aarch64_def close_range_guard.loaded k_def p_def
        dawnshell_close_range_is_pathological_def probe_result_def close_range_child_def
        DAWNSHELL_CLOSE_RANGE_PROBE_LIMIT_NS_def)
  have r3: "r3 = 0"
    using 3 by (auto simp: dawnshell_install_keyring_guard_def aarch64_def q_def
        dawnshell_session_keyring_join_breaks_writes_def probe_result_def keyring_child_def)
  have "seccomp_verdict fs3 d = errno_verdict (first_refusal
      [close_range_refused 0xc00000b7 436, ipc_refused 0xc00000b7 aarch64] d)" for d
    using guards_refuse_exactly [OF _ _ _ _ 1 2 3, of "0xc00000b7" 436 219 d] r2 r3
    by (simp add: aarch64_def k_def)
  then have "seccomp_verdict fs3 \<lparr>sd_nr = 97, sd_arch = 0xc00000b7, sd_instruction_pointer = ip,
      sd_args = [0x28000000]\<rparr> = 0x50001" for ip
    by (simp add: close_range_refused_def ipc_refused_def aarch64_def arg_of_def errno_verdict_def
        SECCOMP_RET_ERRNO_def EPERM_def bit_simps)
  with 1 2 3 r2 r3 show ?thesis
    by (simp add: k_def p_def q_def)
qed

text \<open>
  A guard is installed only with cause: the \<open>close_range\<close> filter goes in only when it is
  forced or the probe's child measured a call slower than two milliseconds, never when it is
  switched off, and otherwise the filters stay as they were.
\<close>

theorem close_range_guard_only_when_measured:
  assumes "dawnshell_install_close_range_guard a k p policy fs = (r, fs')" "policy \<noteq> Some ''force''"
    and "\<And>code. cp_wait p code \<in> {WaitError, Signaled, Exited code}"
  shows "if r = 1
    then (\<exists>started finished. cp_started p = Some started \<and> cp_finished p = Some finished
       \<and> finished - started > 2000000) \<and> cp_outcome p = 0 \<and> policy \<noteq> Some ''off'' \<and> tl fs' = fs
    else fs' = fs"
proof -
  have "dawnshell_close_range_is_pathological a p = 1 \<Longrightarrow>
      (\<exists>started finished. cp_started p = Some started \<and> cp_finished p = Some finished
       \<and> finished - started > 2000000) \<and> cp_outcome p = 0"
    using assms(3) [of "close_range_child p"]
    by (auto simp: dawnshell_close_range_is_pathological_def probe_result_def close_range_child_def
        DAWNSHELL_CLOSE_RANGE_PROBE_LIMIT_NS_def split: if_splits option.splits)
  then show ?thesis
    using close_range_guard_outcome [OF assms(1)] assms(2) by (auto split: if_splits)
qed

theorem close_range_guard_only_when_measured_witness:
  "dawnshell_install_close_range_guard aarch64 \<lparr>seccomp_allowed = True, prctl_allowed = True\<rparr>
     \<lparr>cp_forked = True, cp_started = Some 0, cp_outcome = 0, cp_finished = Some 9000, cp_wait = Exited\<rparr> None [] = (0, [])"
proof -
  define k where "k = \<lparr>seccomp_allowed = True, prctl_allowed = True\<rparr>"
  define p where "p = \<lparr>cp_forked = True, cp_started = Some 0, cp_outcome = 0, cp_finished = Some 9000,
    cp_wait = Exited\<rparr>"
  obtain r fs where r: "dawnshell_install_close_range_guard aarch64 k p None [] = (r, fs)" by fastforce
  have "r \<noteq> 1 \<and> fs = []"
    using close_range_guard_only_when_measured [OF r] by (auto simp: p_def split: if_splits)
  moreover have "r \<noteq> - 1"
    using r by (auto simp: dawnshell_install_close_range_guard_def p_def dawnshell_close_range_is_pathological_def
        probe_result_def close_range_child_def DAWNSHELL_CLOSE_RANGE_PROBE_LIMIT_NS_def aarch64_def)
  ultimately show ?thesis
    using r close_range_guard_outcome [OF r] by (auto simp: k_def p_def)
qed

text \<open>
  C39. The guards see only system calls of the architecture they were built for: a call made
  under another one (a 32-bit process on a 64-bit kernel) is allowed by all of them, also the
  creation of an IPC namespace.
\<close>

theorem foreign_architecture_unfiltered:
  assumes "set fs \<subseteq> {ipc_filter arch a, close_range_filter arch cr, keyring_filter arch kc}" "sd_arch d \<noteq> arch"
  shows "seccomp_verdict fs d = SECCOMP_RET_ALLOW"
proof -
  have "list_all2 syscall_filter fs (map (\<lambda>f. if f = ipc_filter arch a then ipc_refused arch a
      else if f = close_range_filter arch cr then close_range_refused arch cr else keyring_refused arch kc) fs)"
    using assms(1) ipc_guard.syscall_filter_axioms close_range_guard.syscall_filter_axioms
      keyring_guard.syscall_filter_axioms by (induction fs) auto
  then have "seccomp_verdict fs d = errno_verdict (first_refusal (map (\<lambda>f. if f = ipc_filter arch a then ipc_refused arch a
      else if f = close_range_filter arch cr then close_range_refused arch cr else keyring_refused arch kc) fs) d)"
    by (rule seccomp_verdict_stack)
  also have "\<dots> = SECCOMP_RET_ALLOW"
    using assms(2) by (induction fs) (auto simp: ipc_refused_def close_range_refused_def keyring_refused_def errno_verdict_def)
  finally show ?thesis .
qed

theorem foreign_architecture_unfiltered_witness:
  "seccomp_verdict [ipc_filter 0xc00000b7 aarch64]
     \<lparr>sd_nr = 337, sd_arch = 0x40000028, sd_instruction_pointer = 0, sd_args = [0x08000000]\<rparr> = SECCOMP_RET_ALLOW"
  by (rule foreign_architecture_unfiltered [of _ "0xc00000b7" aarch64 0 0]) simp_all

end
