(* ===== verification/Host.thy ===== *)
theory Host
  imports Launcher_Identity Device_Policy Seccomp "HOL-Library.Sublist"
begin

text \<open>
  The launcher's programs run against a host: the kernel, its file systems and the other
  processes. A program is a state transformer that extends the trace of the calls it made; what
  the host answers to a call is an arbitrary function of the trace so far, an argument of every
  program. A theorem about a program therefore holds for every host, including one that changes
  between two calls or fails at any of them.
\<close>

section \<open>Calls and answers\<close>

text \<open>
  The calls the launcher makes. \<open>Write_value\<close> is an \<open>open\<close> for writing, the write and the close;
  the calls from \<open>Lstat\<close> on only ask. A namespace descriptor is the inode it was opened for.
\<close>

datatype host_call =
    Mount "string option" string "string option" u64 "string option"
  | Umount string
  | Mkdir string u32
  | Rmdir string
  | Unlink string
  | Mkfifo string u32
  | Chown_root string
  | Chmod string u32
  | Create_exclusive string u32
  | Write_value string string
  | Open_append string u32
  | Open_create string u32
  | Open_fifo string
  | Unshare u32
  | Setns u64 u32
  | Drop_capability nat
  | Set_filters
  | Bpf_probe string
  | Bpf_policy string
  | Sethostname string
  | Chdir string
  | Chroot string
  | Clearenv
  | Setenv string string
  | Reset_signals
  | Set_handlers
  | Redirect_output
  | Execv string "string list"
  | Fork
  | Setsid
  | Setpgid int
  | Pipe
  | Kill int int
  | Kill_group int int
  | Run_program "string list"
  | Capture_program "string list"
  | Save_state LauncherState
  | Lock
  | Unlock
  | Message string
  | Print string
  | Parent_death_signal
  | Sleep nat
  | Lstat string
  | Stat string
  | Access string
  | Realpath string
  | Open_read string
  | Read_file string
  | List_directory string
  | Read_link string
  | Inspect_processes
  | Clock
  | Wait int
  | Poll
  | Get_group int
  | Get_session int
  | Get_parent
  | Poll_for int
  | Read_request

text \<open>A call with its result: 0 for success, otherwise \<open>errno\<close>.\<close>

type_synonym event = "host_call \<times> nat"

datatype file_kind = Regular | Directory | Fifo | Character | Other_kind

record file_stat =
  st_kind :: file_kind
  st_uid :: nat
  st_mode :: u32
  st_nlink :: nat
  st_ino :: u64

text \<open>What \<open>waitpid\<close> with \<open>WNOHANG\<close> reports of a child: it still runs, its status, or an error.\<close>

datatype wait_answer = Running | Reaped int | Wait_errno nat

text \<open>
  What \<open>poll\<close> on the pipe from the supervisor, and the \<open>read\<close> that follows when it is readable, give.
\<close>

datatype ready_answer = Poll_errno nat | Poll_timeout | Read_errno nat | Read_bytes string

text \<open>
  The host's answers, each a function of the trace. \<open>on_open\<close> opens a namespace: the descriptor's
  inode, when \<open>fstat\<close> tells it. \<open>on_stop\<close> is the flag the signal handler sets, \<open>on_request\<close> reads
  the reboot pipe.
\<close>

record host_env =
  env_abi :: abi
  env_pid :: int
  env_euid :: nat
  env_arch :: string
  env_variable :: "string \<Rightarrow> string option"
  on_call :: "event list \<Rightarrow> host_call \<Rightarrow> nat"
  on_lstat :: "event list \<Rightarrow> string \<Rightarrow> nat + file_stat"
  on_stat :: "event list \<Rightarrow> string \<Rightarrow> nat + file_stat"
  on_realpath :: "event list \<Rightarrow> string \<Rightarrow> nat + string"
  on_read :: "event list \<Rightarrow> string \<Rightarrow> nat + string"
  on_list :: "event list \<Rightarrow> string \<Rightarrow> nat + string list"
  on_readlink :: "event list \<Rightarrow> string \<Rightarrow> nat + string"
  on_proc :: "event list \<Rightarrow> procfs"
  on_clock :: "event list \<Rightarrow> int"
  on_time :: "event list \<Rightarrow> int"
  on_fork :: "event list \<Rightarrow> nat + int"
  on_wait :: "event list \<Rightarrow> int \<Rightarrow> wait_answer"
  on_join :: "event list \<Rightarrow> int \<Rightarrow> nat + int"
  on_poll :: "event list \<Rightarrow> nat + string"
  on_output :: "event list \<Rightarrow> string list \<Rightarrow> string"
  on_group :: "event list \<Rightarrow> int \<Rightarrow> int"
  on_session :: "event list \<Rightarrow> int \<Rightarrow> int"
  on_open :: "event list \<Rightarrow> string \<Rightarrow> nat + u64 option"
  on_parent :: "event list \<Rightarrow> int"
  on_ready :: "event list \<Rightarrow> ready_answer"
  on_request :: "event list \<Rightarrow> nat + string"
  on_state_io :: "event list \<Rightarrow> state_io"
  on_bpf :: "event list \<Rightarrow> bpf_outcomes"
  on_guard :: "event list \<Rightarrow> guard_kernel"
  on_stop :: "event list \<Rightarrow> bool"
  on_close_range :: "event list \<Rightarrow> close_range_probe"
  on_keyring :: "event list \<Rightarrow> keyring_probe"

text \<open>
  The host as the launcher's calls change it: the trace, the files of the control directory, the
  cgroups with their device programs, and the seccomp filters of the process.
\<close>

record host =
  h_trace :: "event list"
  h_files :: files
  h_cgroups :: cgroup_kernel
  h_filters :: "sock_filter list list"

section \<open>Constants\<close>

definition MS_RDONLY :: u64 where "MS_RDONLY = 1"
definition MS_NOSUID :: u64 where "MS_NOSUID = 2"
definition MS_NODEV :: u64 where "MS_NODEV = 4"
definition MS_NOEXEC :: u64 where "MS_NOEXEC = 8"
definition MS_REMOUNT :: u64 where "MS_REMOUNT = 32"
definition MS_BIND :: u64 where "MS_BIND = 4096"
definition MS_REC :: u64 where "MS_REC = 16384"
definition MS_PRIVATE :: u64 where "MS_PRIVATE = 262144"
definition MS_SLAVE :: u64 where "MS_SLAVE = 524288"

definition CLONE_NEWNS :: u32 where "CLONE_NEWNS = 0x00020000"
definition CLONE_NEWCGROUP :: u32 where "CLONE_NEWCGROUP = 0x02000000"
definition CLONE_NEWUTS :: u32 where "CLONE_NEWUTS = 0x04000000"
definition CLONE_NEWPID :: u32 where "CLONE_NEWPID = 0x20000000"

definition SIGKILL :: int where "SIGKILL = 9"
definition SIGTERM :: int where "SIGTERM = 15"
definition SIGRTMIN :: int where "SIGRTMIN = 34"

definition ESRCH :: nat where "ESRCH = 3"
definition EINTR :: nat where "EINTR = 4"
definition EAGAIN :: nat where "EAGAIN = 11"
definition EBUSY :: nat where "EBUSY = 16"
definition EEXIST :: nat where "EEXIST = 17"
definition EINVAL :: nat where "EINVAL = 22"
definition ENOTEMPTY :: nat where "ENOTEMPTY = 39"
definition ELOOP :: nat where "ELOOP = 40"
definition EOPNOTSUPP :: nat where "EOPNOTSUPP = 95"

section \<open>Primitives\<close>

definition log_call :: "host_call \<Rightarrow> nat \<Rightarrow> (host, unit) state" where
  "log_call c e = modify (\<lambda>h. h\<lparr>h_trace := h_trace h @ [(c, e)]\<rparr>)"

definition call :: "host_env \<Rightarrow> host_call \<Rightarrow> (host, nat) state" where
  "call env c = do {
     e \<leftarrow> gets (\<lambda>h. on_call env (h_trace h) c);
     log_call c e;
     return e
   }"

text \<open>A question: its answer and, where it can fail, its error.\<close>

definition ask :: "host_call \<Rightarrow> (event list \<Rightarrow> 'a) \<Rightarrow> (host, 'a) state" where
  "ask c f = do {
     x \<leftarrow> gets (\<lambda>h. f (h_trace h));
     log_call c 0;
     return x
   }"

text \<open>\<open>if (call != 0) return fail_errno(stage, code)\<close>.\<close>

definition step :: "host_env \<Rightarrow> host_call \<Rightarrow> int \<Rightarrow> (host, int) state" where
  "step env c code = do {
     e \<leftarrow> call env c;
     return (if e = 0 then 0 else code)
   }"

text \<open>\<open>result = f(); if (result != 0) return result;\<close> for each \<open>f\<close> of a list.\<close>

fun run_steps :: "(host, int) state list \<Rightarrow> (host, int) state" where
  "run_steps [] = return 0"
| "run_steps (m # ms) = do {
     r \<leftarrow> m;
     if r \<noteq> 0 then return r else run_steps ms
   }"

text \<open>\<open>if (joined_path(path, sizeof(path), base, relative) != 0) return fail_errno(stage, code)\<close>.\<close>

definition with_path :: "string \<Rightarrow> string \<Rightarrow> 'a \<Rightarrow> (string \<Rightarrow> (host, 'a) state) \<Rightarrow> (host, 'a) state" where
  "with_path base relative code k =
     (case joined_path PATH_MAX base relative of None \<Rightarrow> return code | Some path \<Rightarrow> k path)"

text \<open>The environment of the process: the inherited one as \<open>clearenv\<close> and \<open>setenv\<close> changed it.\<close>

fun environment :: "(string \<Rightarrow> string option) \<Rightarrow> event list \<Rightarrow> string \<Rightarrow> string option" where
  "environment inherited [] = inherited"
| "environment inherited ((Clearenv, e) # t) = environment (\<lambda>_. None) t"
| "environment inherited ((Setenv name v, e) # t) =
     environment (if e = 0 then inherited(name := Some v) else inherited) t"
| "environment inherited (_ # t) = environment inherited t"

section \<open>What a program may call\<close>

text \<open>
  \<open>extends C\<close>: the trace grows by events that satisfy \<open>C\<close>. It is reflexive and transitive, so a
  program all of whose steps satisfy it does.
\<close>

definition extends :: "(event \<Rightarrow> bool) \<Rightarrow> host \<Rightarrow> host \<Rightarrow> bool" where
  "extends C h h' \<longleftrightarrow> (\<exists>es. h_trace h' = h_trace h @ es \<and> list_all C es)"

interpretation emits: step_relation "extends C" for C
  by unfold_locales (auto simp: extends_def)

abbreviation emits_only :: "(event \<Rightarrow> bool) \<Rightarrow> (host, 'a) state \<Rightarrow> bool" where
  "emits_only C \<equiv> state_io_rel (extends C)"

text \<open>
  \<open>quietly C\<close>: the trace grows by such events, and neither the filters of the process nor the files
  of the control directory change.
\<close>

definition quiet :: "(event \<Rightarrow> bool) \<Rightarrow> host \<Rightarrow> host \<Rightarrow> bool" where
  "quiet C h h' \<longleftrightarrow> extends C h h' \<and> h_filters h' = h_filters h \<and> h_files h' = h_files h"

interpretation quiet: step_relation "quiet C" for C
  by unfold_locales (auto simp: quiet_def emits.R_refl intro: emits.R_trans)

abbreviation quietly :: "(event \<Rightarrow> bool) \<Rightarrow> (host, 'a) state \<Rightarrow> bool" where
  "quietly C \<equiv> state_io_rel (quiet C)"

named_theorems emits_intros \<open>what the programs emit\<close>

lemmas [emits_intros] = emits.io_rules

lemma emits_log [emits_intros]: "C (c, e) \<Longrightarrow> emits_only C (log_call c e)"
  unfolding log_call_def by (rule emits.io_modify) (simp add: extends_def)

lemma emits_call [emits_intros]: "(\<And>e. C (c, e)) \<Longrightarrow> emits_only C (call env c)"
  unfolding call_def by (intro emits_intros)

lemma emits_ask [emits_intros]: "C (c, 0) \<Longrightarrow> emits_only C (ask c f)"
  unfolding ask_def by (intro emits_intros)

lemma emits_step [emits_intros]: "(\<And>e. C (c, e)) \<Longrightarrow> emits_only C (step env c code)"
  unfolding step_def by (intro emits_intros)

lemma emits_run_steps:
  "list_all (emits_only C) ms \<Longrightarrow> emits_only C (run_steps ms)"
  by (induction ms) (auto intro!: emits_intros)

lemma emits_run_steps_Nil [emits_intros]: "emits_only C (run_steps [])"
  by (auto intro!: emits_intros)

lemma emits_run_steps_Cons [emits_intros]:
  "emits_only C m \<Longrightarrow> emits_only C (run_steps ms) \<Longrightarrow> emits_only C (run_steps (m # ms))"
  by (auto intro!: emits_intros)

lemma emits_with_path [emits_intros]:
  "(\<And>path. joined_path PATH_MAX base relative = Some path \<Longrightarrow> emits_only C (k path)) \<Longrightarrow>
   emits_only C (with_path base relative code k)"
  unfolding with_path_def by (intro emits_intros)

lemma emits_mono: "emits_only C m \<Longrightarrow> (\<And>e. C e \<Longrightarrow> D e) \<Longrightarrow> emits_only D m"
  by (fastforce simp: state_io_rel_def extends_def list_all_iff)

lemma emits_trace:
  assumes "emits_only C m" "run_state m h = (r, h')"
  shows "\<exists>es. h_trace h' = h_trace h @ es \<and> list_all C es"
  using assms by (auto simp: state_io_rel_def extends_def dest: spec [of _ h])

lemma quietly_emits: "quietly C m \<Longrightarrow> emits_only C m"
  by (auto simp: state_io_rel_def quiet_def)

named_theorems quiet_intros \<open>programs that change neither filters nor files\<close>

lemmas [quiet_intros] = quiet.io_rules

lemma quiet_log [quiet_intros]: "C (c, e) \<Longrightarrow> quietly C (log_call c e)"
  unfolding log_call_def by (rule quiet.io_modify) (simp add: quiet_def extends_def)

lemma quiet_call [quiet_intros]: "(\<And>e. C (c, e)) \<Longrightarrow> quietly C (call env c)"
  unfolding call_def by (intro quiet_intros)

lemma quiet_ask [quiet_intros]: "C (c, 0) \<Longrightarrow> quietly C (ask c f)"
  unfolding ask_def by (intro quiet_intros)

lemma quiet_step [quiet_intros]: "(\<And>e. C (c, e)) \<Longrightarrow> quietly C (step env c code)"
  unfolding step_def by (intro quiet_intros)

lemma quiet_run_steps_Nil [quiet_intros]: "quietly C (run_steps [])"
  by (auto intro!: quiet_intros)

lemma quiet_run_steps_Cons [quiet_intros]:
  "quietly C m \<Longrightarrow> quietly C (run_steps ms) \<Longrightarrow> quietly C (run_steps (m # ms))"
  by (auto intro!: quiet_intros)

lemma quiet_with_path [quiet_intros]:
  "(\<And>path. joined_path PATH_MAX base relative = Some path \<Longrightarrow> quietly C (k path)) \<Longrightarrow>
   quietly C (with_path base relative code k)"
  unfolding with_path_def by (intro quiet_intros)

text \<open>A path below a directory.\<close>

definition below :: "string \<Rightarrow> string \<Rightarrow> bool" where
  "below base path \<longleftrightarrow> (\<exists>relative. path = base @ ''/'' @ relative)"

lemma below_joined: "joined_path n base relative = Some path \<Longrightarrow> below base path"
  by (auto simp: joined_path_def below_def Let_def split: if_splits)

lemma below_trans: "below base path \<Longrightarrow> below path p \<Longrightarrow> below base p"
  by (force simp: below_def)

text \<open>The calls that only ask or wait, and the paths a call changes.\<close>

fun is_passive :: "host_call \<Rightarrow> bool" where
  "is_passive (Lstat p) = True"
| "is_passive (Stat p) = True"
| "is_passive (Access p) = True"
| "is_passive (Realpath p) = True"
| "is_passive (Open_read p) = True"
| "is_passive (Read_file p) = True"
| "is_passive (List_directory p) = True"
| "is_passive (Read_link p) = True"
| "is_passive Inspect_processes = True"
| "is_passive Clock = True"
| "is_passive (Wait pid) = True"
| "is_passive Poll = True"
| "is_passive (Get_group pid) = True"
| "is_passive (Get_session pid) = True"
| "is_passive (Sleep n) = True"
| "is_passive Get_parent = True"
| "is_passive (Poll_for timeout) = True"
| "is_passive Read_request = True"
| "is_passive _ = False"

fun changed_paths :: "host_call \<Rightarrow> string list" where
  "changed_paths (Mount source target fstype flags data) = [target]"
| "changed_paths (Umount p) = [p]"
| "changed_paths (Mkdir p mode) = [p]"
| "changed_paths (Rmdir p) = [p]"
| "changed_paths (Unlink p) = [p]"
| "changed_paths (Mkfifo p mode) = [p]"
| "changed_paths (Chown_root p) = [p]"
| "changed_paths (Chmod p mode) = [p]"
| "changed_paths (Create_exclusive p mode) = [p]"
| "changed_paths (Write_value p v) = [p]"
| "changed_paths (Open_append p mode) = [p]"
| "changed_paths (Open_create p mode) = [p]"
| "changed_paths (Bpf_probe p) = [p]"
| "changed_paths (Bpf_policy p) = [p]"
| "changed_paths _ = []"

text \<open>
  What the programs that prepare directories and mounts need of a rule on calls: asking is
  allowed, and so is a change of a path inside the area, which is closed under going down.
\<close>

locale area_policy =
  fixes allowed :: "event \<Rightarrow> bool" and area :: "string \<Rightarrow> bool"
  assumes asking: "is_passive c \<Longrightarrow> allowed (c, e)"
    and change: "changed_paths c = [p] \<Longrightarrow> area p \<Longrightarrow> allowed (c, e)"
    and downward: "area p \<Longrightarrow> below p q \<Longrightarrow> area q"
begin

lemma area_joined: "joined_path n base relative = Some path \<Longrightarrow> area base \<Longrightarrow> area path"
  by (blast intro: downward below_joined)

text \<open>A harmless call: it only asks, or it changes one path of the area.\<close>

definition harmless :: "host_call \<Rightarrow> bool" where
  "harmless c \<longleftrightarrow> is_passive c \<or> (\<exists>p. changed_paths c = [p] \<and> area p)"

lemma harmless_allowed: "harmless c \<Longrightarrow> allowed (c, e)"
  by (auto simp: harmless_def intro: asking change)

lemma quiet_area_ask: "harmless c \<Longrightarrow> quietly allowed (ask c f)"
  by (intro quiet_ask harmless_allowed)

lemma quiet_area_call: "harmless c \<Longrightarrow> quietly allowed (call env c)"
  by (intro quiet_call harmless_allowed)

lemma quiet_area_step: "harmless c \<Longrightarrow> quietly allowed (step env c code)"
  by (intro quiet_step harmless_allowed)

lemmas area_intros = quiet.io_rules quiet_run_steps_Nil quiet_run_steps_Cons quiet_with_path
  quiet_area_ask quiet_area_call quiet_area_step

declare harmless_def [simp]

end

section \<open>Programs by their weakest preconditions\<close>

lemma wp_log [wp_simps]: "wp (log_call c e) Q h = Q () (h\<lparr>h_trace := h_trace h @ [(c, e)]\<rparr>)"
  by (simp add: log_call_def wp_simps)

lemma wp_call [wp_simps]:
  "wp (call env c) Q h =
   Q (on_call env (h_trace h) c) (h\<lparr>h_trace := h_trace h @ [(c, on_call env (h_trace h) c)]\<rparr>)"
  by (simp add: call_def wp_simps)

lemma wp_ask [wp_simps]:
  "wp (ask c f) Q h = Q (f (h_trace h)) (h\<lparr>h_trace := h_trace h @ [(c, 0)]\<rparr>)"
  by (simp add: ask_def wp_simps)

lemma wp_step [wp_simps]:
  "wp (step env c code) Q h =
   (let e = on_call env (h_trace h) c
    in Q (if e = 0 then 0 else code) (h\<lparr>h_trace := h_trace h @ [(c, e)]\<rparr>))"
  by (simp add: step_def wp_simps Let_def)

lemma wp_with_path [wp_simps]:
  "wp (with_path base relative code k) Q h =
   (case joined_path PATH_MAX base relative of None \<Rightarrow> Q code h | Some path \<Rightarrow> wp (k path) Q h)"
  by (simp add: with_path_def wp_simps split: option.split)

lemma wp_run_steps [wp_simps]:
  "wp (run_steps []) Q h = Q 0 h"
  "wp (run_steps (m # ms)) Q h = wp m (\<lambda>r h'. if r \<noteq> 0 then Q r h' else wp (run_steps ms) Q h') h"
  by (simp_all add: wp_simps if_distribR cong: if_cong) (simp add: wp_def split: prod.splits)

section \<open>What a program has done when it succeeds\<close>

text \<open>
  \<open>establishes P m\<close>: from any state, a run of \<open>m\<close> with result 0 ends in \<open>P\<close>. \<open>keeps P m\<close>: every run
  from \<open>P\<close> ends in \<open>P\<close>. A list of steps establishes what one of them does and the later ones keep.
\<close>

definition establishes :: "(host \<Rightarrow> bool) \<Rightarrow> (host, int) state \<Rightarrow> bool" where
  "establishes P m \<longleftrightarrow> (\<forall>h. wp m (\<lambda>r h'. r = 0 \<longrightarrow> P h') h)"

definition keeps :: "(host \<Rightarrow> bool) \<Rightarrow> (host, 'a) state \<Rightarrow> bool" where
  "keeps P m \<longleftrightarrow> (\<forall>h. P h \<longrightarrow> wp m (\<lambda>r h'. P h') h)"

lemma keeps_run_steps: "list_all (keeps P) ms \<Longrightarrow> keeps P (run_steps ms)"
proof (induction ms)
  case (Cons m ms)
  have "wp (run_steps (m # ms)) (\<lambda>r h'. P h') h" if "P h" for h
    unfolding wp_run_steps
    by (rule wp_mono [of m "\<lambda>r h'. P h'"]) (use Cons that in \<open>auto simp: keeps_def\<close>)
  then show ?case
    by (simp add: keeps_def)
qed (simp add: keeps_def wp_simps)

lemma establishes_step:
  "establishes P m \<Longrightarrow> list_all (keeps P) ms \<Longrightarrow> establishes P (run_steps (m # ms))"
proof -
  assume m: "establishes P m" and ms: "list_all (keeps P) ms"
  have "wp (run_steps (m # ms)) (\<lambda>r h'. r = 0 \<longrightarrow> P h') h" for h
    unfolding wp_run_steps
  proof (rule wp_mono)
    show "wp m (\<lambda>r h'. r = 0 \<longrightarrow> P h') h"
      using m by (simp add: establishes_def)
    show "if a \<noteq> 0 then a = 0 \<longrightarrow> P s' else wp (run_steps ms) (\<lambda>r h'. r = 0 \<longrightarrow> P h') s'"
      if "a = 0 \<longrightarrow> P s'" for a s'
      using that keeps_run_steps [OF ms] by (auto simp: keeps_def elim: wp_mono)
  qed
  then show ?thesis by (simp add: establishes_def)
qed

lemma establishes_later:
  "establishes P (run_steps ms) \<Longrightarrow> establishes P (run_steps (m # ms))"
  unfolding establishes_def wp_run_steps by (auto intro: wp_mono [OF wpI])

text \<open>What is in the trace stays there.\<close>

lemma keeps_event: "emits_only C m \<Longrightarrow> keeps (\<lambda>h. e \<in> set (h_trace h)) m"
  unfolding keeps_def by (auto intro!: wpI dest!: emits_trace)

lemma establishes_event: "code \<noteq> 0 \<Longrightarrow> establishes (\<lambda>h. (c, 0) \<in> set (h_trace h)) (step env c code)"
  by (auto simp: establishes_def wp_simps Let_def)

text \<open>
  \<open>performs es m\<close>: a run extends the trace, and when its result is 0 it made the calls \<open>es\<close> in this
  order, with these results.
\<close>

definition performs :: "event list \<Rightarrow> (host, int) state \<Rightarrow> bool" where
  "performs es m \<longleftrightarrow>
     (\<forall>h. wp m (\<lambda>r h'. \<exists>xs. h_trace h' = h_trace h @ xs \<and> (r = 0 \<longrightarrow> subseq es xs)) h)"

lemma performs_nothing: "emits_only C m \<Longrightarrow> performs [] m"
  unfolding performs_def by (auto intro!: wpI dest!: emits_trace)

lemma performs_step: "code \<noteq> 0 \<Longrightarrow> performs [(c, 0)] (step env c code)"
  by (auto simp: performs_def wp_simps Let_def)

lemma performs_return: "performs [] (return r)"
  by (simp add: performs_def wp_simps)

lemma performs_refused: "r \<noteq> 0 \<Longrightarrow> performs es (return r)"
  by (simp add: performs_def wp_simps)

lemma performs_Nil: "performs [] (run_steps [])"
  by (simp add: performs_def wp_simps)

lemma performs_Cons:
  assumes "performs es m" "performs fs (run_steps ms)"
  shows "performs (es @ fs) (run_steps (m # ms))"
  unfolding performs_def
proof
  fix h
  show "wp (run_steps (m # ms)) (\<lambda>r h'. \<exists>xs. h_trace h' = h_trace h @ xs \<and> (r = 0 \<longrightarrow> subseq (es @ fs) xs)) h"
    unfolding wp_run_steps
  proof (rule wp_mono)
    show "wp m (\<lambda>r h'. \<exists>xs. h_trace h' = h_trace h @ xs \<and> (r = 0 \<longrightarrow> subseq es xs)) h"
      using assms(1) by (simp add: performs_def)
    fix r :: int and h' :: host
    assume "\<exists>xs. h_trace h' = h_trace h @ xs \<and> (r = 0 \<longrightarrow> subseq es xs)"
    then obtain xs where xs: "h_trace h' = h_trace h @ xs" "r = 0 \<longrightarrow> subseq es xs" by blast
    have "wp (run_steps ms) (\<lambda>r h''. \<exists>ys. h_trace h'' = h_trace h' @ ys \<and> (r = 0 \<longrightarrow> subseq fs ys)) h'"
      using assms(2) by (simp add: performs_def)
    then show "if r \<noteq> 0 then \<exists>xs. h_trace h' = h_trace h @ xs \<and> (r = 0 \<longrightarrow> subseq (es @ fs) xs)
      else wp (run_steps ms) (\<lambda>r h'. \<exists>xs. h_trace h' = h_trace h @ xs \<and> (r = 0 \<longrightarrow> subseq (es @ fs) xs)) h'"
      using xs by (auto elim!: wp_mono intro: list_emb_append_mono)
  qed
qed

lemma performs_run:
  assumes "performs es m" "run_state m h = (0, h')"
  shows "\<exists>xs. h_trace h' = h_trace h @ xs \<and> subseq es xs"
  using assms wpD [of m _ h 0 h'] by (fastforce simp: performs_def)

text \<open>What the result of a program satisfies, and what follows for the calls of its continuation.\<close>

definition returns :: "('a \<Rightarrow> bool) \<Rightarrow> (host, 'a) state \<Rightarrow> bool" where
  "returns P m \<longleftrightarrow> (\<forall>h. wp m (\<lambda>a _. P a) h)"

lemma returns_ask: "(\<And>t. P (f t)) \<Longrightarrow> returns P (ask c f)"
  by (simp add: returns_def wp_simps)

lemma emits_bind_returns:
  assumes "emits_only C m" "returns P m" "\<And>a. P a \<Longrightarrow> emits_only C (k a)"
  shows "emits_only C (m \<bind> k)"
proof -
  have "extends C h (snd (run_state (m \<bind> k) h))" for h
  proof -
    obtain a h1 where run: "run_state m h = (a, h1)" by fastforce
    have "extends C h h1" "P a"
      using assms(1) wpD [OF _ run, of "\<lambda>a _. P a"] assms(2) run
      by (auto simp: returns_def state_io_rel_def dest: spec [of _ h])
    then show ?thesis
      using assms(3) [of a] emits.R_trans [of C h h1] by (simp add: run state_io_rel_def)
  qed
  then show ?thesis by (simp add: state_io_rel_def)
qed

lemma wp_any: "(\<And>a h'. wp (k a) Q h') \<Longrightarrow> wp (m \<bind> k) Q h"
  by (auto simp: wp_bind intro: wpI)

text \<open>The laws once more, for a program inside the postcondition of another.\<close>

lemma wp_fun: "wp (m \<bind> k) Q = wp m (\<lambda>a. wp (k a) Q)" "wp (return x) R = R x"
  by (simp_all add: fun_eq_iff wp_simps)

lemma wp_True [simp]: "wp m (\<lambda>_ _. True) = (\<lambda>_. True)"
  by (simp add: fun_eq_iff wpI)

declare run_steps.simps [simp del]

end
