(* ===== verification/Host_Logic.thy ===== *)
theory Host_Logic
  imports Host
begin

text \<open>
  Rules on calls that depend on the history: a call is lawful or not after the calls made before
  it. A triple \<open>governed A P m Q\<close> says that from a host that satisfies \<open>P\<close>, every call of \<open>m\<close> is
  lawful by \<open>A\<close>, and the result and the host after it satisfy \<open>Q\<close>.
\<close>

section \<open>Lawful traces\<close>

fun obeys :: "(event list \<Rightarrow> event \<Rightarrow> bool) \<Rightarrow> event list \<Rightarrow> event list \<Rightarrow> bool" where
  "obeys A T [] = True"
| "obeys A T (x # es) = (A T x \<and> obeys A (T @ [x]) es)"

lemma obeys_append [simp]: "obeys A T (es @ fs) \<longleftrightarrow> obeys A T es \<and> obeys A (T @ es) fs"
  by (induction es arbitrary: T) auto

lemma obeys_at: "obeys A T es \<Longrightarrow> es = xs @ x # ys \<Longrightarrow> A (T @ xs) x"
  by simp

lemma obeys_all: "list_all (\<lambda>x. \<forall>T. A T x) es \<Longrightarrow> obeys A T es"
  by (induction es arbitrary: T) auto

definition lawful :: "(event list \<Rightarrow> event \<Rightarrow> bool) \<Rightarrow> host \<Rightarrow> host \<Rightarrow> bool" where
  "lawful A h h' \<longleftrightarrow> (\<exists>es. h_trace h' = h_trace h @ es \<and> obeys A (h_trace h) es)"

interpretation lw: step_relation "lawful A" for A
proof
  show "lawful A s s" for s by (auto simp: lawful_def)
  show "lawful A s t \<Longrightarrow> lawful A t u \<Longrightarrow> lawful A s u" for s t u
    unfolding lawful_def by (elim exE conjE) (rule exI [of _ "_ @ _"], auto)
qed

lemma lawful_log: "A (h_trace h) (c, e) \<Longrightarrow> lawful A h (h\<lparr>h_trace := h_trace h @ [(c, e)]\<rparr>)"
  by (simp add: lawful_def)

lemma lawful_extends: "extends C h h' \<Longrightarrow> (\<And>T x. C x \<Longrightarrow> A T x) \<Longrightarrow> lawful A h h'"
  unfolding extends_def lawful_def by (elim exE conjE, intro exI conjI, assumption, rule obeys_all) (auto simp: list_all_iff)

section \<open>Triples\<close>

definition governed ::
  "(event list \<Rightarrow> event \<Rightarrow> bool) \<Rightarrow> (host \<Rightarrow> bool) \<Rightarrow> (host, 'a) state \<Rightarrow> ('a \<Rightarrow> host \<Rightarrow> bool) \<Rightarrow> bool" where
  "governed A P m Q \<longleftrightarrow> (\<forall>h. P h \<longrightarrow> wp m (\<lambda>a h'. lawful A h h' \<and> Q a h') h)"

text \<open>What stays true while calls are made and the files are left alone.\<close>

definition stable :: "(host \<Rightarrow> bool) \<Rightarrow> bool" where
  "stable P \<longleftrightarrow> (\<forall>h h'. P h \<longrightarrow> prefix (h_trace h) (h_trace h') \<longrightarrow> h_files h' = h_files h \<longrightarrow> P h')"

named_theorems gov_intros \<open>rules for triples\<close>

lemma gov_bind [gov_intros]:
  assumes "governed A P m Q" "\<And>a. governed A (Q a) (k a) R"
  shows "governed A P (m \<bind> k) R"
  unfolding governed_def wp_bind
proof (intro allI impI)
  fix h :: host
  assume "P h"
  have "wp m (\<lambda>a h'. lawful A h h' \<and> Q a h') h"
    using assms(1) \<open>P h\<close> by (simp add: governed_def)
  then show "wp m (\<lambda>a. wp (k a) (\<lambda>a h'. lawful A h h' \<and> R a h')) h"
  proof (rule wp_mono)
    fix a h1 assume "lawful A h h1 \<and> Q a h1"
    then show "wp (k a) (\<lambda>a h'. lawful A h h' \<and> R a h') h1"
      using assms(2) [of a, unfolded governed_def] by (auto elim!: wp_mono intro: lw.R_trans)
  qed
qed

lemma gov_return [gov_intros]: "(\<And>h. P h \<Longrightarrow> Q x h) \<Longrightarrow> governed A P (return x) Q"
  by (simp add: governed_def wp_simps lw.R_refl)

lemma gov_gets [gov_intros]: "(\<And>h. P h \<Longrightarrow> Q (f h) h) \<Longrightarrow> governed A P (gets f) Q"
  by (simp add: governed_def wp_simps lw.R_refl)

lemma gov_if [gov_intros]:
  "(b \<Longrightarrow> governed A P m1 Q) \<Longrightarrow> (\<not> b \<Longrightarrow> governed A P m2 Q) \<Longrightarrow> governed A P (if b then m1 else m2) Q"
  by simp

lemma gov_option [gov_intros]:
  "(x = None \<Longrightarrow> governed A P m1 Q) \<Longrightarrow> (\<And>a. x = Some a \<Longrightarrow> governed A P (m2 a) Q) \<Longrightarrow>
   governed A P (case x of None \<Rightarrow> m1 | Some a \<Rightarrow> m2 a) Q"
  by (cases x) simp_all

lemma gov_sum [gov_intros]:
  "(\<And>a. x = Inl a \<Longrightarrow> governed A P (m1 a) Q) \<Longrightarrow> (\<And>a. x = Inr a \<Longrightarrow> governed A P (m2 a) Q) \<Longrightarrow>
   governed A P (case x of Inl a \<Rightarrow> m1 a | Inr a \<Rightarrow> m2 a) Q"
  by (cases x) simp_all

lemma gov_prod [gov_intros]:
  "(\<And>a b. x = (a, b) \<Longrightarrow> governed A P (m a b) Q) \<Longrightarrow> governed A P (case x of (a, b) \<Rightarrow> m a b) Q"
  by (cases x) simp

lemma gov_with_path [gov_intros]:
  "(joined_path PATH_MAX base relative = None \<Longrightarrow> governed A P (return code) Q) \<Longrightarrow>
   (\<And>path. joined_path PATH_MAX base relative = Some path \<Longrightarrow> governed A P (k path) Q) \<Longrightarrow>
   governed A P (with_path base relative code k) Q"
  unfolding with_path_def by (rule gov_option)

lemma gov_call:
  "(\<And>h e. P h \<Longrightarrow> e = on_call env (h_trace h) c \<Longrightarrow> A (h_trace h) (c, e) \<and> Q e (h\<lparr>h_trace := h_trace h @ [(c, e)]\<rparr>)) \<Longrightarrow>
   governed A P (call env c) Q"
  by (simp add: governed_def wp_simps lawful_log)

lemma gov_ask:
  "(\<And>h. P h \<Longrightarrow> A (h_trace h) (c, 0) \<and> Q (f (h_trace h)) (h\<lparr>h_trace := h_trace h @ [(c, 0)]\<rparr>)) \<Longrightarrow>
   governed A P (ask c f) Q"
  by (simp add: governed_def wp_simps lawful_log)

text \<open>Harmless calls, and programs that make only such calls, keep what is stable.\<close>

lemma stable_log: "stable P \<Longrightarrow> P h \<Longrightarrow> P (h\<lparr>h_trace := h_trace h @ es\<rparr>)"
  unfolding stable_def by (erule allE [of _ h]) (auto intro: prefixI)

lemma gov_call_keeps: "stable P \<Longrightarrow> (\<And>T e. A T (c, e)) \<Longrightarrow> governed A P (call env c) (\<lambda>_. P)"
  by (rule gov_call) (simp add: stable_log)

lemma gov_ask_keeps: "stable P \<Longrightarrow> (\<And>T. A T (c, 0)) \<Longrightarrow> governed A P (ask c f) (\<lambda>_. P)"
  by (rule gov_ask) (simp add: stable_log)

lemma gov_quiet:
  assumes "quietly C m" "stable P" "\<And>T x. C x \<Longrightarrow> A T x"
  shows "governed A P m (\<lambda>_. P)"
  unfolding governed_def
proof (intro allI impI)
  fix h :: host
  assume "P h"
  show "wp m (\<lambda>_ h'. lawful A h h' \<and> P h') h"
  proof (rule wp_mono [OF state_io_rel_wp [OF assms(1)]])
    fix h' :: host
    assume q: "quiet C h h'"
    then have "lawful A h h'" by (auto simp: quiet_def intro: lawful_extends assms(3))
    moreover have "prefix (h_trace h) (h_trace h')" "h_files h' = h_files h"
      using q by (auto simp: quiet_def extends_def)
    ultimately show "lawful A h h' \<and> P h'"
      using assms(2) \<open>P h\<close> unfolding stable_def by blast
  qed
qed

lemma gov_emits:
  assumes "emits_only C m" "\<And>T x. C x \<Longrightarrow> A T x"
  shows "governed A P m (\<lambda>_ _. True)"
  unfolding governed_def
  by (auto intro!: wp_mono [OF state_io_rel_wp [OF assms(1)]] lawful_extends assms(2))

lemma gov_conseq:
  assumes "governed A P m Q" "\<And>h. P' h \<Longrightarrow> P h" "\<And>a h. Q a h \<Longrightarrow> Q' a h"
  shows "governed A P' m Q'"
  using assms(1) unfolding governed_def by (auto intro: assms(2,3) elim!: wp_mono)

lemma gov_post: "governed A P m Q \<Longrightarrow> (\<And>a h. Q a h \<Longrightarrow> Q' a h) \<Longrightarrow> governed A P m Q'"
  by (rule gov_conseq)

lemma gov_pre: "governed A P m Q \<Longrightarrow> (\<And>h. P' h \<Longrightarrow> P h) \<Longrightarrow> governed A P' m Q"
  by (rule gov_conseq)

lemma gov_fact: "(b \<Longrightarrow> governed A P m Q) \<Longrightarrow> governed A (\<lambda>h. b \<and> P h) m Q"
  by (auto simp: governed_def)

lemma stable_rules:
  "stable (\<lambda>_. b)" "stable P \<Longrightarrow> stable Q \<Longrightarrow> stable (\<lambda>h. P h \<and> Q h)" "stable (\<lambda>h. h_files h = fs)"
  "(\<And>x. stable (R x)) \<Longrightarrow> stable (\<lambda>h. \<exists>x. R x h)"
  "stable (\<lambda>h. x \<in> set (h_trace h))" "stable (\<lambda>h. \<exists>t. prefix t (h_trace h) \<and> p t)"
  "stable (\<lambda>h. \<exists>t. prefix (t @ [x]) (h_trace h) \<and> p t)"
  unfolding stable_def using prefix_order.trans set_mono_prefix by blast+

text \<open>
  A rule together with the calls it never restricts. Programs that make only such calls are lawful
  after any history; those that leave the files alone also keep what is stable.
\<close>

locale history_policy =
  fixes rule :: "event list \<Rightarrow> event \<Rightarrow> bool" and free :: "host_call \<Rightarrow> bool"
  assumes free_rule: "free c \<Longrightarrow> rule T (c, e)"
begin

lemma free_event_rule: "(\<lambda>(c, e). free c) x \<Longrightarrow> rule T x"
  by (cases x) (auto intro: free_rule)

lemma free_call: "stable P \<Longrightarrow> free c \<Longrightarrow> governed rule P (call env c) (\<lambda>_. P)"
  by (rule gov_call_keeps) (simp_all add: free_rule)

lemma free_ask: "stable P \<Longrightarrow> free c \<Longrightarrow> governed rule P (ask c f) (\<lambda>_. P)"
  by (rule gov_ask_keeps) (simp_all add: free_rule)

lemma free_quiet: "quietly (\<lambda>(c, e). free c) m \<Longrightarrow> stable P \<Longrightarrow> governed rule P m (\<lambda>_. P)"
  by (erule gov_quiet) (auto intro: free_event_rule)

lemma free_emits: "emits_only (\<lambda>(c, e). free c) m \<Longrightarrow> governed rule P m (\<lambda>_ _. True)"
  by (erule gov_emits) (rule free_event_rule)

end

lemma governed_run:
  assumes "governed A P m Q" "P h" "run_state m h = (r, h')"
  shows "\<exists>es. h_trace h' = h_trace h @ es \<and> obeys A (h_trace h) es" "Q r h'"
proof -
  have "lawful A h h' \<and> Q r h'"
    using wpD [OF _ assms(3), of "\<lambda>a h'. lawful A h h' \<and> Q a h'"] assms(1,2) by (simp add: governed_def)
  then show "\<exists>es. h_trace h' = h_trace h @ es \<and> obeys A (h_trace h) es" "Q r h'"
    by (auto simp: lawful_def)
qed

section \<open>Programs after a history\<close>

text \<open>
  \<open>after A K m\<close>: from every host whose history begins with \<open>K\<close>, every call of \<open>m\<close> is lawful by \<open>A\<close>. What a
  call needs to have happened before it is a fact about \<open>K\<close>; an answer of the host extends \<open>K\<close>.
\<close>

definition since :: "(event list \<Rightarrow> event \<Rightarrow> bool) \<Rightarrow> event list \<Rightarrow> host \<Rightarrow> host \<Rightarrow> bool" where
  "since A K h h' \<longleftrightarrow> (prefix K (h_trace h) \<longrightarrow> lawful A h h')"

lemma lawful_prefix: "lawful A h h' \<Longrightarrow> prefix K (h_trace h) \<Longrightarrow> prefix K (h_trace h')"
  by (auto simp: lawful_def)

interpretation af: step_relation "since A K" for A K
proof
  show "since A K s s" for s by (simp add: since_def lw.R_refl)
  show "since A K s t \<Longrightarrow> since A K t u \<Longrightarrow> since A K s u" for s t u
    unfolding since_def using lawful_prefix lw.R_trans by blast
qed

abbreviation after :: "(event list \<Rightarrow> event \<Rightarrow> bool) \<Rightarrow> event list \<Rightarrow> (host, 'a) state \<Rightarrow> bool" where
  "after A K m \<equiv> state_io_rel (since A K) m"

lemma after_mono: "after A K m \<Longrightarrow> prefix K K' \<Longrightarrow> after A K' m"
  unfolding state_io_rel_def since_def using prefix_order.trans by blast

lemma after_emits: "emits_only C m \<Longrightarrow> (\<And>T x. C x \<Longrightarrow> prefix K T \<Longrightarrow> A T x) \<Longrightarrow> after A K m"
proof -
  assume m: "emits_only C m" and C: "\<And>T x. C x \<Longrightarrow> prefix K T \<Longrightarrow> A T x"
  have "obeys A T es" if "list_all C es" "prefix K T" for es T
    using that by (induction es arbitrary: T) (auto intro: C)
  then show ?thesis
    using m unfolding state_io_rel_def since_def lawful_def extends_def by blast
qed

lemma after_call: "(\<And>T e. prefix K T \<Longrightarrow> A T (c, e)) \<Longrightarrow> after A K (call env c)"
  by (rule after_emits [where C = "\<lambda>x. fst x = c"]) (auto intro!: emits_intros)

lemma after_ask:
  assumes "\<And>T. prefix K T \<Longrightarrow> A T (c, 0)" "\<And>t. prefix K t \<Longrightarrow> after A (t @ [(c, 0)]) (k (f t))"
  shows "after A K (ask c f \<bind> k)"
proof -
  have "lawful A h (snd (run_state (ask c f \<bind> k) h))" if K: "prefix K (h_trace h)" for h
  proof -
    let ?h = "h\<lparr>h_trace := h_trace h @ [(c, 0)]\<rparr>"
    have "run_state (ask c f) h = (f (h_trace h), ?h)"
      by (simp add: ask_def log_call_def gets_def modify_def)
    then have "run_state (ask c f \<bind> k) h = run_state (k (f (h_trace h))) ?h" by simp
    moreover have "since A (h_trace h @ [(c, 0)]) ?h (snd (run_state (k (f (h_trace h))) ?h))"
      using assms(2) [OF K] by (simp add: state_io_rel_def)
    moreover have "lawful A h ?h"
      by (rule lawful_log) (rule assms(1) [OF K])
    ultimately show ?thesis by (auto simp: since_def intro: lw.R_trans)
  qed
  then show ?thesis by (simp add: state_io_rel_def since_def)
qed

lemma after_returns:
  assumes "after A K m" "returns P m" "\<And>a. P a \<Longrightarrow> after A K (k a)"
  shows "after A K (m \<bind> k)"
proof -
  have "since A K h (snd (run_state (m \<bind> k) h))" for h
  proof -
    obtain a h1 where run: "run_state m h = (a, h1)" by fastforce
    have "since A K h h1" using assms(1) run by (auto simp: state_io_rel_def dest: spec [of _ h])
    moreover have "P a" using wpD [OF _ run, of "\<lambda>a _. P a"] assms(2) by (simp add: returns_def)
    then have "since A K h1 (snd (run_state (k a) h1))" using assms(3) by (simp add: state_io_rel_def)
    ultimately show ?thesis using run by (auto intro: af.R_trans)
  qed
  then show ?thesis by (simp add: state_io_rel_def)
qed

lemma after_run: "after A [] m \<Longrightarrow> run_state m h = (r, h') \<Longrightarrow> \<exists>es. h_trace h' = h_trace h @ es \<and> obeys A (h_trace h) es"
  by (auto simp: state_io_rel_def since_def lawful_def dest: spec [of _ h])

end
