(* ===== verification/Cgroup_Setup.thy ===== *)
theory Cgroup_Setup
  imports Host
begin

text \<open>
  The launcher's cgroups (\<open>bfu_namespace_probe.c\<close>): the private mounts of the unified and the
  legacy hierarchies, the delegated subtrees, the negotiation of a mode, the views of them inside
  the root file system, and their removal. Each definition is the function of its name; its
  result is the exit code, 0 for success.
\<close>

unbundle bit_operations_syntax

section \<open>Directories and bind mounts\<close>

definition ensure_directory_path :: "host_env \<Rightarrow> string \<Rightarrow> u32 \<Rightarrow> (host, int) state" where
  "ensure_directory_path env path mode = do {
     r \<leftarrow> ask (Lstat path) (\<lambda>t. on_lstat env t path);
     case r of
       Inr v \<Rightarrow> return (if st_kind v = Directory then 0 else 44)
     | Inl e \<Rightarrow> if e \<noteq> ENOENT then return 44 else step env (Mkdir path mode) 44
   }"

definition bind_recursively :: "host_env \<Rightarrow> string \<Rightarrow> string \<Rightarrow> (host, int) state" where
  "bind_recursively env source target = run_steps
     [step env (Mount (Some source) target None (MS_BIND OR MS_REC) None) 40,
      step env (Mount None target None (MS_SLAVE OR MS_REC) None) 41]"

definition make_bind_read_only :: "host_env \<Rightarrow> string \<Rightarrow> (host, int) state" where
  "make_bind_read_only env path = run_steps
     [step env (Mount (Some path) path None MS_BIND None) 42,
      step env (Mount None path None
        (MS_BIND OR MS_REMOUNT OR MS_RDONLY OR MS_NOSUID OR MS_NODEV OR MS_NOEXEC) None) 43]"

section \<open>Paths\<close>

definition kSystemdCgroupMountName :: string where "kSystemdCgroupMountName = ''systemd-cgroup''"
definition kDevicesCgroupMountName :: string where "kDevicesCgroupMountName = ''devices-cgroup''"
definition kUnifiedCgroupMountName :: string where "kUnifiedCgroupMountName = ''unified-cgroup''"
definition kCgroupChildName :: string where "kCgroupChildName = ''dawnshell''"
definition kCgroupPayloadName :: string where "kCgroupPayloadName = ''payload''"
definition kCgroupCommandName :: string where "kCgroupCommandName = ''dawnshell-command''"

text \<open>The mount point of a hierarchy and the delegated child in it.\<close>

definition delegated_cgroup_paths :: "string \<Rightarrow> string \<Rightarrow> (string \<times> string) option" where
  "delegated_cgroup_paths control_dir mount_name = do {
     mount_path \<leftarrow> joined_path PATH_MAX control_dir mount_name;
     child_path \<leftarrow> joined_path PATH_MAX mount_path kCgroupChildName;
     Some (mount_path, child_path)
   }"

definition unified_cgroup_paths :: "string \<Rightarrow> (string \<times> string \<times> string) option" where
  "unified_cgroup_paths control_dir = do {
     (mount_path, child_path) \<leftarrow> delegated_cgroup_paths control_dir kUnifiedCgroupMountName;
     payload_path \<leftarrow> joined_path PATH_MAX child_path kCgroupPayloadName;
     Some (mount_path, child_path, payload_path)
   }"

section \<open>The unified hierarchy\<close>

definition write_cgroup_value :: "host_env \<Rightarrow> string \<Rightarrow> string \<Rightarrow> (host, int) state" where
  "write_cgroup_value env path v = do {
     e \<leftarrow> call env (Write_value path v);
     return (if e = 0 then 0 else -1)
   }"

text \<open>The delimiters \<open>" \t\r\n"\<close>.\<close>

definition is_blank :: "char \<Rightarrow> bool" where
  "is_blank c \<longleftrightarrow> c \<in> set [CHR '' '', CHR 0x09, CHR 0x0D, CHR 0x0A]"

fun enable_controllers :: "host_env \<Rightarrow> string \<Rightarrow> string list \<Rightarrow> (host, unit) state" where
  "enable_controllers env subtree_path [] = return ()"
| "enable_controllers env subtree_path (name # rest) =
     (let operation = CHR ''+'' # name @ [CHR 0x0A]
      in if length operation \<ge> 96 then enable_controllers env subtree_path rest
         else do {
           _ \<leftarrow> write_cgroup_value env subtree_path operation;
           enable_controllers env subtree_path rest
         })"

definition enable_available_v2_controllers :: "host_env \<Rightarrow> string \<Rightarrow> (host, int) state" where
  "enable_available_v2_controllers env child_path =
     with_path child_path ''cgroup.controllers'' 113 (\<lambda>controllers_path.
     with_path child_path ''cgroup.subtree_control'' 113 (\<lambda>subtree_path. do {
       r \<leftarrow> ask (Read_file controllers_path) (\<lambda>t. on_read env t controllers_path);
       case r of
         Inl e \<Rightarrow> return 113
       | Inr contents \<Rightarrow> do {
           enable_controllers env subtree_path (tokens is_blank (c_text 4095 contents));
           return 0
         }
     }))"

text \<open>The device programs of \<open>Device_Policy\<close>, run on the host's cgroups.\<close>

definition host_probe_cgroup_device_bpf :: "host_env \<Rightarrow> string \<Rightarrow> (host, int) state" where
  "host_probe_cgroup_device_bpf env child_path = do {
     (r, k) \<leftarrow> gets (\<lambda>h. probe_cgroup_device_bpf (on_bpf env (h_trace h)) child_path (h_cgroups h));
     modify (\<lambda>h. h\<lparr>h_cgroups := k\<rparr>);
     log_call (Bpf_probe child_path) (nat r);
     return r
   }"

definition host_apply_usb_v2_policy :: "host_env \<Rightarrow> string \<Rightarrow> HostUsbPolicy \<Rightarrow> (host, int) state" where
  "host_apply_usb_v2_policy env payload_path policy = do {
     (r, k) \<leftarrow> gets (\<lambda>h. apply_host_usb_v2_policy (on_bpf env (h_trace h)) payload_path policy (h_cgroups h));
     modify (\<lambda>h. h\<lparr>h_cgroups := k\<rparr>);
     log_call (Bpf_policy payload_path) (nat r);
     return r
   }"

definition prepare_unified_cgroup_mount :: "host_env \<Rightarrow> string \<Rightarrow> HostUsbPolicy \<Rightarrow> (host, int) state" where
  "prepare_unified_cgroup_mount env control_dir policy =
     (case unified_cgroup_paths control_dir of
        None \<Rightarrow> return 110
      | Some (mount_path, child_path, payload_path) \<Rightarrow> run_steps
          [ensure_directory_path env mount_path 0x1C0,
           step env (Mount (Some ''dawnshell-unified'') mount_path (Some ''cgroup2'')
             (MS_NOSUID OR MS_NODEV OR MS_NOEXEC) None) 111,
           ensure_directory_path env child_path 0x1ED,
           enable_available_v2_controllers env child_path,
           host_probe_cgroup_device_bpf env child_path,
           ensure_directory_path env payload_path 0x1ED,
           host_apply_usb_v2_policy env payload_path policy])"

section \<open>The legacy hierarchies\<close>

definition prepare_systemd_cgroup_mount :: "host_env \<Rightarrow> string \<Rightarrow> (host, int) state" where
  "prepare_systemd_cgroup_mount env control_dir =
     (case delegated_cgroup_paths control_dir kSystemdCgroupMountName of
        None \<Rightarrow> return 45
      | Some (mount_path, child_path) \<Rightarrow> run_steps
          [ensure_directory_path env mount_path 0x1C0,
           step env (Mount (Some ''dawnshell'') mount_path (Some ''cgroup'')
             (MS_NOSUID OR MS_NODEV OR MS_NOEXEC) (Some ''none,name=systemd'')) 46,
           ensure_directory_path env child_path 0x1ED])"

text \<open>\<open>sscanf\<close>'s \<open>%63s\<close> and \<open>%d\<close>.\<close>

definition scan_word :: "nat \<Rightarrow> string \<Rightarrow> (string \<times> string) option" where
  "scan_word n s =
     (let t = dropWhile is_space s; w = take n (takeWhile (\<lambda>c. \<not> is_space c) t)
      in if w = [] then None else Some (w, drop (length w) t))"

definition scan_int :: "string \<Rightarrow> (int \<times> string) option" where
  "scan_int s =
     (let t = dropWhile is_space s;
          u = (if t \<noteq> [] \<and> hd t \<in> set ''+-'' then tl t else t);
          ds = takeWhile is_digit u
      in if ds = [] then None
         else Some ((if hd t = CHR ''-'' then - int (digits_val 0 ds) else int (digits_val 0 ds)),
                    drop (length ds) u))"

text \<open>A row of \<open>/proc/cgroups\<close>: the controller's name and its \<open>enabled\<close> column.\<close>

definition cgroups_row :: "string \<Rightarrow> (string \<times> int) option" where
  "cgroups_row line = do {
     (name, r1) \<leftarrow> scan_word 63 line;
     (hierarchy, r2) \<leftarrow> scan_int r1;
     (cgroups, r3) \<leftarrow> scan_int r2;
     (enabled, r4) \<leftarrow> scan_int r3;
     Some (name, enabled)
   }"

fun devices_row :: "string list \<Rightarrow> bool" where
  "devices_row [] = False"
| "devices_row (line # rest) =
     (case cgroups_row line of
        None \<Rightarrow> devices_row rest
      | Some (name, enabled) \<Rightarrow> if name \<noteq> ''devices'' then devices_row rest else enabled \<noteq> 0)"

definition devices_controller_available :: "host_env \<Rightarrow> (host, bool) state" where
  "devices_controller_available env = do {
     r \<leftarrow> ask (Read_file ''/proc/cgroups'') (\<lambda>t. on_read env t ''/proc/cgroups'');
     return (case r of
               Inl e \<Rightarrow> False
             | Inr contents \<Rightarrow>
                 contents \<noteq> [] \<and> devices_row (tokens (\<lambda>c. c = CHR 0x0A) (c_text 4095 contents)))
   }"

definition usb_deny_rule :: string where "usb_deny_rule = ''c 189:* rwm'' @ [CHR 0x0A]"

definition prepare_devices_cgroup_mount :: "host_env \<Rightarrow> string \<Rightarrow> HostUsbPolicy \<Rightarrow> (host, int) state" where
  "prepare_devices_cgroup_mount env control_dir policy =
     (case delegated_cgroup_paths control_dir kDevicesCgroupMountName of
        None \<Rightarrow> return 90
      | Some (mount_path, child_path) \<Rightarrow> run_steps
          [ensure_directory_path env mount_path 0x1C0,
           step env (Mount (Some ''dawnshell-devices'') mount_path (Some ''cgroup'')
             (MS_NOSUID OR MS_NODEV OR MS_NOEXEC) (Some ''devices'')) 91,
           ensure_directory_path env child_path 0x1ED,
           with_path child_path ''devices.list'' 92 (\<lambda>interface_path. step env (Open_read interface_path) 93),
           (if policy = HOST_USB_OFF
            then with_path child_path ''devices.deny'' 118 (\<lambda>interface_path. do {
                   r \<leftarrow> write_cgroup_value env interface_path usb_deny_rule;
                   return (if r \<noteq> 0 then 118 else 0)
                 })
            else return 0),
           with_path child_path ''devices.list'' 92 (\<lambda>interface_path. do {
             _ \<leftarrow> ask (Read_file interface_path) (\<lambda>t. on_read env t interface_path);
             return 0
           })])"

section \<open>Moving into the delegated subtrees\<close>

definition move_self_to_cgroup :: "host_env \<Rightarrow> string \<Rightarrow> int \<Rightarrow> (host, int) state" where
  "move_self_to_cgroup env child_path failure_code =
     with_path child_path ''cgroup.procs'' failure_code (\<lambda>procs_path.
       step env (Write_value procs_path (dec_int (env_pid env) @ [CHR 0x0A])) failure_code)"

definition move_self_to_delegated_subtrees :: "host_env \<Rightarrow> string \<Rightarrow> bool \<Rightarrow> (host, int) state" where
  "move_self_to_delegated_subtrees env control_dir devices_delegated =
     (case delegated_cgroup_paths control_dir kSystemdCgroupMountName of
        None \<Rightarrow> return 47
      | Some (systemd_mount, systemd_child) \<Rightarrow> run_steps
          [move_self_to_cgroup env systemd_child 49,
           (if \<not> devices_delegated then return 0
            else case delegated_cgroup_paths control_dir kDevicesCgroupMountName of
                   None \<Rightarrow> return 47
                 | Some (devices_mount, devices_child) \<Rightarrow> move_self_to_cgroup env devices_child 94)])"

definition move_self_to_delegated_mode :: "host_env \<Rightarrow> string \<Rightarrow> CgroupMode \<Rightarrow> (host, int) state" where
  "move_self_to_delegated_mode env control_dir mode =
     (if mode = CGROUP_MODE_V2 then
        (case unified_cgroup_paths control_dir of
           None \<Rightarrow> return 115
         | Some (mount_path, child_path, payload_path) \<Rightarrow> move_self_to_cgroup env payload_path 115)
      else if \<not> cgroup_mode_is_legacy mode then return 115
      else move_self_to_delegated_subtrees env control_dir (mode = CGROUP_MODE_V1))"

definition move_self_to_delegated_command :: "host_env \<Rightarrow> string \<Rightarrow> CgroupMode \<Rightarrow> (host, int) state" where
  "move_self_to_delegated_command env control_dir mode =
     (if mode \<noteq> CGROUP_MODE_V2 then move_self_to_delegated_mode env control_dir mode
      else case unified_cgroup_paths control_dir of
             None \<Rightarrow> return 115
           | Some (mount_path, child_path, payload_path) \<Rightarrow>
               with_path payload_path kCgroupCommandName 115 (\<lambda>command_path. run_steps
                 [ensure_directory_path env command_path 0x1ED,
                  move_self_to_cgroup env command_path 115]))"

definition move_self_to_delegated_cgroups :: "host_env \<Rightarrow> string \<Rightarrow> CgroupMode \<Rightarrow> (host, int) state" where
  "move_self_to_delegated_cgroups env control_dir mode = run_steps
     [move_self_to_delegated_mode env control_dir mode,
      step env (Unshare CLONE_NEWCGROUP) 50]"

section \<open>Views\<close>

definition bind_delegated_cgroup_view ::
  "host_env \<Rightarrow> string \<Rightarrow> string \<Rightarrow> string \<Rightarrow> string \<Rightarrow> int \<Rightarrow> (host, int) state" where
  "bind_delegated_cgroup_view env control_dir mount_name cgroup_root view_name failure_code =
     (case delegated_cgroup_paths control_dir mount_name of
        None \<Rightarrow> return failure_code
      | Some (mount_path, source) \<Rightarrow>
          with_path cgroup_root view_name failure_code (\<lambda>target. run_steps
            [ensure_directory_path env target 0x1ED,
             step env (Mount (Some source) target None (MS_BIND OR MS_REC) None) failure_code]))"

definition mount_delegated_cgroup_views :: "host_env \<Rightarrow> string \<Rightarrow> string \<Rightarrow> CgroupMode \<Rightarrow> (host, int) state" where
  "mount_delegated_cgroup_views env root control_dir mode =
     with_path root ''sys/fs/cgroup'' 51 (\<lambda>cgroup_root.
       if mode = CGROUP_MODE_V2 then
         (case unified_cgroup_paths control_dir of
            None \<Rightarrow> return 116
          | Some (mount_path, child_path, payload_path) \<Rightarrow>
              step env (Mount (Some payload_path) cgroup_root None (MS_BIND OR MS_REC) None) 116)
       else if \<not> cgroup_mode_is_legacy mode then return 116
       else run_steps
         [step env (Mount (Some ''tmpfs'') cgroup_root (Some ''tmpfs'')
            (MS_NOSUID OR MS_NODEV OR MS_NOEXEC) (Some ''mode=0755,size=1m'')) 52,
          bind_delegated_cgroup_view env control_dir kSystemdCgroupMountName cgroup_root ''systemd'' 53,
          (if mode = CGROUP_MODE_V1_NO_DEVICES then return 0
           else bind_delegated_cgroup_view env control_dir kDevicesCgroupMountName cgroup_root ''devices'' 95)])"

section \<open>Removal\<close>

text \<open>
  \<open>remove_cgroup_descendants\<close>: \<open>None\<close> is the result 0, otherwise the error. The number of levels
  left is 65 for depth 0, so that none is left at the depth above 64 the code refuses.
\<close>

fun remove_entries ::
  "(string \<Rightarrow> (host, nat option) state) \<Rightarrow> host_env \<Rightarrow> string \<Rightarrow> string list \<Rightarrow> (host, nat option) state" where
  "remove_entries descend env path [] = return None"
| "remove_entries descend env path (name # rest) =
     (if name = ''.'' \<or> name = ''..'' then remove_entries descend env path rest
      else case joined_path PATH_MAX path name of
             None \<Rightarrow> return (Some ENAMETOOLONG)
           | Some child \<Rightarrow> do {
               s \<leftarrow> ask (Lstat child) (\<lambda>t. on_lstat env t child);
               case s of
                 Inl e \<Rightarrow> if e = ENOENT then remove_entries descend env path rest else return (Some e)
               | Inr v \<Rightarrow>
                   if st_kind v \<noteq> Directory then remove_entries descend env path rest
                   else do {
                     d \<leftarrow> descend child;
                     case d of
                       Some e \<Rightarrow> return (Some e)
                     | None \<Rightarrow> do {
                         e \<leftarrow> call env (Rmdir child);
                         if e \<noteq> 0 \<and> e \<noteq> ENOENT then return (Some e)
                         else remove_entries descend env path rest
                       }
                   }
             })"

primrec remove_cgroup_descendants :: "host_env \<Rightarrow> nat \<Rightarrow> string \<Rightarrow> (host, nat option) state" where
  "remove_cgroup_descendants env 0 path = return (Some ELOOP)"
| "remove_cgroup_descendants env (Suc levels) path = do {
     r \<leftarrow> ask (List_directory path) (\<lambda>t. on_list env t path);
     case r of
       Inl e \<Rightarrow> return (if e = ENOENT then None else Some e)
     | Inr names \<Rightarrow> remove_entries (remove_cgroup_descendants env levels) env path names
   }"

definition detach_mount_for_cleanup :: "host_env \<Rightarrow> string \<Rightarrow> (host, unit) state" where
  "detach_mount_for_cleanup env path = do {
     _ \<leftarrow> call env (Umount path);
     return ()
   }"

text \<open>The attempts to remove the delegated child; the result is \<open>child_removed\<close>.\<close>

primrec cleanup_attempts :: "host_env \<Rightarrow> string \<Rightarrow> nat \<Rightarrow> (host, bool) state" where
  "cleanup_attempts env child_path 0 = return False"
| "cleanup_attempts env child_path (Suc n) = do {
     d \<leftarrow> remove_cgroup_descendants env 65 child_path;
     e \<leftarrow> (case d of
            Some e \<Rightarrow> return (Some e)
          | None \<Rightarrow> do {
              r \<leftarrow> call env (Rmdir child_path);
              return (if r = 0 \<or> r = ENOENT then None else Some r)
            });
     case e of
       None \<Rightarrow> return True
     | Some e \<Rightarrow>
         if e \<noteq> EBUSY \<and> e \<noteq> ENOTEMPTY then return False
         else do {
           _ \<leftarrow> call env (Sleep 100000);
           cleanup_attempts env child_path n
         }
   }"

definition cleanup_cgroup_hierarchy :: "host_env \<Rightarrow> string \<Rightarrow> string \<Rightarrow> (host, unit) state" where
  "cleanup_cgroup_hierarchy env control_dir mount_name =
     (case delegated_cgroup_paths control_dir mount_name of
        None \<Rightarrow> return ()
      | Some (mount_path, child_path) \<Rightarrow> do {
          _ \<leftarrow> cleanup_attempts env child_path 20;
          detach_mount_for_cleanup env mount_path;
          _ \<leftarrow> call env (Rmdir mount_path);
          return ()
        })"

definition cleanup_delegated_cgroups :: "host_env \<Rightarrow> string \<Rightarrow> string \<Rightarrow> (host, unit) state" where
  "cleanup_delegated_cgroups env root control_dir = do {
     (case (do {
              cgroup_root \<leftarrow> joined_path PATH_MAX root ''sys/fs/cgroup'';
              systemd_view \<leftarrow> joined_path PATH_MAX cgroup_root ''systemd'';
              devices_view \<leftarrow> joined_path PATH_MAX cgroup_root ''devices'';
              Some (cgroup_root, systemd_view, devices_view)
            }) of
        None \<Rightarrow> return ()
      | Some (cgroup_root, systemd_view, devices_view) \<Rightarrow> do {
          detach_mount_for_cleanup env devices_view;
          detach_mount_for_cleanup env systemd_view;
          detach_mount_for_cleanup env cgroup_root
        });
     cleanup_cgroup_hierarchy env control_dir kUnifiedCgroupMountName;
     cleanup_cgroup_hierarchy env control_dir kDevicesCgroupMountName;
     cleanup_cgroup_hierarchy env control_dir kSystemdCgroupMountName
   }"

section \<open>Negotiation\<close>

text \<open>The result code and, when it is 0, the mode.\<close>

definition prepare_legacy_cgroup_mounts ::
  "host_env \<Rightarrow> string \<Rightarrow> HostUsbPolicy \<Rightarrow> (host, int \<times> CgroupMode) state" where
  "prepare_legacy_cgroup_mounts env control_dir policy = do {
     available \<leftarrow> devices_controller_available env;
     if \<not> available then
       (if policy \<noteq> HOST_USB_OFF then return (120, CGROUP_MODE_UNKNOWN)
        else do {
          r \<leftarrow> prepare_systemd_cgroup_mount env control_dir;
          return (if r \<noteq> 0 then (r, CGROUP_MODE_UNKNOWN) else (0, CGROUP_MODE_V1_NO_DEVICES))
        })
     else do {
       r \<leftarrow> run_steps [prepare_devices_cgroup_mount env control_dir policy,
                      prepare_systemd_cgroup_mount env control_dir];
       return (if r \<noteq> 0 then (r, CGROUP_MODE_UNKNOWN) else (0, CGROUP_MODE_V1))
     }
   }"

definition negotiate_legacy :: "host_env \<Rightarrow> string \<Rightarrow> HostUsbPolicy \<Rightarrow> (host, int \<times> CgroupMode) state" where
  "negotiate_legacy env control_dir policy = do {
     (r, mode) \<leftarrow> prepare_legacy_cgroup_mounts env control_dir policy;
     if r \<noteq> 0 then do {
       cleanup_cgroup_hierarchy env control_dir kDevicesCgroupMountName;
       cleanup_cgroup_hierarchy env control_dir kSystemdCgroupMountName;
       return (r, mode)
     } else return (0, mode)
   }"

definition negotiate_cgroup_mode ::
  "host_env \<Rightarrow> string \<Rightarrow> CgroupPolicy \<Rightarrow> HostUsbPolicy \<Rightarrow> (host, int \<times> CgroupMode) state" where
  "negotiate_cgroup_mode env control_dir policy usb =
     (if policy = CGROUP_POLICY_FORCE_V1 then negotiate_legacy env control_dir usb
      else do {
        r \<leftarrow> prepare_unified_cgroup_mount env control_dir usb;
        if r = 0 then return (0, CGROUP_MODE_V2)
        else do {
          cleanup_cgroup_hierarchy env control_dir kUnifiedCgroupMountName;
          if policy = CGROUP_POLICY_FORCE_V2 then return (117, CGROUP_MODE_UNKNOWN)
          else negotiate_legacy env control_dir usb
        }
      })"

section \<open>What the cgroup programs change\<close>

context area_policy
begin

lemma quiet_ensure_directory: "area path \<Longrightarrow> quietly allowed (ensure_directory_path env path mode)"
  unfolding ensure_directory_path_def by (intro area_intros) auto

lemma quiet_bind_recursively: "area target \<Longrightarrow> quietly allowed (bind_recursively env source target)"
  unfolding bind_recursively_def by (intro area_intros) auto

lemma quiet_make_bind_read_only: "area path \<Longrightarrow> quietly allowed (make_bind_read_only env path)"
  unfolding make_bind_read_only_def by (intro area_intros) auto

lemma quiet_write_cgroup_value: "area path \<Longrightarrow> quietly allowed (write_cgroup_value env path v)"
  unfolding write_cgroup_value_def by (intro area_intros) auto

lemma delegated_area:
  "delegated_cgroup_paths control_dir name = Some (m, c) \<Longrightarrow> area control_dir \<Longrightarrow> area m \<and> area c"
  unfolding delegated_cgroup_paths_def by (auto intro: area_joined split: Option.bind_splits)

lemma unified_area:
  "unified_cgroup_paths control_dir = Some (m, c, p) \<Longrightarrow> area control_dir \<Longrightarrow> area m \<and> area c \<and> area p"
  unfolding unified_cgroup_paths_def by (auto dest!: delegated_area intro: area_joined split: Option.bind_splits)

lemma quiet_enable_controllers: "area subtree \<Longrightarrow> quietly allowed (enable_controllers env subtree names)"
proof (induction names)
  case (Cons name names)
  then show ?case
    by (simp add: Let_def) (intro conjI impI area_intros quiet_write_cgroup_value; simp)
qed (auto intro: area_intros)

lemma quiet_enable_available: "area child \<Longrightarrow> quietly allowed (enable_available_v2_controllers env child)"
  unfolding enable_available_v2_controllers_def
  by (intro area_intros quiet_enable_controllers) (auto intro: area_joined)

lemma quiet_host_probe: "area child \<Longrightarrow> quietly allowed (host_probe_cgroup_device_bpf env child)"
  unfolding host_probe_cgroup_device_bpf_def
  by (intro area_intros quiet_log quiet.io_modify harmless_allowed) (auto simp: quiet_def extends_def)

lemma quiet_host_policy: "area payload \<Longrightarrow> quietly allowed (host_apply_usb_v2_policy env payload policy)"
  unfolding host_apply_usb_v2_policy_def
  by (intro area_intros quiet_log quiet.io_modify harmless_allowed) (auto simp: quiet_def extends_def)

lemmas directory_intros = area_intros quiet_ensure_directory quiet_bind_recursively quiet_make_bind_read_only
  quiet_write_cgroup_value quiet_enable_available quiet_host_probe quiet_host_policy

lemma quiet_prepare_unified:
  "area control_dir \<Longrightarrow> quietly allowed (prepare_unified_cgroup_mount env control_dir policy)"
  unfolding prepare_unified_cgroup_mount_def
  by (intro directory_intros) (auto dest!: unified_area)

lemma quiet_prepare_systemd:
  "area control_dir \<Longrightarrow> quietly allowed (prepare_systemd_cgroup_mount env control_dir)"
  unfolding prepare_systemd_cgroup_mount_def
  by (intro directory_intros) (auto dest!: delegated_area)

lemma quiet_prepare_devices:
  "area control_dir \<Longrightarrow> quietly allowed (prepare_devices_cgroup_mount env control_dir policy)"
  unfolding prepare_devices_cgroup_mount_def
  by (intro directory_intros) (auto dest!: delegated_area intro: area_joined)

lemma quiet_move_self: "area child \<Longrightarrow> quietly allowed (move_self_to_cgroup env child code)"
  unfolding move_self_to_cgroup_def by (intro area_intros) (auto intro: area_joined)

lemma quiet_move_mode: "area control_dir \<Longrightarrow> quietly allowed (move_self_to_delegated_mode env control_dir mode)"
  unfolding move_self_to_delegated_mode_def move_self_to_delegated_subtrees_def
  by (intro area_intros quiet_move_self) (auto dest!: delegated_area unified_area)

lemma quiet_move_command:
  "area control_dir \<Longrightarrow> quietly allowed (move_self_to_delegated_command env control_dir mode)"
  unfolding move_self_to_delegated_command_def
  by (intro area_intros quiet_move_mode quiet_move_self quiet_ensure_directory)
    (auto dest!: unified_area intro: area_joined)

lemma quiet_cgroup_views:
  "area root \<Longrightarrow> quietly allowed (mount_delegated_cgroup_views env root control_dir mode)"
  unfolding mount_delegated_cgroup_views_def bind_delegated_cgroup_view_def
  by (intro area_intros quiet_ensure_directory) (auto intro: area_joined)

lemma quiet_remove_entries:
  "(\<And>child. area child \<Longrightarrow> quietly allowed (descend child)) \<Longrightarrow> area path \<Longrightarrow>
   quietly allowed (remove_entries descend env path names)"
proof (induction names)
  case (Cons name names)
  then show ?case
    by (simp split del: if_split) (intro area_intros; auto intro: area_joined)
qed (auto intro: area_intros)

lemma quiet_remove_descendants:
  "area path \<Longrightarrow> quietly allowed (remove_cgroup_descendants env levels path)"
proof (induction levels arbitrary: path)
  case (Suc levels)
  then show ?case
    by (simp split del: if_split) (intro area_intros quiet_remove_entries; auto)
qed (auto intro: area_intros)

lemma quiet_cleanup_attempts: "area child \<Longrightarrow> quietly allowed (cleanup_attempts env child n)"
proof (induction n)
  case (Suc n)
  then show ?case
    by (simp split del: if_split) (intro area_intros quiet_remove_descendants; auto)
qed (auto intro: area_intros)

lemma quiet_detach: "area path \<Longrightarrow> quietly allowed (detach_mount_for_cleanup env path)"
  unfolding detach_mount_for_cleanup_def by (intro area_intros) auto

lemma quiet_cleanup_hierarchy:
  "area control_dir \<Longrightarrow> quietly allowed (cleanup_cgroup_hierarchy env control_dir name)"
  unfolding cleanup_cgroup_hierarchy_def
  by (intro area_intros quiet_cleanup_attempts quiet_detach) (auto dest!: delegated_area)

lemma quiet_cleanup_delegated:
  "area root \<Longrightarrow> area control_dir \<Longrightarrow> quietly allowed (cleanup_delegated_cgroups env root control_dir)"
  unfolding cleanup_delegated_cgroups_def
  by (intro area_intros quiet_cleanup_hierarchy quiet_detach)
    (auto intro: area_joined split: Option.bind_splits)

lemma quiet_negotiate_legacy: "area control_dir \<Longrightarrow> quietly allowed (negotiate_legacy env control_dir usb)"
  unfolding negotiate_legacy_def prepare_legacy_cgroup_mounts_def devices_controller_available_def
  by (intro area_intros quiet_prepare_systemd quiet_prepare_devices quiet_cleanup_hierarchy) auto

lemma quiet_negotiate:
  "area control_dir \<Longrightarrow> quietly allowed (negotiate_cgroup_mode env control_dir policy usb)"
  unfolding negotiate_cgroup_mode_def
  by (intro area_intros quiet_prepare_unified quiet_negotiate_legacy quiet_cleanup_hierarchy)

end

section \<open>What a negotiated mode enforces\<close>

text \<open>
  The USB nodes are closed to the payload: on the unified hierarchy its cgroup's programs deny
  major 189; on the legacy one the deny rule was written to the delegated child.
\<close>

definition usb_denied :: "string \<Rightarrow> CgroupMode \<Rightarrow> host \<Rightarrow> bool" where
  "usb_denied control_dir mode h \<longleftrightarrow>
     (if mode = CGROUP_MODE_V2
      then \<exists>m c payload. unified_cgroup_paths control_dir = Some (m, c, payload)
             \<and> (\<forall>a. access_major a = 189 \<longrightarrow> \<not> device_allowed (h_cgroups h) payload a)
      else \<exists>m c deny. delegated_cgroup_paths control_dir kDevicesCgroupMountName = Some (m, c)
             \<and> joined_path PATH_MAX c ''devices.deny'' = Some deny
             \<and> (Write_value deny usb_deny_rule, 0) \<in> set (h_trace h))"

text \<open>Every program only extends the trace.\<close>

interpretation any: area_policy "\<lambda>_. True" "\<lambda>_. True"
  by unfold_locales simp_all

lemma unified_denies:
  "establishes (usb_denied control_dir CGROUP_MODE_V2) (prepare_unified_cgroup_mount env control_dir HOST_USB_OFF)"
proof (cases "unified_cgroup_paths control_dir")
  case None
  then show ?thesis by (simp add: prepare_unified_cgroup_mount_def establishes_def wp_simps)
next
  case (Some paths)
  obtain m c p where paths: "paths = (m, c, p)" by (cases paths) auto
  have "establishes (usb_denied control_dir CGROUP_MODE_V2) (host_apply_usb_v2_policy env p HOST_USB_OFF)"
    unfolding establishes_def
  proof
    fix h :: host
    obtain r k where rk: "apply_host_usb_v2_policy (on_bpf env (h_trace h)) p HOST_USB_OFF (h_cgroups h) = (r, k)"
      by fastforce
    show "wp (host_apply_usb_v2_policy env p HOST_USB_OFF) (\<lambda>r h'. r = 0 \<longrightarrow> usb_denied control_dir CGROUP_MODE_V2 h') h"
      using policy_effect(3) [OF rk, of p] Some paths
      by (auto simp: host_apply_usb_v2_policy_def wp_simps rk usb_denied_def)
  qed
  then show ?thesis
    unfolding prepare_unified_cgroup_mount_def Some paths option.case prod.case
    by (intro establishes_later establishes_step) simp_all
qed

lemma devices_denies:
  "establishes (usb_denied control_dir CGROUP_MODE_V1) (prepare_devices_cgroup_mount env control_dir HOST_USB_OFF)"
proof (cases "delegated_cgroup_paths control_dir kDevicesCgroupMountName")
  case None
  then show ?thesis by (simp add: prepare_devices_cgroup_mount_def establishes_def wp_simps)
next
  case (Some paths)
  obtain m c where paths: "paths = (m, c)" by (cases paths) auto
  have "establishes (usb_denied control_dir CGROUP_MODE_V1) (with_path c ''devices.deny'' 118 (\<lambda>interface_path. do {
      r \<leftarrow> write_cgroup_value env interface_path usb_deny_rule;
      return (if r \<noteq> 0 then 118 else 0)
    }))"
    using Some paths
    by (auto simp: establishes_def wp_simps write_cgroup_value_def usb_denied_def split: option.split)
  moreover have "keeps (usb_denied control_dir CGROUP_MODE_V1) (with_path c ''devices.list'' 92 (\<lambda>p. do {
      _ \<leftarrow> ask (Read_file p) (\<lambda>t. on_read env t p); return 0 :: (host, int) state }))"
    by (auto simp: keeps_def wp_simps usb_denied_def split: option.split)
  ultimately show ?thesis
    unfolding prepare_devices_cgroup_mount_def Some paths option.case prod.case
    by (simp only: refl if_True) (rule establishes_later, rule establishes_later, rule establishes_later,
      rule establishes_later, rule establishes_step; simp)
qed

lemma usb_denied_grows:
  "mode \<noteq> CGROUP_MODE_V2 \<Longrightarrow> emits_only C m \<Longrightarrow> keeps (usb_denied control_dir mode) m"
  unfolding usb_denied_def keeps_def by (auto intro!: wpI dest!: emits_trace)

lemma legacy_devices:
  "wp (run_steps [prepare_devices_cgroup_mount env control_dir usb, prepare_systemd_cgroup_mount env control_dir])
    (\<lambda>r h'. r = 0 \<longrightarrow> (usb = HOST_USB_OFF \<longrightarrow> usb_denied control_dir CGROUP_MODE_V1 h')) h"
proof (cases "usb = HOST_USB_OFF")
  case True
  have "establishes (usb_denied control_dir CGROUP_MODE_V1)
    (run_steps [prepare_devices_cgroup_mount env control_dir HOST_USB_OFF, prepare_systemd_cgroup_mount env control_dir])"
    using usb_denied_grows [OF _ quietly_emits [OF any.quiet_prepare_systemd]] by (simp add: establishes_step devices_denies)
  then show ?thesis
    using True by (simp add: establishes_def)
qed (simp add: wp_run)

lemma legacy_enforces:
  "wp (negotiate_legacy env control_dir usb)
    (\<lambda>(r, mode) h'. r = 0 \<longrightarrow>
       (mode = CGROUP_MODE_V1 \<and> (usb = HOST_USB_OFF \<longrightarrow> usb_denied control_dir mode h')
        \<or> mode = CGROUP_MODE_V1_NO_DEVICES \<and> usb = HOST_USB_OFF)) h"
proof -
  have "wp (prepare_legacy_cgroup_mounts env control_dir usb)
    (\<lambda>(r, mode) h'. r = 0 \<longrightarrow>
       (mode = CGROUP_MODE_V1 \<and> (usb = HOST_USB_OFF \<longrightarrow> usb_denied control_dir mode h')
        \<or> mode = CGROUP_MODE_V1_NO_DEVICES \<and> usb = HOST_USB_OFF)) h"
    unfolding prepare_legacy_cgroup_mounts_def devices_controller_available_def
    by (auto simp: wp_bind wp_ask wp_return wp_if intro!: wp_mono [OF legacy_devices]
        wp_mono [OF state_io_rel_wp [OF any.quiet_prepare_systemd]] split: if_splits)
  then show ?thesis
    unfolding negotiate_legacy_def wp_bind
    by (rule wp_mono) (auto simp: wp_simps intro!: wp_mono [OF state_io_rel_wp [OF any.quiet_cleanup_hierarchy]])
qed

text \<open>The mode of a successful negotiation is one the policies admit, with the USB policy enforced.\<close>

definition negotiated :: "string \<Rightarrow> CgroupPolicy \<Rightarrow> HostUsbPolicy \<Rightarrow> CgroupMode \<Rightarrow> host \<Rightarrow> bool" where
  "negotiated control_dir policy usb mode h \<longleftrightarrow>
     (mode = CGROUP_MODE_V2 \<and> policy \<noteq> CGROUP_POLICY_FORCE_V1
      \<or> mode = CGROUP_MODE_V1 \<and> policy \<noteq> CGROUP_POLICY_FORCE_V2
      \<or> mode = CGROUP_MODE_V1_NO_DEVICES \<and> policy \<noteq> CGROUP_POLICY_FORCE_V2 \<and> usb = HOST_USB_OFF)
     \<and> (usb = HOST_USB_OFF \<and> mode \<noteq> CGROUP_MODE_V1_NO_DEVICES \<longrightarrow> usb_denied control_dir mode h)"

lemma negotiate_enforces:
  "wp (negotiate_cgroup_mode env control_dir policy usb)
    (\<lambda>(r, mode) h'. r = 0 \<longrightarrow> negotiated control_dir policy usb mode h') h"
proof -
  have unified: "wp (prepare_unified_cgroup_mount env control_dir usb)
    (\<lambda>r h'. r = 0 \<longrightarrow> (usb = HOST_USB_OFF \<longrightarrow> usb_denied control_dir CGROUP_MODE_V2 h')) h"
    using unified_denies [of control_dir env] by (cases usb) (auto simp: establishes_def wp_run)
  have legacy: "wp (negotiate_legacy env control_dir usb)
    (\<lambda>(r, mode) h'. r = 0 \<longrightarrow> negotiated control_dir policy usb mode h') h"
    if "policy \<noteq> CGROUP_POLICY_FORCE_V2" for h
    by (rule wp_mono [OF legacy_enforces]) (use that in \<open>auto simp: negotiated_def\<close>)
  show ?thesis
  proof (cases "policy = CGROUP_POLICY_FORCE_V1")
    case True
    then show ?thesis
      using legacy by (simp add: negotiate_cgroup_mode_def)
  next
    case False
    then have v2: "negotiated control_dir policy usb CGROUP_MODE_V2 h'"
      if "usb = HOST_USB_OFF \<longrightarrow> usb_denied control_dir CGROUP_MODE_V2 h'" for h'
      using that by (simp add: negotiated_def)
    show ?thesis
      unfolding negotiate_cgroup_mode_def if_not_P [OF False] wp_bind
      by (rule wp_mono [OF unified])
        (auto simp: wp_bind wp_if v2 wp_return intro!: wp_mono [OF state_io_rel_wp [OF any.quiet_cleanup_hierarchy]] legacy)
  qed
qed

end
