(* ===== verification/Namespace_Setup.thy ===== *)
theory Namespace_Setup
  imports Cgroup_Setup
begin

text \<open>
  The launcher's view of the root file system and the processes that enter it
  (\<open>bfu_namespace_probe.c\<close>): the checks of the root file system and the control directory, the
  private namespaces, the mounts below the root, and the programs that end in the execution of
  Debian's init, shell or SSH daemon. A result of 0 of an entry program means that \<open>execv\<close>
  succeeded.
\<close>

unbundle bit_operations_syntax

section \<open>Checks\<close>

definition check :: "(host, bool) state \<Rightarrow> int \<Rightarrow> (host, int) state" where
  "check m code = do {
     b \<leftarrow> m;
     return (if b then 0 else code)
   }"

definition stat_is :: "(file_stat \<Rightarrow> bool) \<Rightarrow> nat + file_stat \<Rightarrow> bool" where
  "stat_is p r = (case r of Inl e \<Rightarrow> False | Inr v \<Rightarrow> p v)"

definition is_directory :: "host_env \<Rightarrow> string \<Rightarrow> (host, bool) state" where
  "is_directory env path = do {
     r \<leftarrow> ask (Lstat path) (\<lambda>t. on_lstat env t path);
     return (stat_is (\<lambda>v. st_kind v = Directory) r)
   }"

definition is_regular_executable :: "host_env \<Rightarrow> string \<Rightarrow> (host, bool) state" where
  "is_regular_executable env path = do {
     r \<leftarrow> ask (Stat path) (\<lambda>t. on_stat env t path);
     if \<not> stat_is (\<lambda>v. st_kind v = Regular) r then return False
     else do {
       e \<leftarrow> call env (Access path);
       return (e = 0)
     }
   }"

definition group_or_world_writable :: "file_stat \<Rightarrow> bool" where
  "group_or_world_writable v \<longleftrightarrow> st_mode v AND 0x12 \<noteq> 0"

definition is_safe_root_marker :: "host_env \<Rightarrow> string \<Rightarrow> (host, bool) state" where
  "is_safe_root_marker env path = do {
     r \<leftarrow> ask (Lstat path) (\<lambda>t. on_lstat env t path);
     return (stat_is (\<lambda>v. st_kind v = Regular \<and> st_uid v = 0 \<and> \<not> group_or_world_writable v) r)
   }"

definition has_line :: "string \<Rightarrow> string \<Rightarrow> bool" where
  "has_line expected contents \<longleftrightarrow>
     contents \<noteq> [] \<and> expected \<in> set (tokens (\<lambda>c. c = CHR 0x0A) (c_text 4095 contents))"

definition file_has_exact_line :: "host_env \<Rightarrow> string \<Rightarrow> string \<Rightarrow> (host, bool) state" where
  "file_has_exact_line env path expected = do {
     r \<leftarrow> ask (Read_file path) (\<lambda>t. on_read env t path);
     return (case r of Inl e \<Rightarrow> False | Inr contents \<Rightarrow> has_line expected contents)
   }"

definition kAllowedRoot :: string where "kAllowedRoot = ''/data/local/debian''"
definition kReadyMarker :: string where "kReadyMarker = ''.dawnshell-systemd-ready''"

definition kArchitectureMarker :: "host_env \<Rightarrow> string" where
  "kArchitectureMarker env = ''architecture='' @ env_arch env"

text \<open>A marker file: safe, and holding each of the lines.\<close>

definition check_marker :: "host_env \<Rightarrow> string \<Rightarrow> string \<Rightarrow> string list \<Rightarrow> int \<Rightarrow> (host, int) state" where
  "check_marker env root name lines code =
     with_path root name code (\<lambda>path. run_steps
       (check (is_safe_root_marker env path) code
        # map (\<lambda>line. check (file_has_exact_line env path line) code) lines))"

definition check_executable :: "host_env \<Rightarrow> string \<Rightarrow> int \<Rightarrow> string \<Rightarrow> (host, int) state" where
  "check_executable env root code name =
     with_path root name code (\<lambda>path. check (is_regular_executable env path) code)"

definition required_tools :: "string list" where
  "required_tools = [''usr/bin/systemctl'', ''usr/bin/journalctl'', ''usr/bin/busctl'', ''usr/bin/timeout'',
     ''usr/bin/ss'', ''usr/bin/mawk'', ''usr/bin/touch'', ''usr/sbin/shutdown'']"

text \<open>The checks of the root directory itself.\<close>

definition check_root_directory :: "host_env \<Rightarrow> string \<Rightarrow> (host, int) state" where
  "check_root_directory env root = do {
     r \<leftarrow> ask (Lstat root) (\<lambda>t. on_lstat env t root);
     case r of
       Inl e \<Rightarrow> return 21
     | Inr v \<Rightarrow>
         if st_kind v \<noteq> Directory then return 22
         else if st_uid v \<noteq> 0 then return 23
         else if group_or_world_writable v then return 23
         else do {
           p \<leftarrow> ask (Realpath root) (\<lambda>t. on_realpath env t root);
           return (case p of Inl e \<Rightarrow> 24 | Inr resolved \<Rightarrow> if resolved \<noteq> kAllowedRoot then 25 else 0)
         }
   }"

definition validate_rootfs :: "host_env \<Rightarrow> string \<Rightarrow> bool \<Rightarrow> (host, int) state" where
  "validate_rootfs env root require_systemd =
     (if root \<noteq> kAllowedRoot then return 20
      else run_steps
        ([check_root_directory env root,
          check_marker env root ''.dawnshell-rootfs'' [''suite=trixie'', kArchitectureMarker env] 26,
          check_executable env root 27 ''bin/sh'']
         @ map (\<lambda>name. with_path root name 28 (\<lambda>path. check (is_directory env path) 29))
             [''dev'', ''proc'', ''sys'', ''run'']
         @ (if require_systemd
            then [check_marker env root kReadyMarker
                    [''suite=trixie'', kArchitectureMarker env, ''ssh_service=ssh.service'',
                     ''boot_proof_service=dawnshell-boot-proof.service'', ''ssh_user=debian'', ''ssh_port=22''] 30,
                  check_executable env root 31 ''sbin/init'']
                 @ map (check_executable env root 31) required_tools
            else [])))"

definition validate_control_directory :: "host_env \<Rightarrow> string option \<Rightarrow> (host, int) state" where
  "validate_control_directory env control_dir =
     (case control_dir of
        None \<Rightarrow> return 32
      | Some path \<Rightarrow>
          if path = [] \<or> hd path \<noteq> CHR ''/'' then return 32
          else do {
            r \<leftarrow> ask (Lstat path) (\<lambda>t. on_lstat env t path);
            return (case r of
                      Inl e \<Rightarrow> 33
                    | Inr v \<Rightarrow> if st_kind v \<noteq> Directory then 34
                              else if group_or_world_writable v then 35 else 0)
          })"

section \<open>Mounts below the root\<close>

definition bind_android_runtime_tree ::
  "host_env \<Rightarrow> string \<Rightarrow> string \<Rightarrow> string \<Rightarrow> bool \<Rightarrow> (host, int) state" where
  "bind_android_runtime_tree env root source relative required = do {
     r \<leftarrow> ask (Lstat source) (\<lambda>t. on_lstat env t source);
     case r of
       Inl e \<Rightarrow> return (if \<not> required \<and> e = ENOENT then 0 else 45)
     | Inr v \<Rightarrow>
         if st_kind v \<noteq> Directory then return (if \<not> required then 0 else 45)
         else with_path root relative 45 (\<lambda>target. run_steps
           [ensure_directory_path env target 0x1ED,
            bind_recursively env source target,
            step env (Mount None target None (MS_BIND OR MS_REMOUNT OR MS_RDONLY OR MS_NOSUID OR MS_NODEV) None) 45])
   }"

text \<open>The number of character devices below \<open>usb_path\<close>, which is only reported.\<close>

fun count_devices :: "host_env \<Rightarrow> string \<Rightarrow> string list \<Rightarrow> (host, int) state" where
  "count_devices env bus_path [] = return 0"
| "count_devices env bus_path (name # rest) =
     (if name = ''.'' \<or> name = ''..'' then count_devices env bus_path rest
      else case joined_path PATH_MAX bus_path name of
             None \<Rightarrow> count_devices env bus_path rest
           | Some device_path \<Rightarrow> do {
               r \<leftarrow> ask (Lstat device_path) (\<lambda>t. on_lstat env t device_path);
               n \<leftarrow> count_devices env bus_path rest;
               return (if stat_is (\<lambda>v. st_kind v = Character) r then n + 1 else n)
             })"

fun count_buses :: "host_env \<Rightarrow> string \<Rightarrow> string list \<Rightarrow> (host, int) state" where
  "count_buses env usb_path [] = return 0"
| "count_buses env usb_path (name # rest) =
     (if name = ''.'' \<or> name = ''..'' then count_buses env usb_path rest
      else case joined_path PATH_MAX usb_path name of
             None \<Rightarrow> count_buses env usb_path rest
           | Some bus_path \<Rightarrow> do {
               directory \<leftarrow> is_directory env bus_path;
               if \<not> directory then count_buses env usb_path rest
               else do {
                 r \<leftarrow> ask (List_directory bus_path) (\<lambda>t. on_list env t bus_path);
                 n \<leftarrow> (case r of Inl e \<Rightarrow> return 0 | Inr names \<Rightarrow> count_devices env bus_path names);
                 m \<leftarrow> count_buses env usb_path rest;
                 return (n + m)
               }
             })"

definition count_host_usb_nodes :: "host_env \<Rightarrow> string \<Rightarrow> (host, int) state" where
  "count_host_usb_nodes env usb_path = do {
     r \<leftarrow> ask (List_directory usb_path) (\<lambda>t. on_list env t usb_path);
     case r of Inl e \<Rightarrow> return (-1) | Inr names \<Rightarrow> count_buses env usb_path names
   }"

definition configure_host_usb_mount :: "host_env \<Rightarrow> string \<Rightarrow> HostUsbPolicy \<Rightarrow> (host, int) state" where
  "configure_host_usb_mount env root policy =
     with_path root ''dev/bus/usb'' 119 (\<lambda>usb_path. do {
       r \<leftarrow> ask (Lstat usb_path) (\<lambda>t. on_lstat env t usb_path);
       case r of
         Inl e \<Rightarrow> return (if e \<noteq> ENOENT then 119 else 0)
       | Inr v \<Rightarrow>
           if st_kind v \<noteq> Directory then return 119
           else if policy \<noteq> HOST_USB_OFF then do {
             _ \<leftarrow> count_host_usb_nodes env usb_path;
             return 0
           }
           else step env (Mount (Some ''dawnshell-usb-blocked'') usb_path (Some ''tmpfs'')
             (MS_RDONLY OR MS_NOSUID OR MS_NODEV OR MS_NOEXEC) (Some ''mode=000,size=4k'')) 119
     })"

definition kHostRebootFifoName :: string where "kHostRebootFifoName = ''host-reboot.fifo''"

text \<open>The bridge for reboot requests: the checked FIFO of the control directory, bound below \<open>run\<close>.\<close>

definition mount_reboot_bridge :: "host_env \<Rightarrow> string \<Rightarrow> string \<Rightarrow> (host, int) state" where
  "mount_reboot_bridge env root control_dir =
     with_path control_dir kHostRebootFifoName 52 (\<lambda>source.
     with_path root ''run/dawnshell-host-reboot'' 52 (\<lambda>target. do {
       r \<leftarrow> ask (Lstat source) (\<lambda>t. on_lstat env t source);
       if \<not> stat_is (\<lambda>v. st_kind v = Fifo \<and> st_uid v = 0 \<and> st_mode v AND 0x1FF = 0x180) r then return 52
       else run_steps
         [step env (Create_exclusive target 0x180) 52,
          step env (Mount (Some source) target None MS_BIND None) 52]
     }))"

definition prepare_child_mounts ::
  "host_env \<Rightarrow> string \<Rightarrow> string \<Rightarrow> bool \<Rightarrow> CgroupMode \<Rightarrow> HostUsbPolicy \<Rightarrow> (host, int) state" where
  "prepare_child_mounts env root control_dir systemd_mode mode policy = run_steps
     [step env (Mount (Some root) root None (MS_BIND OR MS_REC) None) 44,
      step env (Mount None root None (MS_PRIVATE OR MS_REC) None) 44,
      step env (Mount None root None (MS_BIND OR MS_REMOUNT OR MS_NODEV) None) 44,
      with_path root ''dev'' 44 (\<lambda>path. bind_recursively env ''/dev'' path),
      configure_host_usb_mount env root policy,
      bind_android_runtime_tree env root ''/system'' ''system'' True,
      bind_android_runtime_tree env root ''/apex'' ''apex'' True,
      bind_android_runtime_tree env root ''/linkerconfig'' ''linkerconfig'' False,
      with_path root ''sys'' 45 (\<lambda>path. run_steps
        [bind_recursively env ''/sys'' path,
         step env (Mount None path None
           (MS_BIND OR MS_REMOUNT OR MS_RDONLY OR MS_NOSUID OR MS_NODEV OR MS_NOEXEC) None) 45]),
      (if systemd_mode then mount_delegated_cgroup_views env root control_dir mode else return 0),
      with_path root ''proc'' 46 (\<lambda>path.
        step env (Mount (Some ''proc'') path (Some ''proc'') (MS_NOSUID OR MS_NODEV OR MS_NOEXEC) None) 47),
      with_path root ''proc/sys'' 48 (\<lambda>path. make_bind_read_only env path),
      with_path root ''run'' 49 (\<lambda>path.
        step env (Mount (Some ''tmpfs'') path (Some ''tmpfs'') (MS_NOSUID OR MS_NODEV) (Some ''mode=0755,size=64m'')) 50),
      with_path root ''run/lock'' 51 (\<lambda>path. do {
        e \<leftarrow> call env (Mkdir path 0x1ED);
        return (if e \<noteq> 0 \<and> e \<noteq> EEXIST then 52 else 0)
      }),
      (if systemd_mode then mount_reboot_bridge env root control_dir else return 0)]"

text \<open>The path of the FIFO, or \<open>None\<close> for the result \<open>-1\<close>.\<close>

definition prepare_host_reboot_fifo :: "host_env \<Rightarrow> string \<Rightarrow> (host, string option) state" where
  "prepare_host_reboot_fifo env control_dir =
     with_path control_dir kHostRebootFifoName None (\<lambda>path. do {
       e \<leftarrow> call env (Unlink path);
       if e \<noteq> 0 \<and> e \<noteq> ENOENT then return None
       else do {
         r \<leftarrow> run_steps [step env (Mkfifo path 0x180) 1];
         if r \<noteq> 0 then return None
         else do {
           r \<leftarrow> run_steps [step env (Chown_root path) 1, step env (Chmod path 0x180) 1];
           if r \<noteq> 0 then do {
             _ \<leftarrow> call env (Unlink path);
             return None
           } else return (Some path)
         }
       }
     })"

section \<open>Namespaces\<close>

definition CAP_SYS_BOOT :: nat where "CAP_SYS_BOOT = 22"

definition host_block_ipc :: "host_env \<Rightarrow> (host, int) state" where
  "host_block_ipc env = do {
     (r, fs) \<leftarrow> gets (\<lambda>h. block_ipc_namespace_creation (env_abi env) (on_guard env (h_trace h)) (h_filters h));
     modify (\<lambda>h. h\<lparr>h_filters := fs\<rparr>);
     log_call Set_filters r;
     return (int r)
   }"

definition host_close_range_guard :: "host_env \<Rightarrow> (host, int) state" where
  "host_close_range_guard env = do {
     (r, fs) \<leftarrow> gets (\<lambda>h. install_close_range_guard (env_abi env) (on_guard env (h_trace h))
       (on_close_range env (h_trace h))
       (environment (env_variable env) (h_trace h) ''DAWNSHELL_CLOSE_RANGE_GUARD'') (h_filters h));
     modify (\<lambda>h. h\<lparr>h_filters := fs\<rparr>);
     log_call Set_filters r;
     return (int r)
   }"

text \<open>The remount that detaches the new mount namespace from the host's.\<close>

definition make_rprivate :: host_call where
  "make_rprivate = Mount None ''/'' None (MS_REC OR MS_PRIVATE) None"

definition set_base_private_namespaces :: "host_env \<Rightarrow> (host, int) state" where
  "set_base_private_namespaces env = run_steps
     [(do {
         e \<leftarrow> call env (Drop_capability CAP_SYS_BOOT);
         return (if e \<noteq> 0 \<and> e \<noteq> EINVAL then 53 else 0)
       }),
      step env (Unshare CLONE_NEWNS) 53,
      step env make_rprivate 54,
      step env (Unshare CLONE_NEWUTS) 55,
      host_block_ipc env,
      host_close_range_guard env]"

definition set_private_namespaces :: "host_env \<Rightarrow> (host, int) state" where
  "set_private_namespaces env = run_steps
     [set_base_private_namespaces env,
      step env (Unshare CLONE_NEWCGROUP) 57,
      step env (Unshare CLONE_NEWPID) 58]"

text \<open>The result of polling and reading the manager's pipe is a byte, or the error.\<close>

definition wait_for_network_manager :: "host_env \<Rightarrow> (host, int) state" where
  "wait_for_network_manager env = do {
     r \<leftarrow> ask Poll (on_poll env);
     return (case r of Inl e \<Rightarrow> -1 | Inr text \<Rightarrow> if take 1 text = ''1'' then 0 else -1)
   }"

definition pid_namespace_creation_is_unsupported :: "nat \<Rightarrow> bool" where
  "pid_namespace_creation_is_unsupported e \<longleftrightarrow>
     e = EINVAL \<or> e = unat ENOSYS \<or> e = unat EPERM \<or> e = EOPNOTSUPP"

definition pid_namespace_entry_is_available :: "host_env \<Rightarrow> (host, bool) state" where
  "pid_namespace_entry_is_available env = do {
     r \<leftarrow> ask (Stat ''/proc/self/ns/pid'') (\<lambda>t. on_stat env t ''/proc/self/ns/pid'');
     return (stat_is (\<lambda>v. True) r)
   }"

definition cleanup_for_fallback :: "host_env \<Rightarrow> string \<Rightarrow> (host, unit) state" where
  "cleanup_for_fallback env control_dir = do {
     cleanup_cgroup_hierarchy env control_dir kUnifiedCgroupMountName;
     cleanup_cgroup_hierarchy env control_dir kDevicesCgroupMountName;
     cleanup_cgroup_hierarchy env control_dir kSystemdCgroupMountName
   }"

text \<open>The parts of \<open>set_systemd_parent_namespaces\<close> after the base namespaces and the manager.\<close>

definition negotiate_launch ::
  "host_env \<Rightarrow> string \<Rightarrow> CgroupPolicy \<Rightarrow> HostUsbPolicy \<Rightarrow> bool \<Rightarrow> (host, int \<times> LaunchMode \<times> CgroupMode) state" where
  "negotiate_launch env control_dir policy usb allow_fallback = do {
     (r, mode) \<leftarrow> negotiate_cgroup_mode env control_dir policy usb;
     if r \<noteq> 0 then
       (if \<not> allow_fallback then return (r, LAUNCH_MODE_SYSTEMD, mode)
        else do {
          cleanup_for_fallback env control_dir;
          return (0, LAUNCH_MODE_COMPAT, CGROUP_MODE_UNKNOWN)
        })
     else do {
       e \<leftarrow> call env (Unshare CLONE_NEWPID);
       if e = 0 then return (0, LAUNCH_MODE_SYSTEMD, mode)
       else if \<not> allow_fallback \<or> \<not> pid_namespace_creation_is_unsupported e
       then return (58, LAUNCH_MODE_SYSTEMD, mode)
       else do {
         cleanup_for_fallback env control_dir;
         return (0, LAUNCH_MODE_COMPAT, CGROUP_MODE_UNKNOWN)
       }
     }
   }"

definition choose_launch_mode ::
  "host_env \<Rightarrow> string \<Rightarrow> CgroupPolicy \<Rightarrow> HostUsbPolicy \<Rightarrow> bool \<Rightarrow> (host, int \<times> LaunchMode \<times> CgroupMode) state" where
  "choose_launch_mode env control_dir policy usb allow_fallback = do {
     available \<leftarrow> (if allow_fallback then pid_namespace_entry_is_available env else return True);
     if allow_fallback \<and> \<not> available then return (0, LAUNCH_MODE_COMPAT, CGROUP_MODE_UNKNOWN)
     else negotiate_launch env control_dir policy usb allow_fallback
   }"

definition set_systemd_parent_namespaces ::
  "host_env \<Rightarrow> string \<Rightarrow> CgroupPolicy \<Rightarrow> HostUsbPolicy \<Rightarrow> bool \<Rightarrow> (host, int \<times> LaunchMode \<times> CgroupMode) state" where
  "set_systemd_parent_namespaces env control_dir policy usb allow_fallback = do {
     r \<leftarrow> set_base_private_namespaces env;
     if r \<noteq> 0 then return (r, LAUNCH_MODE_SYSTEMD, CGROUP_MODE_UNKNOWN)
     else do {
       w \<leftarrow> wait_for_network_manager env;
       if w \<noteq> 0 then return (56, LAUNCH_MODE_SYSTEMD, CGROUP_MODE_UNKNOWN)
       else choose_launch_mode env control_dir policy usb allow_fallback
     }
   }"

section \<open>Entering the root file system\<close>

fun set_variables :: "host_env \<Rightarrow> (string \<times> string) list \<Rightarrow> (host, unit) state" where
  "set_variables env [] = return ()"
| "set_variables env ((name, v) # rest) = do {
     _ \<leftarrow> call env (Setenv name v);
     set_variables env rest
   }"

definition replace_environment :: "host_env \<Rightarrow> (string \<times> string) list \<Rightarrow> (host, int) state" where
  "replace_environment env variables = do {
     _ \<leftarrow> call env Clearenv;
     set_variables env variables;
     return 0
   }"

definition debian_path :: string where
  "debian_path = ''/usr/local/sbin:/usr/local/bin:/usr/sbin:/usr/bin:/sbin:/bin''"

definition base_variables :: "string \<Rightarrow> (string \<times> string) list" where
  "base_variables container =
     [(''HOME'', ''/root''), (''PATH'', debian_path), (''LANG'', ''C.UTF-8''), (''container'', container)]"

text \<open>\<open>sethostname\<close>, \<open>chdir\<close>, \<open>chroot\<close>, \<open>chdir\<close>, with the first of the four exit codes.\<close>

definition enter_root :: "host_env \<Rightarrow> string \<Rightarrow> string \<Rightarrow> int \<Rightarrow> (host, int) state list" where
  "enter_root env root name code =
     [step env (Sethostname name) code,
      step env (Chdir root) (code + 1),
      step env (Chroot ''.'') (code + 2),
      step env (Chdir ''/'') (code + 3)]"

definition enter_debian_probe :: "host_env \<Rightarrow> string \<Rightarrow> string \<Rightarrow> (host, int) state" where
  "enter_debian_probe env probe_command root = run_steps
     ([prepare_child_mounts env root [] False CGROUP_MODE_UNKNOWN HOST_USB_OFF]
      @ enter_root env root ''dawnshell-probe'' 59
      @ [replace_environment env (base_variables ''dawnshell''),
         step env (Execv ''/bin/sh'' [''sh'', ''-c'', probe_command]) 63])"

definition enter_debian_compat_probe :: "host_env \<Rightarrow> string \<Rightarrow> string \<Rightarrow> (host, int) state" where
  "enter_debian_compat_probe env probe_command root = run_steps
     ([prepare_child_mounts env root [] False CGROUP_MODE_UNKNOWN HOST_USB_OFF]
      @ enter_root env root ''dawnshell-compat'' 59
      @ [replace_environment env (base_variables ''dawnshell-compat''),
         step env (Execv ''/bin/sh'' [''sh'', ''-c'', probe_command]) 63])"

definition host_keyring_guard :: "host_env \<Rightarrow> (host, int) state" where
  "host_keyring_guard env = do {
     (r, fs) \<leftarrow> gets (\<lambda>h. dawnshell_install_keyring_guard (env_abi env) (on_guard env (h_trace h))
       (on_keyring env (h_trace h))
       (environment (env_variable env) (h_trace h) ''DAWNSHELL_SESSION_KEYRING_GUARD'') (h_filters h));
     modify (\<lambda>h. h\<lparr>h_filters := fs\<rparr>);
     log_call Set_filters 0;
     return 0
   }"

definition systemd_cmdline :: "CgroupMode \<Rightarrow> string" where
  "systemd_cmdline mode =
     (if cgroup_mode_is_legacy mode
      then ''systemd.unified_cgroup_hierarchy=0 SYSTEMD_CGROUP_ENABLE_LEGACY_FORCE=1 systemd.unit=multi-user.target''
      else ''systemd.unified_cgroup_hierarchy=1 systemd.unit=multi-user.target'')"

definition enter_debian_systemd ::
  "host_env \<Rightarrow> string \<Rightarrow> string \<Rightarrow> CgroupMode \<Rightarrow> HostUsbPolicy \<Rightarrow> (host, int) state" where
  "enter_debian_systemd env root control_dir mode policy = run_steps
     ([move_self_to_delegated_cgroups env control_dir mode,
       prepare_child_mounts env root control_dir True mode policy]
      @ enter_root env root ''dawnshell'' 68
      @ [replace_environment env
           (base_variables ''dawnshell''
            @ [(''SYSTEMD_LOG_TARGET'', ''console''), (''SYSTEMD_LOG_LEVEL'', ''info''), (''SYSTEMD_LOG_TIME'', ''1''),
               (''SYSTEMD_PROC_CMDLINE'', systemd_cmdline mode)]),
         host_keyring_guard env,
         (do { _ \<leftarrow> call env Reset_signals; return 0 }),
         step env (Execv ''/sbin/init'' [''init'', ''--system'', ''--unit=multi-user.target'', ''--log-target=console'',
           ''--log-level=info'', ''--show-status=yes'']) 72])"

definition prepare_run_sshd :: "host_env \<Rightarrow> (host, int) state" where
  "prepare_run_sshd env = do {
     e \<leftarrow> call env (Mkdir ''/run/sshd'' 0x1ED);
     if e \<noteq> 0 \<and> e \<noteq> EEXIST then return 71
     else do {
       r \<leftarrow> ask (Stat ''/run/sshd'') (\<lambda>t. on_stat env t ''/run/sshd'');
       return (if stat_is (\<lambda>v. st_kind v = Directory) r then 0 else 71)
     }
   }"

definition enter_debian_compat :: "host_env \<Rightarrow> string \<Rightarrow> HostUsbPolicy \<Rightarrow> (host, int) state" where
  "enter_debian_compat env root policy = run_steps
     ([prepare_child_mounts env root [] False CGROUP_MODE_UNKNOWN policy]
      @ enter_root env root ''dawnshell-compat'' 68
      @ [prepare_run_sshd env,
         step env (Access ''/usr/sbin/sshd'') 72,
         replace_environment env (base_variables ''dawnshell-compat'' @ [(''DAWNSHELL_COMPAT_MODE'', ''1'')]),
         step env (Execv ''/usr/sbin/sshd'' [''sshd'', ''-D'', ''-e'', ''-f'', ''/etc/ssh/sshd_config'']) 72])"

section \<open>The probes\<close>

text \<open>The exit code for a wait status: \<open>WIFEXITED\<close>, \<open>WEXITSTATUS\<close>, anything else.\<close>

definition WIFEXITED :: "int \<Rightarrow> bool" where "WIFEXITED status \<longleftrightarrow> status AND 0x7f = 0"
definition WEXITSTATUS :: "int \<Rightarrow> int" where "WEXITSTATUS status = (status AND 0xff00) div 256"
definition WTERMSIG :: "int \<Rightarrow> int" where "WTERMSIG status = status AND 0x7f"
definition WIFSIGNALED :: "int \<Rightarrow> bool" where
  "WIFSIGNALED status \<longleftrightarrow> WTERMSIG status \<noteq> 0 \<and> WTERMSIG status \<noteq> 0x7f"

definition exit_of_status :: "int \<Rightarrow> int \<Rightarrow> int" where
  "exit_of_status code status = (if WIFEXITED status then WEXITSTATUS status else code)"

text \<open>Fork a child and wait for it; the child's own run is an entry program from the same host.\<close>

definition fork_and_wait :: "host_env \<Rightarrow> int \<Rightarrow> int \<Rightarrow> int \<Rightarrow> (host, int) state" where
  "fork_and_wait env fork_code wait_code status_code = do {
     f \<leftarrow> ask Fork (on_fork env);
     case f of
       Inl e \<Rightarrow> return fork_code
     | Inr pid \<Rightarrow> do {
         w \<leftarrow> ask (Wait pid) (\<lambda>t. on_join env t pid);
         return (case w of Inl e \<Rightarrow> wait_code | Inr status \<Rightarrow> exit_of_status status_code status)
       }
   }"

definition run_probe :: "host_env \<Rightarrow> string \<Rightarrow> (host, int) state" where
  "run_probe env root = run_steps
     [validate_rootfs env root False,
      return (if env_euid env \<noteq> 0 then 64 else 0),
      set_private_namespaces env,
      fork_and_wait env 65 66 67]"

definition run_compat_probe :: "host_env \<Rightarrow> string \<Rightarrow> (host, int) state" where
  "run_compat_probe env root = run_steps
     [validate_rootfs env root False,
      return (if env_euid env \<noteq> 0 then 64 else 0),
      set_base_private_namespaces env,
      fork_and_wait env 65 66 67]"

section \<open>What the programs change\<close>

context area_policy
begin

lemma quiet_check: "quietly allowed m \<Longrightarrow> quietly allowed (check m code)"
  unfolding check_def by (intro area_intros)

lemma quiet_checks:
  "quietly allowed (is_directory env path)"
  "quietly allowed (is_regular_executable env path)"
  "quietly allowed (is_safe_root_marker env path)"
  "quietly allowed (file_has_exact_line env path expected)"
  unfolding is_directory_def is_regular_executable_def is_safe_root_marker_def file_has_exact_line_def
  by ((intro area_intros); simp)+

lemma quiet_bind_android: "area root \<Longrightarrow> quietly allowed (bind_android_runtime_tree env root source relative required)"
  unfolding bind_android_runtime_tree_def
  by (intro directory_intros) (auto intro: area_joined)

lemma quiet_count_devices: "quietly allowed (count_devices env bus_path names)"
  by (induction names) (auto intro!: area_intros)

lemma quiet_count_buses: "quietly allowed (count_buses env usb_path names)"
  by (induction names) (auto intro!: area_intros quiet_checks quiet_count_devices)

lemma quiet_configure_usb: "area root \<Longrightarrow> quietly allowed (configure_host_usb_mount env root policy)"
  unfolding configure_host_usb_mount_def count_host_usb_nodes_def
  by (intro area_intros quiet_count_buses) (auto intro: area_joined)

lemma quiet_reboot_bridge: "area root \<Longrightarrow> quietly allowed (mount_reboot_bridge env root control_dir)"
  unfolding mount_reboot_bridge_def
  by (intro area_intros) (auto intro: area_joined)

lemma quiet_child_mounts:
  "area root \<Longrightarrow> quietly allowed (prepare_child_mounts env root control_dir systemd_mode mode policy)"
  unfolding prepare_child_mounts_def
  by (intro directory_intros quiet_configure_usb quiet_bind_android quiet_cgroup_views quiet_reboot_bridge)
    (auto intro: area_joined)

lemma quiet_cleanup_for_fallback:
  "area control_dir \<Longrightarrow> quietly allowed (cleanup_for_fallback env control_dir)"
  unfolding cleanup_for_fallback_def by (intro area_intros quiet_cleanup_hierarchy)

end

section \<open>Mounts and the host's namespace\<close>

fun is_mount_call :: "host_call \<Rightarrow> bool" where
  "is_mount_call (Mount source target fstype flags data) = True"
| "is_mount_call (Umount path) = True"
| "is_mount_call _ = False"

text \<open>
  Every change of the mount tree comes after the process has left the host's mount namespace,
  and, but for the remount that cuts propagation, after that remount.
\<close>

definition mounts_private :: "event list \<Rightarrow> bool" where
  "mounts_private t \<longleftrightarrow>
     (\<forall>xs c e ys. t = xs @ (c, e) # ys \<longrightarrow> is_mount_call c \<longrightarrow>
        (Unshare CLONE_NEWNS, 0) \<in> set xs \<and> (c = make_rprivate \<or> (make_rprivate, 0) \<in> set xs))"

text \<open>The process is in a mount namespace of its own that propagates nothing.\<close>

definition detached :: "event list \<Rightarrow> bool" where
  "detached t \<longleftrightarrow> (Unshare CLONE_NEWNS, 0) \<in> set t \<and> (make_rprivate, 0) \<in> set t"

lemma detached_append: "detached t \<Longrightarrow> detached (t @ es)"
  by (auto simp: detached_def)

lemma mounts_private_Nil: "mounts_private []"
  by (simp add: mounts_private_def)

lemma mounts_private_snoc:
  "mounts_private (t @ [(c, e)]) \<longleftrightarrow>
   mounts_private t \<and> (is_mount_call c \<longrightarrow>
     (Unshare CLONE_NEWNS, 0) \<in> set t \<and> (c = make_rprivate \<or> (make_rprivate, 0) \<in> set t))"
proof -
  have split: "t @ [(c, e)] = xs @ (c', e') # ys \<longleftrightarrow>
      (ys = [] \<and> t = xs \<and> c = c' \<and> e = e') \<or> (\<exists>zs. ys = zs @ [(c, e)] \<and> t = xs @ (c', e') # zs)" for xs c' e' ys
    by (cases ys rule: rev_cases) auto
  show ?thesis
    unfolding mounts_private_def split by blast
qed

lemma mounts_private_append: "mounts_private t \<Longrightarrow> detached t \<Longrightarrow> mounts_private (t @ es)"
proof (induction es rule: rev_induct)
  case (snoc e es)
  then show ?case
    by (cases e) (auto simp: mounts_private_snoc detached_def simp flip: append_assoc)
qed simp

text \<open>Once detached, no program leaves that state.\<close>

lemma keeps_private: "emits_only C m \<Longrightarrow> keeps (\<lambda>h. mounts_private (h_trace h) \<and> detached (h_trace h)) m"
  unfolding keeps_def by (auto intro!: wpI mounts_private_append dest!: emits_trace simp: detached_def)

lemma base_namespaces_private:
  assumes "mounts_private (h_trace h)"
  shows "wp (set_base_private_namespaces env)
    (\<lambda>r h'. mounts_private (h_trace h') \<and> (r = 0 \<longrightarrow> detached (h_trace h'))) h"
  unfolding set_base_private_namespaces_def host_block_ipc_def host_close_range_guard_def
  using assms
  by (auto simp: wp_simps Let_def mounts_private_snoc detached_def make_rprivate_def
      simp flip: append_assoc split: prod.splits)

lemma parent_namespaces_private:
  assumes "mounts_private (h_trace h)"
  shows "wp (set_systemd_parent_namespaces env control_dir policy usb allow_fallback)
    (\<lambda>(r, _) h'. mounts_private (h_trace h') \<and> (r = 0 \<longrightarrow> detached (h_trace h'))) h"
proof -
  have "emits_only (\<lambda>_. True) (choose_launch_mode env control_dir policy usb allow_fallback)"
    unfolding choose_launch_mode_def pid_namespace_entry_is_available_def negotiate_launch_def
    by (intro quietly_emits quiet_intros any.quiet_negotiate any.quiet_cleanup_for_fallback TrueI)
  from keeps_private [OF this] have choose: "wp (choose_launch_mode env control_dir policy usb allow_fallback)
      (\<lambda>(r, _) h'. mounts_private (h_trace h') \<and> (r = 0 \<longrightarrow> detached (h_trace h'))) h'"
    if "mounts_private (h_trace h')" "detached (h_trace h')" for h'
    using that by (auto simp: keeps_def elim!: wp_mono)
  show ?thesis
    unfolding set_systemd_parent_namespaces_def wait_for_network_manager_def wp_bind
    by (rule wp_mono [OF base_namespaces_private [OF assms]])
      (auto simp: wp_simps mounts_private_snoc detached_append intro!: choose)
qed

section \<open>The decision on a launch mode\<close>

definition launch_decided ::
  "string \<Rightarrow> CgroupPolicy \<Rightarrow> HostUsbPolicy \<Rightarrow> bool \<Rightarrow> LaunchMode \<Rightarrow> CgroupMode \<Rightarrow> host \<Rightarrow> bool" where
  "launch_decided control_dir policy usb allow_fallback launch mode h \<longleftrightarrow>
     (if launch = LAUNCH_MODE_COMPAT then allow_fallback \<and> mode = CGROUP_MODE_UNKNOWN
      else negotiated control_dir policy usb mode h \<and> (Unshare CLONE_NEWPID, 0) \<in> set (h_trace h))"

lemma usb_denied_log:
  "usb_denied control_dir mode h \<Longrightarrow> usb_denied control_dir mode (h\<lparr>h_trace := h_trace h @ es\<rparr>)"
  by (auto simp: usb_denied_def)

lemma compat_decided: "launch_decided control_dir policy usb True LAUNCH_MODE_COMPAT CGROUP_MODE_UNKNOWN h"
  by (simp add: launch_decided_def)

lemma systemd_decided:
  "negotiated control_dir policy usb mode h \<Longrightarrow>
   launch_decided control_dir policy usb allow_fallback LAUNCH_MODE_SYSTEMD mode
      (h\<lparr>h_trace := h_trace h @ [(Unshare CLONE_NEWPID, 0)]\<rparr>)"
  by (auto simp: launch_decided_def negotiated_def usb_denied_log)

lemma negotiate_launch_decides:
  "wp (negotiate_launch env control_dir policy usb allow_fallback)
    (\<lambda>(r, launch, mode) h'. r = 0 \<longrightarrow> launch_decided control_dir policy usb allow_fallback launch mode h') h"
  unfolding negotiate_launch_def wp_bind
  by (rule wp_mono [OF negotiate_enforces])
    (auto simp: wp_bind wp_if wp_return wp_call compat_decided systemd_decided
      intro!: wp_mono [OF state_io_rel_wp [OF any.quiet_cleanup_for_fallback]])

lemma choose_launch_mode_decides:
  "wp (choose_launch_mode env control_dir policy usb allow_fallback)
    (\<lambda>(r, launch, mode) h'. r = 0 \<longrightarrow> launch_decided control_dir policy usb allow_fallback launch mode h') h"
  unfolding choose_launch_mode_def pid_namespace_entry_is_available_def
  by (cases allow_fallback)
    (auto simp: wp_bind wp_ask wp_return wp_if compat_decided intro!: negotiate_launch_decides)

lemma parent_decides:
  "wp (set_systemd_parent_namespaces env control_dir policy usb allow_fallback)
    (\<lambda>(r, launch, mode) h'. r = 0 \<longrightarrow> launch_decided control_dir policy usb allow_fallback launch mode h') h"
  unfolding set_systemd_parent_namespaces_def wp_bind
  by (rule wpI) (auto simp: wp_bind wp_if wp_return intro!: wpI dest: wpD [OF choose_launch_mode_decides] split: if_splits)

section \<open>System calls refused to Debian\<close>

lemma base_filters:
  assumes "audit_arch (env_abi env) = Some arch" "h_filters h = []"
  shows "wp (set_base_private_namespaces env)
    (\<lambda>r h'. r = 0 \<longrightarrow> (\<exists>fs. h_filters h' = fs @ [ipc_filter arch (env_abi env)]
       \<and> set fs \<subseteq> {close_range_filter arch (the (nr_close_range (env_abi env)))})) h"
proof -
  have guard: "\<exists>fs'. snd (dawnshell_install_close_range_guard (env_abi env) k p v fs) = fs' @ fs
      \<and> set fs' \<subseteq> {close_range_filter arch (the (nr_close_range (env_abi env)))}" for k p v fs
  proof -
    obtain r fs1 where g: "dawnshell_install_close_range_guard (env_abi env) k p v fs = (r, fs1)" by fastforce
    show ?thesis
      using g assms(1)
      by (auto simp: dawnshell_install_close_range_guard_def load_filter_def split: option.splits if_splits prod.splits)
  qed
  show ?thesis
    unfolding set_base_private_namespaces_def host_block_ipc_def host_close_range_guard_def
      install_close_range_guard_def block_ipc_namespace_creation_def
    using assms guard
    by (auto simp: wp_simps Let_def load_filter_def split: prod.splits if_splits)
qed

end
