(* ===== verification/Usb_Exclusive.thy ===== *)
theory Usb_Exclusive
  imports Host
begin

text \<open>
  Exclusive use of USB devices (\<open>bfu_namespace_probe.c\<close>): the interfaces of listed devices are
  unbound from the host's drivers while Debian runs and bound again when it stops. The array of
  records with its count is a list.
\<close>

section \<open>The state\<close>

record UsbInterfaceRecord =
  interface_name :: string
  driver_name :: string
  detached_from :: bool
  last_errno :: nat
  retry_after_ms :: int

record ExclusiveUsbState =
  records :: "UsbInterfaceRecord list"
  last_scan_errno :: nat

definition MAX_USB_INTERFACE_RECORDS :: nat where "MAX_USB_INTERFACE_RECORDS = 64"
definition MAX_USB_SYSFS_NAME :: nat where "MAX_USB_SYSFS_NAME = 128"
definition kExclusiveUsbRetryIntervalMs :: int where "kExclusiveUsbRetryIntervalMs = 30000"

definition no_usb_state :: ExclusiveUsbState where
  "no_usb_state = \<lparr>records = [], last_scan_errno = 0\<rparr>"

section \<open>sysfs\<close>

definition safe_character :: "char \<Rightarrow> bool" where
  "safe_character c \<longleftrightarrow>
     (let v = (of_char c :: nat)
      in 97 \<le> v \<and> v \<le> 122 \<or> 65 \<le> v \<and> v \<le> 90 \<or> 48 \<le> v \<and> v \<le> 57)
     \<or> c \<in> set ''-_.:''"

definition is_safe_usb_sysfs_name :: "string \<Rightarrow> bool" where
  "is_safe_usb_sysfs_name v \<longleftrightarrow> v \<noteq> [] \<and> length v < MAX_USB_SYSFS_NAME \<and> list_all safe_character v"

text \<open>The value of an id file: four hexadecimal digits, then only blanks.\<close>

definition sysfs_hex :: "string \<Rightarrow> u32 option" where
  "sysfs_hex contents =
     (let text = take 31 contents
      in if length text < 4 then None
         else case parse_usb_hex_word text of
                None \<Rightarrow> None
              | Some w \<Rightarrow>
                  if list_all (\<lambda>c. c \<in> set [CHR 0x0A, CHR 0x0D, CHR '' '', CHR 0x09]) (drop 4 text)
                  then Some w else None)"

definition read_usb_sysfs_hex :: "host_env \<Rightarrow> string \<Rightarrow> (host, u32 option) state" where
  "read_usb_sysfs_hex env path = do {
     r \<leftarrow> ask (Read_file path) (\<lambda>t. on_read env t path);
     return (case r of Inl e \<Rightarrow> None | Inr contents \<Rightarrow> sysfs_hex contents)
   }"

definition usb_device_path :: "string \<Rightarrow> string" where
  "usb_device_path name = ''/sys/bus/usb/devices/'' @ name"

definition read_usb_device_id :: "host_env \<Rightarrow> string \<Rightarrow> (host, (u32 \<times> u32) option) state" where
  "read_usb_device_id env device_name =
     (let vendor_path = usb_device_path device_name @ ''/idVendor'';
          product_path = usb_device_path device_name @ ''/idProduct''
      in if \<not> is_safe_usb_sysfs_name device_name \<or> length vendor_path \<ge> PATH_MAX \<or> length product_path \<ge> PATH_MAX
         then return None
         else do {
           v \<leftarrow> read_usb_sysfs_hex env vendor_path;
           case v of
             None \<Rightarrow> return None
           | Some vid \<Rightarrow> do {
               p \<leftarrow> read_usb_sysfs_hex env product_path;
               return (case p of None \<Rightarrow> None | Some pid \<Rightarrow> Some (vid, pid))
             }
         })"

definition usb_filter_matches :: "UsbDeviceId list \<Rightarrow> u32 \<Rightarrow> u32 \<Rightarrow> bool" where
  "usb_filter_matches entries v p \<longleftrightarrow> list_ex (\<lambda>x. vendor x = v \<and> product x = p) entries"

definition basename :: "string \<Rightarrow> string" where
  "basename target = (case after_last (CHR ''/'') target of None \<Rightarrow> target | Some rest \<Rightarrow> rest)"

definition read_usb_interface_driver :: "host_env \<Rightarrow> string \<Rightarrow> (host, string option) state" where
  "read_usb_interface_driver env name =
     (let path = usb_device_path name @ ''/driver''
      in if \<not> is_safe_usb_sysfs_name name \<or> length path \<ge> PATH_MAX then return None
         else do {
           r \<leftarrow> ask (Read_link path) (\<lambda>t. on_readlink env t path);
           return (case r of
                     Inl e \<Rightarrow> None
                   | Inr target \<Rightarrow>
                       let driver = basename (c_text (PATH_MAX - 1) target)
                       in if is_safe_usb_sysfs_name driver \<and> length driver < MAX_USB_SYSFS_NAME
                          then Some driver else None)
         })"

definition driver_control_path :: "string \<Rightarrow> string \<Rightarrow> string" where
  "driver_control_path driver control = ''/sys/bus/usb/drivers/'' @ driver @ ''/'' @ control"

text \<open>0 for success, otherwise the error.\<close>

definition write_usb_driver_control :: "host_env \<Rightarrow> string \<Rightarrow> string \<Rightarrow> string \<Rightarrow> (host, nat) state" where
  "write_usb_driver_control env driver control name =
     (let path = driver_control_path driver control; text = name @ [CHR 0x0A]
      in if \<not> is_safe_usb_sysfs_name driver \<or> \<not> is_safe_usb_sysfs_name name
            \<or> (control \<noteq> ''bind'' \<and> control \<noteq> ''unbind'') then return EINVAL
         else if length path \<ge> PATH_MAX then return ENAMETOOLONG
         else if length text \<ge> MAX_USB_SYSFS_NAME + 2 then return ENAMETOOLONG
         else call env (Write_value path text))"

section \<open>Records\<close>

fun find_usb_interface_record :: "UsbInterfaceRecord list \<Rightarrow> string \<Rightarrow> nat option" where
  "find_usb_interface_record [] name = None"
| "find_usb_interface_record (r # rs) name =
     (if interface_name r = name then Some 0 else map_option Suc (find_usb_interface_record rs name))"

definition remove_usb_interface_record :: "nat \<Rightarrow> ExclusiveUsbState \<Rightarrow> ExclusiveUsbState" where
  "remove_usb_interface_record index st =
     (if index \<ge> length (records st) then st
      else st\<lparr>records := take index (records st) @ drop (Suc index) (records st)\<rparr>)"

text \<open>The loop over the records from an index on; it removes a record or goes to the next.\<close>

function prune_from :: "host_env \<Rightarrow> nat \<Rightarrow> ExclusiveUsbState \<Rightarrow> (host, ExclusiveUsbState) state" where
  "prune_from env index st =
     (if index \<ge> length (records st) then return st
      else let path = usb_device_path (interface_name (records st ! index))
      in if length path \<ge> PATH_MAX then prune_from env index (remove_usb_interface_record index st)
      else do {
        r \<leftarrow> ask (Lstat path) (\<lambda>t. on_lstat env t path);
        if r = Inl ENOENT then prune_from env index (remove_usb_interface_record index st)
        else prune_from env (Suc index) st
      })"
  by pat_completeness auto
termination
  by (relation "measure (\<lambda>(env, index, st). length (records st) - index)")
    (auto simp: remove_usb_interface_record_def)

declare prune_from.simps [simp del]

definition prune_disconnected_usb_interfaces :: "host_env \<Rightarrow> ExclusiveUsbState \<Rightarrow> (host, ExclusiveUsbState) state" where
  "prune_disconnected_usb_interfaces env st = prune_from env 0 st"

text \<open>The index of the record and the state that has it; \<open>None\<close> when there is no room.\<close>

definition get_or_create_usb_interface_record ::
  "ExclusiveUsbState \<Rightarrow> string \<Rightarrow> (nat \<times> ExclusiveUsbState) option" where
  "get_or_create_usb_interface_record st name =
     (case find_usb_interface_record (records st) name of
        Some i \<Rightarrow> Some (i, st)
      | None \<Rightarrow>
          if length (records st) \<ge> MAX_USB_INTERFACE_RECORDS then None
          else Some (length (records st),
            st\<lparr>records := records st @ [\<lparr>interface_name = snd (snprintf MAX_USB_SYSFS_NAME name), driver_name = [],
                detached_from = False, last_errno = 0, retry_after_ms = 0\<rparr>]\<rparr>))"

section \<open>Reconciliation\<close>

definition update_record ::
  "nat \<Rightarrow> (UsbInterfaceRecord \<Rightarrow> UsbInterfaceRecord) \<Rightarrow> ExclusiveUsbState \<Rightarrow> ExclusiveUsbState" where
  "update_record i f st = st\<lparr>records := (records st)[i := f (records st ! i)]\<rparr>"

text \<open>The part of an iteration from the record on.\<close>

definition unbind_interface ::
  "host_env \<Rightarrow> string \<Rightarrow> string \<Rightarrow> ExclusiveUsbState \<Rightarrow> (host, ExclusiveUsbState) state" where
  "unbind_interface env name driver st =
     (case get_or_create_usb_interface_record st name of
        None \<Rightarrow> return st
      | Some (i, st') \<Rightarrow> do {
          now \<leftarrow> ask Clock (on_clock env);
          if retry_after_ms (records st' ! i) > now then return st'
          else do {
            e \<leftarrow> write_usb_driver_control env driver ''unbind'' name;
            return (update_record i (\<lambda>r.
              if e = 0
              then r\<lparr>driver_name := snd (snprintf MAX_USB_SYSFS_NAME driver), detached_from := True, last_errno := 0,
                  retry_after_ms := 0\<rparr>
              else r\<lparr>driver_name := snd (snprintf MAX_USB_SYSFS_NAME driver), detached_from := False, last_errno := e,
                  retry_after_ms := now + kExclusiveUsbRetryIntervalMs\<rparr>) st')
          }
        })"

definition reconcile_entry ::
  "host_env \<Rightarrow> UsbDeviceId list \<Rightarrow> string \<Rightarrow> ExclusiveUsbState \<Rightarrow> (host, ExclusiveUsbState) state" where
  "reconcile_entry env entries name st =
     (let device_name = takeWhile (\<lambda>c. c \<noteq> CHR '':'') name
      in if CHR '':'' \<notin> set name \<or> \<not> is_safe_usb_sysfs_name name then return st
         else if device_name = [] \<or> length device_name \<ge> MAX_USB_SYSFS_NAME then return st
         else do {
           ids \<leftarrow> read_usb_device_id env device_name;
           case ids of
             None \<Rightarrow> return st
           | Some (v, p) \<Rightarrow>
               if \<not> usb_filter_matches entries v p then return st
               else do {
                 driver \<leftarrow> read_usb_interface_driver env name;
                 case driver of None \<Rightarrow> return st | Some d \<Rightarrow> unbind_interface env name d st
               }
         })"

fun reconcile_entries ::
  "host_env \<Rightarrow> UsbDeviceId list \<Rightarrow> string list \<Rightarrow> ExclusiveUsbState \<Rightarrow> (host, ExclusiveUsbState) state" where
  "reconcile_entries env entries [] st = return st"
| "reconcile_entries env entries (name # rest) st = do {
     st' \<leftarrow> reconcile_entry env entries name st;
     reconcile_entries env entries rest st'
   }"

definition reconcile_exclusive_usb ::
  "host_env \<Rightarrow> UsbDeviceId list \<Rightarrow> ExclusiveUsbState \<Rightarrow> (host, ExclusiveUsbState) state" where
  "reconcile_exclusive_usb env entries st = do {
     st1 \<leftarrow> prune_disconnected_usb_interfaces env st;
     r \<leftarrow> ask (List_directory ''/sys/bus/usb/devices'') (\<lambda>t. on_list env t ''/sys/bus/usb/devices'');
     case r of
       Inl e \<Rightarrow> return (st1\<lparr>last_scan_errno := e\<rparr>)
     | Inr names \<Rightarrow> reconcile_entries env entries names (st1\<lparr>last_scan_errno := 0\<rparr>)
   }"

section \<open>Restoration\<close>

definition restore_record :: "host_env \<Rightarrow> UsbInterfaceRecord \<Rightarrow> (host, unit) state" where
  "restore_record env r =
     (if \<not> detached_from r then return ()
      else let path = usb_device_path (interface_name r)
      in if length path \<ge> PATH_MAX then return ()
      else do {
        s \<leftarrow> ask (Lstat path) (\<lambda>t. on_lstat env t path);
        case s of
          Inl e \<Rightarrow> return ()
        | Inr v \<Rightarrow> do {
            current \<leftarrow> read_usb_interface_driver env (interface_name r);
            case current of
              Some d \<Rightarrow> return ()
            | None \<Rightarrow> do {
                _ \<leftarrow> write_usb_driver_control env (driver_name r) ''bind'' (interface_name r);
                return ()
              }
          }
      })"

fun restore_records :: "host_env \<Rightarrow> UsbInterfaceRecord list \<Rightarrow> (host, unit) state" where
  "restore_records env [] = return ()"
| "restore_records env (r # rs) = do {
     restore_record env r;
     restore_records env rs
   }"

definition restore_exclusive_usb :: "host_env \<Rightarrow> ExclusiveUsbState \<Rightarrow> (host, ExclusiveUsbState) state" where
  "restore_exclusive_usb env st = do {
     restore_records env (rev (records st));
     return no_usb_state
   }"

section \<open>Frame\<close>

text \<open>Apart from questions, the scan and the restoration only write to the controls of drivers.\<close>

context area_policy
begin

lemma quiet_usb_questions:
  "quietly allowed (read_usb_device_id env name)" "quietly allowed (read_usb_interface_driver env name)"
  unfolding read_usb_device_id_def read_usb_sysfs_hex_def read_usb_interface_driver_def
  by ((intro area_intros); simp)+

lemma quiet_usb_control:
  "(\<And>p. area p) \<Longrightarrow> quietly allowed (write_usb_driver_control env driver control name)"
  unfolding write_usb_driver_control_def by (intro area_intros) auto

lemma quiet_prune: "quietly allowed (prune_from env i st)"
proof (induction env i st rule: prune_from.induct)
  case (1 env i st)
  show ?case
    by (subst prune_from.simps) (intro area_intros 1; simp)
qed

lemma quiet_unbind: "(\<And>p. area p) \<Longrightarrow> quietly allowed (unbind_interface env name driver st)"
  unfolding unbind_interface_def by (intro area_intros quiet_usb_control) auto

lemma quiet_reconcile: "(\<And>p. area p) \<Longrightarrow> quietly allowed (reconcile_exclusive_usb env entries st)"
proof -
  assume all: "\<And>p. area p"
  have "quietly allowed (reconcile_entries env entries names st)" for names st
    by (induction names arbitrary: st)
      (auto simp: reconcile_entry_def intro!: area_intros quiet_usb_questions quiet_unbind all)
  then show ?thesis
    unfolding reconcile_exclusive_usb_def prune_disconnected_usb_interfaces_def
    by (intro area_intros quiet_prune) auto
qed

lemma quiet_restore: "(\<And>p. area p) \<Longrightarrow> quietly allowed (restore_exclusive_usb env st)"
proof -
  assume all: "\<And>p. area p"
  have "quietly allowed (restore_records env rs)" for rs
    by (induction rs) (auto simp: restore_record_def intro!: area_intros quiet_usb_questions quiet_usb_control all)
  then show ?thesis
    unfolding restore_exclusive_usb_def by (intro area_intros) auto
qed

end

section \<open>Well-formed records\<close>

text \<open>
  No more than the array holds, one record per interface, and every name can stand in a sysfs path.
\<close>

definition record_ok :: "UsbInterfaceRecord \<Rightarrow> bool" where
  "record_ok r \<longleftrightarrow>
     is_safe_usb_sysfs_name (interface_name r) \<and> (detached_from r \<longrightarrow> is_safe_usb_sysfs_name (driver_name r))"

definition usb_state_ok :: "ExclusiveUsbState \<Rightarrow> bool" where
  "usb_state_ok st \<longleftrightarrow>
     length (records st) \<le> MAX_USB_INTERFACE_RECORDS \<and> distinct (map interface_name (records st))
     \<and> list_all record_ok (records st)"

lemma no_usb_state_ok: "usb_state_ok no_usb_state"
  by (simp add: usb_state_ok_def no_usb_state_def)

lemma find_record_Some:
  "find_usb_interface_record rs name = Some i \<Longrightarrow> i < length rs \<and> interface_name (rs ! i) = name"
  by (induction rs arbitrary: i) (auto split: if_splits)

lemma find_record_None:
  "find_usb_interface_record rs name = None \<longleftrightarrow> name \<notin> interface_name ` set rs"
  by (induction rs) auto

lemma remove_record_ok: "usb_state_ok st \<Longrightarrow> usb_state_ok (remove_usb_interface_record i st)"
proof -
  have "set (take i xs @ drop (Suc i) xs) \<subseteq> set xs" "distinct xs \<Longrightarrow> distinct (take i xs @ drop (Suc i) xs)"
    for xs :: "'a list"
    using set_take_subset [of i xs] set_drop_subset [of "Suc i" xs]
      set_take_disj_set_drop_if_distinct [of xs i "Suc i"] by auto
  from this(1) [of "records st"] this(2) [of "map interface_name (records st)"]
  show "usb_state_ok st \<Longrightarrow> usb_state_ok (remove_usb_interface_record i st)"
    by (auto simp: usb_state_ok_def remove_usb_interface_record_def list_all_iff take_map drop_map)
qed

lemma safe_fits: "is_safe_usb_sysfs_name v \<Longrightarrow> snd (snprintf MAX_USB_SYSFS_NAME v) = v"
  by (auto simp: is_safe_usb_sysfs_name_def snprintf_def)

lemma get_or_create:
  assumes "usb_state_ok st" "is_safe_usb_sysfs_name name"
    "get_or_create_usb_interface_record st name = Some (i, st')"
  shows "usb_state_ok st'" "i < length (records st')" "interface_name (records st' ! i) = name"
    "set (records st) \<subseteq> set (records st')"
  using assms find_record_Some [of "records st" name]
  by (auto simp: get_or_create_usb_interface_record_def usb_state_ok_def find_record_None record_ok_def safe_fits
      nth_append split: option.splits if_splits)

lemma update_record_ok:
  assumes "usb_state_ok st" "i < length (records st)" "interface_name (f (records st ! i)) = interface_name (records st ! i)"
    "record_ok (f (records st ! i))"
  shows "usb_state_ok (update_record i f st)"
proof -
  have "map interface_name ((records st)[i := f (records st ! i)]) = map interface_name (records st)"
    using assms(2,3) by (intro nth_equalityI) (auto simp: nth_list_update)
  then show ?thesis
    using assms set_update_subset_insert [of "records st" i] by (fastforce simp: usb_state_ok_def update_record_def list_all_iff)
qed

section \<open>What a scan unbinds\<close>

definition unbind_call :: "string \<Rightarrow> string \<Rightarrow> host_call" where
  "unbind_call driver name = Write_value (driver_control_path driver ''unbind'') (name @ [CHR 0x0A])"

definition bind_call :: "string \<Rightarrow> string \<Rightarrow> host_call" where
  "bind_call driver name = Write_value (driver_control_path driver ''bind'') (name @ [CHR 0x0A])"

lemma unbind_call_inject [simp]: "unbind_call d n = unbind_call d' n' \<longleftrightarrow> d = d' \<and> n = n'"
  by (auto simp: unbind_call_def driver_control_path_def)

lemma write_control_calls:
  assumes "is_safe_usb_sysfs_name d" "is_safe_usb_sysfs_name n"
  shows "write_usb_driver_control env d ''unbind'' n = call env (unbind_call d n)"
    "write_usb_driver_control env d ''bind'' n = call env (bind_call d n)"
  using assms
  by (simp_all add: write_usb_driver_control_def unbind_call_def bind_call_def driver_control_path_def
      is_safe_usb_sysfs_name_def MAX_USB_SYSFS_NAME_def PATH_MAX_def Let_def)

lemma is_passive_control [simp]: "\<not> is_passive (unbind_call d n)" "\<not> is_passive (bind_call d n)"
  by (simp_all add: unbind_call_def bind_call_def)

lemma control_not_passive [simp]:
  "is_passive c \<Longrightarrow> unbind_call d n \<noteq> c" "is_passive c \<Longrightarrow> bind_call d n \<noteq> c"
  "is_passive c \<Longrightarrow> c \<noteq> unbind_call d n" "is_passive c \<Longrightarrow> c \<noteq> bind_call d n" "bind_call d n \<noteq> unbind_call d' n'"
  by (auto simp: unbind_call_def bind_call_def driver_control_path_def append_eq_append_conv2 append_eq_Cons_conv Cons_eq_append_conv)

section \<open>Accounting for what was unbound\<close>

text \<open>An id of the interface's device was read before, and was on the list.\<close>

definition id_before :: "host_env \<Rightarrow> string \<Rightarrow> string \<Rightarrow> u32 \<Rightarrow> event list \<Rightarrow> bool" where
  "id_before env device file w T \<longleftrightarrow>
     (\<exists>t contents. prefix t T \<and> on_read env t (usb_device_path device @ file) = Inr contents \<and> sysfs_hex contents = Some w)"

definition listed_before :: "host_env \<Rightarrow> UsbDeviceId list \<Rightarrow> string \<Rightarrow> event list \<Rightarrow> bool" where
  "listed_before env entries name T \<longleftrightarrow>
     (\<exists>x \<in> set entries. id_before env (takeWhile (\<lambda>c. c \<noteq> CHR '':'') name) ''/idVendor'' (vendor x) T
        \<and> id_before env (takeWhile (\<lambda>c. c \<noteq> CHR '':'') name) ''/idProduct'' (product x) T)"

text \<open>The host says that the interface is gone or has a driver: now, or at some point after \<open>xs\<close>.\<close>

definition observed :: "host_env \<Rightarrow> string \<Rightarrow> event list \<Rightarrow> bool" where
  "observed env name t \<longleftrightarrow>
     (\<exists>e. on_lstat env t (usb_device_path name) = Inl e)
     \<or> (\<exists>target. on_readlink env t (usb_device_path name @ ''/driver'') = Inr target)"

definition observed_since :: "host_env \<Rightarrow> string \<Rightarrow> event list \<Rightarrow> event list \<Rightarrow> bool" where
  "observed_since env name xs T \<longleftrightarrow> (\<exists>t. prefix xs t \<and> prefix t T \<and> observed env name t)"

text \<open>
  Every interface taken from a driver is of a listed device, and since then the host has said that
  it is gone or has a driver, or it was bound to this driver again, or one of the records holds it.
\<close>

definition accounted ::
  "host_env \<Rightarrow> UsbDeviceId list \<Rightarrow> UsbInterfaceRecord list \<Rightarrow> event list \<Rightarrow> bool" where
  "accounted env entries rs T \<longleftrightarrow>
     (\<forall>xs d n ys. T = xs @ (unbind_call d n, 0) # ys \<longrightarrow>
        listed_before env entries n xs
        \<and> (observed_since env n (xs @ [(unbind_call d n, 0)]) T
           \<or> (\<exists>e. (bind_call d n, e) \<in> set ys)
           \<or> (\<exists>r \<in> set rs. interface_name r = n \<and> driver_name r = d \<and> detached_from r)))"

lemma id_before_mono: "id_before env device file w T \<Longrightarrow> prefix T T' \<Longrightarrow> id_before env device file w T'"
  unfolding id_before_def using prefix_order.trans by blast

lemma listed_before_mono: "listed_before env entries n T \<Longrightarrow> prefix T T' \<Longrightarrow> listed_before env entries n T'"
  unfolding listed_before_def using id_before_mono by blast

lemma observed_since_mono: "observed_since env n xs T \<Longrightarrow> prefix T T' \<Longrightarrow> observed_since env n xs T'"
  unfolding observed_since_def using prefix_order.trans by blast

lemma snoc_split:
  "T @ [x] = xs @ y # ys \<longleftrightarrow> (ys = [] \<and> T = xs \<and> x = y) \<or> (\<exists>zs. ys = zs @ [x] \<and> T = xs @ y # zs)"
  by (cases ys rule: rev_cases) auto

lemma accounted_Nil: "(\<And>d n. (unbind_call d n, 0) \<notin> set T) \<Longrightarrow> accounted env entries rs T"
  unfolding accounted_def by (metis in_set_conv_decomp)

text \<open>An event other than a successful unbind.\<close>

lemma accounted_event:
  assumes "accounted env entries rs T" "\<And>d n. (c, e) \<noteq> (unbind_call d n, 0)"
    and "\<And>r. r \<in> set rs \<Longrightarrow> detached_from r \<Longrightarrow> r \<in> set rs' \<or> c = bind_call (driver_name r) (interface_name r)"
  shows "accounted env entries rs' (T @ [(c, e)])"
  unfolding accounted_def snoc_split
proof (intro allI impI, elim disjE conjE exE)
  fix xs d n ys zs
  assume "ys = zs @ [(c, e)]" and T: "T = xs @ (unbind_call d n, 0) # zs"
  then show "listed_before env entries n xs
      \<and> (observed_since env n (xs @ [(unbind_call d n, 0)]) (T @ [(c, e)])
         \<or> (\<exists>e. (bind_call d n, e) \<in> set ys)
         \<or> (\<exists>r\<in>set rs'. interface_name r = n \<and> driver_name r = d \<and> detached_from r))"
    using assms(1) [unfolded accounted_def, rule_format, OF T] assms(3)
      observed_since_mono [of env n "xs @ [(unbind_call d n, 0)]" T "T @ [(c, e)]"] by auto
qed (use assms(2) in auto)

lemma accounted_unbind:
  assumes "accounted env entries rs T" "listed_before env entries n T" "set rs \<subseteq> set rs'"
    and "r \<in> set rs'" "interface_name r = n" "driver_name r = d" "detached_from r"
  shows "accounted env entries rs' (T @ [(unbind_call d n, 0)])"
  unfolding accounted_def snoc_split
proof (intro allI impI, elim disjE conjE exE)
  fix xs d' n' ys zs
  assume "ys = zs @ [(unbind_call d n, 0)]" and T: "T = xs @ (unbind_call d' n', 0) # zs"
  then show "listed_before env entries n' xs
      \<and> (observed_since env n' (xs @ [(unbind_call d' n', 0)]) (T @ [(unbind_call d n, 0)])
         \<or> (\<exists>e. (bind_call d' n', e) \<in> set ys)
         \<or> (\<exists>r\<in>set rs'. interface_name r = n' \<and> driver_name r = d' \<and> detached_from r))"
    using assms(1) [unfolded accounted_def, rule_format, OF T] assms(3)
      observed_since_mono [of env n' "xs @ [(unbind_call d' n', 0)]" T] by auto
qed (use assms in auto)

text \<open>What the host says now frees the records of this interface.\<close>

lemma accounted_observed:
  assumes "accounted env entries rs T" "observed env n T"
    and "\<And>r. r \<in> set rs \<Longrightarrow> interface_name r \<noteq> n \<Longrightarrow> r \<in> set rs'"
  shows "accounted env entries rs' T"
  unfolding accounted_def
proof (intro allI impI)
  fix xs d n' ys
  assume T: "T = xs @ (unbind_call d n', 0) # ys"
  have "observed_since env n (xs @ [(unbind_call d n', 0)]) T"
    unfolding observed_since_def using T assms(2) by (intro exI [of _ T]) (auto simp: prefix_def)
  with assms(1) [unfolded accounted_def, rule_format, OF T] assms(3)
  show "listed_before env entries n' xs
      \<and> (observed_since env n' (xs @ [(unbind_call d n', 0)]) T
         \<or> (\<exists>e. (bind_call d n', e) \<in> set ys)
         \<or> (\<exists>r\<in>set rs'. interface_name r = n' \<and> driver_name r = d \<and> detached_from r))"
    by (cases "n' = n") auto
qed

lemma accounted_mono: "accounted env entries rs T \<Longrightarrow> set rs \<subseteq> set rs' \<Longrightarrow> accounted env entries rs' T"
  unfolding accounted_def by blast

abbreviation asked :: "host \<Rightarrow> host \<Rightarrow> bool" where
  "asked \<equiv> extends (\<lambda>(c, e). is_passive c)"

lemma asked_log: "is_passive c \<Longrightarrow> asked h (h\<lparr>h_trace := h_trace h @ [(c, e)]\<rparr>)"
  by (simp add: extends_def)

lemma accounted_others:
  assumes "accounted env entries rs T" "list_all (\<lambda>(c, e). \<forall>d n. (c, e) \<noteq> (unbind_call d n, 0)) es"
  shows "accounted env entries rs (T @ es)"
  using assms(2)
proof (induction es rule: rev_induct)
  case (snoc x es)
  then show ?case
    using accounted_event [of env entries rs "T @ es" "fst x" "snd x" rs] by (cases x) auto
qed (use assms in simp)

lemma accounted_asked: "accounted env entries rs (h_trace h) \<Longrightarrow> asked h h' \<Longrightarrow> accounted env entries rs (h_trace h')"
  unfolding extends_def by (force simp: list_all_iff intro!: accounted_others)

lemma asked_prefix: "asked h h' \<Longrightarrow> prefix (h_trace h) (h_trace h')"
  by (auto simp: extends_def)

section \<open>Questions\<close>

lemma read_driver_asks:
  "wp (read_usb_interface_driver env name)
     (\<lambda>r h'. asked h h' \<and> (\<forall>d. r = Some d \<longrightarrow> is_safe_usb_sysfs_name d \<and> observed env name (h_trace h))) h"
  by (auto simp: read_usb_interface_driver_def observed_def wp_simps Let_def emits.R_refl asked_log split: sum.splits)

lemma read_hex_asks:
  "wp (read_usb_sysfs_hex env (usb_device_path n @ f))
     (\<lambda>r h'. asked h h' \<and> (\<forall>w. r = Some w \<longrightarrow> id_before env n f w (h_trace h'))) h"
  by (auto simp: read_usb_sysfs_hex_def id_before_def wp_simps asked_log split: sum.splits)

lemma read_id_asks:
  "wp (read_usb_device_id env n)
     (\<lambda>r h'. asked h h' \<and> (\<forall>v p. r = Some (v, p) \<longrightarrow>
        id_before env n ''/idVendor'' v (h_trace h') \<and> id_before env n ''/idProduct'' p (h_trace h'))) h"
  unfolding read_usb_device_id_def Let_def
  by (simp add: wp_if wp_return wp_bind emits.R_refl, intro impI wp_mono [OF read_hex_asks])
    (auto simp: wp_return wp_bind intro!: wp_mono [OF read_hex_asks] split: option.split,
      (erule (1) emits.R_trans)+, erule id_before_mono, erule asked_prefix)

section \<open>Scans keep the account\<close>

definition kept :: "host_env \<Rightarrow> UsbDeviceId list \<Rightarrow> ExclusiveUsbState \<Rightarrow> host \<Rightarrow> bool" where
  "kept env entries st h \<longleftrightarrow> usb_state_ok st \<and> accounted env entries (records st) (h_trace h)"

lemma kept_asked: "kept env entries st h \<Longrightarrow> asked h h' \<Longrightarrow> kept env entries st h'"
  unfolding kept_def using accounted_asked by blast

lemma unbind_keeps:
  assumes "usb_state_ok st" "is_safe_usb_sysfs_name name" "is_safe_usb_sysfs_name d"
    and "listed_before env entries name (h_trace h)"
    and "accounted env entries [r \<leftarrow> records st. interface_name r \<noteq> name] (h_trace h)"
  shows "wp (unbind_interface env name d st) (\<lambda>st' h'. kept env entries st' h') h"
proof (cases "get_or_create_usb_interface_record st name")
  case None
  then show ?thesis
    using assms by (auto simp: unbind_interface_def wp_simps kept_def elim: accounted_mono)
next
  case (Some ist)
  obtain i st' where ist: "ist = (i, st')" by (cases ist)
  note g = get_or_create [OF assms(1,2) Some [unfolded ist]]
  let ?others = "[r \<leftarrow> records st. interface_name r \<noteq> name]"
  let ?T = "h_trace h @ [(Clock, 0)]"
  have T: "accounted env entries ?others ?T" "listed_before env entries name ?T"
    using accounted_event [OF assms(5), of Clock 0 ?others] listed_before_mono [OF assms(4)]
    by auto
  have upd: "usb_state_ok (update_record i f st')" "f (records st' ! i) \<in> set (records (update_record i f st'))"
    "set ?others \<subseteq> set (records (update_record i f st'))"
    if "interface_name (f (records st' ! i)) = name" "record_ok (f (records st' ! i))" for f
  proof -
    show "usb_state_ok (update_record i f st')"
      using update_record_ok [of st' i f] g that by simp
    show "f (records st' ! i) \<in> set (records (update_record i f st'))"
      using g(2) by (simp add: update_record_def set_update_memI)
    have "r \<in> set ((records st')[i := x])" if "r \<in> set (records st')" "interface_name r \<noteq> name" for r x
      using that g(2,3) by (metis in_set_conv_nth length_list_update nth_list_update_neq)
    then show "set ?others \<subseteq> set (records (update_record i f st'))"
      using g(4) by (auto simp: update_record_def)
  qed
  define ok :: "UsbInterfaceRecord \<Rightarrow> UsbInterfaceRecord"
    where "ok = (\<lambda>r. r\<lparr>driver_name := d, detached_from := True, last_errno := 0, retry_after_ms := 0\<rparr>)"
  have ok: "record_ok (ok (records st' ! i))" "interface_name (ok (records st' ! i)) = name"
    "driver_name (ok (records st' ! i)) = d" "detached_from (ok (records st' ! i))"
    using g(3) assms(2,3) by (simp_all add: ok_def record_ok_def)
  have success: "kept env entries (update_record i ok st') (h\<lparr>h_trace := ?T @ [(unbind_call d name, 0)]\<rparr>)"
    using accounted_unbind [OF T upd(3) upd(2), of ok d] upd(1) [of ok] ok by (simp add: kept_def)
  have failure: "kept env entries (update_record i f st') (h\<lparr>h_trace := ?T @ [(unbind_call d name, e)]\<rparr>)"
    if "e \<noteq> 0" "interface_name (f (records st' ! i)) = name" "record_ok (f (records st' ! i))" for f e
    using accounted_event [OF T(1), of "unbind_call d name" e] upd(1,3) [of f] that by (auto simp: kept_def)
  have later: "kept env entries st' (h\<lparr>h_trace := ?T\<rparr>)"
    using T(1) g(1,4) accounted_mono [OF T(1), of "records st'"] by (auto simp: kept_def)
  show ?thesis
  proof (cases "on_call env ?T (unbind_call d name) = 0")
    case True
    then show ?thesis
      unfolding unbind_interface_def Some ist option.case prod.case
      using later success by (simp add: wp_simps write_control_calls assms safe_fits ok_def)
  next
    case False
    let ?f = "\<lambda>r. r\<lparr>driver_name := d, detached_from := False, last_errno := on_call env ?T (unbind_call d name),
      retry_after_ms := on_clock env (h_trace h) + kExclusiveUsbRetryIntervalMs\<rparr>"
    have "interface_name (?f (records st' ! i)) = name" "record_ok (?f (records st' ! i))"
      using g(3) assms(2) by (simp_all add: record_ok_def)
    from failure [of _ ?f, OF False this] False later show ?thesis
      unfolding unbind_interface_def Some ist option.case prod.case
      by (simp add: wp_simps write_control_calls assms safe_fits)
  qed
qed

lemma entry_keeps:
  assumes "kept env entries st h"
  shows "wp (reconcile_entry env entries name st) (\<lambda>st' h'. kept env entries st' h') h"
proof (cases "CHR '':'' \<in> set name \<and> is_safe_usb_sysfs_name name")
  case safe: True
  let ?device = "takeWhile (\<lambda>c. c \<noteq> CHR '':'') name"
  have driver: "wp (read_usb_interface_driver env name)
      (\<lambda>r. wp (case r of None \<Rightarrow> return st | Some d \<Rightarrow> unbind_interface env name d st) (\<lambda>st' h'. kept env entries st' h')) h1"
    if "asked h h1" "listed_before env entries name (h_trace h1)" for h1
  proof (rule wp_mono [OF read_driver_asks])
    fix r :: "string option" and h2 :: host
    assume r: "asked h1 h2 \<and> (\<forall>d. r = Some d \<longrightarrow> is_safe_usb_sysfs_name d \<and> observed env name (h_trace h1))"
    have 1: "kept env entries st h1" by (rule kept_asked [OF assms that(1)])
    have "accounted env entries [r \<leftarrow> records st. interface_name r \<noteq> name] (h_trace h2)" if "r = Some d" for d
    proof -
      have "accounted env entries [r \<leftarrow> records st. interface_name r \<noteq> name] (h_trace h1)"
        by (rule accounted_observed [where n = name and rs = "records st"]) (use 1 r that in \<open>auto simp: kept_def\<close>)
      then show ?thesis using accounted_asked r by blast
    qed
    then show "wp (case r of None \<Rightarrow> return st | Some d \<Rightarrow> unbind_interface env name d st) (\<lambda>st' h'. kept env entries st' h') h2"
      using r safe 1 kept_asked [OF 1, of h2] listed_before_mono [OF that(2) asked_prefix, of h2]
        1 [unfolded kept_def] by (auto simp: wp_return intro!: unbind_keeps split: option.split)
  qed
  have ids: "wp (read_usb_device_id env ?device)
      (\<lambda>r. wp (case r of None \<Rightarrow> return st | Some (v, p) \<Rightarrow>
         if \<not> usb_filter_matches entries v p then return st
         else read_usb_interface_driver env name \<bind>
           (\<lambda>r. case r of None \<Rightarrow> return st | Some d \<Rightarrow> unbind_interface env name d st)) (\<lambda>st' h'. kept env entries st' h')) h"
    by (rule wp_mono [OF read_id_asks])
      (auto simp: wp_return wp_bind usb_filter_matches_def list_ex_iff listed_before_def
        intro!: kept_asked [OF assms] driver split: option.split)
  show ?thesis
    using safe assms ids by (simp add: reconcile_entry_def Let_def wp_if wp_return wp_bind)
qed (use assms in \<open>auto simp: reconcile_entry_def wp_simps\<close>)

lemma entries_keep: "kept env entries st h \<Longrightarrow> wp (reconcile_entries env entries names st) (\<lambda>st' h'. kept env entries st' h') h"
  by (induction names arbitrary: st h) (auto simp: wp_simps intro!: wp_mono [OF entry_keeps])

lemma prune_keeps: "kept env entries st h \<Longrightarrow> wp (prune_from env i st) (\<lambda>st' h'. kept env entries st' h') h"
proof (induction env i st arbitrary: h rule: prune_from.induct)
  case (1 env i st)
  let ?r = "records st ! i"
  have kept: "usb_state_ok st" "accounted env entries (records st) (h_trace h)"
    using 1(4) by (auto simp: kept_def)
  have short: "i < length (records st) \<Longrightarrow> length (usb_device_path (interface_name ?r)) < PATH_MAX"
    using kept(1)
    by (auto simp: usb_state_ok_def list_all_length record_ok_def is_safe_usb_sysfs_name_def usb_device_path_def
        MAX_USB_SYSFS_NAME_def PATH_MAX_def)
  have gone: "kept env entries (remove_usb_interface_record i st) (h\<lparr>h_trace := h_trace h @ [(Lstat p, 0)]\<rparr>)"
    if "on_lstat env (h_trace h) (usb_device_path (interface_name ?r)) = Inl ENOENT" "i < length (records st)" for p
  proof -
    have "accounted env entries (records (remove_usb_interface_record i st)) (h_trace h)"
    proof (rule accounted_observed [OF kept(2), where n = "interface_name ?r"])
      show "observed env (interface_name ?r) (h_trace h)"
        using that(1) by (auto simp: observed_def)
      show "r \<in> set (records (remove_usb_interface_record i st))"
        if "r \<in> set (records st)" "interface_name r \<noteq> interface_name ?r" for r
        using that \<open>i < length (records st)\<close> id_take_nth_drop [of i "records st"]
        by (auto simp: remove_usb_interface_record_def) (metis in_set_conv_decomp Un_iff set_ConsD set_append)
    qed
    then show ?thesis
      using accounted_event remove_record_ok [OF kept(1)] by (auto simp: kept_def)
  qed
  have stays: "kept env entries st (h\<lparr>h_trace := h_trace h @ [(Lstat p, 0)]\<rparr>)" for p
    using kept_asked [OF 1(4)] asked_log [of "Lstat p" h 0] by simp
  show ?case
    using 1(2,3) short gone stays 1(4)
    by (subst prune_from.simps) (auto simp: wp_bind wp_ask wp_if wp_return Let_def)
qed

lemma reconcile_keeps:
  assumes "kept env entries st h"
  shows "wp (reconcile_exclusive_usb env entries st) (\<lambda>st' h'. kept env entries st' h') h"
proof -
  have errno: "kept env entries (st'\<lparr>last_scan_errno := e\<rparr>) h' = kept env entries st' h'" for st' e h'
    by (simp add: kept_def usb_state_ok_def)
  have log: "kept env entries st' h' \<Longrightarrow> kept env entries st' (h'\<lparr>h_trace := h_trace h' @ [(List_directory p, 0)]\<rparr>)" for st' h' p
    using kept_asked [of env entries st' h'] asked_log [of "List_directory p" h' 0] by simp
  show ?thesis
    unfolding reconcile_exclusive_usb_def prune_disconnected_usb_interfaces_def wp_bind
    by (rule wp_mono [OF prune_keeps [OF assms]])
      (auto simp: wp_ask wp_return errno intro!: log entries_keep split: sum.split)
qed


section \<open>The restoration settles the account\<close>

lemma restore_record_settles:
  assumes "record_ok r" "accounted env entries (r # rs) (h_trace h)"
  shows "wp (restore_record env r) (\<lambda>u h'. accounted env entries rs (h_trace h')) h"
proof (cases "detached_from r")
  case False
  then have "accounted env entries rs (h_trace h)"
    using assms(2) unfolding accounted_def by auto
  with False show ?thesis by (simp add: restore_record_def wp_simps)
next
  case True
  let ?path = "usb_device_path (interface_name r)"
  have short: "length ?path < PATH_MAX - 7"
    using assms(1) by (simp add: record_ok_def is_safe_usb_sysfs_name_def usb_device_path_def MAX_USB_SYSFS_NAME_def PATH_MAX_def)
  let ?T = "h_trace h @ [(Lstat ?path, 0)]"
  have T: "accounted env entries (r # rs) ?T"
    using accounted_event [OF assms(2), of "Lstat ?path" 0] by auto
  have drop: "observed env (interface_name r) t \<Longrightarrow> accounted env entries (r # rs) t \<Longrightarrow> accounted env entries rs t" for t
    by (erule accounted_observed [rotated]) auto
  have gone: "accounted env entries rs ?T" if "on_lstat env (h_trace h) ?path = Inl e" for e
    using drop [of "h_trace h"] assms(2) accounted_event [of env entries rs "h_trace h" "Lstat ?path" 0 rs] that
    by (auto simp: observed_def)
  have bound: "accounted env entries rs (?T @ [(Read_link p, 0)])"
    if "on_readlink env ?T (?path @ ''/driver'') = Inr target" for p target
    using drop [OF _ T] accounted_event [of env entries rs ?T "Read_link p" 0 rs] that by (auto simp: observed_def)
  have bind: "accounted env entries rs ((?T @ [(Read_link p, 0)]) @ [(bind_call (driver_name r) (interface_name r), e)])" for p e
    by (rule accounted_event [where rs = "r # rs"]) (use accounted_event [OF T, of "Read_link p" 0] in auto)
  show ?thesis
    using True short assms(1) gone bound bind
    by (auto simp: restore_record_def read_usb_interface_driver_def Let_def wp_simps record_ok_def write_control_calls
        split: sum.splits option.splits if_splits)
qed

lemma restore_records_settle:
  "list_all record_ok rs \<Longrightarrow> accounted env entries rs (h_trace h) \<Longrightarrow>
   wp (restore_records env rs) (\<lambda>u h'. accounted env entries [] (h_trace h')) h"
  by (induction rs arbitrary: h) (auto simp: wp_simps intro!: wp_mono [OF restore_record_settles])

lemma restore_settles:
  assumes "kept env entries st h"
  shows "wp (restore_exclusive_usb env st) (\<lambda>st' h'. st' = no_usb_state \<and> accounted env entries [] (h_trace h')) h"
  unfolding restore_exclusive_usb_def wp_bind wp_return
  by (rule wp_mono [OF restore_records_settle])
    (use assms accounted_mono [of env entries "records st" "h_trace h" "rev (records st)"] in \<open>auto simp: kept_def usb_state_ok_def\<close>)

end
