(* ===== verification/Supervisor.thy ===== *)
theory Supervisor
  imports Namespace_Setup Usb_Exclusive
begin

text \<open>
  The supervisor (\<open>bfu_namespace_probe.c\<close>): it prepares the namespaces, forks Debian's init or SSH
  daemon, watches it, and cleans up. A forked child is a program of its own
  (\<open>Namespace_Setup\<close>); here a fork only yields its pid. The text of a message to the launcher is
  kept up to the stage or mode it names.

  Loops that end with a deadline have one round of fuel per millisecond: every round sleeps, so on
  a clock that advances it is never used up. The loop that watches the service has fuel of its own
  and returns \<open>None\<close> when it is used up, that is, while the service still runs.
\<close>

section \<open>Helpers\<close>

definition kStartGraceMs :: int where "kStartGraceMs = 3000"
definition kExclusiveUsbScanIntervalMs :: int where "kExclusiveUsbScanIntervalMs = 2000"
definition INT64_MAX :: int where "INT64_MAX = 9223372036854775807"

definition clock :: "host_env \<Rightarrow> (host, int) state" where
  "clock env = ask Clock (on_clock env)"

text \<open>\<open>write_state\<close> on the files of the host: whether it returned 0, and the state with its new time.\<close>

definition save_state :: "host_env \<Rightarrow> string \<Rightarrow> LauncherState \<Rightarrow> (host, bool \<times> LauncherState) state" where
  "save_state env control_dir s = do {
     (r, s', fss) \<leftarrow> gets (\<lambda>h. write_state (on_state_io env (h_trace h)) (env_pid env) (on_time env (h_trace h))
       control_dir s (h_files h));
     modify (\<lambda>h. h\<lparr>h_files := (if fss = [] then h_files h else last fss)\<rparr>);
     log_call (Save_state s') (if r = 0 then 0 else 1);
     return (r = 0, s')
   }"

definition load_state :: "host_env \<Rightarrow> string \<Rightarrow> (host, LauncherState option) state" where
  "load_state env control_dir = do {
     s \<leftarrow> gets (\<lambda>h. read_state (on_time env (h_trace h)) control_dir (h_files h));
     log_call (Read_file control_dir) 0;
     return s
   }"

definition inspect :: "host_env \<Rightarrow> (procfs \<Rightarrow> 'a) \<Rightarrow> (host, 'a) state" where
  "inspect env f = ask Inspect_processes (\<lambda>t. f (on_proc env t))"

definition join_child :: "host_env \<Rightarrow> int \<Rightarrow> (host, nat + int) state" where
  "join_child env pid = ask (Wait pid) (\<lambda>t. on_join env t pid)"

text \<open>A message to the launcher, then the exit code.\<close>

definition tell :: "host_env \<Rightarrow> string \<Rightarrow> 'a \<Rightarrow> (host, 'a) state" where
  "tell env message x = do {
     _ \<leftarrow> call env (Message message);
     return x
   }"

definition start_failed :: "string \<Rightarrow> string" where
  "start_failed stage = ''BFU_DEBIAN_START_FAILED stage='' @ stage"

section \<open>Waiting for a child\<close>

text \<open>
  \<open>while (monotonic_millis() < deadline)\<close> around a \<open>waitpid\<close> with \<open>WNOHANG\<close>: the status, the error
  of \<open>waitpid\<close>, or \<open>None\<close> at the deadline.
\<close>

fun poll_child :: "nat \<Rightarrow> host_env \<Rightarrow> int \<Rightarrow> int \<Rightarrow> (host, (nat + int) option) state" where
  "poll_child 0 env deadline pid = return None"
| "poll_child (Suc n) env deadline pid = do {
     now \<leftarrow> clock env;
     if now \<ge> deadline then return None
     else do {
       w \<leftarrow> ask (Wait pid) (\<lambda>t. on_wait env t pid);
       case w of
         Reaped status \<Rightarrow> return (Some (Inr status))
       | _ \<Rightarrow>
           if (case w of Wait_errno e \<Rightarrow> e \<noteq> EINTR | _ \<Rightarrow> False)
           then return (Some (Inl (case w of Wait_errno e \<Rightarrow> e | _ \<Rightarrow> 0)))
           else do {
             _ \<leftarrow> call env (Sleep 100000);
             poll_child n env deadline pid
           }
     }
   }"

text \<open>The result and the early status: 0 survived, 1 reaped, -1 unknown.\<close>

definition wait_for_start_grace :: "host_env \<Rightarrow> int \<Rightarrow> (host, int \<times> int) state" where
  "wait_for_start_grace env pid = do {
     started \<leftarrow> clock env;
     r \<leftarrow> poll_child (nat kStartGraceMs + 1) env (started + kStartGraceMs) pid;
     case r of
       Some (Inr status) \<Rightarrow> return (1, status)
     | Some (Inl e) \<Rightarrow> return (-1, -1)
     | None \<Rightarrow> do {
         e \<leftarrow> call env (Kill pid 0);
         return (if e = 0 then 0 else -1, -1)
       }
   }"

text \<open>The result of polling and reading the pipe: 0 for end of file, 1 for a report, -1 otherwise.\<close>

definition wait_for_exec_result :: "host_env \<Rightarrow> (host, int) state" where
  "wait_for_exec_result env = do {
     r \<leftarrow> ask Poll (on_poll env);
     return (case r of Inl e \<Rightarrow> -1 | Inr text \<Rightarrow> if text = [] then 0 else 1)
   }"

definition report_start_grace_failure :: "host_env \<Rightarrow> string \<Rightarrow> int \<Rightarrow> 'a \<Rightarrow> (host, 'a) state" where
  "report_start_grace_failure env stage status x =
     tell env (start_failed (stage @
       (if 0 \<le> status \<and> WIFEXITED status then '' child_exit='' @ dec_int (WEXITSTATUS status)
        else if 0 \<le> status \<and> WIFSIGNALED status then '' child_signal='' @ dec_int (WTERMSIG status)
        else '' child_status=unknown''))) x"

text \<open>
  What the supervisor's parent side of \<open>request_systemd_manager_exit\<close> does; the child enters the
  root and executes \<open>systemctl --no-block exit\<close>.
\<close>

definition request_systemd_manager_exit :: "host_env \<Rightarrow> (host, int) state" where
  "request_systemd_manager_exit env = do {
     f \<leftarrow> ask Fork (on_fork env);
     case f of
       Inl e \<Rightarrow> return (-1)
     | Inr pid \<Rightarrow> do {
         started \<leftarrow> clock env;
         r \<leftarrow> poll_child 5001 env (started + 5000) pid;
         case r of
           Some (Inr status) \<Rightarrow> return (if WIFEXITED status \<and> WEXITSTATUS status = 0 then 0 else -1)
         | Some (Inl e) \<Rightarrow> return (-1)
         | None \<Rightarrow> do {
             _ \<leftarrow> call env (Kill pid SIGKILL);
             _ \<leftarrow> join_child env pid;
             return (-1)
           }
       }
   }"

definition enter_systemctl_exit :: "host_env \<Rightarrow> string \<Rightarrow> (host, int) state" where
  "enter_systemctl_exit env root = run_steps
     [(do { _ \<leftarrow> call env Reset_signals; return 0 }),
      step env (Chdir root) 126, step env (Chroot ''.'') 126, step env (Chdir ''/'') 126,
      replace_environment env (base_variables ''dawnshell''),
      step env (Execv ''/usr/bin/systemctl'' [''systemctl'', ''--no-block'', ''exit'']) 127]"

definition signal_compat_service :: "host_env \<Rightarrow> int \<Rightarrow> int \<Rightarrow> (host, unit) state" where
  "signal_compat_service env pid sig =
     (if pid \<le> 1 then return ()
      else do {
        _ \<leftarrow> call env (Kill pid sig);
        g \<leftarrow> ask (Get_group pid) (\<lambda>t. on_group env t pid);
        if g = pid then do {
          _ \<leftarrow> call env (Kill_group pid sig);
          return ()
        } else return ()
      })"

section \<open>Watching the service\<close>

text \<open>
  The two main loops differ in how they stop the service, how they kill it and how long they wait
  in between; the rest of the loop is one definition.
\<close>

definition stop_service :: "host_env \<Rightarrow> LaunchMode \<Rightarrow> int \<Rightarrow> (host, unit) state" where
  "stop_service env mode pid =
     (if mode = LAUNCH_MODE_COMPAT then signal_compat_service env pid SIGTERM
      else do {
        r \<leftarrow> request_systemd_manager_exit env;
        if r = 0 then return ()
        else do {
          _ \<leftarrow> call env (Kill pid (SIGRTMIN + 3));
          return ()
        }
      })"

definition kill_service :: "host_env \<Rightarrow> LaunchMode \<Rightarrow> int \<Rightarrow> (host, unit) state" where
  "kill_service env mode pid =
     (if mode = LAUNCH_MODE_COMPAT then signal_compat_service env pid SIGKILL
      else do {
        _ \<leftarrow> call env (Kill pid SIGKILL);
        return ()
      })"

definition stop_grace :: "LaunchMode \<Rightarrow> int" where
  "stop_grace mode = (if mode = LAUNCH_MODE_COMPAT then 10000 else 20000)"

record watch =
  wt_usb :: ExclusiveUsbState
  wt_state :: LauncherState
  wt_shutdown_sent :: bool
  wt_deadline :: int
  wt_next_scan :: int

definition scan_when_due ::
  "host_env \<Rightarrow> HostUsbPolicy \<Rightarrow> UsbDeviceId list \<Rightarrow> watch \<Rightarrow> (host, watch) state" where
  "scan_when_due env usb entries w = do {
     stopping \<leftarrow> gets (\<lambda>h. on_stop env (h_trace h));
     if usb \<noteq> HOST_USB_EXCLUSIVE \<or> stopping then return w
     else do {
       now \<leftarrow> clock env;
       if now < wt_next_scan w then return w
       else do {
         st \<leftarrow> reconcile_exclusive_usb env entries (wt_usb w);
         again \<leftarrow> clock env;
         return (w\<lparr>wt_usb := st, wt_next_scan := again + kExclusiveUsbScanIntervalMs\<rparr>)
       }
     }
   }"

definition stop_when_requested ::
  "host_env \<Rightarrow> string \<Rightarrow> LaunchMode \<Rightarrow> int \<Rightarrow> watch \<Rightarrow> (host, watch) state" where
  "stop_when_requested env control_dir mode pid w = do {
     stopping \<leftarrow> gets (\<lambda>h. on_stop env (h_trace h));
     if \<not> stopping \<or> wt_shutdown_sent w then return w
     else do {
       stop_service env mode pid;
       now \<leftarrow> clock env;
       (_, s) \<leftarrow> save_state env control_dir ((wt_state w)\<lparr>ls_state := ''stopping''\<rparr>);
       return (w\<lparr>wt_shutdown_sent := True, wt_deadline := now + stop_grace mode, wt_state := s\<rparr>)
     }
   }"

definition kill_when_late :: "host_env \<Rightarrow> LaunchMode \<Rightarrow> int \<Rightarrow> watch \<Rightarrow> (host, watch) state" where
  "kill_when_late env mode pid w =
     (if \<not> wt_shutdown_sent w then return w
      else do {
        now \<leftarrow> clock env;
        if now < wt_deadline w then return w
        else do {
          kill_service env mode pid;
          return (w\<lparr>wt_deadline := INT64_MAX\<rparr>)
        }
      })"

text \<open>One round after a \<open>waitpid\<close> that did not end the loop.\<close>

definition watch_round ::
  "host_env \<Rightarrow> string \<Rightarrow> LaunchMode \<Rightarrow> HostUsbPolicy \<Rightarrow> UsbDeviceId list \<Rightarrow> int \<Rightarrow> watch \<Rightarrow> (host, watch) state" where
  "watch_round env control_dir mode usb entries pid w = do {
     w1 \<leftarrow> scan_when_due env usb entries w;
     w2 \<leftarrow> stop_when_requested env control_dir mode pid w1;
     w3 \<leftarrow> kill_when_late env mode pid w2;
     _ \<leftarrow> call env (Sleep 200000);
     return w3
   }"

fun watch_service ::
  "nat \<Rightarrow> host_env \<Rightarrow> string \<Rightarrow> LaunchMode \<Rightarrow> HostUsbPolicy \<Rightarrow> UsbDeviceId list \<Rightarrow> int \<Rightarrow> watch \<Rightarrow>
   (host, (int \<times> watch) option) state" where
  "watch_service 0 env control_dir mode usb entries pid w = return None"
| "watch_service (Suc n) env control_dir mode usb entries pid w = do {
     r \<leftarrow> ask (Wait pid) (\<lambda>t. on_wait env t pid);
     case r of
       Reaped status \<Rightarrow> return (Some (status, w))
     | _ \<Rightarrow>
         if (case r of Wait_errno e \<Rightarrow> e \<noteq> EINTR | _ \<Rightarrow> False) then return (Some (255, w))
         else do {
           w' \<leftarrow> watch_round env control_dir mode usb entries pid w;
           watch_service n env control_dir mode usb entries pid w'
         }
   }"

section \<open>The end of a run\<close>

definition stop_manager :: "host_env \<Rightarrow> int \<Rightarrow> (host, unit) state" where
  "stop_manager env manager =
     (if manager > 0 then do {
        _ \<leftarrow> call env (Kill manager SIGTERM);
        _ \<leftarrow> join_child env manager;
        return ()
      } else return ())"

text \<open>After the main loop: USB, the network manager, the cgroups, and the last state.\<close>

definition finish_run ::
  "host_env \<Rightarrow> string \<Rightarrow> string \<Rightarrow> HostUsbPolicy \<Rightarrow> int \<Rightarrow> int \<Rightarrow> watch \<Rightarrow> (host, int option) state" where
  "finish_run env root control_dir usb manager status w = do {
     (if usb = HOST_USB_EXCLUSIVE then do { _ \<leftarrow> restore_exclusive_usb env (wt_usb w); return () } else return ());
     stop_manager env manager;
     cleanup_delegated_cgroups env root control_dir;
     _ \<leftarrow> save_state env control_dir ((wt_state w)\<lparr>ls_state := ''stopped'', ls_wait_status := status\<rparr>);
     return (Some 0)
   }"

text \<open>The common part of both main programs from the state \<open>running\<close> on.\<close>

definition run_service ::
  "nat \<Rightarrow> host_env \<Rightarrow> string \<Rightarrow> string \<Rightarrow> LaunchMode \<Rightarrow> HostUsbPolicy \<Rightarrow> UsbDeviceId list \<Rightarrow> int \<Rightarrow> int \<Rightarrow>
   LauncherState \<Rightarrow> (host, int option) state" where
  "run_service n env root control_dir mode usb entries manager pid s = do {
     st \<leftarrow> (if usb = HOST_USB_EXCLUSIVE then reconcile_exclusive_usb env entries no_usb_state else return no_usb_state);
     (_, s1) \<leftarrow> save_state env control_dir (s\<lparr>ls_state := ''running''\<rparr>);
     _ \<leftarrow> call env (Message (if mode = LAUNCH_MODE_COMPAT then ''BFU_DEBIAN_FALLBACK_STARTED '' else ''BFU_DEBIAN_STARTED ''));
     now \<leftarrow> clock env;
     r \<leftarrow> watch_service n env control_dir mode usb entries pid
            \<lparr>wt_usb = st, wt_state = s1, wt_shutdown_sent = False, wt_deadline = 0,
             wt_next_scan = now + kExclusiveUsbScanIntervalMs\<rparr>;
     case r of
       None \<Rightarrow> return None
     | Some (status, w) \<Rightarrow> finish_run env root control_dir usb manager status w
   }"

section \<open>The start of a run\<close>

text \<open>Up to 20 attempts to read the start time of the child.\<close>

fun record_start_ticks :: "nat \<Rightarrow> host_env \<Rightarrow> int \<Rightarrow> LauncherState \<Rightarrow> (host, LauncherState) state" where
  "record_start_ticks 0 env pid s = return s"
| "record_start_ticks (Suc n) env pid s = do {
     r \<leftarrow> inspect env (\<lambda>p. read_proc_start_ticks p pid);
     case r of
       Some ticks \<Rightarrow> return (s\<lparr>ls_init_start_ticks := ticks\<rparr>)
     | None \<Rightarrow> do {
         _ \<leftarrow> call env (Sleep 50000);
         record_start_ticks n env pid s
       }
   }"

text \<open>A start that failed after the fork: the state \<open>failed\<close> with its code.\<close>

definition save_failed :: "host_env \<Rightarrow> string \<Rightarrow> int \<Rightarrow> LauncherState \<Rightarrow> (host, unit) state" where
  "save_failed env control_dir code s = do {
     _ \<leftarrow> save_state env control_dir (s\<lparr>ls_state := ''failed'', ls_wait_status := code\<rparr>);
     return ()
   }"

definition abandon_run ::
  "host_env \<Rightarrow> string \<Rightarrow> string \<Rightarrow> LaunchMode \<Rightarrow> int \<Rightarrow> int \<Rightarrow> LauncherState \<Rightarrow> (host, unit) state" where
  "abandon_run env root control_dir mode manager code s = do {
     save_failed env control_dir code s;
     (if mode = LAUNCH_MODE_COMPAT then stop_manager env manager else cleanup_delegated_cgroups env root control_dir)
   }"

text \<open>The checks of the new service: whether all hold, and the state with what they recorded.\<close>

definition identify_service :: "LaunchMode \<Rightarrow> int \<Rightarrow> LauncherState \<Rightarrow> procfs \<Rightarrow> bool \<times> LauncherState" where
  "identify_service mode pid s p =
     (case read_proc_exe_identity p pid of
        None \<Rightarrow> (False, s)
      | Some (d, i) \<Rightarrow>
          (case (if mode = LAUNCH_MODE_COMPAT then capture_compat_namespace_identity else capture_init_namespace_identity)
                  p pid (s\<lparr>ls_init_exe_dev := d, ls_init_exe_ino := i\<rparr>) of
             (r, s') \<Rightarrow>
               (r = 0 \<and> (if mode = LAUNCH_MODE_COMPAT then validate_compat_namespace_topology
                          else validate_init_namespace_topology) p s' = 0, s')))"

definition stage_of :: "LaunchMode \<Rightarrow> string \<Rightarrow> string \<Rightarrow> string" where
  "stage_of mode compat_stage systemd_stage =
     start_failed (if mode = LAUNCH_MODE_COMPAT then compat_stage else systemd_stage)"

text \<open>From the fork of the service on, and from its first state on.\<close>

definition await_service ::
  "nat \<Rightarrow> host_env \<Rightarrow> string \<Rightarrow> string \<Rightarrow> LaunchMode \<Rightarrow> HostUsbPolicy \<Rightarrow> UsbDeviceId list \<Rightarrow> int \<Rightarrow> int \<Rightarrow>
   LauncherState \<Rightarrow> (host, int option) state" where
  "await_service n env root control_dir mode usb entries manager pid s = do {
     r \<leftarrow> wait_for_exec_result env;
     if r \<noteq> 0 then do {
       kill_service env mode pid;
       _ \<leftarrow> join_child env pid;
       abandon_run env root control_dir mode manager 80 s;
       tell env (stage_of mode ''compat_exec_sshd'' ''exec_systemd'') (Some 80)
     } else do {
       (grace, early) \<leftarrow> wait_for_start_grace env pid;
       if grace \<noteq> 0 then do {
         status \<leftarrow> (if grace < 0 then do {
                       kill_service env mode pid;
                       w \<leftarrow> join_child env pid;
                       return (case w of Inl e \<Rightarrow> -1 | Inr status \<Rightarrow> status)
                     } else return early);
         abandon_run env root control_dir mode manager 81 s;
         report_start_grace_failure env
           (if mode = LAUNCH_MODE_COMPAT then ''compat_sshd_early_exit'' else ''systemd_early_exit'') status (Some 81)
       } else do {
         (ok, s') \<leftarrow> inspect env (identify_service mode pid s);
         if \<not> ok then do {
           kill_service env mode pid;
           _ \<leftarrow> join_child env pid;
           abandon_run env root control_dir mode manager 82 s';
           tell env (stage_of mode ''compat_sshd_identity_or_namespace'' ''init_identity_or_pid_namespace'') (Some 82)
         } else run_service n env root control_dir mode usb entries manager pid s'
       }
     }
   }"

definition start_service ::
  "nat \<Rightarrow> host_env \<Rightarrow> string \<Rightarrow> string \<Rightarrow> LaunchMode \<Rightarrow> HostUsbPolicy \<Rightarrow> UsbDeviceId list \<Rightarrow> int \<Rightarrow> int \<Rightarrow>
   LauncherState \<Rightarrow> (host, int option) state" where
  "start_service n env root control_dir mode usb entries manager pid s = do {
     s1 \<leftarrow> record_start_ticks 20 env pid (s\<lparr>ls_init_host_pid := pid\<rparr>);
     (_, s2) \<leftarrow> save_state env control_dir s1;
     await_service n env root control_dir mode usb entries manager pid s2
   }"

definition supervisor_compat_loop ::
  "nat \<Rightarrow> host_env \<Rightarrow> string \<Rightarrow> string \<Rightarrow> HostUsbPolicy \<Rightarrow> UsbDeviceId list \<Rightarrow> int \<Rightarrow> LauncherState \<Rightarrow>
   (host, int option) state" where
  "supervisor_compat_loop n env root control_dir usb entries manager s = do {
     e \<leftarrow> call env Pipe;
     if e \<noteq> 0 then do {
       (if manager > 0 then do { _ \<leftarrow> call env (Kill manager SIGTERM); return () } else return ());
       tell env (start_failed ''compat_exec_pipe'') (Some 78)
     } else do {
       f \<leftarrow> ask Fork (on_fork env);
       case f of
         Inl e \<Rightarrow> tell env (start_failed ''compat_fork_sshd'') (Some 79)
       | Inr pid \<Rightarrow> do {
           _ \<leftarrow> call env (Setpgid pid);
           start_service n env root control_dir LAUNCH_MODE_COMPAT usb entries manager pid s
         }
     }
   }"

text \<open>The part of \<open>supervisor_loop\<close> that launches systemd.\<close>

definition supervise_systemd ::
  "nat \<Rightarrow> host_env \<Rightarrow> string \<Rightarrow> string \<Rightarrow> HostUsbPolicy \<Rightarrow> UsbDeviceId list \<Rightarrow> int \<Rightarrow> LauncherState \<Rightarrow>
   (host, int option) state" where
  "supervise_systemd n env root control_dir usb entries manager s = do {
     e \<leftarrow> call env Pipe;
     if e \<noteq> 0 then do {
       cleanup_delegated_cgroups env root control_dir;
       tell env (start_failed ''exec_pipe'') (Some 78)
     } else do {
       f \<leftarrow> ask Fork (on_fork env);
       case f of
         Inl e \<Rightarrow> do {
           _ \<leftarrow> call env (Message (start_failed ''fork_systemd''));
           cleanup_delegated_cgroups env root control_dir;
           return (Some 79)
         }
       | Inr pid \<Rightarrow> start_service n env root control_dir LAUNCH_MODE_SYSTEMD usb entries manager pid s
     }
   }"

definition redirect_supervisor_stdio :: "host_env \<Rightarrow> string \<Rightarrow> (host, bool) state" where
  "redirect_supervisor_stdio env log_path = do {
     e \<leftarrow> call env (Open_read ''/dev/null'');
     if e \<noteq> 0 then return False
     else do {
       e \<leftarrow> call env (Open_append log_path 0x180);
       if e \<noteq> 0 then return False
       else do {
         r \<leftarrow> ask (Stat log_path) (\<lambda>t. on_stat env t log_path);
         if \<not> stat_is (\<lambda>v. st_kind v = Regular \<and> st_nlink v = 1) r then return False
         else do {
           e \<leftarrow> call env Redirect_output;
           return (e = 0)
         }
       }
     }
   }"

text \<open>The pid of the network manager.\<close>

definition start_network_manager :: "host_env \<Rightarrow> (host, int option) state" where
  "start_network_manager env = do {
     e \<leftarrow> call env Pipe;
     if e \<noteq> 0 then return None
     else do {
       f \<leftarrow> ask Fork (on_fork env);
       return (case f of Inl e \<Rightarrow> None | Inr pid \<Rightarrow> Some pid)
     }
   }"

text \<open>\<open>supervisor_loop\<close> from the network manager on.\<close>

definition launch_debian ::
  "nat \<Rightarrow> host_env \<Rightarrow> string \<Rightarrow> string \<Rightarrow> CgroupPolicy \<Rightarrow> bool \<Rightarrow> HostUsbPolicy \<Rightarrow> UsbDeviceId list \<Rightarrow> int \<Rightarrow>
   LauncherState \<Rightarrow> (host, int option) state" where
  "launch_debian n env root control_dir policy allow_fallback usb entries manager s = do {
     (r, launch, mode) \<leftarrow> set_systemd_parent_namespaces env control_dir policy usb allow_fallback;
     if r \<noteq> 0 then do {
       cleanup_delegated_cgroups env root control_dir;
       tell env (start_failed ''namespace_setup'') (Some r)
     } else do {
       (_, s') \<leftarrow> save_state env control_dir
         (s\<lparr>ls_cgroup_mode := field_text 16 (cgroup_mode_name mode), ls_launch_mode := field_text 16 (launch_mode_name launch)\<rparr>);
       if launch = LAUNCH_MODE_COMPAT then supervisor_compat_loop n env root control_dir usb entries manager s'
       else supervise_systemd n env root control_dir usb entries manager s'
     }
   }"

text \<open>The supervisor's own identity in its first state.\<close>

definition identify_supervisor :: "host_env \<Rightarrow> HostUsbPolicy \<Rightarrow> (host, LauncherState option) state" where
  "identify_supervisor env usb = do {
     now \<leftarrow> gets (\<lambda>h. on_time env (h_trace h));
     let s = (initialize_state now ''starting'')\<lparr>ls_host_usb_mode := field_text 16 (host_usb_policy_name usb),
               ls_supervisor_pid := env_pid env\<rparr>;
     inspect env (\<lambda>p. case (read_proc_start_ticks p (env_pid env), read_proc_exe_identity p (env_pid env)) of
       (Some ticks, Some (d, i)) \<Rightarrow>
         Some (s\<lparr>ls_supervisor_start_ticks := ticks, ls_supervisor_exe_dev := d, ls_supervisor_exe_ino := i\<rparr>)
     | _ \<Rightarrow> None)
   }"

text \<open>\<open>supervisor_loop\<close> from the start of the network manager and from the first state on.\<close>

definition manage_run ::
  "nat \<Rightarrow> host_env \<Rightarrow> string \<Rightarrow> string \<Rightarrow> CgroupPolicy \<Rightarrow> bool \<Rightarrow> HostUsbPolicy \<Rightarrow> UsbDeviceId list \<Rightarrow> LauncherState \<Rightarrow>
   string \<Rightarrow> (host, int option) state" where
  "manage_run n env root control_dir policy allow_fallback usb entries s path = do {
     m \<leftarrow> start_network_manager env;
     case m of
       None \<Rightarrow> do {
         _ \<leftarrow> call env (Unlink path);
         tell env (start_failed ''network_manager_start'') (Some 78)
       }
     | Some manager \<Rightarrow> launch_debian n env root control_dir policy allow_fallback usb entries manager s
   }"

definition begin_run ::
  "nat \<Rightarrow> host_env \<Rightarrow> string \<Rightarrow> string \<Rightarrow> CgroupPolicy \<Rightarrow> bool \<Rightarrow> HostUsbPolicy \<Rightarrow> UsbDeviceId list \<Rightarrow> LauncherState \<Rightarrow>
   (host, int option) state" where
  "begin_run n env root control_dir policy allow_fallback usb entries s = do {
     (saved, s1) \<leftarrow> save_state env control_dir s;
     if \<not> saved then tell env (start_failed ''write_starting_state'') (Some 77)
     else do {
       fifo \<leftarrow> prepare_host_reboot_fifo env control_dir;
       case fifo of
         None \<Rightarrow> tell env (start_failed ''host_reboot_fifo'') (Some 78)
       | Some path \<Rightarrow> manage_run n env root control_dir policy allow_fallback usb entries s1 path
     }
   }"

definition supervisor_loop ::
  "nat \<Rightarrow> host_env \<Rightarrow> string \<Rightarrow> string \<Rightarrow> string \<Rightarrow> CgroupPolicy \<Rightarrow> bool \<Rightarrow> HostUsbPolicy \<Rightarrow> UsbDeviceId list \<Rightarrow>
   (host, int option) state" where
  "supervisor_loop n env root control_dir log_path policy allow_fallback usb entries = do {
     e \<leftarrow> call env Setsid;
     if e \<noteq> 0 then tell env (start_failed ''setsid'') (Some 73)
     else do {
       redirected \<leftarrow> redirect_supervisor_stdio env log_path;
       if \<not> redirected then tell env (start_failed ''open_lifecycle_log'') (Some 74)
       else do {
         e \<leftarrow> call env Set_handlers;
         if e \<noteq> 0 then tell env (start_failed ''signal_setup'') (Some 75)
         else do {
           i \<leftarrow> identify_supervisor env usb;
           case i of
             None \<Rightarrow> tell env (start_failed ''supervisor_identity'') (Some 76)
           | Some s \<Rightarrow> begin_run n env root control_dir policy allow_fallback usb entries s
         }
       }
     }
   }"

end
