(* ===== verification/Launcher_Commands.thy ===== *)
theory Launcher_Commands
  imports Host_Logic Supervisor
begin

text \<open>
  The commands of the launcher (\<open>bfu_namespace_probe.c\<close>): \<open>status\<close>, \<open>health\<close> and the other commands
  that run inside Debian's namespaces, \<open>start\<close>, \<open>stop\<close>, \<open>force-stop\<close>, \<open>restart\<close>, and \<open>main\<close>. The
  supervisor holds the lock of the lock file as long as it runs; a command that gets the lock knows
  that there is none. A forked child is a program of its own. Each check of a process reads \<open>/proc\<close>
  anew. Messages to standard error are not modelled.
\<close>

section \<open>The lock and the recorded processes\<close>

definition kLockName :: string where "kLockName = ''debian-supervisor.lock''"
definition kLifecycleLogName :: string where "kLifecycleLogName = ''debian-lifecycle.log''"
definition kStartTimeoutMs :: int where "kStartTimeoutMs = 20000"
definition kStopTimeoutMs :: int where "kStopTimeoutMs = 30000"

definition open_lock_file :: "host_env \<Rightarrow> string \<Rightarrow> (host, bool) state" where
  "open_lock_file env control_dir = with_path control_dir kLockName False (\<lambda>path. do {
     e \<leftarrow> call env (Open_create path 0x180);
     if e \<noteq> 0 then return False
     else do {
       r \<leftarrow> ask (Stat path) (\<lambda>t. on_stat env t path);
       return (stat_is (\<lambda>v. st_kind v = Regular \<and> st_nlink v = 1) r)
     }
   })"

text \<open>\<open>read_state\<close> into a cleared state: whether it returned 0, and the state.\<close>

definition load_or_blank :: "host_env \<Rightarrow> string \<Rightarrow> (host, bool \<times> LauncherState) state" where
  "load_or_blank env control_dir = do {
     now \<leftarrow> gets (\<lambda>h. on_time env (h_trace h));
     s \<leftarrow> load_state env control_dir;
     return (case s of None \<Rightarrow> (False, initialize_state now ''unknown'') | Some s \<Rightarrow> (True, s))
   }"

definition is_compat :: "LauncherState \<Rightarrow> bool" where
  "is_compat s \<longleftrightarrow> ls_launch_mode s = ''compat''"

definition recorded_service :: "LauncherState \<Rightarrow> procfs \<Rightarrow> bool" where
  "recorded_service s p =
     (if is_compat s then validate_compat_service_identity p s else validate_init_identity p s)"

definition recorded_topology :: "LauncherState \<Rightarrow> procfs \<Rightarrow> bool" where
  "recorded_topology s p \<longleftrightarrow>
     (if is_compat s then validate_compat_namespace_topology p s else validate_init_namespace_topology p s) = 0"

text \<open>\<open>b && check(&state)\<close>.\<close>

definition also_check :: "host_env \<Rightarrow> bool \<Rightarrow> (procfs \<Rightarrow> bool) \<Rightarrow> (host, bool) state" where
  "also_check env b f = (if b then inspect env f else return False)"

text \<open>\<open>while (monotonic_millis() < deadline)\<close> around an attempt to lock.\<close>

datatype lock_wait = Lock_released | Lock_failed | Lock_held

fun wait_for_lock :: "nat \<Rightarrow> host_env \<Rightarrow> int \<Rightarrow> nat \<Rightarrow> (host, lock_wait) state" where
  "wait_for_lock 0 env deadline pause = return Lock_held"
| "wait_for_lock (Suc n) env deadline pause = do {
     now \<leftarrow> clock env;
     if now \<ge> deadline then return Lock_held
     else do {
       e \<leftarrow> call env Lock;
       if e = 0 then do {
         _ \<leftarrow> call env Unlock;
         return Lock_released
       } else if e \<noteq> EAGAIN then return Lock_failed
       else do {
         _ \<leftarrow> call env (Sleep pause);
         wait_for_lock n env deadline pause
       }
     }
   }"

definition await_lock :: "host_env \<Rightarrow> int \<Rightarrow> nat \<Rightarrow> (host, lock_wait) state" where
  "await_lock env patience pause = do {
     started \<leftarrow> clock env;
     wait_for_lock (nat patience + 1) env (started + patience) pause
   }"

section \<open>Status\<close>

definition truth :: "bool \<Rightarrow> string" where
  "truth b = (if b then ''true'' else ''false'')"

definition status_text :: "bool \<Rightarrow> bool \<Rightarrow> bool \<Rightarrow> LauncherState \<Rightarrow> string" where
  "status_text supervisor_valid init_valid topology_valid s =
     ''BFU_DEBIAN_''
     @ (if supervisor_valid \<and> (topology_valid \<or> ls_state s = ''starting'') then ''RUNNING'' else ''STARTING_OR_UNKNOWN'')
     @ '' state='' @ ls_state s @ '' mode='' @ ls_launch_mode s
     @ '' supervisor_pid='' @ dec_int (ls_supervisor_pid s) @ '' init_host_pid='' @ dec_int (ls_init_host_pid s)
     @ '' supervisor_identity_valid='' @ truth supervisor_valid @ '' init_identity_valid='' @ truth init_valid
     @ '' namespace_topology_valid='' @ truth topology_valid
     @ '' ipc_namespace=android-shared network_namespace=android-shared network_mode=shared-nic cgroup_mode=''
     @ ls_cgroup_mode s @ '' host_usb_mode='' @ ls_host_usb_mode s
     @ '' pid_ns='' @ u64_text (ls_init_pid_ns_ino s) @ '' mnt_ns='' @ u64_text (ls_init_mnt_ns_ino s)
     @ '' uts_ns='' @ u64_text (ls_init_uts_ns_ino s) @ '' ipc_ns='' @ u64_text (ls_init_ipc_ns_ino s)
     @ '' cgroup_ns='' @ u64_text (ls_init_cgroup_ns_ino s) @ '' net_ns='' @ u64_text (ls_init_net_ns_ino s)
     @ '' updated_epoch='' @ dec_int (ls_updated_epoch s) @ [CHR 0x0A]"

definition stopped_text :: "LauncherState option \<Rightarrow> string" where
  "stopped_text stale =
     ''BFU_DEBIAN_STOPPED last_state='' @ (case stale of None \<Rightarrow> ''none'' | Some s \<Rightarrow> ls_state s)
     @ '' mode='' @ (case stale of None \<Rightarrow> ''systemd'' | Some s \<Rightarrow> ls_launch_mode s)
     @ '' cgroup_mode='' @ (case stale of None \<Rightarrow> ''unknown'' | Some s \<Rightarrow> ls_cgroup_mode s)
     @ '' host_usb_mode='' @ (case stale of None \<Rightarrow> ''unknown'' | Some s \<Rightarrow> ls_host_usb_mode s)
     @ '' wait_status='' @ dec_int (case stale of None \<Rightarrow> -1 | Some s \<Rightarrow> ls_wait_status s)
     @ '' updated_epoch='' @ dec_int (case stale of None \<Rightarrow> 0 | Some s \<Rightarrow> ls_updated_epoch s) @ [CHR 0x0A]"

definition orphan_text :: "LauncherState \<Rightarrow> string" where
  "orphan_text s =
     ''BFU_DEBIAN_ORPHANED_INIT mode='' @ ls_launch_mode s @ '' init_host_pid='' @ dec_int (ls_init_host_pid s)
     @ '' identity_valid=true updated_epoch='' @ dec_int (ls_updated_epoch s) @ [CHR 0x0A]"

text \<open>A line of output, then the exit code.\<close>

definition report :: "host_env \<Rightarrow> string \<Rightarrow> 'a \<Rightarrow> (host, 'a) state" where
  "report env line code = do {
     _ \<leftarrow> call env (Print line);
     return code
   }"

definition status_without_supervisor :: "host_env \<Rightarrow> string \<Rightarrow> (host, int) state" where
  "status_without_supervisor env control_dir = do {
     stale \<leftarrow> load_state env control_dir;
     orphaned \<leftarrow> (case stale of None \<Rightarrow> return False | Some s \<Rightarrow> inspect env (recorded_service s));
     _ \<leftarrow> call env Unlock;
     case stale of
       Some s \<Rightarrow> if orphaned then report env (orphan_text s) 1 else report env (stopped_text stale) 0
     | None \<Rightarrow> report env (stopped_text stale) 0
   }"

definition status_with_supervisor :: "host_env \<Rightarrow> string \<Rightarrow> (host, int) state" where
  "status_with_supervisor env control_dir = do {
     (state_read, s) \<leftarrow> load_or_blank env control_dir;
     supervisor_valid \<leftarrow> also_check env state_read (\<lambda>p. validate_supervisor_identity p s);
     init_valid \<leftarrow> also_check env state_read (recorded_service s);
     topology_valid \<leftarrow> also_check env init_valid (recorded_topology s);
     report env (status_text supervisor_valid init_valid topology_valid s) 0
   }"

definition run_status :: "host_env \<Rightarrow> string \<Rightarrow> (host, int) state" where
  "run_status env control_dir = do {
     r \<leftarrow> validate_control_directory env (Some control_dir);
     if r \<noteq> 0 then return r
     else do {
       opened \<leftarrow> open_lock_file env control_dir;
       if \<not> opened then return 82
       else do {
         e \<leftarrow> call env Lock;
         if e = 0 then status_without_supervisor env control_dir
         else if e \<noteq> EAGAIN then return 83
         else status_with_supervisor env control_dir
       }
     }
   }"

section \<open>Programs that enter Debian\<close>

text \<open>The text of the shell commands is an argument.\<close>

definition enter_chroot :: "host_env \<Rightarrow> string \<Rightarrow> int list \<Rightarrow> (string \<times> string) list \<Rightarrow> (host, int) state list" where
  "enter_chroot env root codes variables =
     [step env (Chdir root) (codes ! 0), step env (Chroot ''.'') (codes ! 1), step env (Chdir ''/'') (codes ! 2),
      replace_environment env variables]"

definition enter_debian_health :: "host_env \<Rightarrow> string \<Rightarrow> string \<Rightarrow> (host, int) state" where
  "enter_debian_health env health_command root = run_steps
     (enter_chroot env root [103, 104, 105] (base_variables ''dawnshell'')
      @ [step env (Execv ''/bin/sh'' [''sh'', ''-c'', health_command]) 106])"

definition enter_debian_compat_health :: "host_env \<Rightarrow> string \<Rightarrow> string \<Rightarrow> (host, int) state" where
  "enter_debian_compat_health env health_command root = run_steps
     (enter_chroot env root [103, 104, 105]
        (base_variables ''dawnshell-compat'' @ [(''DAWNSHELL_COMPAT_MODE'', ''1'')])
      @ [step env (Execv ''/bin/sh'' [''sh'', ''-c'', health_command]) 106])"

definition shutdown_modes :: "string list" where
  "shutdown_modes = [''poweroff'', ''reboot'', ''shutdown'']"

definition enter_debian_systemctl_shutdown :: "host_env \<Rightarrow> string \<Rightarrow> string \<Rightarrow> (host, int) state" where
  "enter_debian_systemctl_shutdown env root mode =
     (if mode \<notin> set shutdown_modes then return 108
      else run_steps (enter_chroot env root [108, 108, 108] (base_variables ''dawnshell'')
        @ [if mode = ''shutdown''
           then step env (Execv ''/usr/sbin/shutdown'' [''shutdown'', ''--poweroff'', ''--no-wall'', ''now'']) 108
           else step env (Execv ''/usr/bin/systemctl'' [''systemctl'', ''--no-block'', mode]) 108]))"

definition codec_unit :: string where "codec_unit = ''dawnshell-codec-long-run.service''"

definition enter_debian_codec_long_run :: "host_env \<Rightarrow> string \<Rightarrow> string \<Rightarrow> string \<Rightarrow> (host, int) state" where
  "enter_debian_codec_long_run env report_command root operation =
     (if operation \<notin> set [''start'', ''stop'', ''status'', ''report''] then return 122
      else run_steps (enter_chroot env root [122, 122, 122] (base_variables ''dawnshell'')
        @ [if operation = ''start'' \<or> operation = ''stop''
           then step env (Execv ''/usr/bin/systemctl'' [''systemctl'', ''--no-block'', operation, codec_unit]) 123
           else if operation = ''status''
           then step env (Execv ''/usr/bin/systemctl'' [''systemctl'', ''show'', ''--no-pager'',
             ''--property=LoadState,ActiveState,SubState,Result,ExecMainCode,ExecMainStatus,StateChangeTimestamp'', codec_unit]) 123
           else step env (Execv ''/bin/sh'' [''sh'', ''-c'', report_command]) 123]))"

section \<open>Commands inside Debian's namespaces\<close>

text \<open>
  The checks both commands begin with: the root, the user, the control directory, the lock file,
  and that a supervisor holds the lock.
\<close>

definition require_supervisor :: "host_env \<Rightarrow> string \<Rightarrow> string \<Rightarrow> int \<Rightarrow> (host, int) state" where
  "require_supervisor env root control_dir code = run_steps
     [validate_rootfs env root True,
      return (if env_euid env \<noteq> 0 then code else 0),
      validate_control_directory env (Some control_dir),
      (do {
        opened \<leftarrow> open_lock_file env control_dir;
        return (if opened then 0 else code)
      }),
      (do {
        e \<leftarrow> call env Lock;
        if e = 0 then do {
          _ \<leftarrow> call env Unlock;
          return (code + 1)
        } else return (if e \<noteq> EAGAIN then code + 1 else 0)
      })]"

text \<open>The inode of an opened namespace, when \<open>fstat\<close> told it; \<open>None\<close> when it was not opened.\<close>

definition open_namespace :: "host_env \<Rightarrow> int \<Rightarrow> string \<Rightarrow> (host, u64 option option) state" where
  "open_namespace env pid name =
     (let path = ''/proc/'' @ dec_int pid @ ''/ns/'' @ name
      in if length path \<ge> 96 then return None
         else do {
           r \<leftarrow> ask (Open_read path) (\<lambda>t. on_open env t path);
           return (case r of Inl e \<Rightarrow> None | Inr inode \<Rightarrow> Some inode)
         })"

definition enter_init_namespaces :: "host_env \<Rightarrow> string \<Rightarrow> LauncherState \<Rightarrow> (host, int) state" where
  "enter_init_namespaces env control_dir s = do {
     mnt \<leftarrow> open_namespace env (ls_init_host_pid s) ''mnt'';
     if mnt = None then return 102
     else do {
       pid \<leftarrow> open_namespace env (ls_init_host_pid s) ''pid'';
       if pid = None then return 102
       else do {
         cgroup \<leftarrow> open_namespace env (ls_init_host_pid s) ''cgroup'';
         if cgroup = None then return 102
         else do {
           same \<leftarrow> also_check env
             (mnt = Some (Some (ls_init_mnt_ns_ino s)) \<and> pid = Some (Some (ls_init_pid_ns_ino s))
              \<and> cgroup = Some (Some (ls_init_cgroup_ns_ino s)))
             (\<lambda>p. validate_init_identity p s);
           if \<not> same then return 102
           else run_steps
             [step env (Setns (ls_init_pid_ns_ino s) CLONE_NEWPID) 102,
              step env (Setns (ls_init_mnt_ns_ino s) CLONE_NEWNS) 102,
              return (if parse_cgroup_mode (Some (ls_cgroup_mode s)) = CGROUP_MODE_UNKNOWN then 102 else 0),
              move_self_to_delegated_command env control_dir (parse_cgroup_mode (Some (ls_cgroup_mode s))),
              step env (Setns (ls_init_cgroup_ns_ino s) CLONE_NEWCGROUP) 102,
              fork_and_wait env 107 107 107]
         }
       }
     }
   }"

definition run_in_debian_namespaces :: "host_env \<Rightarrow> string \<Rightarrow> string \<Rightarrow> (host, int) state" where
  "run_in_debian_namespaces env root control_dir = do {
     r \<leftarrow> require_supervisor env root control_dir 100;
     if r \<noteq> 0 then return r
     else do {
       loaded \<leftarrow> load_state env control_dir;
       case loaded of
         None \<Rightarrow> return 102
       | Some s \<Rightarrow>
           if is_compat s then return 102
           else do {
             a \<leftarrow> inspect env (\<lambda>p. validate_supervisor_identity p s);
             b \<leftarrow> also_check env a (\<lambda>p. validate_init_identity p s);
             c \<leftarrow> also_check env b (\<lambda>p. validate_init_namespace_topology p s = 0);
             if \<not> c then return 102 else enter_init_namespaces env control_dir s
           }
     }
   }"

definition enter_compat_namespaces :: "host_env \<Rightarrow> LauncherState \<Rightarrow> (host, int) state" where
  "enter_compat_namespaces env s = do {
     mnt \<leftarrow> open_namespace env (ls_init_host_pid s) ''mnt'';
     if mnt = None then return 126
     else do {
       uts \<leftarrow> open_namespace env (ls_init_host_pid s) ''uts'';
       if uts = None then return 126
       else do {
         a \<leftarrow> also_check env
           (mnt = Some (Some (ls_init_mnt_ns_ino s)) \<and> uts = Some (Some (ls_init_uts_ns_ino s)))
           (\<lambda>p. validate_compat_service_identity p s);
         b \<leftarrow> also_check env a (\<lambda>p. validate_compat_namespace_topology p s = 0);
         if \<not> b then return 126
         else run_steps
           [step env (Setns (ls_init_mnt_ns_ino s) CLONE_NEWNS) 126,
            step env (Setns (ls_init_uts_ns_ino s) CLONE_NEWUTS) 126,
            fork_and_wait env 127 127 127]
       }
     }
   }"

definition run_in_debian_compat_mount_namespace :: "host_env \<Rightarrow> string \<Rightarrow> string \<Rightarrow> (host, int) state" where
  "run_in_debian_compat_mount_namespace env root control_dir = do {
     r \<leftarrow> require_supervisor env root control_dir 124;
     if r \<noteq> 0 then return r
     else do {
       loaded \<leftarrow> load_state env control_dir;
       case loaded of
         None \<Rightarrow> return 126
       | Some s \<Rightarrow>
           if \<not> is_compat s then return 126
           else do {
             a \<leftarrow> inspect env (\<lambda>p. validate_supervisor_identity p s);
             b \<leftarrow> also_check env a (\<lambda>p. validate_compat_service_identity p s);
             c \<leftarrow> also_check env b (\<lambda>p. validate_compat_namespace_topology p s = 0);
             if \<not> c then return 126 else enter_compat_namespaces env s
           }
     }
   }"

definition run_health :: "host_env \<Rightarrow> string \<Rightarrow> string \<Rightarrow> (host, int) state" where
  "run_health env root control_dir = do {
     r \<leftarrow> validate_control_directory env (Some control_dir);
     if r \<noteq> 0 then return r
     else do {
       loaded \<leftarrow> load_state env control_dir;
       if (case loaded of None \<Rightarrow> False | Some s \<Rightarrow> is_compat s)
       then run_in_debian_compat_mount_namespace env root control_dir
       else run_in_debian_namespaces env root control_dir
     }
   }"

definition wait_for_supervisor_exit :: "host_env \<Rightarrow> string \<Rightarrow> (host, int) state" where
  "wait_for_supervisor_exit env control_dir = do {
     opened \<leftarrow> open_lock_file env control_dir;
     if \<not> opened then return 109
     else do {
       w \<leftarrow> await_lock env 45000 200000;
       return (if w = Lock_released then 0 else 109)
     }
   }"

definition run_shutdown_test :: "host_env \<Rightarrow> string \<Rightarrow> string \<Rightarrow> string \<Rightarrow> (host, int) state" where
  "run_shutdown_test env root control_dir mode =
     (if mode \<notin> set shutdown_modes then return 108
      else do {
        _ \<leftarrow> call env (Print (''BFU_DEBIAN_SHUTDOWN_TEST_REQUESTED mode='' @ mode @ [CHR 0x0A]));
        command_result \<leftarrow> run_in_debian_namespaces env root control_dir;
        stop_result \<leftarrow> wait_for_supervisor_exit env control_dir;
        if stop_result \<noteq> 0 then return (if command_result \<noteq> 0 then command_result else stop_result)
        else report env (''BFU_DEBIAN_SHUTDOWN_TEST_COMPLETED mode='' @ mode @ '' command_result=''
          @ dec_int command_result @ '' android_reboot_not_assessed'' @ [CHR 0x0A]) 0
      })"

definition run_codec_long_run :: "host_env \<Rightarrow> string \<Rightarrow> string \<Rightarrow> (host, int) state" where
  "run_codec_long_run env root control_dir = run_in_debian_namespaces env root control_dir"

section \<open>Processes of the delegated cgroups\<close>

definition cgroup_path_is_delegated :: "string \<Rightarrow> bool" where
  "cgroup_path_is_delegated path \<longleftrightarrow>
     (case path of
        [] \<Rightarrow> False
      | c # rest \<Rightarrow>
          c = CHR ''/'' \<and> take (length kCgroupChildName) rest = kCgroupChildName
          \<and> (let after = drop (length kCgroupChildName) rest in after = [] \<or> hd after = CHR ''/''))"

definition delegated_contents :: "string \<Rightarrow> bool" where
  "delegated_contents contents \<longleftrightarrow>
     contents \<noteq> [] \<and>
     list_ex (\<lambda>line. case after_last (CHR '':'') line of None \<Rightarrow> False | Some path \<Rightarrow> cgroup_path_is_delegated path)
       (tokens (\<lambda>c. c = CHR 0x0A) (c_text 4095 contents))"

definition proc_cgroup_path :: "int \<Rightarrow> string" where
  "proc_cgroup_path pid = ''/proc/'' @ dec_int pid @ ''/cgroup''"

definition process_in_delegated_cgroup :: "host_env \<Rightarrow> int \<Rightarrow> (host, bool) state" where
  "process_in_delegated_cgroup env pid = do {
     r \<leftarrow> ask (Read_file (proc_cgroup_path pid)) (\<lambda>t. on_read env t (proc_cgroup_path pid));
     return (case r of Inl e \<Rightarrow> False | Inr contents \<Rightarrow> delegated_contents contents)
   }"

text \<open>\<open>strtol\<close> on the name of an entry, with the checks of its end and value, as a pid.\<close>

definition entry_pid :: "string \<Rightarrow> int option" where
  "entry_pid name =
     (case strtou 64 name of
        None \<Rightarrow> None
      | Some (_, rest, _) \<Rightarrow>
          if rest \<noteq> [] \<or> strtoll name \<le> 1 then None else Some (sint (word_of_int (strtoll name) :: u32)))"

fun collect_entries :: "host_env \<Rightarrow> nat \<Rightarrow> string list \<Rightarrow> (host, int list) state" where
  "collect_entries env capacity [] = return []"
| "collect_entries env capacity (name # names) =
     (if capacity = 0 then return []
      else case entry_pid name of
             None \<Rightarrow> collect_entries env capacity names
           | Some pid \<Rightarrow>
               if pid = env_pid env then collect_entries env capacity names
               else do {
                 inside \<leftarrow> process_in_delegated_cgroup env pid;
                 rest \<leftarrow> collect_entries env (if inside then capacity - 1 else capacity) names;
                 return (if inside then pid # rest else rest)
               })"

definition collect_delegated_processes :: "host_env \<Rightarrow> nat \<Rightarrow> (host, int list) state" where
  "collect_delegated_processes env capacity = do {
     r \<leftarrow> ask (List_directory ''/proc'') (\<lambda>t. on_list env t ''/proc'');
     case r of
       Inl e \<Rightarrow> return []
     | Inr names \<Rightarrow> collect_entries env capacity names
   }"

text \<open>The first index of a least element.\<close>

function lowest_from :: "int list \<Rightarrow> nat \<Rightarrow> nat \<Rightarrow> nat" where
  "lowest_from pids lowest index =
     (if index \<ge> length pids then lowest
      else lowest_from pids (if pids ! index < pids ! lowest then index else lowest) (index + 1))"
  by pat_completeness auto
termination by (relation "measure (\<lambda>(pids, lowest, index). length pids - index)") auto

declare lowest_from.simps [simp del]

fun kill_all :: "host_env \<Rightarrow> int list \<Rightarrow> (host, unit) state" where
  "kill_all env [] = return ()"
| "kill_all env (pid # pids) = do {
     _ \<leftarrow> call env (Kill pid SIGKILL);
     kill_all env pids
   }"

definition kill_round :: "host_env \<Rightarrow> int list \<Rightarrow> (host, unit) state" where
  "kill_round env pids = do {
     let lowest = lowest_from pids 0 1;
     kill_all env (take lowest pids @ drop (Suc lowest) pids);
     _ \<leftarrow> call env (Sleep 200000);
     _ \<leftarrow> call env (Kill (pids ! lowest) SIGKILL);
     _ \<leftarrow> call env (Sleep 300000);
     return ()
   }"

text \<open>The number of survivors.\<close>

fun terminate_rounds :: "nat \<Rightarrow> host_env \<Rightarrow> (host, nat) state" where
  "terminate_rounds 0 env = do {
     pids \<leftarrow> collect_delegated_processes env 512;
     return (length pids)
   }"
| "terminate_rounds (Suc n) env = do {
     pids \<leftarrow> collect_delegated_processes env 512;
     if pids = [] then return 0
     else do {
       kill_round env pids;
       terminate_rounds n env
     }
   }"

definition terminate_delegated_processes :: "host_env \<Rightarrow> (host, nat) state" where
  "terminate_delegated_processes env = terminate_rounds 5 env"

section \<open>Start\<close>

text \<open>
  \<open>read_ready_message\<close> with a buffer of 1024 bytes: the message, or \<open>None\<close> for -1. The outer \<open>None\<close> is
  used-up fuel: \<open>poll\<close> was interrupted again and again.
\<close>

definition ready_text :: "string \<Rightarrow> string option" where
  "ready_text text = (if text = [] then None else Some text)"

fun ready_loop :: "nat \<Rightarrow> host_env \<Rightarrow> int \<Rightarrow> string \<Rightarrow> (host, string option option) state" where
  "ready_loop 0 env deadline text = return None"
| "ready_loop (Suc n) env deadline text = do {
     now \<leftarrow> clock env;
     if now \<ge> deadline \<or> length text + 1 \<ge> 1024 then return (Some (ready_text text))
     else do {
       again \<leftarrow> clock env;
       a \<leftarrow> ask (Poll_for (deadline - again)) (on_ready env);
       case a of
         Poll_errno e \<Rightarrow> if e = EINTR then ready_loop n env deadline text else return (Some None)
       | Poll_timeout \<Rightarrow> return (Some None)
       | Read_errno e \<Rightarrow> if e = EINTR then ready_loop n env deadline text else return (Some None)
       | Read_bytes bytes \<Rightarrow>
           let text' = text @ take (1024 - length text - 1) bytes
           in if bytes = [] \<or> CHR 0x0A \<in> set text' then return (Some (ready_text text'))
              else ready_loop n env deadline text'
     }
   }"

definition read_ready_message :: "nat \<Rightarrow> host_env \<Rightarrow> (host, string option option) state" where
  "read_ready_message n env = do {
     started \<leftarrow> clock env;
     ready_loop n env (started + kStartTimeoutMs) []
   }"

definition already_text :: "bool \<Rightarrow> LauncherState \<Rightarrow> string" where
  "already_text valid s =
     ''BFU_DEBIAN_ALREADY_RUNNING supervisor_pid='' @ dec_int (ls_supervisor_pid s)
     @ '' init_host_pid='' @ dec_int (ls_init_host_pid s) @ '' identity_valid='' @ truth valid
     @ '' cgroup_mode='' @ ls_cgroup_mode s @ '' host_usb_mode='' @ ls_host_usb_mode s @ [CHR 0x0A]"

definition started_text :: "string \<Rightarrow> bool" where
  "started_text message \<longleftrightarrow>
     prefix ''BFU_DEBIAN_STARTED '' message \<or> prefix ''BFU_DEBIAN_FALLBACK_STARTED '' message"

text \<open>The parent's side; the forked child is \<open>supervisor_loop\<close>.\<close>

definition start_supervisor :: "nat \<Rightarrow> host_env \<Rightarrow> (host, int option) state" where
  "start_supervisor n env = do {
     e \<leftarrow> call env Pipe;
     if e \<noteq> 0 then return (Some 89)
     else do {
       f \<leftarrow> ask Fork (on_fork env);
       case f of
         Inl e \<Rightarrow> return (Some 90)
       | Inr pid \<Rightarrow> do {
           message \<leftarrow> read_ready_message n env;
           case message of
             None \<Rightarrow> return None
           | Some None \<Rightarrow> return (Some 91)
           | Some (Some text) \<Rightarrow> report env (c_text 1023 text) (Some (if started_text text then 0 else 92))
         }
     }
   }"

text \<open>With the lock: no service of an earlier run may remain.\<close>

definition start_locked :: "nat \<Rightarrow> host_env \<Rightarrow> string \<Rightarrow> (host, int option) state" where
  "start_locked n env control_dir = do {
     stale \<leftarrow> load_state env control_dir;
     orphaned \<leftarrow> (case stale of None \<Rightarrow> return False | Some s \<Rightarrow> inspect env (recorded_service s));
     if orphaned then do {
       _ \<leftarrow> call env Unlock;
       return (Some 89)
     } else do {
       leftovers \<leftarrow> collect_delegated_processes env 4;
       if leftovers \<noteq> [] then do {
         _ \<leftarrow> call env Unlock;
         report env (''BFU_DEBIAN_ORPHANED_INSTANCE first_pid='' @ dec_int (hd leftovers) @ [CHR 0x0A]) (Some 89)
       } else start_supervisor n env
     }
   }"

definition run_start :: "nat \<Rightarrow> host_env \<Rightarrow> string \<Rightarrow> string \<Rightarrow> string \<Rightarrow> (host, int option) state" where
  "run_start n env root control_dir log_path = do {
     r \<leftarrow> run_steps
       [validate_rootfs env root True,
        return (if env_euid env \<noteq> 0 then 84 else 0),
        validate_control_directory env (Some control_dir),
        return (if log_path = [] \<or> hd log_path \<noteq> CHR ''/'' then 85 else 0),
        return (if joined_path PATH_MAX control_dir kLifecycleLogName \<noteq> Some log_path then 85 else 0)];
     if r \<noteq> 0 then return (Some r)
     else do {
       opened \<leftarrow> open_lock_file env control_dir;
       if \<not> opened then return (Some 86)
       else do {
         e \<leftarrow> call env Lock;
         if e = 0 then start_locked n env control_dir
         else if e \<noteq> EAGAIN then return (Some 88)
         else do {
           (state_read, s) \<leftarrow> load_or_blank env control_dir;
           valid \<leftarrow> also_check env state_read (\<lambda>p. validate_supervisor_identity p s);
           report env (already_text valid s) (Some (if valid then 0 else 87))
         }
       }
     }
   }"

section \<open>Stop\<close>

text \<open>Poll until the recorded service is gone.\<close>

fun wait_for_end :: "nat \<Rightarrow> host_env \<Rightarrow> int \<Rightarrow> LauncherState \<Rightarrow> (host, bool) state" where
  "wait_for_end 0 env deadline s = return False"
| "wait_for_end (Suc n) env deadline s = do {
     now \<leftarrow> clock env;
     if now \<ge> deadline then return False
     else do {
       alive \<leftarrow> inspect env (recorded_service s);
       if \<not> alive then return True
       else do {
         _ \<leftarrow> call env (Sleep 200000);
         wait_for_end n env deadline s
       }
     }
   }"

definition await_orphan_end :: "host_env \<Rightarrow> LauncherState \<Rightarrow> (host, int) state" where
  "await_orphan_end env s = do {
     started \<leftarrow> clock env;
     ended \<leftarrow> wait_for_end 20001 env (started + 20000) s;
     if ended then report env (''BFU_DEBIAN_ORPHANED_INIT_STOPPED mode=''
       @ (if is_compat s then ''compat'' else ''systemd'') @ '' init_host_pid='' @ dec_int (ls_init_host_pid s) @ [CHR 0x0A]) 0
     else do {
       alive \<leftarrow> inspect env (recorded_service s);
       (if \<not> alive then return ()
        else if is_compat s then signal_compat_service env (ls_init_host_pid s) SIGKILL
        else do { _ \<leftarrow> call env (Kill (ls_init_host_pid s) SIGKILL); return () });
       return 95
     }
   }"

definition stop_orphan :: "host_env \<Rightarrow> LauncherState \<Rightarrow> (host, int) state" where
  "stop_orphan env s =
     (if is_compat s then do {
        signal_compat_service env (ls_init_host_pid s) SIGTERM;
        await_orphan_end env s
      } else do {
        e \<leftarrow> call env (Kill (ls_init_host_pid s) (SIGRTMIN + 3));
        if e \<noteq> 0 then return 95 else await_orphan_end env s
      })"

definition stop_without_supervisor :: "host_env \<Rightarrow> string \<Rightarrow> (host, int) state" where
  "stop_without_supervisor env control_dir = do {
     orphan \<leftarrow> load_state env control_dir;
     orphaned \<leftarrow> (case orphan of None \<Rightarrow> return False | Some s \<Rightarrow> inspect env (recorded_service s));
     _ \<leftarrow> call env Unlock;
     case orphan of
       None \<Rightarrow> report env (''BFU_DEBIAN_ALREADY_STOPPED'' @ [CHR 0x0A]) 0
     | Some s \<Rightarrow>
         if orphaned then stop_orphan env s
         else report env (''BFU_DEBIAN_ALREADY_STOPPED'' @ [CHR 0x0A]) 0
   }"

definition stop_supervisor :: "host_env \<Rightarrow> string \<Rightarrow> (host, int) state" where
  "stop_supervisor env control_dir = do {
     loaded \<leftarrow> load_state env control_dir;
     case loaded of
       None \<Rightarrow> return 96
     | Some s \<Rightarrow> do {
         valid \<leftarrow> inspect env (\<lambda>p. validate_supervisor_identity p s);
         if \<not> valid then return 96
         else do {
           e \<leftarrow> call env (Kill (ls_supervisor_pid s) SIGTERM);
           if e \<noteq> 0 then return 97
           else do {
             w \<leftarrow> await_lock env kStopTimeoutMs 200000;
             case w of
               Lock_released \<Rightarrow>
                 report env (''BFU_DEBIAN_STOPPED supervisor_pid='' @ dec_int (ls_supervisor_pid s) @ [CHR 0x0A]) 0
             | Lock_failed \<Rightarrow> return 98
             | Lock_held \<Rightarrow> return 99
           }
         }
       }
   }"

definition run_stop :: "host_env \<Rightarrow> string \<Rightarrow> (host, int) state" where
  "run_stop env control_dir =
     (if env_euid env \<noteq> 0 then return 93
      else do {
        r \<leftarrow> validate_control_directory env (Some control_dir);
        if r \<noteq> 0 then return r
        else do {
          opened \<leftarrow> open_lock_file env control_dir;
          if \<not> opened then return 94
          else do {
            e \<leftarrow> call env Lock;
            if e = 0 then stop_without_supervisor env control_dir
            else if e \<noteq> EAGAIN then return 95
            else stop_supervisor env control_dir
          }
        }
      })"

section \<open>Force stop\<close>

text \<open>\<open>SIGKILL\<close> for the recorded service: whether the command goes on.\<close>

definition force_service :: "host_env \<Rightarrow> LauncherState \<Rightarrow> (host, bool) state" where
  "force_service env s =
     (if is_compat s then do {
        signal_compat_service env (ls_init_host_pid s) SIGKILL;
        return True
      } else do {
        e \<leftarrow> call env (Kill (ls_init_host_pid s) SIGKILL);
        return (e = 0 \<or> e = ESRCH)
      })"

text \<open>After the lock was free: the rest of the processes, the cgroups, and the state.\<close>

definition force_clean ::
  "host_env \<Rightarrow> string \<Rightarrow> string \<Rightarrow> (LauncherState \<Rightarrow> LauncherState) \<Rightarrow> string \<Rightarrow> (host, int) state" where
  "force_clean env root control_dir fill line = do {
     survivors \<leftarrow> terminate_delegated_processes env;
     if survivors > 0 then return 134
     else do {
       cleanup_delegated_cgroups env root control_dir;
       now \<leftarrow> gets (\<lambda>h. on_time env (h_trace h));
       _ \<leftarrow> save_state env control_dir (fill (initialize_state now ''force-stopped''));
       report env line 0
     }
   }"

definition force_orphan ::
  "host_env \<Rightarrow> string \<Rightarrow> string \<Rightarrow> LauncherState \<Rightarrow> bool \<Rightarrow> (host, int) state" where
  "force_orphan env root control_dir s init_valid = do {
     _ \<leftarrow> call env Unlock;
     goes_on \<leftarrow> (if init_valid then force_service env s else return True);
     if \<not> goes_on then return 127
     else force_clean env root control_dir (\<lambda>s. s)
       (''BFU_DEBIAN_FORCE_STOPPED supervisor_pid=0 init_host_pid='' @ dec_int (if init_valid then ls_init_host_pid s else 0)
        @ '' orphan='' @ (if init_valid then ''killed'' else ''none'') @ [CHR 0x0A])
   }"

definition force_group ::
  "host_env \<Rightarrow> string \<Rightarrow> string \<Rightarrow> LauncherState \<Rightarrow> bool \<Rightarrow> (host, int) state" where
  "force_group env root control_dir s init_valid = do {
     e \<leftarrow> call env (Kill_group (ls_supervisor_pid s) SIGKILL);
     if e \<noteq> 0 \<and> e \<noteq> ESRCH then return 131
     else do {
       let init_pid = (if init_valid then ls_init_host_pid s else 0);
       w \<leftarrow> await_lock env 10000 100000;
       case w of
         Lock_released \<Rightarrow> force_clean env root control_dir
           (\<lambda>n. n\<lparr>ls_supervisor_pid := ls_supervisor_pid s, ls_init_host_pid := init_pid, ls_wait_status := SIGKILL\<rparr>)
           (''BFU_DEBIAN_FORCE_STOPPED supervisor_pid='' @ dec_int (ls_supervisor_pid s) @ '' init_host_pid='' @ dec_int init_pid
            @ '' signal=SIGKILL lock_released=true'' @ [CHR 0x0A])
       | Lock_failed \<Rightarrow> return 132
       | Lock_held \<Rightarrow> return 133
     }
   }"

definition force_supervisor ::
  "host_env \<Rightarrow> string \<Rightarrow> string \<Rightarrow> LauncherState \<Rightarrow> bool \<Rightarrow> bool \<Rightarrow> (host, int) state" where
  "force_supervisor env root control_dir s supervisor_valid init_valid =
     (if \<not> supervisor_valid then return 129
      else do {
        session \<leftarrow> ask (Get_session (ls_supervisor_pid s)) (\<lambda>t. on_session env t (ls_supervisor_pid s));
        if session \<noteq> ls_supervisor_pid s then return 129
        else do {
          g \<leftarrow> ask (Get_group (ls_supervisor_pid s)) (\<lambda>t. on_group env t (ls_supervisor_pid s));
          if g \<noteq> ls_supervisor_pid s then return 129
          else do {
            goes_on \<leftarrow> (if init_valid then force_service env s else return True);
            if \<not> goes_on then return 130 else force_group env root control_dir s init_valid
          }
        }
      })"

definition run_force_stop :: "host_env \<Rightarrow> string \<Rightarrow> string \<Rightarrow> (host, int) state" where
  "run_force_stop env root control_dir =
     (if env_euid env \<noteq> 0 then return 125
      else do {
        r \<leftarrow> validate_control_directory env (Some control_dir);
        if r \<noteq> 0 then return r
        else do {
          opened \<leftarrow> open_lock_file env control_dir;
          if \<not> opened then return 126
          else do {
            (state_read, s) \<leftarrow> load_or_blank env control_dir;
            supervisor_valid \<leftarrow> also_check env state_read (\<lambda>p. validate_supervisor_identity p s);
            init_valid \<leftarrow> also_check env state_read (recorded_service s);
            e \<leftarrow> call env Lock;
            if e = 0 then force_orphan env root control_dir s init_valid
            else if e \<noteq> EAGAIN then return 128
            else force_supervisor env root control_dir s supervisor_valid init_valid
          }
        }
      })"

definition run_restart :: "nat \<Rightarrow> host_env \<Rightarrow> string \<Rightarrow> string \<Rightarrow> string \<Rightarrow> (host, int option) state" where
  "run_restart n env root control_dir log_path = do {
     r \<leftarrow> run_stop env control_dir;
     if r \<noteq> 0 then return (Some r) else run_start n env root control_dir log_path
   }"

section \<open>The command line\<close>

record start_options =
  so_policy :: CgroupPolicy
  so_fallback :: bool
  so_usb :: HostUsbPolicy
  so_filter :: "UsbDeviceId list"

text \<open>\<open>argc >= i + 1 ? argv[i] : standard\<close>.\<close>

definition argument :: "string list \<Rightarrow> nat \<Rightarrow> string \<Rightarrow> string" where
  "argument argv i standard = (if i < length argv then argv ! i else standard)"

definition parse_start_options :: "string list \<Rightarrow> start_options option" where
  "parse_start_options argv =
     (case parse_cgroup_policy (Some (argument argv 5 ''auto'')) of
        None \<Rightarrow> None
      | Some policy \<Rightarrow>
          let has_launch = 6 < length argv \<and> is_explicit_launch_policy (Some (argv ! 6));
              launch_argument = (if has_launch then argv ! 6 else ''strict'');
              usb_argument = (if has_launch then argument argv 7 ''off'' else argument argv 6 ''off'');
              filter_argument = (if has_launch then argument argv 8 ''-'' else argument argv 7 ''-'')
          in case (parse_launch_policy (Some launch_argument), parse_host_usb_policy (Some usb_argument),
                   parse_usb_device_filter (Some filter_argument)) of
               (Some allow_fallback, Some usb, Some entries) \<Rightarrow>
                 if usb = HOST_USB_EXCLUSIVE \<and> entries = [] then None
                 else Some \<lparr>so_policy = policy, so_fallback = allow_fallback, so_usb = usb, so_filter = entries\<rparr>
             | _ \<Rightarrow> None)"

text \<open>
  What \<open>main\<close> does with its arguments: the command it runs, or \<open>Usage\<close> for the exit code 2. The options
  of a start are those its child, the supervisor, gets.
\<close>

datatype command =
    Probe string
  | Probe_compat string
  | Start string string string start_options
  | Status string string
  | Health string string
  | Stop string string
  | Force_stop string string
  | Restart string string string start_options
  | Shutdown_test string string string
  | Codec_long_run string string string
  | Usage

definition with_options :: "string list \<Rightarrow> (string \<Rightarrow> string \<Rightarrow> string \<Rightarrow> start_options \<Rightarrow> command) \<Rightarrow> command" where
  "with_options argv f =
     (case parse_start_options argv of None \<Rightarrow> Usage | Some options \<Rightarrow> f (argv ! 2) (argv ! 3) (argv ! 4) options)"

definition parse_command :: "string list \<Rightarrow> command" where
  "parse_command argv =
     (let argc = length argv; is = (\<lambda>name. argv ! 1 = name)
      in if argc = 3 \<and> is ''probe'' then Probe (argv ! 2)
         else if argc = 3 \<and> is ''probe-compat'' then Probe_compat (argv ! 2)
         else if 5 \<le> argc \<and> argc \<le> 9 \<and> is ''start'' then with_options argv Start
         else if argc = 4 \<and> is ''status'' then Status (argv ! 2) (argv ! 3)
         else if argc = 4 \<and> is ''health'' then Health (argv ! 2) (argv ! 3)
         else if argc = 4 \<and> is ''stop'' then Stop (argv ! 2) (argv ! 3)
         else if argc = 4 \<and> is ''force-stop'' then Force_stop (argv ! 2) (argv ! 3)
         else if 5 \<le> argc \<and> argc \<le> 9 \<and> is ''restart'' then with_options argv Restart
         else if argc = 5 \<and> is ''shutdown-test'' then Shutdown_test (argv ! 2) (argv ! 3) (argv ! 4)
         else if argc = 5 \<and> is ''codec-long-run'' then Codec_long_run (argv ! 2) (argv ! 3) (argv ! 4)
         else Usage)"

definition exits :: "(host, int) state \<Rightarrow> (host, int option) state" where
  "exits m = do { r \<leftarrow> m; return (Some r) }"

definition launcher_main :: "nat \<Rightarrow> host_env \<Rightarrow> string list \<Rightarrow> (host, int option) state" where
  "launcher_main n env argv =
     (case parse_command argv of
        Probe root \<Rightarrow> exits (run_probe env root)
      | Probe_compat root \<Rightarrow> exits (run_compat_probe env root)
      | Start root control_dir log_path options \<Rightarrow> run_start n env root control_dir log_path
      | Status root control_dir \<Rightarrow> exits (run_status env control_dir)
      | Health root control_dir \<Rightarrow> exits (run_health env root control_dir)
      | Stop root control_dir \<Rightarrow> exits (run_stop env control_dir)
      | Force_stop root control_dir \<Rightarrow> exits (run_force_stop env root control_dir)
      | Restart root control_dir log_path options \<Rightarrow> run_restart n env root control_dir log_path
      | Shutdown_test root control_dir mode \<Rightarrow> exits (run_shutdown_test env root control_dir mode)
      | Codec_long_run root control_dir operation \<Rightarrow> exits (run_codec_long_run env root control_dir)
      | Usage \<Rightarrow> return (Some 2))"

end
