(* ===== verification/Namespace_Facts.thy ===== *)
theory Namespace_Facts
  imports Namespace_Setup
begin

text \<open>
  Facts on the programs of \<open>Namespace_Setup\<close>: which paths they change, the order of the steps on
  the way into Debian, and the seccomp filters and environment its init starts with.
\<close>

unbundle bit_operations_syntax

section \<open>Confinement\<close>

definition inside :: "string \<Rightarrow> string \<Rightarrow> string \<Rightarrow> bool" where
  "inside root control_dir p \<longleftrightarrow> p = root \<or> below root p \<or> p = control_dir \<or> below control_dir p"

text \<open>A call changes only paths of the two directories, but for the remount that cuts propagation.\<close>

definition confined :: "string \<Rightarrow> string \<Rightarrow> event \<Rightarrow> bool" where
  "confined root control_dir e \<longleftrightarrow> fst e = make_rprivate \<or> list_all (inside root control_dir) (changed_paths (fst e))"

interpretation conf: area_policy "confined root control_dir" "inside root control_dir" for root control_dir
proof
  show "confined root control_dir (c, e)" if "is_passive c" for c e
    using that by (cases c) (auto simp: confined_def)
qed (auto simp: confined_def inside_def intro: below_trans)

lemma emits_environment:
  "(\<And>c e. changed_paths c = [] \<Longrightarrow> C (c, e)) \<Longrightarrow> emits_only C (replace_environment env variables)"
proof -
  assume C: "\<And>c e. changed_paths c = [] \<Longrightarrow> C (c, e)"
  have "emits_only C (set_variables env variables)"
    by (induction variables rule: set_variables.induct) (auto intro!: emits_intros C)
  then show ?thesis
    unfolding replace_environment_def by (intro emits_intros C) auto
qed

lemma emits_filters:
  "(\<And>e. C (Set_filters, e)) \<Longrightarrow> emits_only C (host_block_ipc env)"
  "(\<And>e. C (Set_filters, e)) \<Longrightarrow> emits_only C (host_close_range_guard env)"
  "(\<And>e. C (Set_filters, e)) \<Longrightarrow> emits_only C (host_keyring_guard env)"
  unfolding host_block_ipc_def host_close_range_guard_def host_keyring_guard_def
  by ((intro emits_intros emits.io_modify); simp add: extends_def)+

lemma confined_plain: "changed_paths c = [] \<Longrightarrow> confined root control_dir (c, e)"
  by (simp add: confined_def)

lemma inside_simps [simp]: "inside root control_dir root" "inside root control_dir control_dir"
  by (simp_all add: inside_def)

lemma enter_systemd_confined:
  "emits_only (confined root control_dir) (enter_debian_systemd env root control_dir mode policy)"
  unfolding enter_debian_systemd_def move_self_to_delegated_cgroups_def enter_root_def append.simps
  by (intro emits_intros emits_environment emits_filters quietly_emits [OF conf.quiet_move_mode]
      quietly_emits [OF conf.quiet_child_mounts] confined_plain) simp_all

lemma parent_confined:
  "emits_only (confined root control_dir) (set_systemd_parent_namespaces env control_dir policy usb allow_fallback)"
  unfolding set_systemd_parent_namespaces_def set_base_private_namespaces_def wait_for_network_manager_def
    choose_launch_mode_def negotiate_launch_def pid_namespace_entry_is_available_def
  by (intro emits_intros emits_filters quietly_emits [OF conf.quiet_negotiate]
      quietly_emits [OF conf.quiet_cleanup_for_fallback]) (simp_all add: confined_def)

section \<open>The order of the steps into Debian\<close>

lemma performs_step_Cons:
  "code \<noteq> 0 \<Longrightarrow> performs fs (run_steps ms) \<Longrightarrow> performs ((c, 0) # fs) (run_steps (step env c code # ms))"
  using performs_Cons [OF performs_step] by fastforce

lemma performs_skip: "emits_only C m \<Longrightarrow> performs fs (run_steps ms) \<Longrightarrow> performs fs (run_steps (m # ms))"
  using performs_Cons [OF performs_nothing] by fastforce

lemma performs_mounts:
  "performs [(Mount (Some root) root None (MS_BIND OR MS_REC) None, 0),
      (Mount None root None (MS_PRIVATE OR MS_REC) None, 0)]
    (prepare_child_mounts env root control_dir systemd_mode mode policy)"
  unfolding prepare_child_mounts_def
  by (rule performs_step_Cons, simp, rule performs_step_Cons, simp)
    (intro performs_nothing [OF quietly_emits, where C = "\<lambda>_. True"] any.directory_intros any.quiet_configure_usb
      any.quiet_bind_android any.quiet_cgroup_views any.quiet_reboot_bridge; simp)

definition debian_init :: host_call where
  "debian_init = Execv ''/sbin/init'' [''init'', ''--system'', ''--unit=multi-user.target'', ''--log-target=console'',
     ''--log-level=info'', ''--show-status=yes'']"

lemma enter_systemd_order:
  "performs [(Unshare CLONE_NEWCGROUP, 0),
      (Mount (Some root) root None (MS_BIND OR MS_REC) None, 0),
      (Mount None root None (MS_PRIVATE OR MS_REC) None, 0),
      (Sethostname ''dawnshell'', 0), (Chdir root, 0), (Chroot ''.'', 0), (Chdir ''/'', 0),
      (debian_init, 0)]
    (enter_debian_systemd env root control_dir mode policy)"
proof -
  have move: "performs [(Unshare CLONE_NEWCGROUP, 0)] (move_self_to_delegated_cgroups env control_dir mode)"
    unfolding move_self_to_delegated_cgroups_def
    by (rule performs_skip [OF quietly_emits [OF any.quiet_move_mode]], simp, rule performs_step_Cons)
      (simp_all add: performs_Nil)
  have others: "emits_only (\<lambda>_. True) (replace_environment env v)" "emits_only (\<lambda>_. True) (host_keyring_guard env)"
    "emits_only (\<lambda>_. True) (do { _ \<leftarrow> call env Reset_signals; return (0 :: int) })" for v
    by (intro emits_environment emits_filters emits_intros TrueI)+
  show ?thesis
    unfolding enter_debian_systemd_def enter_root_def append.simps debian_init_def
    by (rule performs_Cons [OF move, simplified], rule performs_Cons [OF performs_mounts, simplified],
        (rule performs_step_Cons, simp)+, rule performs_skip [OF others(1)], rule performs_skip [OF others(2)],
        rule performs_skip [OF others(3)], rule performs_step_Cons, simp, rule performs_Nil)
qed

section \<open>The environment of the keyring guard\<close>

lemma environment_append:
  "environment inherited (t @ u) = environment (environment inherited t) u"
  by (induction inherited t rule: environment.induct) simp_all

lemma environment_unset:
  "list_all (\<lambda>(c, e). \<forall>v. c \<noteq> Setenv name v) t \<Longrightarrow> inherited name = None \<Longrightarrow> environment inherited t name = None"
  by (induction inherited t rule: environment.induct) auto

lemma replaced_environment:
  assumes "list_all (\<lambda>(n, v). n \<noteq> name) variables"
  shows "wp (replace_environment env variables)
    (\<lambda>r h'. environment inherited (h_trace h') name = None \<and> h_filters h' = h_filters h) h"
proof -
  have "quietly (\<lambda>(c, e). \<forall>v. c \<noteq> Setenv name v) (set_variables env variables)"
    using assms by (induction variables rule: set_variables.induct) (auto intro!: quiet_intros)
  then have vars: "wp (set_variables env variables) (\<lambda>_ h'. \<exists>es. h_trace h' = h_trace h1 @ es
      \<and> list_all (\<lambda>(c, e). \<forall>v. c \<noteq> Setenv name v) es \<and> h_filters h' = h_filters h1) h1" for h1
    by (rule wp_mono [OF state_io_rel_wp]) (auto simp: quiet_def extends_def list_all_iff)
  show ?thesis
    unfolding replace_environment_def wp_bind wp_call
    by (rule wp_mono [OF vars]) (auto simp: wp_simps environment_append environment_unset)
qed

lemma keeps_filters: "quietly C m \<Longrightarrow> keeps (\<lambda>h. h_filters h = fs) m"
  unfolding keeps_def by (auto intro!: wp_mono [OF state_io_rel_wp] simp: quiet_def)

lemma wp_steps_keep:
  assumes "keeps P m" "P h" "\<And>h. P h \<Longrightarrow> wp (run_steps ms) (\<lambda>r h'. r = 0 \<longrightarrow> Q h') h"
  shows "wp (run_steps (m # ms)) (\<lambda>r h'. r = 0 \<longrightarrow> Q h') h"
proof -
  have "wp m (\<lambda>r h'. P h') h"
    using assms(1,2) by (simp add: keeps_def)
  then show ?thesis
    unfolding wp_run_steps by (rule wp_mono) (simp add: assms(3))
qed

text \<open>Whatever the inherited environment, the keyring guard decides without an override.\<close>

lemma enter_systemd_filters:
  "wp (enter_debian_systemd env root control_dir mode policy)
    (\<lambda>r h'. r = 0 \<longrightarrow>
      (\<exists>t. h_filters h' = snd (dawnshell_install_keyring_guard (env_abi env) (on_guard env t) (on_keyring env t) None (h_filters h)))) h"
proof -
  let ?name = "''DAWNSHELL_SESSION_KEYRING_GUARD''"
  let ?Q = "\<lambda>h'. \<exists>t. h_filters h' = snd (dawnshell_install_keyring_guard (env_abi env) (on_guard env t) (on_keyring env t) None (h_filters h))"
  let ?vars = "base_variables ''dawnshell'' @ [(''SYSTEMD_LOG_TARGET'', ''console''), (''SYSTEMD_LOG_LEVEL'', ''info''),
    (''SYSTEMD_LOG_TIME'', ''1''), (''SYSTEMD_PROC_CMDLINE'', systemd_cmdline mode)]"
  let ?same = "\<lambda>h'. h_filters h' = h_filters h"
  have vars: "list_all (\<lambda>(n, v). n \<noteq> ?name) ?vars"
    by (simp add: base_variables_def)
  have ready: "wp (replace_environment env ?vars)
      (\<lambda>r h2. environment (env_variable env) (h_trace h2) ?name = None \<and> ?same h2) h1" if "?same h1" for h1
    by (rule wp_mono [OF replaced_environment [OF vars]]) (use that in simp)
  have guard: "wp (run_steps [host_keyring_guard env, do { _ \<leftarrow> call env Reset_signals; return 0 }, step env debian_init 72])
      (\<lambda>r h'. r = 0 \<longrightarrow> ?Q h') h2"
    if "environment (env_variable env) (h_trace h2) ?name = None" "?same h2" for h2
    using that by (auto simp: host_keyring_guard_def wp_simps Let_def split: prod.splits) (metis sndI)
  have last: "wp (run_steps (replace_environment env ?vars # [host_keyring_guard env,
      do { _ \<leftarrow> call env Reset_signals; return 0 }, step env debian_init 72])) (\<lambda>r h'. r = 0 \<longrightarrow> ?Q h') h1" if "?same h1" for h1
    unfolding wp_run_steps(2) [of "replace_environment env ?vars"]
    by (rule wp_mono [OF ready [OF that]]) (simp add: guard)
  have mk: "keeps ?same (step env c code)" for c code
    by (intro keeps_filters [where C = "\<lambda>_. True"] quiet_intros TrueI)
  show ?thesis
    unfolding enter_debian_systemd_def enter_root_def append.simps debian_init_def [symmetric]
    by (rule wp_steps_keep [where P = ?same], rule keeps_filters [where C = "\<lambda>_. True"], unfold move_self_to_delegated_cgroups_def,
        intro quiet_intros any.quiet_move_mode TrueI, simp,
        rule wp_steps_keep [where P = ?same], rule keeps_filters, rule any.quiet_child_mounts, simp, simp,
        (rule wp_steps_keep [where P = ?same], rule mk, assumption)+, rule last [unfolded append.simps], assumption)
qed

end
