(* ===== verification/Command_Facts.thy ===== *)
theory Command_Facts
  imports Launcher_Commands Namespace_Facts
begin

text \<open>
  Facts on the launcher's commands: which processes they may signal and which namespaces they may
  enter, as a rule on a call after the history of the calls before it.
\<close>

section \<open>What a command may do to other processes\<close>

text \<open>The state the state file holds.\<close>

definition loaded :: "string \<Rightarrow> files \<Rightarrow> LauncherState \<Rightarrow> bool" where
  "loaded control_dir fs s \<longleftrightarrow> (\<exists>now. read_state now control_dir fs = Some s)"

text \<open>\<open>f\<close> held when the program looked at the processes.\<close>

definition seen :: "host_env \<Rightarrow> (procfs \<Rightarrow> bool) \<Rightarrow> event list \<Rightarrow> bool" where
  "seen env f T \<longleftrightarrow> (\<exists>t. prefix (t @ [(Inspect_processes, 0)]) T \<and> f (on_proc env t))"

text \<open>The recorded supervisor or service, checked before against \<open>/proc\<close>.\<close>

definition verified :: "host_env \<Rightarrow> string \<Rightarrow> files \<Rightarrow> event list \<Rightarrow> int \<Rightarrow> bool" where
  "verified env control_dir fs T pid \<longleftrightarrow> (\<exists>s. loaded control_dir fs s
     \<and> (pid = ls_supervisor_pid s \<and> seen env (\<lambda>p. validate_supervisor_identity p s) T
        \<or> pid = ls_init_host_pid s \<and> seen env (recorded_service s) T))"

text \<open>A process whose cgroup file was read and named a delegated cgroup.\<close>

definition delegated :: "host_env \<Rightarrow> event list \<Rightarrow> int \<Rightarrow> bool" where
  "delegated env T pid \<longleftrightarrow>
     (\<exists>t contents. prefix (t @ [(Read_file (proc_cgroup_path pid), 0)]) T
       \<and> on_read env t (proc_cgroup_path pid) = Inr contents \<and> delegated_contents contents)"

text \<open>A process that was asked for its group and leads it.\<close>

definition leads_group :: "host_env \<Rightarrow> event list \<Rightarrow> int \<Rightarrow> bool" where
  "leads_group env T pid \<longleftrightarrow> (\<exists>t. prefix (t @ [(Get_group pid, 0)]) T \<and> on_group env t pid = pid)"

text \<open>The inode recorded for the namespace of a kind.\<close>

definition recorded_inode :: "LauncherState \<Rightarrow> u32 \<Rightarrow> u64 option" where
  "recorded_inode s kind =
     (if kind = CLONE_NEWPID then Some (ls_init_pid_ns_ino s)
      else if kind = CLONE_NEWNS then Some (ls_init_mnt_ns_ino s)
      else if kind = CLONE_NEWUTS then Some (ls_init_uts_ns_ino s)
      else if kind = CLONE_NEWCGROUP then Some (ls_init_cgroup_ns_ino s) else None)"

text \<open>
  A signal goes to a verified process or to one of a delegated cgroup; a signal to a group, to a
  verified process that leads it. A namespace is entered only when the supervisor, the service and its
  namespaces were checked, and only the one whose inode is recorded for that kind.
\<close>

definition command_rule :: "host_env \<Rightarrow> string \<Rightarrow> files \<Rightarrow> event list \<Rightarrow> event \<Rightarrow> bool" where
  "command_rule env control_dir fs T x \<longleftrightarrow> (case fst x of
     Kill pid sig \<Rightarrow> verified env control_dir fs T pid \<or> delegated env T pid
   | Kill_group pid sig \<Rightarrow> verified env control_dir fs T pid \<and> leads_group env T pid
   | Setns inode kind \<Rightarrow> (\<exists>s. loaded control_dir fs s \<and> seen env (\<lambda>p. validate_supervisor_identity p s) T
       \<and> seen env (recorded_service s) T \<and> seen env (recorded_topology s) T \<and> recorded_inode s kind = Some inode)
   | _ \<Rightarrow> True)"

text \<open>The calls the rule does not restrict.\<close>

fun is_free :: "host_call \<Rightarrow> bool" where
  "is_free (Kill pid sig) = False"
| "is_free (Kill_group pid sig) = False"
| "is_free (Setns inode kind) = False"
| "is_free _ = True"

abbreviation free_event :: "event \<Rightarrow> bool" where
  "free_event \<equiv> \<lambda>(c, e). is_free c"

interpretation cr: history_policy "command_rule env control_dir fs" is_free for env control_dir fs
proof
  show "command_rule env control_dir fs T (c, e)" if "is_free c" for c T e
    using that by (cases c) (auto simp: command_rule_def)
qed

interpretation fr: area_policy free_event "\<lambda>_. True"
proof
  show "free_event (c, e)" if "is_passive c" for c e using that by (cases c) auto
  show "free_event (c, e)" if "changed_paths c = [p]" for c e p using that by (cases c) auto
qed auto

section \<open>Programs that only look\<close>

context area_policy
begin

lemma area_validate:
  "quietly allowed (validate_control_directory env path)" "quietly allowed (validate_rootfs env root systemd)"
proof -
  show "quietly allowed (validate_control_directory env path)"
    unfolding validate_control_directory_def by (intro area_intros) simp
  have steps: "list_all (quietly allowed) ms \<Longrightarrow> quietly allowed (run_steps ms)" for ms
    by (induction ms) (auto intro: quiet_intros)
  have marker: "quietly allowed (check_marker env root name lines code)" for root name lines code
    unfolding check_marker_def by (intro quiet_with_path steps) (auto simp: list_all_iff intro!: quiet_check quiet_checks)
  have exe: "quietly allowed (check_executable env root code name)" for root code name
    unfolding check_executable_def by (intro quiet_with_path quiet_check quiet_checks)
  have dir: "quietly allowed (with_path root name 28 (\<lambda>path. check (is_directory env path) 29))" for root name
    by (intro quiet_with_path quiet_check quiet_checks)
  have rdir: "quietly allowed (check_root_directory env root)" for root
    unfolding check_root_directory_def by (intro area_intros) simp_all
  show "quietly allowed (validate_rootfs env root systemd)"
    unfolding validate_rootfs_def by (intro quiet.io_if quiet_intros steps) (auto simp: marker exe dir rdir list_all_iff)
qed

lemma area_looks:
  "quietly allowed (clock env)" "quietly allowed (inspect env f)" "quietly allowed (also_check env b g)"
  "quietly allowed (load_state env control_dir)" "quietly allowed (load_or_blank env control_dir)"
  "quietly allowed (open_namespace env pid name)"
proof -
  show "quietly allowed (clock env)" "quietly allowed (inspect env f)" "quietly allowed (also_check env b g)"
    "quietly allowed (open_namespace env pid name)"
    unfolding clock_def inspect_def also_check_def open_namespace_def Let_def by (intro area_intros; simp)+
  show load: "quietly allowed (load_state env control_dir)"
    unfolding load_state_def by (intro quiet.io_rules quiet_log asking) simp
  show "quietly allowed (load_or_blank env control_dir)"
    unfolding load_or_blank_def by (intro quiet.io_rules load)
qed

lemma area_lock: "area control_dir \<Longrightarrow> quietly allowed (open_lock_file env control_dir)"
  unfolding open_lock_file_def by (intro area_intros) (auto intro: area_joined)

lemma area_collect: "quietly allowed (collect_delegated_processes env capacity)"
proof -
  have "quietly allowed (collect_entries env capacity names)" for names
    by (induction names arbitrary: capacity)
      (auto simp: process_in_delegated_cgroup_def intro!: area_intros split: option.split)
  then show ?thesis
    unfolding collect_delegated_processes_def by (intro area_intros) simp_all
qed

lemma area_ready: "quietly allowed (ready_loop n env deadline msg)"
  by (induction n arbitrary: msg)
    (auto simp: Let_def split: ready_answer.split intro!: area_intros area_looks)

end

section \<open>Free programs\<close>

lemma quiet_report: "quietly free_event (report env line x)" "quietly free_event (fork_and_wait env i j k)"
  unfolding report_def fork_and_wait_def by (intro quiet_intros; simp)+

lemmas quiet_validate = fr.area_validate

lemmas quiet_commands = fr.area_looks(1-5) quiet_report(1) fr.area_lock [OF TrueI] fr.area_looks(6) quiet_report(2)

lemma quiet_waits:
  "quietly free_event (wait_for_lock n env deadline pause)" "quietly free_event (await_lock env patience pause)"
  "quietly free_event (wait_for_end n env deadline s)" "quietly free_event (ready_loop n env deadline msg)"
  "quietly free_event (wait_for_supervisor_exit env control_dir)"
proof -
  show wait: "quietly free_event (wait_for_lock n env deadline pause)" for n deadline pause
    by (induction n) (auto intro!: quiet.io_rules quiet_commands quiet_call)
  show lock: "quietly free_event (await_lock env patience pause)" for patience pause
    unfolding await_lock_def by (intro quiet.io_rules quiet_commands wait)
  show "quietly free_event (wait_for_end n env deadline s)"
    by (induction n) (auto intro!: quiet.io_rules quiet_commands quiet_call)
  show "quietly free_event (ready_loop n env deadline msg)"
    by (rule fr.area_ready)
  show "quietly free_event (wait_for_supervisor_exit env control_dir)"
    unfolding wait_for_supervisor_exit_def by (intro quiet.io_rules quiet_commands lock)
qed

lemmas quiet_collect = fr.area_collect

text \<open>Whole commands that signal nothing and enter nothing.\<close>

lemma quiet_status: "quietly free_event (run_status env control_dir)"
  unfolding run_status_def status_without_supervisor_def status_with_supervisor_def
  by (intro quiet.io_rules quiet_validate quiet_commands quiet_call) simp_all

lemma quiet_start: "quietly free_event (run_start n env root control_dir log_path)"
  unfolding run_start_def start_locked_def start_supervisor_def read_ready_message_def
  by (intro quiet.io_rules quiet_run_steps_Nil quiet_run_steps_Cons quiet_validate quiet_commands quiet_collect quiet_waits
      quiet_call quiet_ask) simp_all

lemma quiet_require: "quietly free_event (require_supervisor env root control_dir code)"
  unfolding require_supervisor_def
  by (intro quiet.io_rules quiet_run_steps_Nil quiet_run_steps_Cons quiet_validate quiet_commands quiet_call) simp_all

lemma emits_probes: "emits_only free_event (run_probe env root)" "emits_only free_event (run_compat_probe env root)"
  unfolding run_probe_def run_compat_probe_def set_private_namespaces_def set_base_private_namespaces_def
  by (intro emits_intros emits_filters quietly_emits [OF quiet_validate(2)] quietly_emits [OF quiet_commands(9)]; simp add: make_rprivate_def)+

section \<open>Lawful programs\<close>

text \<open>Assertions on the history.\<close>

lemma stable_seen: "stable (\<lambda>h. seen env f (h_trace h))" "stable (\<lambda>h. leads_group env (h_trace h) pid)"
  unfolding seen_def leads_group_def by (rule stable_rules)+

lemma stable_verified: "stable (\<lambda>h. verified env control_dir fs (h_trace h) pid)"
  unfolding stable_def verified_def seen_def using prefix_order.trans by blast

lemma stable_delegated: "stable (\<lambda>h. delegated env (h_trace h) pid)"
  unfolding stable_def delegated_def using prefix_order.trans by blast

lemma stable_imp: "stable P \<Longrightarrow> stable (\<lambda>h. b \<longrightarrow> P h)" "(\<And>x. stable (R x)) \<Longrightarrow> stable (\<lambda>h. \<forall>x. R x h)"
  "(\<And>x. x \<in> X \<Longrightarrow> stable (R x)) \<Longrightarrow> stable (\<lambda>h. \<forall>x \<in> X. R x h)"
  by (auto simp: stable_def)

lemmas stable_intros = stable_seen stable_verified stable_delegated stable_rules stable_imp

text \<open>Composition for an assertion that is kept.\<close>

lemma gov_keep: "governed A P m (\<lambda>_. P) \<Longrightarrow> (\<And>a. governed A P (k a) Q) \<Longrightarrow> governed A P (m \<bind> k) Q"
  by (rule gov_bind)

lemma gov_guard:
  "governed A (\<lambda>h. P h \<and> S h) m Q \<Longrightarrow> (\<And>h. P h \<Longrightarrow> Q code h) \<Longrightarrow>
   governed A (\<lambda>h. P h \<and> (b \<longrightarrow> S h)) (if \<not> b then return code else m) Q"
  by (cases b) (auto intro: gov_return)

lemma gov_keep_return: "governed A P (return x) (\<lambda>_. P)"
  by (rule gov_return)

lemmas keep_quiet = quiet_commands [THEN cr.free_quiet] quiet_waits [THEN cr.free_quiet]
  quiet_validate [THEN cr.free_quiet] quiet_collect [THEN cr.free_quiet]

lemma looks:
  "stable P \<Longrightarrow> governed (command_rule env control_dir fs) P (inspect env f) (\<lambda>b h. P h \<and> (b \<longrightarrow> seen env f (h_trace h)))"
  unfolding inspect_def by (rule gov_ask) (auto simp: cr.free_rule stable_log seen_def)

lemma also_looks:
  "stable P \<Longrightarrow> governed (command_rule env control_dir fs) P (also_check env b f)
     (\<lambda>r h. P h \<and> (r \<longrightarrow> b \<and> seen env f (h_trace h)))"
  unfolding also_check_def by (rule gov_if, rule gov_post [OF looks], auto intro: gov_return)

lemma loads_state:
  "governed (command_rule env control_dir fs) (\<lambda>h. h_files h = fs) (load_state env' control_dir)
     (\<lambda>r h. (\<forall>s. r = Some s \<longrightarrow> loaded control_dir fs s) \<and> h_files h = fs)"
  unfolding load_state_def governed_def
  by (auto simp: wp_simps loaded_def lawful_def cr.free_rule)

lemma loads_or_blank:
  "governed (command_rule env control_dir fs) (\<lambda>h. h_files h = fs) (load_or_blank env' control_dir)
     (\<lambda>r h. (fst r \<longrightarrow> loaded control_dir fs (snd r)) \<and> h_files h = fs)"
  unfolding load_or_blank_def
  by (rule gov_bind [OF gov_gets [where Q = "\<lambda>_ h. h_files h = fs"]], assumption, rule gov_bind [OF loads_state])
    (auto intro!: gov_return split: option.splits)

text \<open>Signals to a verified process keep any stable assertion that verifies it.\<close>

lemma kills:
  assumes "stable P" "\<And>h. P h \<Longrightarrow> verified env control_dir fs (h_trace h) pid \<or> delegated env (h_trace h) pid"
  shows "governed (command_rule env control_dir fs) P (call env' (Kill pid sig)) (\<lambda>_. P)"
  by (rule gov_call) (use assms in \<open>auto simp: command_rule_def stable_log\<close>)

lemma kills_group:
  assumes "stable P" "\<And>h. P h \<Longrightarrow> verified env control_dir fs (h_trace h) pid \<and> leads_group env (h_trace h) pid"
  shows "governed (command_rule env control_dir fs) P (call env' (Kill_group pid sig)) (\<lambda>_. P)"
  by (rule gov_call) (use assms in \<open>auto simp: command_rule_def stable_log\<close>)

lemma learns_group:
  "stable P \<Longrightarrow> governed (command_rule env control_dir fs) P (ask (Get_group pid) (\<lambda>t. on_group env t pid))
     (\<lambda>g h. P h \<and> (g = pid \<longrightarrow> leads_group env (h_trace h) pid))"
  by (rule gov_ask) (auto simp: cr.free_rule stable_log leads_group_def)

lemma compat_signal:
  assumes P: "stable P" "\<And>h. P h \<Longrightarrow> verified env control_dir fs (h_trace h) pid"
  shows "governed (command_rule env control_dir fs) P (signal_compat_service env pid sig) (\<lambda>_. P)"
proof -
  let ?G = "\<lambda>h. P h \<and> leads_group env (h_trace h) pid"
  have "governed (command_rule env control_dir fs) ?G (call env (Kill_group pid sig)) (\<lambda>_. ?G)"
    by (rule kills_group) (use P in \<open>auto intro!: stable_intros\<close>)
  then have act: "governed (command_rule env control_dir fs) (\<lambda>h. P h \<and> (g = pid \<longrightarrow> leads_group env (h_trace h) pid))
      (if g = pid then do { _ \<leftarrow> call env (Kill_group pid sig); return () } else return ()) (\<lambda>_. P)" for g
    by (intro gov_if gov_bind) (auto intro!: gov_return elim!: gov_pre)
  show ?thesis
    unfolding signal_compat_service_def
    by (rule gov_if, rule gov_keep_return, rule gov_keep [OF kills [OF P(1)]], simp add: P(2),
        rule gov_bind [OF learns_group [OF P(1)]], rule act)
qed

section \<open>Stop\<close>

lemma kills_service:
  assumes P: "stable P" "\<And>h. P h \<Longrightarrow> verified env control_dir fs (h_trace h) (ls_init_host_pid s)"
  shows "governed (command_rule env control_dir fs) P (await_orphan_end env s) (\<lambda>_. P)"
    "governed (command_rule env control_dir fs) P (stop_orphan env s) (\<lambda>_. P)"
    "governed (command_rule env control_dir fs) P (force_service env s) (\<lambda>_. P)"
proof -
  have kill: "governed (command_rule env control_dir fs) P (call env (Kill (ls_init_host_pid s) sig)) (\<lambda>_. P)" for sig
    by (rule kills) (use P in auto)
  show await: "governed (command_rule env control_dir fs) P (await_orphan_end env s) (\<lambda>_. P)"
    unfolding await_orphan_end_def
    by (intro gov_keep gov_if gov_keep_return keep_quiet kill compat_signal P)
  show "governed (command_rule env control_dir fs) P (stop_orphan env s) (\<lambda>_. P)"
    unfolding stop_orphan_def by (intro gov_keep gov_if gov_keep_return kill compat_signal await P)
  show "governed (command_rule env control_dir fs) P (force_service env s) (\<lambda>_. P)"
    unfolding force_service_def by (intro gov_keep gov_if gov_keep_return kill compat_signal P)
qed

text \<open>Before the check, the recorded process is only loaded; a check that succeeds verifies it.\<close>

lemma verified_by:
  "loaded control_dir fs s \<Longrightarrow> seen env (\<lambda>p. validate_supervisor_identity p s) T \<Longrightarrow> verified env control_dir fs T (ls_supervisor_pid s)"
  "loaded control_dir fs s \<Longrightarrow> seen env (recorded_service s) T \<Longrightarrow> verified env control_dir fs T (ls_init_host_pid s)"
  by (auto simp: verified_def)

lemma lawful_stop_without:
  "governed (command_rule env control_dir fs) (\<lambda>h. h_files h = fs) (stop_without_supervisor env control_dir) (\<lambda>_ h. h_files h = fs)"
proof -
  let ?S = "\<lambda>r orphaned h. (\<forall>s. r = Some s \<longrightarrow> loaded control_dir fs s) \<and> h_files h = fs
    \<and> (\<forall>s. r = Some s \<longrightarrow> orphaned \<longrightarrow> seen env (recorded_service s) (h_trace h))"
  have stable: "stable (?S r b)" for r b by (intro stable_intros)
  have look: "governed (command_rule env control_dir fs) (\<lambda>h. (\<forall>s. r = Some s \<longrightarrow> loaded control_dir fs s) \<and> h_files h = fs)
      (case r of None \<Rightarrow> return False | Some s \<Rightarrow> inspect env (recorded_service s)) (?S r)" for r
    by (rule gov_option, rule gov_return, simp, rule gov_post [OF looks]) (auto intro!: stable_intros)
  have stop: "governed (command_rule env control_dir fs) (?S (Some s) True) (stop_orphan env s) (\<lambda>_. ?S (Some s) True)" for s
    by (rule kills_service [OF stable]) (auto intro: verified_by)
  have rest: "governed (command_rule env control_dir fs) (?S r b)
      (case r of None \<Rightarrow> report env line 0 | Some s \<Rightarrow> if b then stop_orphan env s else report env line 0) (\<lambda>_. ?S r b)" for r b line
    using stop by (auto intro!: keep_quiet stable_intros split: option.split)
  show ?thesis
    unfolding stop_without_supervisor_def
    by (rule gov_bind [OF loads_state], rule gov_bind [OF look], rule gov_keep [OF cr.free_call [OF stable]], simp,
        rule gov_post [OF rest]) auto
qed

lemma lawful_stop_supervisor:
  "governed (command_rule env control_dir fs) (\<lambda>h. h_files h = fs) (stop_supervisor env control_dir) (\<lambda>_ h. h_files h = fs)"
proof -
  let ?S = "\<lambda>s h. loaded control_dir fs s \<and> h_files h = fs \<and> seen env (\<lambda>p. validate_supervisor_identity p s) (h_trace h)"
  have stable: "stable (?S s)" for s by (intro stable_intros)
  have look: "governed (command_rule env control_dir fs) (\<lambda>h. (\<forall>s'. Some s = Some s' \<longrightarrow> loaded control_dir fs s') \<and> h_files h = fs)
      (inspect env (\<lambda>p. validate_supervisor_identity p s)) (\<lambda>b h. h_files h = fs \<and> (b \<longrightarrow> ?S s h))" for s
    by (rule gov_post [OF looks]) (auto intro!: stable_intros)
  have act: "governed (command_rule env control_dir fs) (?S s)
     (do {
           e \<leftarrow> call env (Kill (ls_supervisor_pid s) SIGTERM);
           if e \<noteq> 0 then return 97
           else do {
             w \<leftarrow> await_lock env kStopTimeoutMs 200000;
             case w of
               Lock_released \<Rightarrow> report env line 0
             | Lock_failed \<Rightarrow> return 98
             | Lock_held \<Rightarrow> return 99
           }
         }) (\<lambda>_. ?S s)" for s line
    by (rule gov_keep [OF kills [OF stable]], auto intro: verified_by)
      (auto intro!: gov_keep_return gov_keep keep_quiet stable split: lock_wait.split)
  show ?thesis
    unfolding stop_supervisor_def
    by (rule gov_bind [OF loads_state], rule gov_option, rule gov_return, simp, simp only:, rule gov_bind [OF look],
        rule gov_guard, rule gov_conseq [OF act]) auto
qed

lemma lawful_stop:
  "governed (command_rule env control_dir fs) (\<lambda>h. h_files h = fs) (run_stop env control_dir) (\<lambda>_ h. h_files h = fs)"
  unfolding run_stop_def
  by (intro gov_keep gov_if gov_keep_return keep_quiet lawful_stop_without lawful_stop_supervisor cr.free_call stable_intros) simp

section \<open>Force stop\<close>

lemma collects_entries:
  "stable P \<Longrightarrow> governed (command_rule env control_dir fs) P (collect_entries env capacity names)
     (\<lambda>pids h. P h \<and> (\<forall>pid \<in> set pids. delegated env (h_trace h) pid))"
proof (induction names arbitrary: capacity P)
  case (Cons name names)
  have ask: "governed (command_rule env control_dir fs) P (process_in_delegated_cgroup env pid)
      (\<lambda>b h. P h \<and> (b \<longrightarrow> delegated env (h_trace h) pid))" for pid
    unfolding process_in_delegated_cgroup_def delegated_def
    by (rule gov_bind [OF gov_ask [where Q = "\<lambda>r h. P h \<and> (\<exists>t. prefix (t @ [(Read_file (proc_cgroup_path pid), 0)]) (h_trace h) \<and> on_read env t (proc_cgroup_path pid) = r)"]])
      (auto simp: cr.free_rule intro!: gov_return stable_log [OF Cons.prems] split: sum.splits)
  have rest: "governed (command_rule env control_dir fs) (\<lambda>h. P h \<and> (b \<longrightarrow> delegated env (h_trace h) pid))
      (do { rest \<leftarrow> collect_entries env capacity' names; return (if b then pid # rest else rest) })
      (\<lambda>pids h. P h \<and> (\<forall>pid \<in> set pids. delegated env (h_trace h) pid))" for b pid capacity'
    by (rule gov_bind [OF Cons.IH]) (auto intro!: gov_return stable_intros Cons.prems)
  show ?case
    unfolding collect_entries.simps
    by (rule gov_if, rule gov_return, simp, rule gov_option, rule Cons.IH [OF Cons.prems], rule gov_if,
        rule Cons.IH [OF Cons.prems], rule gov_bind [OF ask], rule rest)
qed (auto intro: gov_return)

lemma collects:
  "stable P \<Longrightarrow> governed (command_rule env control_dir fs) P (collect_delegated_processes env capacity)
     (\<lambda>pids h. P h \<and> (\<forall>pid \<in> set pids. delegated env (h_trace h) pid))"
  unfolding collect_delegated_processes_def
  by (rule gov_keep [OF cr.free_ask], assumption, simp, rule gov_sum, rule gov_return, simp, rule collects_entries)

lemma kills_all:
  "stable P \<Longrightarrow> (\<And>h pid. P h \<Longrightarrow> pid \<in> set pids \<Longrightarrow> delegated env (h_trace h) pid) \<Longrightarrow>
   governed (command_rule env control_dir fs) P (kill_all env' pids) (\<lambda>_. P)"
  by (induction pids) (auto intro!: gov_keep_return gov_keep [OF kills])

lemma lowest_from_less: "lowest < length pids \<Longrightarrow> lowest_from pids lowest index < length pids"
  by (induction pids lowest index rule: lowest_from.induct) (subst lowest_from.simps, auto)

lemma lawful_round:
  assumes P: "stable P" "\<And>h pid. P h \<Longrightarrow> pid \<in> set pids \<Longrightarrow> delegated env (h_trace h) pid" and "pids \<noteq> []"
  shows "governed (command_rule env control_dir fs) P (kill_round env' pids) (\<lambda>_. P)"
proof -
  have lowest: "pids ! lowest_from pids 0 1 \<in> set pids"
    using assms(3) by (intro nth_mem lowest_from_less) simp
  have others: "set (take i pids @ drop (Suc i) pids) \<subseteq> set pids" for i
    using set_take_subset set_drop_subset by fastforce
  have all: "governed (command_rule env control_dir fs) P (kill_all env' (take i pids @ drop (Suc i) pids)) (\<lambda>_. P)" for i
    by (rule kills_all) (use P others [of i] in blast)+
  have last: "governed (command_rule env control_dir fs) P (call env' (Kill (pids ! lowest_from pids 0 1) sig)) (\<lambda>_. P)" for sig
    by (rule kills) (use P lowest in blast)+
  show ?thesis
    unfolding kill_round_def Let_def by (intro gov_keep gov_keep_return all last cr.free_call P) simp_all
qed

lemma lawful_terminate: "stable P \<Longrightarrow> governed (command_rule env control_dir fs) P (terminate_delegated_processes env) (\<lambda>_. P)"
proof -
  assume P: "stable P"
  have "governed (command_rule env control_dir fs) P (terminate_rounds n env) (\<lambda>_. P)" for n
  proof (induction n)
    case 0
    then show ?case by (auto intro!: gov_bind [OF collects [OF P]] gov_return)
  next
    case (Suc n)
    let ?K = "\<lambda>pids h. P h \<and> (\<forall>pid \<in> set pids. delegated env (h_trace h) pid)"
    have round: "governed (command_rule env control_dir fs) (?K pids) (kill_round env pids) (\<lambda>_. ?K pids)" if "pids \<noteq> []" for pids
      by (rule lawful_round) (use that P in \<open>auto intro!: stable_intros\<close>)
    show ?case
      unfolding terminate_rounds.simps
      by (rule gov_bind [OF collects [OF P]], rule gov_if, rule gov_return, simp, rule gov_keep [OF round], simp,
          rule gov_pre [OF Suc.IH], simp)
  qed
  then show ?thesis by (simp add: terminate_delegated_processes_def)
qed

lemma emits_save: "emits_only free_event (save_state env control_dir s)"
  unfolding save_state_def by (intro emits_intros emits.io_modify) (simp_all add: extends_def)

lemma emits_clean:
  "emits_only free_event (do {
     cleanup_delegated_cgroups env root control_dir;
     now \<leftarrow> gets (\<lambda>h. on_time env (h_trace h));
     _ \<leftarrow> save_state env control_dir (fill (initialize_state now ''force-stopped''));
     report env line (0 :: int)
   })"
  by (intro emits.io_rules quietly_emits [OF fr.quiet_cleanup_delegated] emits_save quietly_emits [OF quiet_report(1)] TrueI)

lemma lawful_clean:
  "stable P \<Longrightarrow> governed (command_rule env control_dir fs) P (force_clean env root control_dir' fill line) (\<lambda>_ _. True)"
  unfolding force_clean_def
  by (intro gov_keep [OF lawful_terminate] gov_if gov_return cr.free_emits emits_clean TrueI)

text \<open>What the two checks at the start of the command establish.\<close>

definition force_facts :: "host_env \<Rightarrow> string \<Rightarrow> files \<Rightarrow> LauncherState \<Rightarrow> bool \<Rightarrow> bool \<Rightarrow> host \<Rightarrow> bool" where
  "force_facts env control_dir fs s supervisor_valid init_valid h \<longleftrightarrow>
     (supervisor_valid \<longrightarrow> verified env control_dir fs (h_trace h) (ls_supervisor_pid s))
     \<and> (init_valid \<longrightarrow> verified env control_dir fs (h_trace h) (ls_init_host_pid s))"

lemma stable_force: "stable (force_facts env control_dir fs s a b)"
  unfolding force_facts_def by (intro stable_intros)

lemma forces_service:
  "governed (command_rule env control_dir fs) (force_facts env control_dir fs s a b)
     (if b then force_service env s else return True) (\<lambda>_. force_facts env control_dir fs s a b)"
  by (rule gov_if, rule kills_service [OF stable_force])
    (auto simp: force_facts_def intro: gov_return)

lemma lawful_force_orphan:
  "governed (command_rule env control_dir fs) (force_facts env control_dir fs s a b)
     (force_orphan env root control_dir s b) (\<lambda>_ _. True)"
  unfolding force_orphan_def
  by (intro gov_keep [OF cr.free_call [OF stable_force]] gov_keep [OF forces_service] gov_if gov_return lawful_clean [OF stable_force])
    simp_all

lemma lawful_force_group:
  "governed (command_rule env control_dir fs)
     (\<lambda>h. force_facts env control_dir fs s True b h \<and> leads_group env (h_trace h) (ls_supervisor_pid s))
     (force_group env root control_dir s b) (\<lambda>_ _. True)"
proof -
  let ?P = "\<lambda>h. force_facts env control_dir fs s True b h
    \<and> leads_group env (h_trace h) (ls_supervisor_pid s)"
  have stable: "stable ?P" by (intro stable_intros stable_force)
  have kill: "governed (command_rule env control_dir fs) ?P (call env (Kill_group (ls_supervisor_pid s) SIGKILL)) (\<lambda>_. ?P)"
    by (rule kills_group [OF stable]) (auto simp: force_facts_def)
  have rest: "governed (command_rule env control_dir fs) ?P
      (case w of Lock_released \<Rightarrow> force_clean env root control_dir fill line | Lock_failed \<Rightarrow> return i | Lock_held \<Rightarrow> return j)
      (\<lambda>_ _. True)" for w fill line i j
    by (cases w) (auto intro: lawful_clean [OF stable] gov_return)
  show ?thesis
    unfolding force_group_def Let_def
    by (rule gov_keep [OF kill], rule gov_if, rule gov_return, simp, rule gov_keep [OF keep_quiet(11) [OF stable]], rule rest)
qed

lemma lawful_force_supervisor:
  "governed (command_rule env control_dir fs) (force_facts env control_dir fs s a b)
     (force_supervisor env root control_dir s a b) (\<lambda>_ _. True)"
proof -
  let ?pid = "ls_supervisor_pid s"
  let ?P = "\<lambda>g h. force_facts env control_dir fs s a b h \<and> (g = ?pid \<longrightarrow> leads_group env (h_trace h) ?pid)"
  have stable: "stable (?P g)" for g by (intro stable_intros stable_force)
  have service: "governed (command_rule env control_dir fs) (?P g) (if b then force_service env s else return True) (\<lambda>_. ?P g)" for g
    by (rule gov_if, rule kills_service [OF stable]) (auto simp: force_facts_def intro: gov_return)
  have grp: "governed (command_rule env control_dir fs) (?P g) (force_group env root control_dir s b) (\<lambda>_ _. True)" if "a" "g = ?pid" for g
    by (rule gov_pre [OF lawful_force_group]) (use that in auto)
  have after: "governed (command_rule env control_dir fs) (?P g)
      (if g \<noteq> ?pid then return 129
       else do {
         goes_on \<leftarrow> (if b then force_service env s else return True);
         if \<not> goes_on then return 130 else force_group env root control_dir s b
       }) (\<lambda>_ _. True)" if "a" for g
    by (rule gov_if, rule gov_return, simp, rule gov_keep [OF service], rule gov_if, rule gov_return, simp, rule grp [OF that]) simp
  show ?thesis
    unfolding force_supervisor_def
    by (rule gov_if, rule gov_return, simp, rule gov_keep [OF cr.free_ask [OF stable_force]], simp, rule gov_if, rule gov_return, simp,
        rule gov_bind [OF learns_group [OF stable_force]], rule after) simp
qed

lemma lawful_force_stop:
  "governed (command_rule env control_dir fs) (\<lambda>h. h_files h = fs) (run_force_stop env root control_dir) (\<lambda>_ _. True)"
proof -
  let ?L = "\<lambda>r h. (fst r \<longrightarrow> loaded control_dir fs (snd r)) \<and> h_files h = fs"
  let ?S = "\<lambda>r b h. ?L r h \<and> (b \<longrightarrow> fst r \<and> seen env (\<lambda>p. validate_supervisor_identity p (snd r)) (h_trace h))"
  have init: "governed (command_rule env control_dir fs) (?S r a) (also_check env (fst r) (recorded_service (snd r)))
      (\<lambda>b. force_facts env control_dir fs (snd r) a b)" for r a
    by (rule gov_post [OF also_looks]) (auto simp: force_facts_def intro!: stable_intros verified_by)
  have checked: "governed (command_rule env control_dir fs) (?L r)
      (also_check env (fst r) (\<lambda>p. validate_supervisor_identity p (snd r))) (?S r)" for r
    by (rule also_looks) (intro stable_intros)
  have locked: "governed (command_rule env control_dir fs) (force_facts env control_dir fs s a b)
      (do { e \<leftarrow> call env Lock;
            if e = 0 then force_orphan env root control_dir s b
            else if e \<noteq> EAGAIN then return 128
            else force_supervisor env root control_dir s a b }) (\<lambda>_ _. True)" for s a b
    by (intro gov_keep [OF cr.free_call [OF stable_force]] gov_if lawful_force_orphan lawful_force_supervisor gov_return TrueI) simp
  note whole = gov_bind [OF checked [of "(b, s)" for b s] gov_bind [OF init [of "(b, s)" for b s] locked]]
  show ?thesis
    unfolding run_force_stop_def
    by (intro gov_if gov_return TrueI gov_keep [OF keep_quiet(15)] gov_keep [OF keep_quiet(7)] stable_intros gov_bind [OF loads_or_blank] gov_prod)
      (use whole in \<open>simp_all only: fst_conv snd_conv\<close>)
qed

section \<open>Entering Debian's namespaces\<close>

lemma recorded_kinds [simp]:
  "recorded_inode s CLONE_NEWPID = Some (ls_init_pid_ns_ino s)" "recorded_inode s CLONE_NEWNS = Some (ls_init_mnt_ns_ino s)"
  "recorded_inode s CLONE_NEWUTS = Some (ls_init_uts_ns_ino s)" "recorded_inode s CLONE_NEWCGROUP = Some (ls_init_cgroup_ns_ino s)"
  by (simp_all add: recorded_inode_def CLONE_NEWPID_def CLONE_NEWNS_def CLONE_NEWUTS_def CLONE_NEWCGROUP_def)

definition may_enter :: "host_env \<Rightarrow> string \<Rightarrow> files \<Rightarrow> LauncherState \<Rightarrow> host \<Rightarrow> bool" where
  "may_enter env control_dir fs s h \<longleftrightarrow> loaded control_dir fs s \<and> h_files h = fs
     \<and> seen env (\<lambda>p. validate_supervisor_identity p s) (h_trace h)
     \<and> seen env (recorded_service s) (h_trace h) \<and> seen env (recorded_topology s) (h_trace h)"

lemma stable_enter: "stable (may_enter env control_dir fs s)"
  unfolding may_enter_def by (intro stable_intros)

lemma gov_keep_steps:
  "governed A P (run_steps []) (\<lambda>_. P)"
  "governed A P m (\<lambda>_. P) \<Longrightarrow> governed A P (run_steps ms) (\<lambda>_. P) \<Longrightarrow> governed A P (run_steps (m # ms)) (\<lambda>_. P)"
  by (auto simp: run_steps.simps intro!: gov_keep gov_keep_return)

lemma enters:
  "recorded_inode s kind = Some inode \<Longrightarrow>
   governed (command_rule env control_dir fs) (may_enter env control_dir fs s) (step env' (Setns inode kind) code) (\<lambda>_. may_enter env control_dir fs s)"
proof -
  assume kind: "recorded_inode s kind = Some inode"
  have "command_rule env control_dir fs (h_trace h) (Setns inode kind, e)" if "may_enter env control_dir fs s h" for h e
    using that kind by (auto simp: command_rule_def may_enter_def)
  then show ?thesis
    unfolding step_def by (intro gov_keep gov_keep_return gov_call) (auto intro: stable_log [OF stable_enter])
qed

lemma lawful_enter_init:
  assumes "\<not> is_compat s"
  shows "governed (command_rule env control_dir fs) (may_enter env control_dir fs s) (enter_init_namespaces env control_dir s)
    (\<lambda>_. may_enter env control_dir fs s)"
proof -
  have move: "governed (command_rule env control_dir fs) (may_enter env control_dir fs s)
      (move_self_to_delegated_command env control_dir mode) (\<lambda>_. may_enter env control_dir fs s)" for mode
    by (rule cr.free_quiet [OF fr.quiet_move_command stable_enter]) simp
  show ?thesis
    unfolding enter_init_namespaces_def
    by (intro gov_keep gov_if gov_keep_return gov_keep_steps keep_quiet enters move stable_enter recorded_kinds)
qed

lemma lawful_enter_compat:
  assumes "is_compat s"
  shows "governed (command_rule env control_dir fs) (may_enter env control_dir fs s) (enter_compat_namespaces env s)
    (\<lambda>_. may_enter env control_dir fs s)"
  unfolding enter_compat_namespaces_def
  by (intro gov_keep gov_if gov_keep_return gov_keep_steps keep_quiet enters stable_enter recorded_kinds)

text \<open>The three checks before a process enters.\<close>

lemma lawful_checks:
  assumes "governed (command_rule env control_dir fs) (may_enter env control_dir fs s) m (\<lambda>_. may_enter env control_dir fs s)"
  shows "governed (command_rule env control_dir fs) (\<lambda>h. loaded control_dir fs s \<and> h_files h = fs)
    (do {
       a \<leftarrow> inspect env (\<lambda>p. validate_supervisor_identity p s);
       b \<leftarrow> also_check env a (recorded_service s);
       c \<leftarrow> also_check env b (recorded_topology s);
       if \<not> c then return code else m
     }) (\<lambda>_ h. h_files h = fs)"
proof -
  let ?L = "\<lambda>h. loaded control_dir fs s \<and> h_files h = fs"
  let ?A = "\<lambda>a h. ?L h \<and> (a \<longrightarrow> seen env (\<lambda>p. validate_supervisor_identity p s) (h_trace h))"
  let ?B = "\<lambda>a b h. ?A a h \<and> (b \<longrightarrow> a \<and> seen env (recorded_service s) (h_trace h))"
  have "governed (command_rule env control_dir fs) (?B a b) (also_check env b (recorded_topology s))
      (\<lambda>c h. h_files h = fs \<and> (c \<longrightarrow> may_enter env control_dir fs s h))" for a b
    by (rule gov_post [OF also_looks]) (auto simp: may_enter_def intro!: stable_intros)
  moreover have "governed (command_rule env control_dir fs) (?A a) (also_check env a (recorded_service s)) (?B a)" for a
    by (rule also_looks) (intro stable_intros)
  moreover have "governed (command_rule env control_dir fs) ?L (inspect env (\<lambda>p. validate_supervisor_identity p s)) ?A"
    by (rule looks) (intro stable_intros)
  moreover have "governed (command_rule env control_dir fs) (\<lambda>h. h_files h = fs \<and> (c \<longrightarrow> may_enter env control_dir fs s h))
      (if \<not> c then return code else m) (\<lambda>_ h. h_files h = fs)" for c
    by (rule gov_guard, rule gov_conseq [OF assms]) (auto simp: may_enter_def)
  ultimately show ?thesis
    by (intro gov_bind)
qed

lemma lawful_in_namespaces:
  "governed (command_rule env control_dir fs) (\<lambda>h. h_files h = fs) (run_in_debian_namespaces env root control_dir) (\<lambda>_ h. h_files h = fs)"
  "governed (command_rule env control_dir fs) (\<lambda>h. h_files h = fs) (run_in_debian_compat_mount_namespace env root control_dir)
     (\<lambda>_ h. h_files h = fs)"
proof -
  have req: "governed (command_rule env control_dir fs) (\<lambda>h. h_files h = fs) (require_supervisor env root control_dir code)
      (\<lambda>_ h. h_files h = fs)" for code
    by (rule cr.free_quiet [OF quiet_require]) (intro stable_intros)
  have init_checks: "governed (command_rule env control_dir fs) (\<lambda>h. loaded control_dir fs s \<and> h_files h = fs)
    (do {
       a \<leftarrow> inspect env (\<lambda>p. validate_supervisor_identity p s);
       b \<leftarrow> also_check env a (\<lambda>p. validate_init_identity p s);
       c \<leftarrow> also_check env b (\<lambda>p. validate_init_namespace_topology p s = 0);
       if \<not> c then return 102 else enter_init_namespaces env control_dir s
     }) (\<lambda>_ h. h_files h = fs)" if "\<not> is_compat s" for s
    using lawful_checks [OF lawful_enter_init [OF that]] that unfolding recorded_service_def [abs_def] recorded_topology_def [abs_def] by simp
  have compat_checks: "governed (command_rule env control_dir fs) (\<lambda>h. loaded control_dir fs s \<and> h_files h = fs)
    (do {
       a \<leftarrow> inspect env (\<lambda>p. validate_supervisor_identity p s);
       b \<leftarrow> also_check env a (\<lambda>p. validate_compat_service_identity p s);
       c \<leftarrow> also_check env b (\<lambda>p. validate_compat_namespace_topology p s = 0);
       if \<not> c then return 126 else enter_compat_namespaces env s
     }) (\<lambda>_ h. h_files h = fs)" if "is_compat s" for s
    using lawful_checks [OF lawful_enter_compat [OF that]] that unfolding recorded_service_def [abs_def] recorded_topology_def [abs_def] by simp
  show "governed (command_rule env control_dir fs) (\<lambda>h. h_files h = fs) (run_in_debian_namespaces env root control_dir) (\<lambda>_ h. h_files h = fs)"
    unfolding run_in_debian_namespaces_def
    by (rule gov_keep [OF req], rule gov_if, rule gov_keep_return, rule gov_bind [OF loads_state], rule gov_option, rule gov_return, simp,
        rule gov_if, rule gov_return, simp, rule gov_pre, rule init_checks) auto
  show "governed (command_rule env control_dir fs) (\<lambda>h. h_files h = fs) (run_in_debian_compat_mount_namespace env root control_dir)
     (\<lambda>_ h. h_files h = fs)"
    unfolding run_in_debian_compat_mount_namespace_def
    by (rule gov_keep [OF req], rule gov_if, rule gov_keep_return, rule gov_bind [OF loads_state], rule gov_option, rule gov_return, simp,
        rule gov_if, rule gov_return, simp, rule gov_pre, rule compat_checks) auto
qed

section \<open>The whole program\<close>

lemma lawful_others:
  "governed (command_rule env control_dir fs) (\<lambda>h. h_files h = fs) (run_health env root control_dir) (\<lambda>_ _. True)"
  "governed (command_rule env control_dir fs) (\<lambda>h. h_files h = fs) (run_shutdown_test env root control_dir mode) (\<lambda>_ _. True)"
  "governed (command_rule env control_dir fs) (\<lambda>h. h_files h = fs) (run_codec_long_run env root control_dir) (\<lambda>_ _. True)"
  "governed (command_rule env control_dir fs) (\<lambda>h. h_files h = fs) (run_restart n env root control_dir log_path) (\<lambda>_ _. True)"
proof -
  have inside: "governed (command_rule env control_dir fs) (\<lambda>h. h_files h = fs) (run_in_debian_namespaces env root control_dir) (\<lambda>_ _. True)"
    "governed (command_rule env control_dir fs) (\<lambda>h. h_files h = fs) (run_in_debian_compat_mount_namespace env root control_dir) (\<lambda>_ _. True)"
    by (rule gov_post [OF lawful_in_namespaces(1)], rule TrueI) (rule gov_post [OF lawful_in_namespaces(2)], rule TrueI)
  show "governed (command_rule env control_dir fs) (\<lambda>h. h_files h = fs) (run_codec_long_run env root control_dir) (\<lambda>_ _. True)"
    unfolding run_codec_long_run_def by (rule inside)
  show "governed (command_rule env control_dir fs) (\<lambda>h. h_files h = fs) (run_health env root control_dir) (\<lambda>_ _. True)"
    unfolding run_health_def
    by (intro gov_keep [OF keep_quiet(15)] gov_keep [OF keep_quiet(4)] gov_if gov_return inside TrueI stable_intros)
  show "governed (command_rule env control_dir fs) (\<lambda>h. h_files h = fs) (run_shutdown_test env root control_dir mode) (\<lambda>_ _. True)"
    unfolding run_shutdown_test_def
    by (intro gov_if gov_return TrueI gov_keep [OF cr.free_call] gov_keep [OF lawful_in_namespaces(1)] gov_keep [OF keep_quiet(14)]
        cr.free_emits quietly_emits quiet_commands stable_intros) simp
  show "governed (command_rule env control_dir fs) (\<lambda>h. h_files h = fs) (run_restart n env root control_dir log_path) (\<lambda>_ _. True)"
    unfolding run_restart_def
    by (intro gov_if gov_return TrueI gov_keep [OF lawful_stop] cr.free_emits quietly_emits quiet_start)
qed

text \<open>The control directory a command line names.\<close>

definition command_control_dir :: "command \<Rightarrow> string" where
  "command_control_dir c = (case c of
     Start root control_dir log_path options \<Rightarrow> control_dir
   | Status root control_dir \<Rightarrow> control_dir
   | Health root control_dir \<Rightarrow> control_dir
   | Stop root control_dir \<Rightarrow> control_dir
   | Force_stop root control_dir \<Rightarrow> control_dir
   | Restart root control_dir log_path options \<Rightarrow> control_dir
   | Shutdown_test root control_dir mode \<Rightarrow> control_dir
   | Codec_long_run root control_dir operation \<Rightarrow> control_dir
   | _ \<Rightarrow> [])"

lemma lawful_exits: "governed A P m (\<lambda>_ _. True) \<Longrightarrow> governed A P (exits m) (\<lambda>_ _. True)"
  unfolding exits_def by (intro gov_bind gov_return) auto

lemma lawful_main:
  "governed (command_rule env (command_control_dir (parse_command argv)) fs) (\<lambda>h. h_files h = fs) (launcher_main n env argv) (\<lambda>_ _. True)"
proof -
  have free: "governed (command_rule env control_dir fs) P (exits m) (\<lambda>_ _. True)" if "emits_only free_event m" for m P control_dir
    by (rule lawful_exits [OF cr.free_emits [OF that]])
  show ?thesis
    unfolding launcher_main_def command_control_dir_def
    by (cases "parse_command argv")
      (auto intro!: free [OF emits_probes(1)] free [OF emits_probes(2)] free [OF quietly_emits [OF quiet_status]] lawful_exits
        lawful_others lawful_force_stop gov_post [OF lawful_stop] cr.free_emits [OF quietly_emits [OF quiet_start]] gov_return)
qed

end
