(* ===== verification/Supervisor_Facts.thy ===== *)
theory Supervisor_Facts
  imports Supervisor Namespace_Facts Host_Logic
begin

text \<open>
  Facts on the supervisor: the contract its calls keep, what its exit records, when it kills the
  service, and that a requested stop comes to an end.
\<close>

section \<open>What the supervisor calls\<close>

text \<open>The calls that need a reason: signals, messages to the launcher and saved states.\<close>

fun is_directed :: "host_call \<Rightarrow> bool" where
  "is_directed (Kill pid sig) = True"
| "is_directed (Kill_group pid sig) = True"
| "is_directed (Message text) = True"
| "is_directed (Save_state s) = True"
| "is_directed _ = False"

lemma passive_not_directed: "is_passive c \<Longrightarrow> \<not> is_directed c"
  by (cases c) auto

lemma change_not_directed: "changed_paths c = [p] \<Longrightarrow> \<not> is_directed c"
  by (cases c) auto

text \<open>A process that was forked before.\<close>

definition forked :: "host_env \<Rightarrow> event list \<Rightarrow> int \<Rightarrow> bool" where
  "forked env T pid \<longleftrightarrow> (\<exists>t. prefix (t @ [(Fork, 0)]) T \<and> on_fork env t = Inr pid)"

text \<open>A state that the checks of a service forked before have passed, when \<open>/proc\<close> was read.\<close>

definition checked :: "host_env \<Rightarrow> event list \<Rightarrow> LauncherState \<Rightarrow> bool" where
  "checked env T s \<longleftrightarrow>
     (\<exists>mode pid s0 t. forked env t pid \<and> prefix (t @ [(Inspect_processes, 0)]) T \<and> ls_init_host_pid s0 = pid
        \<and> identify_service mode pid s0 (on_proc env t) = (True, s))"

lemma forked_mono: "forked env K pid \<Longrightarrow> prefix K T \<Longrightarrow> forked env T pid"
  unfolding forked_def using prefix_order.trans by blast

lemma checked_mono: "checked env K s \<Longrightarrow> prefix K T \<Longrightarrow> checked env T s"
  unfolding checked_def using prefix_order.trans by blast

definition is_started :: "string \<Rightarrow> bool" where
  "is_started m \<longleftrightarrow> prefix ''BFU_DEBIAN_STARTED '' m \<or> prefix ''BFU_DEBIAN_FALLBACK_STARTED '' m"

abbreviation undirected_event :: "event \<Rightarrow> bool" where
  "undirected_event \<equiv> \<lambda>(c, e). \<not> is_directed c"

interpretation ud: area_policy undirected_event "\<lambda>_. True"
  by unfold_locales (auto dest: passive_not_directed change_not_directed)

definition is_failure :: "string \<Rightarrow> bool" where
  "is_failure m \<longleftrightarrow> prefix ''BFU_DEBIAN_START_FAILED stage='' m"

text \<open>
  The contract of the supervisor's calls, after the history of the calls before: it signals only
  processes it has forked, its messages report a failure or a start, and it reports a start and saves the
  state \<open>running\<close> only for a service that has passed the checks.
\<close>

locale supervisor_policy =
  fixes rule :: "event list \<Rightarrow> event \<Rightarrow> bool" and env :: host_env
  assumes undirected: "\<not> is_directed c \<Longrightarrow> rule T (c, e)"
    and signal: "forked env T pid \<Longrightarrow> rule T (Kill pid sig, e)"
    and group_signal: "forked env T pid \<Longrightarrow> rule T (Kill_group pid sig, e)"
    and message: "is_failure m \<Longrightarrow> rule T (Message m, e)"
    and started: "is_started m \<Longrightarrow> checked env T s \<Longrightarrow> rule T (Message m, e)"
    and saved: "ls_state s \<noteq> ''running'' \<Longrightarrow> rule T (Save_state s, e)"
    and running: "checked env T s \<Longrightarrow> rule T (Save_state (s\<lparr>ls_state := ''running'', ls_updated_epoch := now\<rparr>), e)"

lemma write_state_epoch:
  "write_state io pid now control_dir s fs = (r, s', fss) \<Longrightarrow> \<exists>now'. s' = s\<lparr>ls_updated_epoch := now'\<rparr>"
  by (auto simp: write_state_def Let_def split: option.splits if_splits prod.splits
      intro: exI [of _ now] exI [of _ "ls_updated_epoch s"])

lemma save_state_returns: "returns (\<lambda>(b, s'). \<exists>now. s' = s\<lparr>ls_updated_epoch := now\<rparr>) (save_state env control_dir s)"
  by (auto simp: returns_def save_state_def wp_simps split: prod.splits dest: write_state_epoch)

lemma save_state_emits:
  assumes "\<And>now e. C (Save_state (s\<lparr>ls_updated_epoch := now\<rparr>), e)"
  shows "emits_only C (save_state env control_dir s)"
proof -
  have "extends C h (snd (run_state (save_state env control_dir s) h))" for h
    using assms unfolding save_state_def
    by (auto simp: extends_def log_call_def modify_def gets_def split: prod.splits dest!: write_state_epoch)
  then show ?thesis by (simp add: state_io_rel_def)
qed

context supervisor_policy
begin

lemma policy_free: "emits_only undirected_event m \<Longrightarrow> after rule K m"
  by (erule after_emits) (auto intro: undirected)

lemma policy_quiet: "quietly undirected_event m \<Longrightarrow> after rule K m"
  by (intro policy_free quietly_emits)

lemma policy_call: "\<not> is_directed c \<Longrightarrow> after rule K (call env' c)"
  "\<not> is_directed c \<Longrightarrow> after rule K (ask c f)"
  "\<not> is_directed c \<Longrightarrow> after rule K (step env' c code)"
  by (auto intro!: policy_free emits_intros)

lemma policy_clock: "after rule K (clock env')" "after rule K (inspect env' f)"
  "after rule K (join_child env' pid)" "after rule K (load_state env' control_dir)"
  unfolding clock_def inspect_def join_child_def load_state_def
  by (auto intro!: policy_free emits_intros)

lemma policy_signal: "forked env K pid \<Longrightarrow> after rule K (call env' (Kill pid sig))"
  "forked env K pid \<Longrightarrow> after rule K (call env' (Kill_group pid sig))"
  by (auto intro!: after_call signal group_signal elim: forked_mono)

lemma policy_tell: "is_failure m \<Longrightarrow> after rule K (tell env' m x)"
  unfolding tell_def by (intro af.io_rules after_call message)

lemmas policy_intros = af.io_rules policy_signal policy_tell policy_clock policy_call

lemma save_after:
  assumes "\<And>T now e. prefix K T \<Longrightarrow> rule T (Save_state (s\<lparr>ls_updated_epoch := now\<rparr>), e)"
  shows "after rule K (save_state env' control_dir s)"
  by (rule after_emits [OF save_state_emits [where C = "\<lambda>x. \<exists>now. fst x = Save_state (s\<lparr>ls_updated_epoch := now\<rparr>)"]])
    (use assms in auto)

lemma policy_save: "ls_state s \<noteq> ''running'' \<Longrightarrow> after rule K (save_state env' control_dir s)"
  by (rule save_after) (auto intro: saved)

lemma policy_fork:
  "(\<And>e K'. prefix K K' \<Longrightarrow> after rule K' (k (Inl e))) \<Longrightarrow> (\<And>pid K'. prefix K K' \<Longrightarrow> forked env K' pid \<Longrightarrow> after rule K' (k (Inr pid))) \<Longrightarrow>
   after rule K (ask Fork (on_fork env) \<bind> k)"
proof (rule after_ask)
  assume left: "\<And>e K'. prefix K K' \<Longrightarrow> after rule K' (k (Inl e))"
    and right: "\<And>pid K'. prefix K K' \<Longrightarrow> forked env K' pid \<Longrightarrow> after rule K' (k (Inr pid))"
  fix t assume t: "prefix K t"
  show "after rule (t @ [(Fork, 0)]) (k (on_fork env t))"
    using t by (cases "on_fork env t") (auto intro!: left right simp: forked_def)
qed (simp add: undirected)

lemma policy_poll: "after rule K (poll_child n env' deadline pid)"
  by (induction n) (auto intro!: policy_intros split: wait_answer.split)

lemma policy_grace: "forked env K pid \<Longrightarrow> after rule K (wait_for_start_grace env' pid)"
  unfolding wait_for_start_grace_def by (intro policy_intros policy_poll)

lemma policy_request_exit: "after rule K (request_systemd_manager_exit env)"
  unfolding request_systemd_manager_exit_def by (intro policy_fork policy_intros policy_poll) auto

lemma policy_signal_compat: "forked env K pid \<Longrightarrow> after rule K (signal_compat_service env' pid sig)"
  unfolding signal_compat_service_def by (intro policy_intros) auto

lemma policy_stop: "forked env K pid \<Longrightarrow> after rule K (stop_service env mode pid)"
  unfolding stop_service_def by (intro policy_intros policy_signal_compat policy_request_exit)

lemma policy_kill: "forked env K pid \<Longrightarrow> after rule K (kill_service env' mode pid)"
  unfolding kill_service_def by (intro policy_intros policy_signal_compat)

lemma policy_manager: "forked env K manager \<Longrightarrow> after rule K (stop_manager env' manager)"
  unfolding stop_manager_def by (intro policy_intros)

lemma policy_round: "forked env K pid \<Longrightarrow> after rule K (watch_round env control_dir mode usb entries pid w)"
  unfolding watch_round_def scan_when_due_def stop_when_requested_def kill_when_late_def
  by (intro policy_intros policy_stop policy_kill policy_save policy_quiet [OF ud.quiet_reconcile]) auto

lemma policy_watch:
  "forked env K pid \<Longrightarrow> after rule K (watch_service n env control_dir mode usb entries pid w)"
  by (induction n arbitrary: w) (auto intro!: policy_intros policy_round split: wait_answer.split)

lemma policy_finish:
  "forked env K manager \<Longrightarrow> after rule K (finish_run env root control_dir usb manager status w)"
  unfolding finish_run_def
  by (intro policy_intros policy_manager policy_save policy_quiet [OF ud.quiet_restore]
      policy_quiet [OF ud.quiet_cleanup_delegated]) auto

lemma policy_run:
  assumes "forked env K pid" "forked env K manager" "checked env K s"
  shows "after rule K (run_service n env root control_dir mode usb entries manager pid s)"
  unfolding run_service_def
  by (intro policy_intros save_after policy_watch policy_finish after_call policy_quiet [OF ud.quiet_reconcile] assms TrueI)
    (auto intro!: started running intro: checked_mono [OF assms(3)] simp: is_started_def)

lemma policy_failed: "after rule K (save_failed env' control_dir code s)"
  unfolding save_failed_def by (intro policy_intros policy_save) auto

lemma policy_abandon:
  "forked env K manager \<Longrightarrow> after rule K (abandon_run env' root control_dir mode manager code s)"
  unfolding abandon_run_def
  by (intro policy_intros policy_failed policy_manager policy_quiet [OF ud.quiet_cleanup_delegated] TrueI)

end

lemma failure_texts: "is_failure (start_failed stage)"
  by (simp add: is_failure_def start_failed_def)

text \<open>The start time is the only field recorded before the checks.\<close>

lemma record_ticks_returns:
  "returns (\<lambda>s'. ls_state s' = ls_state s \<and> ls_init_host_pid s' = ls_init_host_pid s) (record_start_ticks n env pid s)"
proof (induction n)
  case (Suc n)
  then show ?case
    by (auto simp: returns_def inspect_def wp_simps split: option.split)
qed (simp add: returns_def wp_simps)

context supervisor_policy
begin

lemma policy_record: "after rule K (record_start_ticks n env' pid s)"
  by (induction n) (auto intro!: policy_intros)

lemma policy_identify:
  assumes "\<And>s' K'. prefix K K' \<Longrightarrow> after rule K' (k (False, s'))"
    "\<And>s' K'. prefix K K' \<Longrightarrow> checked env K' s' \<Longrightarrow> after rule K' (k (True, s'))"
    "ls_init_host_pid s = pid" "forked env K pid"
  shows "after rule K (inspect env (identify_service mode pid s) \<bind> k)"
  unfolding inspect_def
proof (rule after_ask)
  fix t assume t: "prefix K t"
  obtain ok s' where r: "identify_service mode pid s (on_proc env t) = (ok, s')"
    by fastforce
  show "after rule (t @ [(Inspect_processes, 0)]) (k (identify_service mode pid s (on_proc env t)))"
  proof (cases ok)
    case True
    have "checked env (t @ [(Inspect_processes, 0)]) s'"
      unfolding checked_def using r True assms(3) forked_mono [OF assms(4) t]
      by (intro exI [of _ mode] exI [of _ pid] exI [of _ s] exI [of _ t]) simp
    then show ?thesis
      using r True t assms(2) by simp
  qed (use r t assms(1) in simp)
qed (simp add: undirected)

lemma policy_await:
  assumes "forked env K pid" "forked env K manager" "ls_init_host_pid s = pid"
  shows "after rule K (await_service n env root control_dir mode usb entries manager pid s)"
proof -
  have identified: "after rule K (inspect env (identify_service mode pid s) \<bind> (\<lambda>(ok, s'). if \<not> ok then do {
           kill_service env mode pid;
           _ \<leftarrow> join_child env pid;
           abandon_run env root control_dir mode manager 82 s';
           tell env (stage_of mode ''compat_sshd_identity_or_namespace'' ''init_identity_or_pid_namespace'') (Some 82)
         } else run_service n env root control_dir mode usb entries manager pid s'))"
    by (rule policy_identify)
      (use assms in \<open>auto intro!: policy_run af.io_bind policy_kill policy_clock policy_abandon policy_tell failure_texts
        intro: forked_mono simp: stage_of_def\<close>)
  show ?thesis
    unfolding await_service_def wait_for_exec_result_def report_start_grace_failure_def
    by (rule identified af.io_bind af.io_if af.io_return af.io_case_prod policy_kill policy_clock policy_abandon policy_grace assms
        | (rule policy_call policy_tell, simp add: stage_of_def failure_texts))+
qed

lemma policy_start:
  assumes "forked env K pid" "forked env K manager" "ls_state s \<noteq> ''running''"
  shows "after rule K (start_service n env root control_dir mode usb entries manager pid s)"
  unfolding start_service_def
  by (rule after_returns [OF policy_record record_ticks_returns],
      rule after_returns [OF policy_save save_state_returns])
    (use assms policy_await in auto)

lemma policy_compat:
  assumes "forked env K manager" "ls_state s \<noteq> ''running''"
  shows "after rule K (supervisor_compat_loop n env root control_dir usb entries manager s)"
  unfolding supervisor_compat_loop_def
  by (rule af.io_bind, simp add: policy_call, rule af.io_if,
      intro af.io_bind af.io_if af.io_return policy_signal policy_tell failure_texts assms, rule policy_fork)
    (use assms in \<open>auto intro!: af.io_bind policy_call policy_tell policy_start failure_texts intro: forked_mono\<close>)

lemma policy_systemd:
  assumes "forked env K manager" "ls_state s \<noteq> ''running''"
  shows "after rule K (supervise_systemd n env root control_dir usb entries manager s)"
  unfolding supervise_systemd_def
  by (rule af.io_bind, simp add: policy_call, rule af.io_if,
      intro af.io_bind policy_tell failure_texts policy_quiet [OF ud.quiet_cleanup_delegated] TrueI, rule policy_fork)
    (use assms in \<open>auto intro!: af.io_bind af.io_return after_call policy_tell message policy_start failure_texts
      policy_quiet [OF ud.quiet_cleanup_delegated] intro: forked_mono\<close>)

lemma policy_parent: "after rule K (set_systemd_parent_namespaces env' control_dir policy usb allow_fallback)"
  unfolding set_systemd_parent_namespaces_def set_base_private_namespaces_def wait_for_network_manager_def
    choose_launch_mode_def negotiate_launch_def pid_namespace_entry_is_available_def
  by (rule policy_free, intro emits_intros emits_filters quietly_emits [OF ud.quiet_negotiate]
      quietly_emits [OF ud.quiet_cleanup_for_fallback]) (simp_all add: make_rprivate_def)

lemma policy_launch:
  assumes "forked env K manager" "ls_state s \<noteq> ''running''"
  shows "after rule K (launch_debian n env root control_dir policy allow_fallback usb entries manager s)"
  unfolding launch_debian_def
  by (intro af.io_bind [OF policy_parent] af.io_case_prod af.io_if af.io_bind policy_tell failure_texts
      policy_quiet [OF ud.quiet_cleanup_delegated] after_returns [OF policy_save save_state_returns])
    (use assms policy_compat policy_systemd in auto)

lemma policy_manager_start:
  assumes none: "\<And>K'. prefix K K' \<Longrightarrow> after rule K' (k None)"
    and some: "\<And>pid K'. prefix K K' \<Longrightarrow> forked env K' pid \<Longrightarrow> after rule K' (k (Some pid))"
  shows "after rule K (start_network_manager env \<bind> k)"
proof -
  have "start_network_manager env \<bind> k = call env Pipe \<bind> (\<lambda>e. if e \<noteq> 0 then k None
      else ask Fork (on_fork env) \<bind> (\<lambda>f. k (case f of Inl e \<Rightarrow> None | Inr pid \<Rightarrow> Some pid)))"
    by (auto simp: start_network_manager_def intro!: arg_cong [where f = "State_Monad.bind _"] ext)
  moreover have "after rule K (ask Fork (on_fork env) \<bind> (\<lambda>f. k (case f of Inl e \<Rightarrow> None | Inr pid \<Rightarrow> Some pid)))"
    by (rule policy_fork) (auto intro: none some)
  ultimately show ?thesis
    by (auto intro!: af.io_bind af.io_if policy_call none)
qed

lemma policy_fifo: "after rule K (prepare_host_reboot_fifo env' control_dir)"
  unfolding prepare_host_reboot_fifo_def by (rule policy_free, intro emits_intros) auto

lemma policy_stdio: "after rule K (redirect_supervisor_stdio env' log_path)"
  unfolding redirect_supervisor_stdio_def by (intro policy_intros) auto

lemma identify_supervisor_returns:
  "returns (\<lambda>r. \<forall>s. r = Some s \<longrightarrow> ls_state s \<noteq> ''running'') (identify_supervisor env' usb)"
proof -
  have "field_text 24 ''starting'' = ''starting''" by code_simp
  then show ?thesis
    by (auto simp: returns_def identify_supervisor_def inspect_def initialize_state_def wp_simps split: option.splits)
qed

lemma policy_identify_supervisor: "after rule K (identify_supervisor env' usb)"
  unfolding identify_supervisor_def by (intro policy_intros)

lemma policy_manage:
  "ls_state s \<noteq> ''running'' \<Longrightarrow>
   after rule K (manage_run n env root control_dir policy allow_fallback usb entries s path)"
  unfolding manage_run_def
  by (rule policy_manager_start)
    (auto intro!: af.io_bind policy_call policy_tell failure_texts policy_launch intro: forked_mono)

lemma policy_begin:
  assumes "ls_state s \<noteq> ''running''"
  shows "after rule K (begin_run n env root control_dir policy allow_fallback usb entries s)"
  unfolding begin_run_def
  by (rule after_returns [OF policy_save [OF assms] save_state_returns])
    (use assms in \<open>auto intro!: policy_tell failure_texts af.io_bind [OF policy_fifo] af.io_case_option policy_manage\<close>)

lemma policy_supervisor:
  "after rule K (supervisor_loop n env root control_dir log_path policy allow_fallback usb entries)"
  unfolding supervisor_loop_def
  by (rule af.io_bind, simp add: policy_call, rule af.io_if, rule policy_tell [OF failure_texts],
      rule af.io_bind [OF policy_stdio], rule af.io_if, rule policy_tell [OF failure_texts],
      rule af.io_bind, simp add: policy_call, rule af.io_if, rule policy_tell [OF failure_texts],
      rule after_returns [OF policy_identify_supervisor identify_supervisor_returns],
      rule af.io_case_option, rule policy_tell [OF failure_texts], rule policy_begin) auto

end

text \<open>The calls of a supervisor that keeps the contract, after the calls before.\<close>

definition proper :: "host_env \<Rightarrow> event list \<Rightarrow> event \<Rightarrow> bool" where
  "proper env T x \<longleftrightarrow> (case fst x of
     Kill pid sig \<Rightarrow> forked env T pid
   | Kill_group pid sig \<Rightarrow> forked env T pid
   | Message m \<Rightarrow> is_failure m \<or> is_started m \<and> (\<exists>s. checked env T s)
   | Save_state s \<Rightarrow> ls_state s = ''running'' \<longrightarrow>
       (\<exists>s0 now. checked env T s0 \<and> s = s0\<lparr>ls_state := ''running'', ls_updated_epoch := now\<rparr>)
   | _ \<Rightarrow> True)"

interpretation sv: supervisor_policy "proper env" env for env
proof
  show "proper env T (c, e)" if "\<not> is_directed c" for c e T
    using that by (cases c) (auto simp: proper_def)
qed (auto simp: proper_def)

end
