(* ===== verification/Supervisor_Usb.thy ===== *)
theory Supervisor_Usb
  imports Supervisor_Facts
begin

text \<open>
  The account of the USB interfaces over a whole run of the supervisor: what it took from a driver
  of the host it gives back, or finds gone, before it returns.
\<close>

section \<open>USB interfaces over a whole run\<close>

text \<open>Calls other than the release of a USB interface.\<close>

abbreviation no_release :: "event \<Rightarrow> bool" where
  "no_release \<equiv> \<lambda>(c, e). \<forall>d n. c \<noteq> unbind_call d n"

lemma kept_others: "kept env entries st h \<Longrightarrow> extends no_release h h' \<Longrightarrow> kept env entries st h'"
  unfolding kept_def extends_def by (force simp: list_all_iff intro!: accounted_others)

lemma accounted_rest:
  "accounted env entries rs (h_trace h) \<Longrightarrow> extends no_release h h' \<Longrightarrow> accounted env entries rs (h_trace h')"
  unfolding extends_def by (force simp: list_all_iff intro!: accounted_others)

lemma confined_no_release:
  assumes "\<And>d. \<not> inside root control_dir (driver_control_path d ''unbind'')" "emits_only (confined root control_dir) m"
  shows "emits_only no_release m"
  by (rule emits_mono [OF assms(2)])
    (use assms(1) in \<open>auto simp: confined_def unbind_call_def make_rprivate_def\<close>)

lemma no_release_poll: "emits_only no_release (poll_child n env deadline pid)"
  by (induction n) (auto simp: clock_def unbind_call_def intro!: emits_intros split: wait_answer.split)

lemma no_release_stop: "emits_only no_release (stop_service env mode pid)"
  "emits_only no_release (kill_service env mode pid)" "emits_only no_release (stop_manager env manager)"
  unfolding stop_service_def kill_service_def signal_compat_service_def request_systemd_manager_exit_def stop_manager_def
    join_child_def clock_def
  by (intro emits_intros no_release_poll; simp add: unbind_call_def)+

lemma no_release_save: "emits_only no_release (save_state env control_dir s)"
  by (rule save_state_emits) (simp add: unbind_call_def)

lemma wp_keeping: "emits_only C m \<Longrightarrow> wp m (\<lambda>_ h'. extends C h h') h"
  by (rule state_io_rel_wp)

text \<open>The account of a run: nothing is ever recorded unless the policy is exclusive.\<close>

definition tracked :: "HostUsbPolicy \<Rightarrow> host_env \<Rightarrow> UsbDeviceId list \<Rightarrow> ExclusiveUsbState \<Rightarrow> host \<Rightarrow> bool" where
  "tracked usb env entries st h \<longleftrightarrow> kept env entries st h \<and> (usb = HOST_USB_EXCLUSIVE \<or> records st = [])"

lemma tracked_others: "tracked usb env entries st h \<Longrightarrow> extends no_release h h' \<Longrightarrow> tracked usb env entries st h'"
  unfolding tracked_def using kept_others by blast

lemma tracked_log:
  "tracked usb env entries st h \<Longrightarrow> (\<And>d n. c \<noteq> unbind_call d n) \<Longrightarrow>
   tracked usb env entries st (h\<lparr>h_trace := h_trace h @ [(c, e)]\<rparr>)"
  by (erule tracked_others) (auto simp: extends_def)

lemma tracked_skip:
  "emits_only no_release m \<Longrightarrow> tracked usb env entries st h \<Longrightarrow> wp m (\<lambda>_ h'. tracked usb env entries st h') h"
  by (rule wp_mono [OF wp_keeping]) (auto intro: tracked_others)

lemma reconcile_tracks:
  "tracked usb env entries st h \<Longrightarrow> usb = HOST_USB_EXCLUSIVE \<Longrightarrow>
   wp (reconcile_exclusive_usb env entries st) (\<lambda>st' h'. tracked usb env entries st' h') h"
  by (rule wp_mono [OF reconcile_keeps]) (auto simp: tracked_def)

lemma round_keeps:
  assumes "tracked usb env entries (wt_usb w) h"
  shows "wp (watch_round env control_dir mode usb entries pid w) (\<lambda>w' h'. tracked usb env entries (wt_usb w') h') h"
proof -
  let ?K = "\<lambda>w h. tracked usb env entries (wt_usb w) h"
  have scan: "?K w h \<Longrightarrow> wp (scan_when_due env usb entries w) ?K h" for w h
    unfolding scan_when_due_def clock_def
    by (auto simp: wp_simps intro!: tracked_log wp_mono [OF reconcile_tracks])
  have stop: "?K w h \<Longrightarrow> wp (stop_when_requested env control_dir mode pid w) ?K h" for w h
    unfolding stop_when_requested_def clock_def
    by (auto simp: wp_simps intro!: wp_mono [OF tracked_skip [OF no_release_stop(1)]])
      (auto simp: wp_return intro!: wp_mono [OF tracked_skip [OF no_release_save]] tracked_log)
  have kill: "?K w h \<Longrightarrow> wp (kill_when_late env mode pid w) ?K h" for w h
    unfolding kill_when_late_def clock_def
    by (auto simp: wp_simps intro!: tracked_log wp_mono [OF tracked_skip [OF no_release_stop(2)]])
  show ?thesis
    unfolding watch_round_def wp_bind
    by (rule wp_mono [OF scan [OF assms]], rule wp_mono [OF stop], assumption, rule wp_mono [OF kill], assumption)
      (auto simp: wp_simps intro!: tracked_log)
qed

lemma watch_keeps:
  "tracked usb env entries (wt_usb w) h \<Longrightarrow>
   wp (watch_service n env control_dir mode usb entries pid w)
     (\<lambda>r h'. \<forall>status w'. r = Some (status, w') \<longrightarrow> tracked usb env entries (wt_usb w') h') h"
proof (induction n arbitrary: w h)
  case (Suc n)
  have "tracked usb env entries (wt_usb w) (h\<lparr>h_trace := h_trace h @ [(Wait pid, 0)]\<rparr>)"
    using Suc.prems by (rule tracked_log) simp
  then show ?case
    by (auto simp: wp_simps intro!: wp_mono [OF round_keeps] Suc.IH split: wait_answer.split)
qed (simp add: wp_simps)

text \<open>
  \<open>settles m\<close>: started with a settled account, \<open>m\<close> ends with a settled account whenever it returns.
\<close>

definition settled :: "host_env \<Rightarrow> UsbDeviceId list \<Rightarrow> int option \<Rightarrow> host \<Rightarrow> bool" where
  "settled env entries r h \<longleftrightarrow> (r \<noteq> None \<longrightarrow> accounted env entries [] (h_trace h))"

definition settles :: "host_env \<Rightarrow> UsbDeviceId list \<Rightarrow> (host, int option) state \<Rightarrow> bool" where
  "settles env entries m \<longleftrightarrow> (\<forall>h. accounted env entries [] (h_trace h) \<longrightarrow> wp m (settled env entries) h)"

lemma settles_skip:
  assumes "emits_only no_release m" "\<And>a. settles env entries (k a)"
  shows "settles env entries (m \<bind> k)"
  unfolding settles_def wp_bind
proof (intro allI impI)
  fix h :: host
  assume "accounted env entries [] (h_trace h)"
  then show "wp m (\<lambda>a. wp (k a) (settled env entries)) h"
    using assms(2) by (intro wp_mono [OF wp_keeping [OF assms(1)]]) (auto simp: settles_def intro: accounted_rest)
qed

lemma settles_emits: "emits_only no_release m \<Longrightarrow> settles env entries m"
  unfolding settles_def settled_def by (auto intro!: wp_mono [OF wp_keeping] intro: accounted_rest)

lemma settles_if: "settles env entries m1 \<Longrightarrow> settles env entries m2 \<Longrightarrow> settles env entries (if b then m1 else m2)"
  by simp

lemma settles_prod: "(\<And>a b. settles env entries (m a b)) \<Longrightarrow> settles env entries (case x of (a, b) \<Rightarrow> m a b)"
  by (cases x) simp

lemma settles_option:
  "settles env entries m1 \<Longrightarrow> (\<And>a. settles env entries (m2 a)) \<Longrightarrow> settles env entries (case x of None \<Rightarrow> m1 | Some a \<Rightarrow> m2 a)"
  by (cases x) simp_all

lemma settles_sum:
  "(\<And>a. settles env entries (m1 a)) \<Longrightarrow> (\<And>a. settles env entries (m2 a)) \<Longrightarrow>
   settles env entries (case x of Inl a \<Rightarrow> m1 a | Inr a \<Rightarrow> m2 a)"
  by (cases x) simp_all

lemma no_release_simple:
  "emits_only no_release (clock env)" "emits_only no_release (inspect env f)" "emits_only no_release (join_child env pid)"
  "emits_only no_release (tell env m x)" "emits_only no_release (wait_for_exec_result env)"
  "emits_only no_release (wait_for_start_grace env pid)" "emits_only no_release (report_start_grace_failure env stage status x)"
  "emits_only no_release (save_failed env control_dir code s)" "emits_only no_release (identify_supervisor env usb)"
  "emits_only no_release (redirect_supervisor_stdio env log_path)" "emits_only no_release (start_network_manager env)"
  unfolding clock_def inspect_def join_child_def tell_def wait_for_exec_result_def wait_for_start_grace_def
    report_start_grace_failure_def save_failed_def identify_supervisor_def redirect_supervisor_stdio_def start_network_manager_def
  by (intro emits_intros no_release_poll no_release_save; simp add: unbind_call_def)+

lemma no_release_ticks: "emits_only no_release (record_start_ticks n env pid s)"
proof (induction n)
  case (Suc n)
  have "emits_only no_release (call env (Sleep k))" for k
    by (intro emits_intros) (simp add: unbind_call_def)
  with Suc show ?case
    by (auto intro!: emits.io_rules no_release_simple)
qed (auto intro: emits_intros)

text \<open>Neither directory of the launcher holds the host's USB drivers.\<close>

definition apart :: "string \<Rightarrow> string \<Rightarrow> bool" where
  "apart root control_dir \<longleftrightarrow> (\<forall>d. \<not> inside root control_dir (driver_control_path d ''unbind''))"

lemma no_release_confined:
  assumes "apart root control_dir"
  shows "emits_only no_release (cleanup_delegated_cgroups env root control_dir)"
    "emits_only no_release (set_systemd_parent_namespaces env control_dir policy usb allow_fallback)"
    "emits_only no_release (prepare_host_reboot_fifo env control_dir)"
proof -
  have outside: "\<And>d. \<not> inside root control_dir (driver_control_path d ''unbind'')"
    using assms by (simp add: apart_def)
  show "emits_only no_release (cleanup_delegated_cgroups env root control_dir)"
    "emits_only no_release (set_systemd_parent_namespaces env control_dir policy usb allow_fallback)"
    by (rule confined_no_release [OF outside], rule quietly_emits, rule conf.quiet_cleanup_delegated, simp, simp)
      (rule confined_no_release [OF outside parent_confined])
  show "emits_only no_release (prepare_host_reboot_fifo env control_dir)"
    unfolding prepare_host_reboot_fifo_def by (intro emits_intros) (simp_all add: unbind_call_def)
qed

lemma settles_finish:
  assumes "apart root control_dir" "tracked usb env entries (wt_usb w) h"
  shows "wp (finish_run env root control_dir usb manager status w) (settled env entries) h"
proof -
  have restore: "wp (if usb = HOST_USB_EXCLUSIVE then do { _ \<leftarrow> restore_exclusive_usb env (wt_usb w); return () } else return ())
      (\<lambda>_ h'. accounted env entries [] (h_trace h')) h"
    using assms(2) by (auto simp: tracked_def wp_simps kept_def intro!: wp_mono [OF restore_settles])
  have rest: "settles env entries (do {
      stop_manager env manager;
      cleanup_delegated_cgroups env root control_dir;
      _ \<leftarrow> save_state env control_dir s;
      return (Some 0)
    })" for s
    by (intro settles_emits emits.io_bind emits.io_return no_release_stop no_release_confined assms(1) no_release_save)
  show ?thesis
    unfolding finish_run_def wp_bind [of "if usb = HOST_USB_EXCLUSIVE then _ else _"]
    by (rule wp_mono [OF restore]) (use rest in \<open>simp add: settles_def\<close>)
qed

lemma settles_run:
  assumes "apart root control_dir"
  shows "settles env entries (run_service n env root control_dir mode usb entries manager pid s)"
  unfolding settles_def
proof (intro allI impI)
  fix h :: host
  assume "accounted env entries [] (h_trace h)"
  then have start: "tracked usb env entries no_usb_state h"
    by (simp add: tracked_def kept_def no_usb_state_ok) (simp add: no_usb_state_def)
  have first: "wp (if usb = HOST_USB_EXCLUSIVE then reconcile_exclusive_usb env entries no_usb_state else return no_usb_state)
      (\<lambda>st h'. tracked usb env entries st h') h"
    using start reconcile_tracks [OF start] by (simp add: wp_return)
  have watch: "wp (watch_service n env control_dir mode usb entries pid w)
      (\<lambda>r. wp (case r of None \<Rightarrow> return None | Some (status, w) \<Rightarrow> finish_run env root control_dir usb manager status w)
        (settled env entries)) h" if "tracked usb env entries (wt_usb w) h" for w and h :: host
    by (rule wp_mono [OF watch_keeps [OF that]])
      (auto simp: wp_return settled_def [of _ _ None] intro!: settles_finish [OF assms] split: option.split)
  have told: "emits_only no_release (call env (Message x))" "emits_only no_release (clock env)" for x
    unfolding clock_def by (intro emits_intros; simp add: unbind_call_def)+
  show "wp (run_service n env root control_dir mode usb entries manager pid s) (settled env entries) h"
    unfolding run_service_def wp_bind
    by (rule wp_mono [OF first], rule wp_mono [OF tracked_skip [OF no_release_save]], assumption, split prod.split,
        intro allI impI, unfold wp_bind, rule wp_mono [OF tracked_skip [OF told(1)]], assumption,
        rule wp_mono [OF tracked_skip [OF told(2)]], assumption, rule watch, simp)
qed

lemma settles_supervisor:
  assumes "apart root control_dir"
  shows "settles env entries (supervisor_loop n env root control_dir log_path policy allow_fallback usb entries)"
proof -
  have basic: "emits_only no_release (call env c)" "emits_only no_release (ask c f)"
    if "\<And>p v. c \<noteq> Write_value p v" for c and f :: "event list \<Rightarrow> 'x"
    using that by (auto intro!: emits_intros simp: unbind_call_def)
  have abandon: "emits_only no_release (abandon_run env root control_dir mode manager code s)" for mode manager code s
    unfolding abandon_run_def by (intro emits.io_rules no_release_simple no_release_stop no_release_confined assms)
  have start: "settles env entries (start_service n env root control_dir mode usb entries manager pid s)" for mode manager pid s
    unfolding start_service_def await_service_def
    by (intro settles_skip settles_if settles_prod settles_emits settles_run no_release_ticks no_release_save no_release_simple
        no_release_stop abandon assms emits.io_rules)
  have compat: "settles env entries (supervisor_compat_loop n env root control_dir usb entries manager s)" for manager s
    unfolding supervisor_compat_loop_def
    by (intro settles_skip settles_if settles_sum settles_emits start basic no_release_simple emits.io_rules) simp_all
  have systemd: "settles env entries (supervise_systemd n env root control_dir usb entries manager s)" for manager s
    unfolding supervise_systemd_def
    by (intro settles_skip settles_if settles_sum settles_emits start basic no_release_simple emits.io_rules
        no_release_confined assms) simp_all
  show ?thesis
    unfolding supervisor_loop_def begin_run_def manage_run_def launch_debian_def
    by (intro compat systemd settles_skip settles_if settles_option settles_prod settles_emits basic no_release_simple
        no_release_save no_release_confined [OF assms] emits.io_rules) simp_all
qed

end
