(* ===== verification/Supervisor_Time.thy ===== *)
theory Supervisor_Time
  imports Supervisor_Usb
begin

text \<open>
  Facts on the supervisor that depend on time: it kills the service only after the grace of a
  requested stop, a requested stop comes to an end, and the last saved state tells how a run ended.
\<close>

section \<open>Time\<close>

text \<open>The milliseconds a trace sleeps, and a clock on which a sleep takes at least its time.\<close>

fun duration :: "host_call \<Rightarrow> int" where
  "duration (Sleep n) = int n div 1000"
| "duration _ = 0"

definition slept :: "event list \<Rightarrow> int" where
  "slept es = sum_list (map (\<lambda>(c, e). duration c) es)"

definition clock_advances :: "host_env \<Rightarrow> bool" where
  "clock_advances env \<longleftrightarrow> (\<forall>t es. on_clock env t + slept es \<le> on_clock env (t @ es))"

lemma slept_simps [simp]:
  "slept [] = 0" "slept (es @ fs) = slept es + slept fs"
  "slept ((c, e) # es) = duration c + slept es"
  by (simp_all add: slept_def)

lemma duration_nonneg: "0 \<le> duration c"
  by (cases c) simp_all

lemma slept_nonneg: "0 \<le> slept es"
  unfolding slept_def by (intro sum_list_nonneg) (auto simp: duration_nonneg)

lemma clock_slept: "clock_advances env \<Longrightarrow> on_clock env t + slept es \<le> on_clock env (t @ es)"
  by (simp add: clock_advances_def)

lemma clock_mono: "clock_advances env \<Longrightarrow> on_clock env t \<le> on_clock env (t @ es)"
  using clock_slept [of env t es] slept_nonneg [of es] by simp

text \<open>On such a clock the loop that polls a child never uses up its fuel.\<close>

lemma poll_fuel:
  assumes "clock_advances env"
  shows "nat (deadline - on_clock env (h_trace h)) < n \<Longrightarrow> nat (deadline - on_clock env (h_trace h)) < m \<Longrightarrow>
    run_state (poll_child n env deadline pid) h = run_state (poll_child m env deadline pid) h"
proof (induction n arbitrary: m h)
  case (Suc n)
  then obtain m' where m: "m = Suc m'" by (cases m) auto
  let ?t = "\<lambda>e. h_trace h @ [(Clock, 0), (Wait pid, 0), (Sleep 100000, e)]"
  have later: "on_clock env (h_trace h) + 100 \<le> on_clock env (?t e)" for e
    using clock_slept [OF assms, of "h_trace h" "[(Clock, 0), (Wait pid, 0), (Sleep 100000, e)]"] by simp
  have "run_state (poll_child n env deadline pid) (h\<lparr>h_trace := ?t e\<rparr>) =
      run_state (poll_child m' env deadline pid) (h\<lparr>h_trace := ?t e\<rparr>)"
    if "on_clock env (h_trace h) < deadline" for e
    using Suc.prems later [of e] that by (intro Suc.IH) (auto simp: m)
  then show ?case
    by (auto simp: m clock_def ask_def call_def log_call_def gets_def modify_def split: wait_answer.split)
qed simp

section \<open>When the service is killed\<close>

text \<open>
  A stop was requested, and the grace of the mode has passed since a reading of the clock after
  the service was asked to stop.
\<close>

definition late :: "host_env \<Rightarrow> LaunchMode \<Rightarrow> event list \<Rightarrow> bool" where
  "late env mode T \<longleftrightarrow> (\<exists>t0 t1 t2. prefix t0 t1 \<and> prefix t1 t2 \<and> prefix t2 T \<and> on_stop env t0
     \<and> on_clock env t1 + stop_grace mode \<le> on_clock env t2)"

definition stop_asked :: "host_env \<Rightarrow> LaunchMode \<Rightarrow> int \<Rightarrow> event list \<Rightarrow> bool" where
  "stop_asked env mode deadline T \<longleftrightarrow> late env mode T
     \<or> (\<exists>t0 t1. prefix t0 t1 \<and> prefix t1 T \<and> on_stop env t0 \<and> deadline = on_clock env t1 + stop_grace mode)"

definition kills :: "int \<Rightarrow> host_call \<Rightarrow> bool" where
  "kills pid c \<longleftrightarrow> c = Kill pid SIGKILL \<or> c = Kill_group pid SIGKILL"

text \<open>Every kill after \<open>T0\<close> came late.\<close>

definition patient :: "host_env \<Rightarrow> LaunchMode \<Rightarrow> int \<Rightarrow> event list \<Rightarrow> event list \<Rightarrow> bool" where
  "patient env mode pid T0 T \<longleftrightarrow> prefix T0 T \<and>
     (\<forall>xs c e ys. T = T0 @ xs @ (c, e) # ys \<longrightarrow> kills pid c \<longrightarrow> late env mode (T0 @ xs))"

lemma late_mono: "late env mode T \<Longrightarrow> prefix T T' \<Longrightarrow> late env mode T'"
  unfolding late_def using prefix_order.trans by blast

lemma stop_asked_mono: "stop_asked env mode d T \<Longrightarrow> prefix T T' \<Longrightarrow> stop_asked env mode d T'"
  unfolding stop_asked_def using late_mono prefix_order.trans by blast

lemma patient_event:
  assumes "patient env mode pid T0 T" "kills pid c \<Longrightarrow> late env mode T"
  shows "patient env mode pid T0 (T @ [(c, e)])"
  unfolding patient_def
proof (intro conjI allI impI)
  show "prefix T0 (T @ [(c, e)])" using assms(1) by (simp add: patient_def)
  fix xs c' e' ys
  assume T: "T @ [(c, e)] = T0 @ xs @ (c', e') # ys" and k: "kills pid c'"
  then show "late env mode (T0 @ xs)"
    using assms by (cases ys rule: rev_cases) (auto simp: patient_def)
qed

lemma patient_events:
  assumes "patient env mode pid T0 T" "list_all (\<lambda>(c, e). kills pid c \<longrightarrow> late env mode T) es"
  shows "patient env mode pid T0 (T @ es)"
  using assms(2)
proof (induction es rule: rev_induct)
  case (snoc x es)
  then show ?case
    using patient_event [of env mode pid T0 "T @ es" "fst x" "snd x"] late_mono [of env mode T "T @ es"]
    by (cases x) auto
qed (use assms(1) in simp)

abbreviation no_kill :: "int \<Rightarrow> event \<Rightarrow> bool" where
  "no_kill pid \<equiv> \<lambda>(c, e). \<not> kills pid c"

definition watched :: "host_env \<Rightarrow> LaunchMode \<Rightarrow> int \<Rightarrow> event list \<Rightarrow> watch \<Rightarrow> host \<Rightarrow> bool" where
  "watched env mode pid T0 w h \<longleftrightarrow> patient env mode pid T0 (h_trace h)
     \<and> (wt_shutdown_sent w \<longrightarrow> stop_asked env mode (wt_deadline w) (h_trace h))"

lemma watched_skip:
  assumes "watched env mode pid T0 w h" "extends (no_kill pid) h h'"
  shows "watched env mode pid T0 w h'"
proof -
  obtain es where es: "h_trace h' = h_trace h @ es" "list_all (no_kill pid) es"
    using assms(2) by (auto simp: extends_def)
  then have "list_all (\<lambda>(c, e). kills pid c \<longrightarrow> late env mode (h_trace h)) es"
    by (auto simp: list_all_iff)
  then show ?thesis
    using assms(1) es patient_events [of env mode pid T0 "h_trace h" es] stop_asked_mono [of env mode "wt_deadline w" "h_trace h"]
    by (auto simp: watched_def)
qed

lemma watched_log:
  "watched env mode pid T0 w h \<Longrightarrow> \<not> kills pid c \<Longrightarrow> watched env mode pid T0 w (h\<lparr>h_trace := h_trace h @ [(c, e)]\<rparr>)"
  by (erule watched_skip) (simp add: extends_def)

interpretation nk: area_policy "no_kill pid" "\<lambda>_. True" for pid
  by unfold_locales (auto simp: kills_def)

lemma no_kill_poll: "emits_only (no_kill pid) (poll_child n env deadline child)"
  by (induction n) (auto simp: clock_def kills_def intro!: emits_intros split: wait_answer.split)

text \<open>A kernel that does not give the pid of a child in use to another.\<close>

definition pid_in_use :: "host_env \<Rightarrow> int \<Rightarrow> event list \<Rightarrow> bool" where
  "pid_in_use env pid T0 \<longleftrightarrow> (\<forall>t. prefix T0 t \<longrightarrow> on_fork env t \<noteq> Inr pid)"

lemma request_exit_spares:
  assumes "pid_in_use env pid T0" "prefix T0 (h_trace h)"
  shows "wp (request_systemd_manager_exit env) (\<lambda>_ h'. extends (no_kill pid) h h') h"
proof -
  let ?h = "h\<lparr>h_trace := h_trace h @ [(Fork, 0)]\<rparr>"
  have forked: "extends (no_kill pid) h ?h"
    by (simp add: extends_def kills_def)
  have rest: "emits_only (no_kill pid) (do {
      started \<leftarrow> clock env;
      r \<leftarrow> poll_child 5001 env (started + 5000) child;
      case r of
        Some (Inr status) \<Rightarrow> return (if WIFEXITED status \<and> WEXITSTATUS status = 0 then 0 else -1)
      | Some (Inl e) \<Rightarrow> return (-1)
      | None \<Rightarrow> do {
          _ \<leftarrow> call env (Kill child SIGKILL);
          _ \<leftarrow> join_child env child;
          return (-1 :: int)
        }
    })" if "child \<noteq> pid" for child
    using that unfolding clock_def join_child_def by (intro emits_intros no_kill_poll) (auto simp: kills_def)
  have "wp (request_systemd_manager_exit env) (\<lambda>_ h'. extends (no_kill pid) h h') h"
    if "on_fork env (h_trace h) = Inr child" for child
  proof -
    have "child \<noteq> pid"
      using assms that by (auto simp: pid_in_use_def)
    from state_io_rel_wp [OF rest [OF this], of ?h] show ?thesis
      unfolding request_systemd_manager_exit_def wp_bind [of "ask Fork _"] wp_ask that sum.case
      by (rule wp_mono) (rule emits.R_trans [OF forked])
  qed
  then show ?thesis
    by (cases "on_fork env (h_trace h)") (auto simp: request_systemd_manager_exit_def wp_simps forked)
qed

lemma stop_spares:
  assumes "pid_in_use env pid T0" "prefix T0 (h_trace h)"
  shows "wp (stop_service env mode pid) (\<lambda>_ h'. extends (no_kill pid) h h') h"
proof (cases "mode = LAUNCH_MODE_COMPAT")
  case True
  have "emits_only (no_kill pid) (signal_compat_service env pid SIGTERM)"
    unfolding signal_compat_service_def
    by (intro emits_intros) (auto simp: kills_def SIGTERM_def SIGKILL_def)
  with True show ?thesis by (simp add: stop_service_def state_io_rel_wp)
next
  case False
  have "emits_only (no_kill pid) (if r = 0 then return () else do { _ \<leftarrow> call env (Kill pid (SIGRTMIN + 3)); return () })" for r :: int
    by (intro emits_intros) (auto simp: kills_def SIGRTMIN_def SIGKILL_def)
  note second = state_io_rel_wp [OF this]
  have "wp (request_systemd_manager_exit env) (\<lambda>r. wp (if r = 0 then return () else do {
      _ \<leftarrow> call env (Kill pid (SIGRTMIN + 3));
      return ()
    }) (\<lambda>_ h'. extends (no_kill pid) h h')) h"
    by (rule wp_mono [OF request_exit_spares [OF assms]], rule wp_mono [OF second], erule (1) emits.R_trans)
  with False show ?thesis by (simp add: stop_service_def wp_bind)
qed

lemma save_spares: "emits_only (no_kill pid) (save_state env control_dir s)"
  by (rule save_state_emits) (simp add: kills_def)

lemma watched_late:
  assumes "patient env mode pid T0 (h_trace h)" "late env mode (h_trace h)" "extends C h h'"
  shows "watched env mode pid T0 w h'"
proof -
  obtain es where es: "h_trace h' = h_trace h @ es"
    using assms(3) by (auto simp: extends_def)
  have "list_all (\<lambda>(c, e). kills pid c \<longrightarrow> late env mode (h_trace h)) es"
    using assms(2) by (auto simp: list_all_iff)
  then show ?thesis
    using assms es patient_events late_mono [of env mode "h_trace h" "h_trace h'"]
    by (auto simp: watched_def stop_asked_def)
qed

lemma watched_prefix: "watched env mode pid T0 w h \<Longrightarrow> prefix T0 (h_trace h)"
  by (simp add: watched_def patient_def)

lemma watched_usb: "watched env mode pid T0 (w\<lparr>wt_usb := st, wt_next_scan := n\<rparr>) h = watched env mode pid T0 w h"
  by (simp add: watched_def)

lemma scan_watched:
  assumes "watched env mode pid T0 w h"
  shows "wp (scan_when_due env usb entries w) (\<lambda>w' h'. watched env mode pid T0 w' h') h"
proof -
  have "quietly (no_kill pid) (scan_when_due env usb entries w)"
    unfolding scan_when_due_def clock_def by (intro quiet.io_rules nk.quiet_area_ask nk.quiet_reconcile) auto
  from state_io_rel_wp [OF quietly_emits [OF this], of h]
  have spares: "wp (scan_when_due env usb entries w) (\<lambda>_ h'. extends (no_kill pid) h h') h" .
  have same: "wp (scan_when_due env usb entries w)
      (\<lambda>w' h'. wt_shutdown_sent w' = wt_shutdown_sent w \<and> wt_deadline w' = wt_deadline w) h"
    unfolding scan_when_due_def clock_def by (simp add: wp_fun wp_ask wp_gets)
  show ?thesis
    using spares same watched_skip [OF assms] by (fastforce simp: wp_def watched_def split: prod.splits)
qed

lemma stop_watched:
  assumes "watched env mode pid T0 w h" "pid_in_use env pid T0"
  shows "wp (stop_when_requested env control_dir mode pid w) (\<lambda>w' h'. watched env mode pid T0 w' h') h"
proof (cases "on_stop env (h_trace h) \<and> \<not> wt_shutdown_sent w")
  case True
  let ?w = "\<lambda>d s. w\<lparr>wt_shutdown_sent := True, wt_deadline := d + stop_grace mode, wt_state := s\<rparr>"
  have stopped: "watched env mode pid T0 (?w (on_clock env (h_trace h1)) s) (h1\<lparr>h_trace := h_trace h1 @ [(Clock, 0)]\<rparr>)"
    if "extends (no_kill pid) h h1" for h1 s
  proof -
    have "stop_asked env mode (on_clock env (h_trace h1) + stop_grace mode) (h_trace h1 @ [(Clock, 0)])"
      using True that unfolding stop_asked_def extends_def by (metis prefixI)
    moreover have "patient env mode pid T0 (h_trace h1)"
      using watched_skip [OF assms(1) that] by (simp add: watched_def)
    ultimately show ?thesis
      by (auto simp: watched_def kills_def intro!: patient_event)
  qed
  have save: "wp (save_state env control_dir s0) (\<lambda>(b, s) h'. watched env mode pid T0 (?w d s) h') h2"
    if "\<And>s. watched env mode pid T0 (?w d s) h2" for d s0 h2
    by (rule wp_mono [OF state_io_rel_wp [OF save_spares]]) (auto intro: watched_skip that)
  have "wp (stop_service env mode pid) (\<lambda>_. wp (clock env) (\<lambda>now.
      wp (save_state env control_dir ((wt_state w)\<lparr>ls_state := ''stopping''\<rparr>)) (\<lambda>(b, s) h'. watched env mode pid T0 (?w now s) h'))) h"
    unfolding clock_def wp_ask
    by (rule wp_mono [OF stop_spares [OF assms(2) watched_prefix [OF assms(1)]]]) (intro save stopped)
  then show ?thesis
    using True by (simp add: stop_when_requested_def wp_fun wp_gets split_def)
next
  case False
  with assms(1) show ?thesis
    by (auto simp: stop_when_requested_def wp_simps)
qed

lemma kill_watched:
  assumes "watched env mode pid T0 w h"
  shows "wp (kill_when_late env mode pid w) (\<lambda>w' h'. watched env mode pid T0 w' h') h"
proof -
  let ?h = "h\<lparr>h_trace := h_trace h @ [(Clock, 0)]\<rparr>"
  have clock: "watched env mode pid T0 w ?h"
    by (rule watched_log [OF assms]) (simp add: kills_def)
  have late: "late env mode (h_trace ?h)" if "wt_shutdown_sent w" "wt_deadline w \<le> on_clock env (h_trace h)"
  proof -
    have "late env mode (h_trace h)"
      using assms that unfolding watched_def stop_asked_def late_def by (metis prefix_order.refl)
    then show ?thesis by (rule late_mono) simp
  qed
  have any: "emits_only (\<lambda>_. True) (kill_service env mode pid)"
    unfolding kill_service_def signal_compat_service_def by (intro emits_intros) auto
  have "wp (kill_service env mode pid) (\<lambda>_ h'. watched env mode pid T0 w' h') ?h"
    if "wt_shutdown_sent w" "wt_deadline w \<le> on_clock env (h_trace h)" for w'
    by (rule wp_mono [OF state_io_rel_wp [OF any]])
      (rule watched_late [OF _ late [OF that]], use clock in \<open>auto simp: watched_def\<close>)
  then show ?thesis
    using assms clock by (auto simp: kill_when_late_def clock_def wp_fun wp_ask)
qed

lemma watch_patient:
  assumes "pid_in_use env pid T0"
  shows "watched env mode pid T0 w h \<Longrightarrow>
    wp (watch_service n env control_dir mode usb entries pid w) (\<lambda>_ h'. patient env mode pid T0 (h_trace h')) h"
proof (induction n arbitrary: w h)
  case 0
  then show ?case by (simp add: wp_simps watched_def)
next
  case (Suc n)
  have log: "watched env mode pid T0 w (h\<lparr>h_trace := h_trace h @ [(c, e)]\<rparr>)" if "c = Wait pid \<or> c = Sleep k"
    and "watched env mode pid T0 w h" for c e k w h
    using that by (auto intro!: watched_log simp: kills_def)
  have "wp (watch_round env control_dir mode usb entries pid w) (\<lambda>w' h'. watched env mode pid T0 w' h') h"
    if "watched env mode pid T0 w h" for w h
    unfolding watch_round_def wp_bind
    by (rule wp_mono [OF scan_watched [OF that]], rule wp_mono [OF stop_watched [OF _ assms]], assumption,
        rule wp_mono [OF kill_watched], assumption) (auto simp: wp_simps intro!: log)
  from wp_mono [OF this Suc.IH] log [OF _ Suc.prems, of "Wait pid" 0 0] show ?case
    by (auto simp: wp_simps watched_def split: wait_answer.split)
qed

section \<open>A requested stop comes to an end\<close>

text \<open>A killed child is reaped once the supervisor has slept \<open>d\<close> milliseconds more.\<close>

definition dies_within :: "host_env \<Rightarrow> int \<Rightarrow> int \<Rightarrow> bool" where
  "dies_within env pid d \<longleftrightarrow>
     (\<forall>xs e ys. d \<le> slept ys \<longrightarrow> (\<exists>status. on_wait env (xs @ (Kill pid SIGKILL, e) # ys) pid = Reaped status))"

definition killed_since :: "int \<Rightarrow> int \<Rightarrow> nat \<Rightarrow> host \<Rightarrow> bool" where
  "killed_since pid d k h \<longleftrightarrow>
     (\<exists>xs e ys. h_trace h = xs @ (Kill pid SIGKILL, e) # ys \<and> d \<le> slept ys + 200 * int k)"

definition due_in :: "host_env \<Rightarrow> nat \<Rightarrow> watch \<Rightarrow> host \<Rightarrow> bool" where
  "due_in env k w h \<longleftrightarrow> wt_shutdown_sent w \<and> wt_deadline w \<le> on_clock env (h_trace h) + 200 * int k"

abbreviation returned :: "'a option \<Rightarrow> host \<Rightarrow> bool" where
  "returned \<equiv> \<lambda>r h. r \<noteq> None"

text \<open>One more round of the loop.\<close>

lemma watch_step:
  assumes "wp (watch_round env control_dir mode usb entries pid w)
     (\<lambda>w'. wp (watch_service n env control_dir mode usb entries pid w') returned) (h\<lparr>h_trace := h_trace h @ [(Wait pid, 0)]\<rparr>)"
  shows "wp (watch_service (Suc n) env control_dir mode usb entries pid w) returned h"
  using assms by (auto simp: wp_simps split: wait_answer.split)

lemma parts_emit:
  "emits_only (\<lambda>_. True) (scan_when_due env usb entries w)"
  "emits_only (\<lambda>_. True) (stop_when_requested env control_dir mode pid w)"
  "emits_only (\<lambda>_. True) (kill_when_late env mode pid w)"
proof -
  have "emits_only (\<lambda>_. True) (reconcile_exclusive_usb env entries st)" for st
    by (rule emits_mono [OF quietly_emits [OF nk.quiet_reconcile]]) auto
  then show "emits_only (\<lambda>_. True) (scan_when_due env usb entries w)"
    unfolding scan_when_due_def clock_def by (intro emits_intros) simp_all
  have "emits_only (\<lambda>_. True) (save_state env control_dir s)" "emits_only (\<lambda>_. True) (stop_service env mode pid)"
    "emits_only (\<lambda>_. True) (kill_service env mode pid)" for s
    by (rule emits_mono [OF no_release_save] emits_mono [OF no_release_stop(1)] emits_mono [OF no_release_stop(2)], simp)+
  then show "emits_only (\<lambda>_. True) (stop_when_requested env control_dir mode pid w)"
    "emits_only (\<lambda>_. True) (kill_when_late env mode pid w)"
    unfolding stop_when_requested_def kill_when_late_def clock_def by (intro emits_intros; assumption?; simp)+
qed

lemma round_sleeps:
  "wp (watch_round env control_dir mode usb entries pid w) (\<lambda>_ h'. \<exists>es. h_trace h' = h_trace h @ es \<and> 200 \<le> slept es) h"
proof -
  have any: "emits_only (\<lambda>_. True) (do {
      w1 \<leftarrow> scan_when_due env usb entries w;
      w2 \<leftarrow> stop_when_requested env control_dir mode pid w1;
      kill_when_late env mode pid w2
    })"
    by (intro emits.io_bind parts_emit)
  have "wp (do {
      w3 \<leftarrow> (do {
        w1 \<leftarrow> scan_when_due env usb entries w;
        w2 \<leftarrow> stop_when_requested env control_dir mode pid w1;
        kill_when_late env mode pid w2
      });
      _ \<leftarrow> call env (Sleep 200000);
      return w3
    }) (\<lambda>_ h'. \<exists>es. h_trace h' = h_trace h @ es \<and> 200 \<le> slept es) h"
    unfolding wp_fun(1) [of "scan_when_due env usb entries w \<bind> _"]
    by (rule wp_mono [OF state_io_rel_wp [OF any]]) (auto simp: wp_simps extends_def slept_nonneg)
  then show ?thesis by (simp add: watch_round_def)
qed

lemma killed_returns:
  assumes "dies_within env pid d"
  shows "killed_since pid d k h \<Longrightarrow> k < n \<Longrightarrow> wp (watch_service n env control_dir mode usb entries pid w) returned h"
proof (induction k arbitrary: h n w)
  case 0
  then obtain n' where "n = Suc n'" by (cases n) auto
  moreover obtain status where "on_wait env (h_trace h) pid = Reaped status"
    using 0(1) assms unfolding killed_since_def dies_within_def by force
  ultimately show ?case by (simp add: wp_simps)
next
  case (Suc k)
  obtain n' where n: "n = Suc n'" "k < n'" using Suc.prems(2) by (cases n) auto
  let ?h = "h\<lparr>h_trace := h_trace h @ [(Wait pid, 0)]\<rparr>"
  have killed: "killed_since pid d k h'" if grown: "\<exists>es. h_trace h' = h_trace ?h @ es \<and> 200 \<le> slept es" for h'
  proof -
    obtain xs e ys es where "h_trace h' = xs @ (Kill pid SIGKILL, e) # ys @ (Wait pid, 0) # es"
      "d \<le> slept ys + 200 * int (Suc k)" "200 \<le> slept es"
      using Suc.prems(1) grown by (auto simp: killed_since_def)
    then show ?thesis unfolding killed_since_def by (intro exI [of _ xs] exI [of _ e] exI [of _ "ys @ (Wait pid, 0) # es"]) simp
  qed
  show ?case
    unfolding n(1)
    by (rule watch_step, rule wp_mono [OF round_sleeps]) (rule Suc.IH [OF killed n(2)])
qed

lemma kill_service_kills:
  assumes "1 < pid"
  shows "wp (kill_service env mode pid) (\<lambda>_ h'. \<exists>e ys. h_trace h' = h_trace h @ (Kill pid SIGKILL, e) # ys) h"
  using assms by (auto simp: kill_service_def signal_compat_service_def wp_simps)

text \<open>The end of a round, when the service was asked to stop.\<close>

lemma late_round:
  assumes "clock_advances env" "1 < pid" "d \<le> 200 * int kd" "due_in env k w h"
  shows "wp (do {
      w' \<leftarrow> kill_when_late env mode pid w;
      _ \<leftarrow> call env (Sleep 200000);
      return w'
    }) (\<lambda>w' h'. killed_since pid d kd h' \<or> (\<exists>k'. k = Suc k' \<and> due_in env k' w' h')) h"
proof -
  let ?sleep = "\<lambda>w'. do { _ \<leftarrow> call env (Sleep 200000); return w' }"
  have killed: "wp (?sleep w') (\<lambda>w' h'. killed_since pid d kd h' \<or> Q w' h') h2"
    if "\<exists>e ys. h_trace h2 = h_trace h1 @ (Kill pid SIGKILL, e) # ys" for w' :: watch and h1 h2 :: host and Q
  proof -
    from that obtain e ys where "h_trace h2 = h_trace h1 @ (Kill pid SIGKILL, e) # ys" by (elim exE)
    then have "killed_since pid d kd (h2\<lparr>h_trace := h_trace h2 @ [(Sleep 200000, e')]\<rparr>)" for e'
      unfolding killed_since_def using assms(3) slept_nonneg [of ys]
      by (intro exI [of _ "h_trace h1"] exI [of _ e] exI [of _ "ys @ [(Sleep 200000, e')]"]) simp
    then show ?thesis by (simp add: wp_simps)
  qed
  have waits: "\<exists>k'. k = Suc k' \<and> due_in env k' w (h\<lparr>h_trace := h_trace h @ [(Clock, 0), (Sleep 200000, e)]\<rparr>)"
    if "on_clock env (h_trace h) < wt_deadline w" for e
    using that assms(4) clock_slept [OF assms(1), of "h_trace h" "[(Clock, 0), (Sleep 200000, e)]"]
    by (cases k) (auto simp: due_in_def)
  have kills: "wp (kill_service env mode pid) (\<lambda>_. wp (?sleep w') (\<lambda>w' h'. killed_since pid d kd h' \<or> Q w' h')) h1"
    for w' :: watch and h1 Q
    by (rule wp_mono [OF kill_service_kills [OF assms(2)]]) (rule killed)
  show ?thesis
  proof (cases "on_clock env (h_trace h) < wt_deadline w")
    case True
    with waits assms(4) show ?thesis
      by (simp add: kill_when_late_def clock_def due_in_def wp_simps)
  next
    case False
    with kills assms(4) show ?thesis
      by (simp add: kill_when_late_def clock_def due_in_def wp_fun wp_ask)
  qed
qed

text \<open>While a stop is requested, a round does not scan; once the service was asked to stop, it only waits or kills.\<close>

lemma stopping_round:
  assumes "\<And>t. on_stop env t" "wt_shutdown_sent w"
  shows "watch_round env control_dir mode usb entries pid w = do {
      w' \<leftarrow> kill_when_late env mode pid w;
      _ \<leftarrow> call env (Sleep 200000);
      return w'
    }"
proof -
  have "gets (\<lambda>h. on_stop env (h_trace h)) \<bind> k = k True" for k :: "bool \<Rightarrow> (host, watch) state"
    using assms(1) by (intro state.expand) (auto simp: fun_eq_iff)
  with assms(2) show ?thesis
    by (simp add: watch_round_def scan_when_due_def stop_when_requested_def)
qed

lemma due_returns:
  assumes "clock_advances env" "1 < pid" "d \<le> 200 * int kd" "dies_within env pid d" "\<And>t. on_stop env t"
  shows "due_in env k w h \<Longrightarrow> k + kd + 1 < n \<Longrightarrow> wp (watch_service n env control_dir mode usb entries pid w) returned h"
proof (induction k arbitrary: h n w rule: less_induct)
  case (less k)
  obtain n' where n: "n = Suc n'" "k + kd < n'" using less.prems(2) by (cases n) auto
  let ?h = "h\<lparr>h_trace := h_trace h @ [(Wait pid, 0)]\<rparr>"
  have sent: "wt_shutdown_sent w" "due_in env k w ?h"
    using less.prems(1) clock_mono [OF assms(1), of "h_trace h" "[(Wait pid, 0)]"] by (auto simp: due_in_def)
  have rest: "wp (watch_service n' env control_dir mode usb entries pid w') returned h'"
    if "killed_since pid d kd h' \<or> (\<exists>k'. k = Suc k' \<and> due_in env k' w' h')" for w' h'
    using that
  proof (elim disjE exE conjE)
    assume "killed_since pid d kd h'"
    then show ?thesis by (rule killed_returns [OF assms(4)]) (use n(2) in simp)
  next
    fix k' assume "k = Suc k'" "due_in env k' w' h'"
    then show ?thesis using less.IH [of k' w' h' n'] n(2) by simp
  qed
  show ?case
    unfolding n(1)
    by (rule watch_step, subst stopping_round [OF assms(5) sent(1)], rule wp_mono [OF late_round [OF assms(1-3) sent(2)] rest])
qed

text \<open>
  A requested stop ends the loop within the rounds of the grace, of the time a killed child needs,
  and three more.
\<close>

lemma stop_ends:
  assumes "clock_advances env" "1 < pid" "d \<le> 200 * int kd" "dies_within env pid d" "\<And>t. on_stop env t"
    and "\<not> wt_shutdown_sent w" "nat (stop_grace mode) div 200 + kd + 2 < n"
  shows "wp (watch_service n env control_dir mode usb entries pid w) returned h"
proof -
  let ?k = "nat (stop_grace mode) div 200"
  obtain n' where n: "n = Suc n'" "?k + kd + 1 < n'" using assms(7) by (cases n) auto
  have due: "wp (stop_when_requested env control_dir mode pid w) (\<lambda>w' h'. due_in env ?k w' h') h'" for h'
  proof -
    have save: "wp (save_state env control_dir s) (\<lambda>r h'. due_in env ?k
        (w\<lparr>wt_shutdown_sent := True, wt_deadline := on_clock env t + stop_grace mode, wt_state := snd r\<rparr>) h') h1"
      if before: "prefix t (h_trace h1)" for s t h1
    proof (rule wp_mono [OF state_io_rel_wp [OF no_release_save]])
      fix x :: "bool \<times> LauncherState" and h2 :: host
      assume "extends no_release h1 h2"
      then obtain es where "h_trace h2 = t @ es"
        using before by (auto simp: extends_def prefix_def)
      then show "due_in env ?k
          (w\<lparr>wt_shutdown_sent := True, wt_deadline := on_clock env t + stop_grace mode, wt_state := snd x\<rparr>) h2"
        using clock_mono [OF assms(1), of t es] by (simp add: due_in_def stop_grace_def)
    qed
    have "wp (stop_service env mode pid) (\<lambda>_. wp (clock env) (\<lambda>now. wp (save_state env control_dir s) (\<lambda>r h'. due_in env ?k
        (w\<lparr>wt_shutdown_sent := True, wt_deadline := now + stop_grace mode, wt_state := snd r\<rparr>) h'))) h'" for s
      unfolding clock_def wp_ask by (rule wp_mono [OF wpI [OF TrueI]]) (rule save, simp)
    then show ?thesis
      using assms(5,6) by (simp add: stop_when_requested_def wp_fun wp_gets split_def)
  qed
  have round: "wp (watch_round env control_dir mode usb entries pid w)
     (\<lambda>w' h'. killed_since pid d kd h' \<or> (\<exists>k'. ?k = Suc k' \<and> due_in env k' w' h')) h'" for h'
    unfolding watch_round_def scan_when_due_def
    using assms(5) wp_mono [OF due late_round [OF assms(1-3)]] by (simp add: wp_fun wp_gets)
  have rest: "wp (watch_service n' env control_dir mode usb entries pid w') returned h'"
    if "killed_since pid d kd h' \<or> (\<exists>k'. ?k = Suc k' \<and> due_in env k' w' h')" for w' h'
    using that
  proof (elim disjE exE conjE)
    assume "killed_since pid d kd h'"
    then show ?thesis by (rule killed_returns [OF assms(4)]) (use n(2) in simp)
  next
    fix k' assume "?k = Suc k'" "due_in env k' w' h'"
    then show ?thesis using due_returns [OF assms(1-5), of k' w' h' n'] n(2) by simp
  qed
  show ?thesis
    unfolding n(1) by (rule watch_step, rule wp_mono [OF round rest])
qed

section \<open>What the end of a run leaves in the state file\<close>

definition last_saved :: "event list \<Rightarrow> LauncherState option" where
  "last_saved T = fold (\<lambda>(c, e) r. case c of Save_state s \<Rightarrow> Some s | _ \<Rightarrow> r) T None"

abbreviation no_save :: "event \<Rightarrow> bool" where
  "no_save \<equiv> \<lambda>(c, e). \<forall>s. c \<noteq> Save_state s"

lemma last_saved_snoc [simp]: "last_saved (T @ [(Save_state s, e)]) = Some s"
  by (simp add: last_saved_def)

lemma last_saved_others: "list_all no_save es \<Longrightarrow> last_saved (T @ es) = last_saved T"
proof (induction es arbitrary: T)
  case (Cons x es)
  obtain c e where x: "x = (c, e)" by fastforce
  have "last_saved (T @ [x]) = last_saved T"
    using Cons.prems by (cases c) (auto simp: last_saved_def x)
  with Cons.IH [of "T @ [x]"] Cons.prems show ?case by simp
qed simp

lemma last_saved_skip: "emits_only no_save m \<Longrightarrow> P (last_saved (h_trace h)) \<Longrightarrow> wp m (\<lambda>_ h'. P (last_saved (h_trace h'))) h"
  by (rule wp_mono [OF state_io_rel_wp [of "extends no_save"]]) (auto simp: extends_def last_saved_others)

interpretation ns: area_policy no_save "\<lambda>_. True"
  by unfold_locales auto

lemma save_state_saves:
  "wp (save_state env control_dir s)
     (\<lambda>(b, s') h'. (\<exists>now. s' = s\<lparr>ls_updated_epoch := now\<rparr>) \<and> last_saved (h_trace h') = Some s') h"
  by (auto simp: save_state_def wp_simps split: prod.splits dest: write_state_epoch)

definition ended :: "host_env \<Rightarrow> int \<Rightarrow> int option \<Rightarrow> host \<Rightarrow> bool" where
  "ended env pid r h \<longleftrightarrow> (case r of None \<Rightarrow> True | Some code \<Rightarrow>
     (\<exists>s. last_saved (h_trace h) = Some s \<and>
       (if code = 0 then ls_state s = ''stopped'' \<and> (ls_wait_status s = 255 \<or> (\<exists>t. on_wait env t pid = Reaped (ls_wait_status s)))
        else code \<in> {80, 81, 82} \<and> ls_state s = ''failed'' \<and> ls_wait_status s = code)))"

lemma finish_ends:
  assumes "status = 255 \<or> (\<exists>t. on_wait env t pid = Reaped status)"
  shows "wp (finish_run env root control_dir usb manager status w) (ended env pid) h"
proof -
  have last: "wp (save_state env control_dir ((wt_state w)\<lparr>ls_state := ''stopped'', ls_wait_status := status\<rparr>))
      (\<lambda>_ h'. ended env pid (Some 0) h') h'" for h'
    by (rule wp_mono [OF save_state_saves]) (use assms in \<open>auto simp: ended_def\<close>)
  show ?thesis
    unfolding finish_run_def by (rule wp_any, rule wp_any, rule wp_any) (simp add: wp_fun split_def last)
qed

lemma watch_status:
  "returns (\<lambda>r. \<forall>status w. r = Some (status, w) \<longrightarrow> status = 255 \<or> (\<exists>t. on_wait env t pid = Reaped status))
     (watch_service n env control_dir mode usb entries pid w)"
proof (induction n arbitrary: w)
  case (Suc n)
  have "wp (watch_round env control_dir mode usb entries pid w) (\<lambda>w'. wp (watch_service n env control_dir mode usb entries pid w')
      (\<lambda>r _. \<forall>status w. r = Some (status, w) \<longrightarrow> status = 255 \<or> (\<exists>t. on_wait env t pid = Reaped status))) h" for h
    by (rule wp_mono [OF wpI [OF TrueI]], rule Suc.IH [unfolded returns_def, rule_format])
  then show ?case
    by (auto simp: returns_def wp_simps split: wait_answer.split)
qed (simp add: returns_def wp_simps)

lemma run_ends: "wp (run_service n env root control_dir mode usb entries manager pid s) (ended env pid) h"
proof -
  have watch: "wp (watch_service n env control_dir mode usb entries pid w)
      (\<lambda>r. wp (case r of None \<Rightarrow> return None | Some (status, w) \<Rightarrow> finish_run env root control_dir usb manager status w)
        (ended env pid)) h" for w h
    by (rule wp_mono [OF watch_status [unfolded returns_def, rule_format]])
      (auto simp: wp_fun ended_def [of _ _ None] intro!: finish_ends split: option.split)
  show ?thesis
    unfolding run_service_def
    by (rule wp_any, rule wp_any, rule wp_case_prodI, rule wp_any, rule wp_any) (simp add: wp_fun(1) watch)
qed

lemma no_save_manager: "emits_only no_save (stop_manager env manager)" "emits_only no_save (tell env m x)"
  unfolding stop_manager_def join_child_def tell_def by (intro emits_intros; simp)+

lemma abandon_ends:
  "wp (abandon_run env root control_dir mode manager code s)
     (\<lambda>_ h'. \<exists>s'. last_saved (h_trace h') = Some s' \<and> ls_state s' = ''failed'' \<and> ls_wait_status s' = code) h"
proof -
  let ?P = "\<lambda>r. \<exists>s'. r = Some s' \<and> ls_state s' = ''failed'' \<and> ls_wait_status s' = code"
  have failed: "wp (save_failed env control_dir code s) (\<lambda>_ h'. ?P (last_saved (h_trace h'))) h"
    unfolding save_failed_def wp_fun by (rule wp_mono [OF save_state_saves]) auto
  have "emits_only no_save (if mode = LAUNCH_MODE_COMPAT then stop_manager env manager else cleanup_delegated_cgroups env root control_dir)"
    by (intro emits.io_if no_save_manager quietly_emits [OF ns.quiet_cleanup_delegated] TrueI)
  from wp_mono [OF failed last_saved_skip [OF this, of ?P]] show ?thesis
    unfolding abandon_run_def wp_fun .
qed

lemma abandoned_ends:
  assumes "code \<in> {80, 81, 82}"
  shows "wp (do { abandon_run env root control_dir mode manager code s; tell env m (Some code) }) (ended env pid) h"
proof -
  let ?P = "\<lambda>r. \<exists>s'. r = Some s' \<and> ls_state s' = ''failed'' \<and> ls_wait_status s' = code"
  have "wp (tell env m (Some code)) (ended env pid) h'" if "?P (last_saved (h_trace h'))" for h'
    using last_saved_skip [OF no_save_manager(2), of ?P h' env m "Some code"] that assms
    by (auto simp: tell_def wp_fun wp_call ended_def)
  from wp_mono [OF abandon_ends this] show ?thesis by (simp add: wp_fun)
qed

lemma await_ends: "wp (await_service n env root control_dir mode usb entries manager pid s) (ended env pid) h"
  unfolding await_service_def report_start_grace_failure_def
  by (intro abandoned_ends run_ends wp_case_prodI wp_ifI wp_any) simp_all

lemma start_ends: "wp (start_service n env root control_dir mode usb entries manager pid s) (ended env pid) h"
  unfolding start_service_def by (intro await_ends wp_case_prodI wp_any)

end
