(* ===== verification/Command_Outcomes.thy ===== *)
theory Command_Outcomes
  imports Command_Facts Supervisor_Time
begin

text \<open>
  More facts on the commands: what a scan of the processes shows, when \<open>start\<close> forks a supervisor,
  in which order the processes of a delegated cgroup are killed, and when a wait for the lock ends.
\<close>

section \<open>Triples\<close>

lemma gov_conj:
  assumes "governed A P m Q" "governed A P' m Q'"
  shows "governed A (\<lambda>h. P h \<and> P' h) m (\<lambda>a h. Q a h \<and> Q' a h)"
  using assms by (fastforce simp: governed_def wp_def split: prod.splits)

lemma gov_wp: "governed A P m Q \<Longrightarrow> P h \<Longrightarrow> wp m Q h"
  unfolding governed_def by (auto elim!: wp_mono)

lemma governed_fresh:
  assumes "governed A P m Q" "h_trace h = []" "P h"
  shows "obeys A [] (h_trace (snd (run_state m h)))"
proof -
  obtain r h' where run: "run_state m h = (r, h')" by fastforce
  show ?thesis
    using governed_run(1) [OF assms(1,3) run] assms(2) run by auto
qed

text \<open>What the programs keep that make certain calls only.\<close>

lemma gov_kept:
  assumes "quietly C m" "\<And>h h'. P h \<Longrightarrow> quiet C h h' \<Longrightarrow> P h'" "\<And>T x. C x \<Longrightarrow> A T x"
  shows "governed A P m (\<lambda>_. P)"
  unfolding governed_def
proof (intro allI impI)
  fix h :: host
  assume "P h"
  show "wp m (\<lambda>_ h'. lawful A h h' \<and> P h') h"
    by (rule wp_mono [OF state_io_rel_wp [OF assms(1)]])
      (use \<open>P h\<close> in \<open>auto simp: quiet_def intro: lawful_extends assms(3) elim!: assms(2)\<close>)
qed

section \<open>Scans of the processes\<close>

text \<open>A process whose cgroup file was read, after \<open>t\<close>, and did not show it in a delegated cgroup.\<close>

definition outside :: "host_env \<Rightarrow> event list \<Rightarrow> event list \<Rightarrow> int \<Rightarrow> bool" where
  "outside env t T pid \<longleftrightarrow> (\<exists>u. prefix (u @ [(Read_file (proc_cgroup_path pid), 0)]) T \<and> prefix t u
     \<and> (case on_read env u (proc_cgroup_path pid) of Inl e \<Rightarrow> True | Inr contents \<Rightarrow> \<not> delegated_contents contents))"

definition entry_outside :: "host_env \<Rightarrow> event list \<Rightarrow> event list \<Rightarrow> string \<Rightarrow> bool" where
  "entry_outside env t T name \<longleftrightarrow>
     (case entry_pid name of None \<Rightarrow> True | Some pid \<Rightarrow> pid = env_pid env \<or> outside env t T pid)"

text \<open>A whole scan of \<open>/proc\<close> found no process in a delegated cgroup, or could not be made.\<close>

definition scan_clean :: "host_env \<Rightarrow> event list \<Rightarrow> bool" where
  "scan_clean env T \<longleftrightarrow> (\<exists>t. prefix (t @ [(List_directory ''/proc'', 0)]) T
     \<and> (case on_list env t ''/proc'' of Inl e \<Rightarrow> True | Inr names \<Rightarrow> list_all (entry_outside env t T) names))"

lemma outside_mono: "outside env t T pid \<Longrightarrow> prefix T T' \<Longrightarrow> outside env t T' pid"
  unfolding outside_def using prefix_order.trans by blast

lemma entry_mono: "entry_outside env t T name \<Longrightarrow> prefix T T' \<Longrightarrow> entry_outside env t T' name"
  unfolding entry_outside_def by (auto split: option.splits intro: outside_mono)

lemma scan_mono: "scan_clean env T \<Longrightarrow> prefix T T' \<Longrightarrow> scan_clean env T'"
  unfolding scan_clean_def
  by (elim exE conjE, rule exI, intro conjI, rule prefix_order.trans, assumption+)
    (auto simp: list_all_iff split: sum.splits intro: entry_mono)

lemma stable_scan: "stable (\<lambda>h. scan_clean env (h_trace h))" "stable (\<lambda>h. prefix t (h_trace h))"
  "stable (\<lambda>h. list_all (entry_outside env t (h_trace h)) names)" "stable (\<lambda>h. entry_outside env t (h_trace h) name)"
  unfolding stable_def by (auto intro: scan_mono entry_mono prefix_order.trans simp: list_all_iff)

lemma scan_keeps:
  assumes A: "\<And>T p. A T (Read_file p, 0)" and P: "stable P"
  shows "governed A P (collect_entries env capacity names) (\<lambda>_. P)"
proof (rule gov_quiet [OF _ P])
  show "quietly (\<lambda>x. \<exists>p. x = (Read_file p, 0)) (collect_entries env capacity names)"
    by (induction names arbitrary: capacity)
      (auto simp: process_in_delegated_cgroup_def intro!: quiet_intros split: option.split)
qed (auto simp: A)

lemma scans_entries:
  assumes A: "\<And>T p. A T (Read_file p, 0)"
  shows "capacity \<noteq> 0 \<Longrightarrow> governed A (\<lambda>h. prefix t (h_trace h)) (collect_entries env capacity names)
     (\<lambda>pids h. prefix t (h_trace h) \<and> (pids = [] \<longrightarrow> list_all (entry_outside env t (h_trace h)) names))"
proof (induction names arbitrary: capacity)
  case (Cons name names)
  let ?pre = "\<lambda>h. prefix t (h_trace h)"
  let ?post = "\<lambda>names pids h. ?pre h \<and> (pids = [] \<longrightarrow> list_all (entry_outside env t (h_trace h)) names)"
  have look: "governed A ?pre (process_in_delegated_cgroup env pid)
      (\<lambda>b h. ?pre h \<and> (\<not> b \<longrightarrow> entry_outside env t (h_trace h) name))" if "entry_pid name = Some pid" for pid
    unfolding process_in_delegated_cgroup_def
    by (rule gov_bind [OF gov_ask [where Q = "\<lambda>r h. ?pre h
          \<and> ((case r of Inl e \<Rightarrow> True | Inr contents \<Rightarrow> \<not> delegated_contents contents) \<longrightarrow> entry_outside env t (h_trace h) name)"]])
      (use that in \<open>auto simp: A outside_def entry_outside_def prefix_snoc intro!: gov_return split: sum.splits\<close>)
  have keep: "governed A P (collect_entries env c names) (\<lambda>_. P)" if "stable P" for c P
    using that by (intro scan_keeps A)
  have found: "governed A ?pre (do { rest \<leftarrow> collect_entries env c names; return (pid # rest) }) (?post (name # names))" for c pid
    by (rule gov_bind [OF keep [OF stable_scan(2)]]) (auto intro: gov_return)
  have passed: "governed A (\<lambda>h. ?pre h \<and> entry_outside env t (h_trace h) name) (collect_entries env capacity names) (?post (name # names))"
    by (rule gov_post [OF gov_conj [OF Cons.IH keep [OF stable_scan(4)]]]) (use Cons.prems in auto)
  have rest: "governed A (\<lambda>h. ?pre h \<and> (\<not> b \<longrightarrow> entry_outside env t (h_trace h) name))
      (do { rest \<leftarrow> collect_entries env (if b then capacity - 1 else capacity) names; return (if b then pid # rest else rest) })
      (?post (name # names))" for b pid
    using found passed by (cases b) auto
  have same: "entry_outside env t T name" if "entry_pid name = None \<or> entry_pid name = Some (env_pid env)" for T
    using that by (auto simp: entry_outside_def)
  show ?case
    unfolding collect_entries.simps
    by (rule gov_if, simp add: Cons.prems, rule gov_option, rule gov_pre [OF passed], simp add: same, rule gov_if,
        rule gov_pre [OF passed], simp add: same, rule gov_bind [OF look], assumption, rule rest)
qed (auto intro: gov_return)

lemma scans:
  assumes "\<And>T p. A T (Read_file p, 0)" "\<And>T p. A T (List_directory p, 0)" "capacity \<noteq> 0"
  shows "governed A (\<lambda>_. True) (collect_delegated_processes env capacity) (\<lambda>pids h. pids = [] \<longrightarrow> scan_clean env (h_trace h))"
proof -
  let ?x = "(List_directory ''/proc'', 0)"
  have all: "governed A (\<lambda>h. prefix t (h_trace h) \<and> prefix (t @ [?x]) (h_trace h)) (collect_entries env capacity names)
      (\<lambda>pids h. (prefix t (h_trace h) \<and> (pids = [] \<longrightarrow> list_all (entry_outside env t (h_trace h)) names)) \<and> prefix (t @ [?x]) (h_trace h))"
    for t names
    by (intro gov_conj scans_entries scan_keeps assms stable_scan)
  have entries: "governed A (\<lambda>h. prefix (t @ [?x]) (h_trace h))
      (case on_list env t ''/proc'' of Inl e \<Rightarrow> return [] | Inr names \<Rightarrow> collect_entries env capacity names)
      (\<lambda>pids h. pids = [] \<longrightarrow> scan_clean env (h_trace h))" for t
  proof (cases "on_list env t ''/proc''")
    case (Inr names)
    then show ?thesis
      by (simp, intro gov_conseq [OF all [of t names]]) (auto simp: scan_clean_def dest: append_prefixD)
  qed (auto simp: scan_clean_def intro!: gov_return)
  have "wp (case on_list env (h_trace h) ''/proc'' of Inl e \<Rightarrow> return [] | Inr names \<Rightarrow> collect_entries env capacity names)
      (\<lambda>pids h'. lawful A h h' \<and> (pids = [] \<longrightarrow> scan_clean env (h_trace h'))) (h\<lparr>h_trace := h_trace h @ [?x]\<rparr>)" for h
    using entries [of "h_trace h", unfolded governed_def, rule_format, of "h\<lparr>h_trace := h_trace h @ [?x]\<rparr>"]
    by (auto elim!: wp_mono intro: lw.R_trans lawful_log assms(2))
  then show ?thesis
    by (simp add: collect_delegated_processes_def governed_def wp_simps)
qed

section \<open>Force stop\<close>

lemma terminate_clean: "wp (terminate_delegated_processes env) (\<lambda>r h'. r = 0 \<longrightarrow> scan_clean env (h_trace h')) h"
proof -
  have scan: "wp (collect_delegated_processes env 512) (\<lambda>pids h'. pids = [] \<longrightarrow> scan_clean env (h_trace h')) h" for h
    by (rule gov_wp [OF scans [where A = "\<lambda>_ _. True"]]) simp_all
  have "wp (terminate_rounds n env) (\<lambda>r h'. r = 0 \<longrightarrow> scan_clean env (h_trace h')) h" for n
  proof (induction n arbitrary: h)
    case 0
    show ?case
      unfolding terminate_rounds.simps wp_bind by (rule wp_mono [OF scan]) (simp add: wp_simps)
  next
    case (Suc n)
    show ?case
      unfolding terminate_rounds.simps wp_bind
      by (rule wp_mono [OF scan]) (auto simp: wp_simps wp_bind intro!: wpI Suc.IH)
  qed
  then show ?thesis by (simp add: terminate_delegated_processes_def)
qed

lemma wp_emits:
  assumes "emits_only C m" "\<And>T es. p T \<Longrightarrow> p (T @ es)" "p (h_trace h)"
  shows "wp m (\<lambda>_ h'. p (h_trace h')) h"
  by (rule wp_mono [OF state_io_rel_wp [OF assms(1)]]) (auto simp: extends_def assms(2,3))

lemma force_clean_scan: "wp (force_clean env root control_dir fill line) (\<lambda>r h'. r = 0 \<longrightarrow> scan_clean env (h_trace h')) h"
proof -
  let ?Q = "\<lambda>r h'. r = (0 :: int) \<longrightarrow> scan_clean env (h_trace h')"
  have rest: "wp (do {
       cleanup_delegated_cgroups env root control_dir;
       now \<leftarrow> gets (\<lambda>h. on_time env (h_trace h));
       _ \<leftarrow> save_state env control_dir (fill (initialize_state now ''force-stopped''));
       report env line (0 :: int)
     }) ?Q h1" if "scan_clean env (h_trace h1)" for h1
    by (rule wp_mono [OF wp_emits [OF emits_clean, where p = "scan_clean env"]]) (use that in \<open>auto intro: scan_mono\<close>)
  show ?thesis
    unfolding force_clean_def wp_bind [of "terminate_delegated_processes env"]
    by (rule wp_mono [OF terminate_clean]) (use rest in \<open>simp add: wp_simps(1)\<close>)
qed

lemma wp_intros:
  "(b \<Longrightarrow> wp m1 Q h) \<Longrightarrow> (\<not> b \<Longrightarrow> wp m2 Q h) \<Longrightarrow> wp (if b then m1 else m2) Q h"
  "(\<And>a b. wp (m a b) R h) \<Longrightarrow> wp (case x of (a, b) \<Rightarrow> m a b) R h"
  "wp m4 S h \<Longrightarrow> wp m5 S h \<Longrightarrow> wp m6 S h \<Longrightarrow>
   wp (case w of Lock_released \<Rightarrow> m4 | Lock_failed \<Rightarrow> m5 | Lock_held \<Rightarrow> m6) S h"
  by (simp_all split: prod.split lock_wait.split)

lemma force_stop_scan: "wp (run_force_stop env root control_dir) (\<lambda>r h'. r = 0 \<longrightarrow> scan_clean env (h_trace h')) h"
proof -
  let ?Q = "\<lambda>r h'. r = (0 :: int) \<longrightarrow> scan_clean env (h_trace h')"
  have refuse: "r \<noteq> 0 \<Longrightarrow> wp (return r) ?Q h" for r h by (simp add: wp_simps)
  show ?thesis
    unfolding run_force_stop_def force_orphan_def force_supervisor_def force_group_def Let_def
    by (intro wp_any wp_intros refuse force_clean_scan) simp_all
qed

section \<open>The order of the kills\<close>

lemma lowest_from_least:
  "lowest < length pids \<Longrightarrow> \<forall>i < index. pids ! lowest \<le> pids ! i \<Longrightarrow> i < length pids \<Longrightarrow>
   pids ! lowest_from pids lowest index \<le> pids ! i"
proof (induction pids lowest index rule: lowest_from.induct)
  case (1 pids lowest index)
  show ?case
  proof (cases "index \<ge> length pids")
    case False
    let ?l = "if pids ! index < pids ! lowest then index else lowest"
    have "\<forall>i < index + 1. pids ! ?l \<le> pids ! i"
      using 1(3) by (auto simp: less_Suc_eq)
    then show ?thesis
      using 1(1) [OF False] 1(2,4) False by (subst lowest_from.simps) auto
  qed (use 1 in \<open>simp add: lowest_from.simps\<close>)
qed

lemma kill_all_events:
  "wp (kill_all env pids) (\<lambda>_ h'. \<exists>es. h_trace h' = h_trace h @ es \<and> map fst es = map (\<lambda>pid. Kill pid SIGKILL) pids) h"
proof (induction pids arbitrary: h)
  case (Cons pid pids)
  show ?case
    unfolding kill_all.simps wp_bind wp_call by (rule wp_mono [OF Cons.IH]) auto
qed (simp add: wp_simps)

lemma kill_round_events:
  assumes "pids \<noteq> []"
  shows "wp (kill_round env pids) (\<lambda>_ h'. \<exists>xs pid ys es. pids = xs @ pid # ys \<and> (\<forall>q \<in> set pids. pid \<le> q)
    \<and> h_trace h' = h_trace h @ es
    \<and> map fst es = map (\<lambda>q. Kill q SIGKILL) (xs @ ys) @ [Sleep 200000, Kill pid SIGKILL, Sleep 300000]) h"
proof -
  let ?i = "lowest_from pids 0 1"
  have i: "?i < length pids"
    using assms by (intro lowest_from_less) simp
  have "pids ! ?i \<le> pids ! j" if "j < length pids" for j
    using assms that by (intro lowest_from_least) auto
  then have least: "\<forall>q \<in> set pids. pids ! ?i \<le> q"
    by (auto simp: in_set_conv_nth)
  have split: "pids = take ?i pids @ pids ! ?i # drop (Suc ?i) pids"
    using i by (rule id_take_nth_drop)
  show ?thesis
    unfolding kill_round_def Let_def wp_bind
  proof (rule wp_mono [OF kill_all_events])
    fix u :: unit and h1 :: host
    assume "\<exists>es. h_trace h1 = h_trace h @ es \<and> map fst es = map (\<lambda>pid. Kill pid SIGKILL) (take ?i pids @ drop (Suc ?i) pids)"
    then obtain es where es: "h_trace h1 = h_trace h @ es"
      "map fst es = map (\<lambda>pid. Kill pid SIGKILL) (take ?i pids @ drop (Suc ?i) pids)" by blast
    show "wp (call env (Sleep 200000)) (\<lambda>_. wp (call env (Kill (pids ! ?i) SIGKILL)) (\<lambda>_. wp (call env (Sleep 300000)) (\<lambda>_. wp (return ())
      (\<lambda>_ h'. \<exists>xs pid ys es. pids = xs @ pid # ys \<and> (\<forall>q \<in> set pids. pid \<le> q) \<and> h_trace h' = h_trace h @ es
        \<and> map fst es = map (\<lambda>q. Kill q SIGKILL) (xs @ ys) @ [Sleep 200000, Kill pid SIGKILL, Sleep 300000])))) h1"
      unfolding wp_simps
      by (rule exI [of _ "take ?i pids"], rule exI [of _ "pids ! ?i"], rule exI [of _ "drop (Suc ?i) pids"])
        (use split least es in simp)
  qed
qed

section \<open>When a supervisor is forked\<close>

text \<open>No service of the recorded state was found.\<close>

definition no_recorded_service :: "host_env \<Rightarrow> string \<Rightarrow> files \<Rightarrow> event list \<Rightarrow> bool" where
  "no_recorded_service env control_dir fs T \<longleftrightarrow> (\<exists>now. read_state now control_dir fs = None)
     \<or> (\<exists>s. loaded control_dir fs s \<and> seen env (\<lambda>p. \<not> recorded_service s p) T)"

definition lock_kept :: "event list \<Rightarrow> bool" where
  "lock_kept T \<longleftrightarrow> (Lock, 0) \<in> set T \<and> Unlock \<notin> fst ` set T"

definition start_rule :: "host_env \<Rightarrow> string \<Rightarrow> files \<Rightarrow> event list \<Rightarrow> event \<Rightarrow> bool" where
  "start_rule env control_dir fs T x \<longleftrightarrow>
     (fst x = Fork \<longrightarrow> lock_kept T \<and> Fork \<notin> fst ` set T \<and> no_recorded_service env control_dir fs T \<and> scan_clean env T)"

abbreviation calm :: "event \<Rightarrow> bool" where
  "calm \<equiv> \<lambda>(c, e). c \<noteq> Unlock \<and> c \<noteq> Fork"

interpretation st: area_policy calm "\<lambda>_. True"
proof
  show "calm (c, e)" if "is_passive c" for c e using that by (cases c) auto
  show "calm (c, e)" if "changed_paths c = [p]" for c e p using that by (cases c) auto
qed auto

text \<open>Before the fork: no fork, no unlock, the files as they were.\<close>

definition at_rest :: "files \<Rightarrow> host \<Rightarrow> bool" where
  "at_rest fs h \<longleftrightarrow> h_files h = fs \<and> Unlock \<notin> fst ` set (h_trace h) \<and> Fork \<notin> fst ` set (h_trace h)"

lemma rest_kept: "at_rest fs h \<Longrightarrow> quiet calm h h' \<Longrightarrow> at_rest fs h'"
  by (force simp: at_rest_def quiet_def extends_def list_all_iff)

lemma calm_lawful: "calm x \<Longrightarrow> start_rule env control_dir fs T x"
  by (auto simp: start_rule_def)

lemma gov_calm:
  "quietly calm m \<Longrightarrow> governed (start_rule env control_dir fs) (at_rest fs) m (\<lambda>_. at_rest fs)"
  "quietly calm m \<Longrightarrow> stable P \<Longrightarrow>
    governed (start_rule env control_dir fs) (\<lambda>h. at_rest fs h \<and> P h) m (\<lambda>_ h. at_rest fs h \<and> P h)"
proof -
  show rest: "quietly calm m \<Longrightarrow> governed (start_rule env control_dir fs) (at_rest fs) m (\<lambda>_. at_rest fs)"
    by (erule gov_kept) (auto intro: calm_lawful elim: rest_kept)
  show "quietly calm m \<Longrightarrow> stable P \<Longrightarrow>
    governed (start_rule env control_dir fs) (\<lambda>h. at_rest fs h \<and> P h) m (\<lambda>_ h. at_rest fs h \<and> P h)"
    by (intro gov_conj rest gov_quiet [where C = calm]) (auto intro: calm_lawful)
qed

lemma stable_start: "stable (\<lambda>h. (Lock, 0) \<in> set (h_trace h))" "stable (\<lambda>h. no_recorded_service env control_dir fs (h_trace h))"
  unfolding stable_def no_recorded_service_def seen_def using set_mono_prefix prefix_order.trans by blast+

text \<open>Whatever does not fork is lawful.\<close>

lemma gov_no_fork: "emits_only (\<lambda>(c, e). c \<noteq> Fork) m \<Longrightarrow> governed (start_rule env control_dir fs) P m (\<lambda>_ _. True)"
  by (erule gov_emits) (auto simp: start_rule_def)

lemma lawful_start_supervisor:
  "governed (start_rule env control_dir fs) (\<lambda>h. at_rest fs h \<and> (Lock, 0) \<in> set (h_trace h)
      \<and> no_recorded_service env control_dir fs (h_trace h) \<and> scan_clean env (h_trace h))
    (start_supervisor n env) (\<lambda>_ _. True)"
proof -
  let ?P = "\<lambda>h. at_rest fs h \<and> (Lock, 0) \<in> set (h_trace h)
      \<and> no_recorded_service env control_dir fs (h_trace h) \<and> scan_clean env (h_trace h)"
  have pipe: "governed (start_rule env control_dir fs) ?P (call env Pipe) (\<lambda>_. ?P)"
    by (intro gov_calm quiet_call stable_start stable_scan stable_rules) auto
  have fork: "governed (start_rule env control_dir fs) ?P (ask Fork (on_fork env)) (\<lambda>_ _. True)"
    by (rule gov_ask) (auto simp: start_rule_def at_rest_def lock_kept_def)
  have rest: "governed (start_rule env control_dir fs) (\<lambda>_. True)
      (do { message \<leftarrow> read_ready_message n env;
            case message of
              None \<Rightarrow> return None
            | Some None \<Rightarrow> return (Some 91)
            | Some (Some text) \<Rightarrow> report env (c_text 1023 text) (Some (if started_text text then 0 else 92)) }) (\<lambda>_ _. True)"
    unfolding read_ready_message_def report_def
    by (intro gov_no_fork emits.io_rules emits_mono [OF quietly_emits [OF st.area_looks(1)]] emits_mono [OF quietly_emits [OF st.area_ready]] emits_call)
      auto
  show ?thesis
    unfolding start_supervisor_def
    by (rule gov_bind [OF pipe], rule gov_if, rule gov_return, simp, rule gov_bind [OF fork], rule gov_sum, rule gov_return, simp, rule rest)
qed

lemma lawful_start_locked:
  "governed (start_rule env control_dir fs) (\<lambda>h. at_rest fs h \<and> (Lock, 0) \<in> set (h_trace h)) (start_locked n env control_dir) (\<lambda>_ _. True)"
proof -
  let ?L = "\<lambda>h. at_rest fs h \<and> (Lock, 0) \<in> set (h_trace h)"
  let ?read = "\<lambda>r. case r of None \<Rightarrow> \<exists>now. read_state now control_dir fs = None | Some s \<Rightarrow> loaded control_dir fs s"
  let ?N = "\<lambda>h. (Lock, 0) \<in> set (h_trace h) \<and> no_recorded_service env control_dir fs (h_trace h)"
  have keep: "governed (start_rule env control_dir fs) ?L m (\<lambda>_. ?L)" if "quietly calm m" for m :: "(host, 'm) state"
    using that by (intro gov_calm stable_start)
  have "governed (start_rule env control_dir fs) (\<lambda>h. h_files h = fs) (load_state env control_dir) (\<lambda>r _. ?read r)"
    unfolding load_state_def governed_def
    by (auto simp: wp_simps loaded_def lawful_def start_rule_def split: option.splits)
  then have load: "governed (start_rule env control_dir fs) ?L (load_state env control_dir) (\<lambda>r h. ?L h \<and> ?read r)"
    by (rule gov_pre [OF gov_conj [OF keep [OF st.area_looks(4)]]]) (auto simp: at_rest_def)
  have "governed (start_rule env control_dir fs) (\<lambda>_. ?read r)
      (case r of None \<Rightarrow> return False | Some s \<Rightarrow> inspect env (recorded_service s))
      (\<lambda>b h. \<not> b \<longrightarrow> no_recorded_service env control_dir fs (h_trace h))" for r
    unfolding inspect_def no_recorded_service_def seen_def
    by (rule gov_option, rule gov_return, simp, rule gov_ask) (auto simp: start_rule_def)
  then have look: "governed (start_rule env control_dir fs) (\<lambda>h. ?L h \<and> ?read r)
      (case r of None \<Rightarrow> return False | Some s \<Rightarrow> inspect env (recorded_service s))
      (\<lambda>b h. ?L h \<and> (\<not> b \<longrightarrow> no_recorded_service env control_dir fs (h_trace h)))" for r
    by (intro gov_conj keep quiet.io_rules st.area_looks)
  have scan: "governed (start_rule env control_dir fs) (\<lambda>h. at_rest fs h \<and> ?N h) (collect_delegated_processes env 4)
      (\<lambda>pids h. (at_rest fs h \<and> ?N h) \<and> (pids = [] \<longrightarrow> scan_clean env (h_trace h)))"
    by (rule gov_pre [OF gov_conj [OF gov_calm(2) scans]])
      (auto simp: start_rule_def intro!: st.area_collect stable_start stable_rules)
  have unlock: "governed (start_rule env control_dir fs) P (call env Unlock) (\<lambda>_ _. True)" for P
    by (intro gov_no_fork emits_call) simp
  have out: "governed (start_rule env control_dir fs) P (report env line x) (\<lambda>_ _. True)" for P line and x :: "int option"
    unfolding report_def by (intro gov_no_fork emits_intros) simp
  have start: "governed (start_rule env control_dir fs) (\<lambda>h. (at_rest fs h \<and> ?N h) \<and> (pids = [] \<longrightarrow> scan_clean env (h_trace h)))
      (start_supervisor n env) (\<lambda>_ _. True)" if "pids = []" for pids :: "int list"
    by (rule gov_pre [OF lawful_start_supervisor]) (use that in auto)
  have free: "governed (start_rule env control_dir fs) (\<lambda>h. at_rest fs h \<and> ?N h)
      (do { leftovers \<leftarrow> collect_delegated_processes env 4;
            if leftovers \<noteq> [] then do { _ \<leftarrow> call env Unlock; report env (line leftovers) (Some 89) }
            else start_supervisor n env }) (\<lambda>_ _. True)" for line
    by (rule gov_bind [OF scan], rule gov_if, rule gov_bind [OF unlock], rule out, rule start) simp
  show ?thesis
    unfolding start_locked_def
    by (rule gov_bind [OF load], rule gov_bind [OF look], rule gov_if, rule gov_bind [OF unlock], rule gov_return, simp,
        rule gov_pre [OF free]) simp
qed

lemma lawful_run_start:
  "governed (start_rule env control_dir fs) (at_rest fs) (run_start n env root control_dir log_path) (\<lambda>_ _. True)"
proof -
  have lock: "governed (start_rule env control_dir fs) (at_rest fs) (call env Lock)
      (\<lambda>e h. at_rest fs h \<and> (e = 0 \<longrightarrow> (Lock, 0) \<in> set (h_trace h)))"
    by (rule gov_call) (auto simp: start_rule_def at_rest_def)
  have locked: "governed (start_rule env control_dir fs) (\<lambda>h. at_rest fs h \<and> (e = 0 \<longrightarrow> (Lock, 0) \<in> set (h_trace h)))
      (start_locked n env control_dir) (\<lambda>_ _. True)" if "e = 0" for e :: nat
    by (rule gov_pre [OF lawful_start_locked]) (use that in auto)
  have rest: "governed (start_rule env control_dir fs) P
      (do { (state_read, s) \<leftarrow> load_or_blank env control_dir;
            valid \<leftarrow> also_check env state_read (\<lambda>p. validate_supervisor_identity p s);
            report env (already_text valid s) (Some (if valid then 0 else 87 :: int)) }) (\<lambda>_ _. True)" for P
    unfolding report_def
    by (intro gov_no_fork emits.io_rules emits_mono [OF quietly_emits [OF st.area_looks(3)]] emits_mono [OF quietly_emits [OF st.area_looks(5)]]
        emits_call) auto
  have before: "governed (start_rule env control_dir fs) (at_rest fs) (open_lock_file env control_dir) (\<lambda>_. at_rest fs)"
    "governed (start_rule env control_dir fs) (at_rest fs) (run_steps
       [validate_rootfs env root True,
        return (if env_euid env \<noteq> 0 then 84 else 0),
        validate_control_directory env (Some control_dir),
        return (if log_path = [] \<or> hd log_path \<noteq> CHR ''/'' then 85 else 0),
        return (if joined_path PATH_MAX control_dir kLifecycleLogName \<noteq> Some log_path then 85 else 0)]) (\<lambda>_. at_rest fs)"
    by (intro gov_calm st.area_lock quiet.io_rules quiet_run_steps_Nil quiet_run_steps_Cons st.area_validate TrueI)+
  show ?thesis
    unfolding run_start_def
    by (rule gov_bind [OF before(2)], rule gov_if, rule gov_return, simp, rule gov_bind [OF before(1)], rule gov_if, rule gov_return, simp,
        rule gov_bind [OF lock], rule gov_if, rule locked, assumption, rule gov_if, rule gov_return, simp, rule rest)
qed

section \<open>Waiting for the lock\<close>

text \<open>On a clock that advances, a wait for the lock gives up only at its deadline.\<close>

lemma lock_wait_outcome:
  assumes "clock_advances env" "1000 \<le> pause"
  shows "nat (deadline - on_clock env (h_trace h)) < n \<Longrightarrow>
    wp (wait_for_lock n env deadline pause) (\<lambda>r h'. \<exists>es. h_trace h' = h_trace h @ es
      \<and> (r = Lock_released \<longrightarrow> (Lock, 0) \<in> set es) \<and> (r = Lock_held \<longrightarrow> deadline \<le> on_clock env (h_trace h'))) h"
proof (induction n arbitrary: h)
  case (Suc n)
  let ?t = "\<lambda>e1 e2. h_trace h @ [(Clock, 0), (Lock, e1), (Sleep pause, e2)]"
  have later: "on_clock env (h_trace h) + 1 \<le> on_clock env (?t e1 e2)" for e1 e2
    using clock_slept [OF assms(1), of "h_trace h" "[(Clock, 0), (Lock, e1), (Sleep pause, e2)]"] assms(2) by simp
  have step: "wp (wait_for_lock n env deadline pause) (\<lambda>r h'. \<exists>es. h_trace h' = h_trace h @ es
      \<and> (r = Lock_released \<longrightarrow> (Lock, 0) \<in> set es) \<and> (r = Lock_held \<longrightarrow> deadline \<le> on_clock env (h_trace h')))
      (h\<lparr>h_trace := ?t e1 e2\<rparr>)" if "on_clock env (h_trace h) < deadline" for e1 e2
    by (rule wp_mono [OF Suc.IH]) (use Suc.prems later [of e1 e2] that in auto)
  have mono: "on_clock env (h_trace h) \<le> on_clock env (h_trace h @ es)" for es
    by (rule clock_mono [OF assms(1)])
  show ?case
    using step mono by (auto simp: wp_simps clock_def order.trans split: if_splits)
qed simp

lemma await_lock_outcome:
  assumes "clock_advances env" "1000 \<le> pause" "0 \<le> patience"
  shows "wp (await_lock env patience pause) (\<lambda>r h'. \<exists>es. h_trace h' = h_trace h @ es
      \<and> (r = Lock_released \<longrightarrow> (Lock, 0) \<in> set es) \<and> (r = Lock_held \<longrightarrow> on_clock env (h_trace h) + patience \<le> on_clock env (h_trace h'))) h"
proof -
  let ?h = "h\<lparr>h_trace := h_trace h @ [(Clock, 0)]\<rparr>"
  have "on_clock env (h_trace h) \<le> on_clock env (h_trace ?h)"
    using clock_mono [OF assms(1)] by simp
  then have "wp (wait_for_lock (nat patience + 1) env (on_clock env (h_trace h) + patience) pause) (\<lambda>r h'. \<exists>es. h_trace h' = h_trace ?h @ es
      \<and> (r = Lock_released \<longrightarrow> (Lock, 0) \<in> set es) \<and> (r = Lock_held \<longrightarrow> on_clock env (h_trace h) + patience \<le> on_clock env (h_trace h'))) ?h"
    by (intro lock_wait_outcome assms) (use assms(3) in simp)
  then show ?thesis
    unfolding await_lock_def clock_def wp_bind wp_ask by (auto elim!: wp_mono)
qed

text \<open>
  What \<open>stop\<close> has done when it returns: with 0 it sent \<open>SIGTERM\<close> to the recorded supervisor and then got
  the lock; with 99 it waited for as long as the timeout says.
\<close>

definition stop_done :: "host_env \<Rightarrow> string \<Rightarrow> host \<Rightarrow> int \<Rightarrow> host \<Rightarrow> bool" where
  "stop_done env control_dir h r h' \<longleftrightarrow> (\<exists>es. h_trace h' = h_trace h @ es
     \<and> (r = 0 \<longrightarrow> (\<exists>s xs ys. loaded control_dir (h_files h) s \<and> es = xs @ (Kill (ls_supervisor_pid s) SIGTERM, 0) # ys
          \<and> (Lock, 0) \<in> set ys))
     \<and> (r = 99 \<longrightarrow> on_clock env (h_trace h) + kStopTimeoutMs \<le> on_clock env (h_trace h')))"

lemma stop_done_released:
  assumes "loaded control_dir (h_files h) s" "h_trace h' = h_trace h @ xs @ (Kill (ls_supervisor_pid s) SIGTERM, 0) # ys" "(Lock, 0) \<in> set ys"
  shows "stop_done env control_dir h 0 h'"
  using assms unfolding stop_done_def by (intro exI [of _ "xs @ (Kill (ls_supervisor_pid s) SIGTERM, 0) # ys"]) auto

lemma stop_supervisor_outcome:
  assumes adv: "clock_advances env"
  shows "wp (stop_supervisor env control_dir) (stop_done env control_dir h) h"
proof (cases "read_state (on_time env (h_trace h)) control_dir (h_files h)")
  case (Some s)
  let ?xs = "[(Read_file control_dir, 0), (Inspect_processes, 0)]"
  let ?k = "(Kill (ls_supervisor_pid s) SIGTERM, 0)"
  let ?h = "h\<lparr>h_trace := h_trace h @ ?xs @ [?k]\<rparr>"
  have "on_clock env (h_trace h) \<le> on_clock env (h_trace ?h)"
    using clock_mono [OF adv] by simp
  moreover have "wp (await_lock env kStopTimeoutMs 200000) (\<lambda>r h'. \<exists>es. h_trace h' = h_trace ?h @ es
      \<and> (r = Lock_released \<longrightarrow> (Lock, 0) \<in> set es) \<and> (r = Lock_held \<longrightarrow> on_clock env (h_trace ?h) + kStopTimeoutMs \<le> on_clock env (h_trace h'))) ?h"
    by (rule await_lock_outcome [OF adv]) (simp_all add: kStopTimeoutMs_def)
  ultimately have waited: "wp (await_lock env kStopTimeoutMs 200000) (\<lambda>r h'. \<exists>es. h_trace h' = h_trace h @ ?xs @ ?k # es
      \<and> (r = Lock_released \<longrightarrow> (Lock, 0) \<in> set es) \<and> (r = Lock_held \<longrightarrow> on_clock env (h_trace h) + kStopTimeoutMs \<le> on_clock env (h_trace h'))) ?h"
    by (auto elim!: wp_mono)
  have state: "loaded control_dir (h_files h) s"
    using Some by (auto simp: loaded_def)
  have rest: "wp (await_lock env kStopTimeoutMs 200000) (\<lambda>w. wp (case w of
       Lock_released \<Rightarrow> report env line 0 | Lock_failed \<Rightarrow> return 98 | Lock_held \<Rightarrow> return 99) (stop_done env control_dir h)) ?h" for line
  proof (rule wp_mono [OF waited])
    fix w and h1 :: host
    assume "\<exists>es. h_trace h1 = h_trace h @ ?xs @ ?k # es
      \<and> (w = Lock_released \<longrightarrow> (Lock, 0) \<in> set es) \<and> (w = Lock_held \<longrightarrow> on_clock env (h_trace h) + kStopTimeoutMs \<le> on_clock env (h_trace h1))"
    then obtain es where es: "h_trace h1 = h_trace h @ ?xs @ ?k # es" "w = Lock_released \<longrightarrow> (Lock, 0) \<in> set es"
      "w = Lock_held \<longrightarrow> on_clock env (h_trace h) + kStopTimeoutMs \<le> on_clock env (h_trace h1)" by blast
    show "wp (case w of Lock_released \<Rightarrow> report env line 0 | Lock_failed \<Rightarrow> return 98 | Lock_held \<Rightarrow> return 99) (stop_done env control_dir h) h1"
    proof (cases w)
      case Lock_released
      have "stop_done env control_dir h 0 (h1\<lparr>h_trace := h_trace h1 @ [x]\<rparr>)" for x
        by (rule stop_done_released [OF state, where xs = ?xs and ys = "es @ [x]"]) (use es Lock_released in auto)
      then show ?thesis by (simp add: Lock_released report_def wp_simps)
    qed (use es in \<open>auto simp: wp_simps stop_done_def\<close>)
  qed
  show ?thesis
    unfolding stop_supervisor_def load_state_def inspect_def wp_bind
    using rest by (simp add: wp_simps Some) (simp add: stop_done_def)
qed (auto simp: stop_supervisor_def load_state_def wp_simps stop_done_def)

end
