(* ===== verification/Network_Manager.thy ===== *)
theory Network_Manager
  imports Host_Logic Supervisor
begin

text \<open>
  The network manager (\<open>bfu_namespace_probe.c\<close>): the supervisor's child that stays in Android's
  namespaces, keeps one routing rule per address family and passes Debian's reboot request on.
  \<open>Run_program\<close> and \<open>Capture_program\<close> stand for the \<open>execv\<close> of a forked child; \<open>quiet\<close> output is not
  modelled.
\<close>

section \<open>Running a program\<close>

definition exited_well :: "nat + int \<Rightarrow> bool" where
  "exited_well w \<longleftrightarrow> (case w of Inl e \<Rightarrow> False | Inr status \<Rightarrow> WIFEXITED status \<and> WEXITSTATUS status = 0)"

definition run_argv :: "host_env \<Rightarrow> string list \<Rightarrow> (host, int) state" where
  "run_argv env argv = do {
     f \<leftarrow> ask Fork (on_fork env);
     case f of
       Inl e \<Rightarrow> return (-1)
     | Inr pid \<Rightarrow> do {
         _ \<leftarrow> call env (Run_program argv);
         w \<leftarrow> join_child env pid;
         return (if exited_well w then 0 else -1)
       }
   }"

text \<open>The output as a C string, cut to the buffer; \<open>None\<close> for -1.\<close>

definition capture_argv :: "host_env \<Rightarrow> nat \<Rightarrow> string list \<Rightarrow> (host, string option) state" where
  "capture_argv env output_size argv =
     (if output_size < 2 then return None
      else do {
        e \<leftarrow> call env Pipe;
        if e \<noteq> 0 then return None
        else do {
          f \<leftarrow> ask Fork (on_fork env);
          case f of
            Inl e \<Rightarrow> return None
          | Inr pid \<Rightarrow> do {
              text \<leftarrow> ask (Capture_program argv) (\<lambda>t. on_output env t argv);
              w \<leftarrow> join_child env pid;
              return (if exited_well w then Some (c_text (output_size - 1) text) else None)
            }
        }
      })"

section \<open>The routing rule\<close>

definition kTailscaleBypassRulePriority :: int where "kTailscaleBypassRulePriority = 5200"

definition ip_command :: "string \<Rightarrow> string list \<Rightarrow> string list" where
  "ip_command family arguments = [''/system/bin/ip'', family] @ arguments"

definition delete_rule_command :: "string \<Rightarrow> string list" where
  "delete_rule_command family = ip_command family [''rule'', ''del'', ''pref'', dec_int kTailscaleBypassRulePriority]"

definition add_rule_command :: "string \<Rightarrow> string \<Rightarrow> string list" where
  "add_rule_command family table = ip_command family
     [''rule'', ''add'', ''pref'', dec_int kTailscaleBypassRulePriority, ''fwmark'', ''0x80000/0xff0000'', ''lookup'', table]"

fun delete_attempts :: "nat \<Rightarrow> host_env \<Rightarrow> string \<Rightarrow> (host, unit) state" where
  "delete_attempts 0 env family = return ()"
| "delete_attempts (Suc n) env family = do {
     r \<leftarrow> run_argv env (delete_rule_command family);
     if r \<noteq> 0 then return () else delete_attempts n env family
   }"

definition delete_tailscale_bypass_rule :: "host_env \<Rightarrow> string \<Rightarrow> (host, unit) state" where
  "delete_tailscale_bypass_rule env family = delete_attempts 4 env family"

text \<open>The word after the first \<open>table\<close>.\<close>

fun route_table :: "string list \<Rightarrow> string" where
  "route_table [] = []"
| "route_table (token # rest) =
     (if token \<noteq> ''table'' then route_table rest
      else case rest of [] \<Rightarrow> [] | name # _ \<Rightarrow> field_text 64 name)"

definition rule_is_active :: "string \<Rightarrow> string \<Rightarrow> bool" where
  "rule_is_active table rules \<longleftrightarrow>
     strstr ''5200:'' rules \<noteq> None \<and> strstr ''fwmark 0x80000/0xff0000'' rules \<noteq> None \<and> strstr table rules \<noteq> None"

text \<open>The result and the active table, which the caller keeps.\<close>

definition reconcile_tailscale_bypass_route ::
  "host_env \<Rightarrow> string \<Rightarrow> string \<Rightarrow> string \<Rightarrow> (host, int \<times> string) state" where
  "reconcile_tailscale_bypass_route env family probe_address active_table = do {
     route \<leftarrow> capture_argv env 1024 (ip_command family [''route'', ''get'', probe_address]);
     case route of
       None \<Rightarrow> do {
         delete_tailscale_bypass_rule env family;
         return (-1, [])
       }
     | Some text \<Rightarrow> do {
         let found = route_table (tokens is_blank text);
         let table = (if found = [] then ''main'' else found);
         rules \<leftarrow> (if table = active_table then capture_argv env 4096 (ip_command family [''rule'', ''show''])
                  else return None);
         if (case rules of None \<Rightarrow> False | Some rules \<Rightarrow> rule_is_active table rules) then return (0, active_table)
         else do {
           delete_tailscale_bypass_rule env family;
           r \<leftarrow> run_argv env (add_rule_command family table);
           return (if r \<noteq> 0 then (-1, active_table) else (0, field_text 64 table))
         }
       }
   }"

section \<open>The loop\<close>

definition reboot_request :: string where "reboot_request = ''ANDROID_REBOOT'' @ [CHR 0x0A]"
definition reboot_command :: "string list" where "reboot_command = [''/system/bin/reboot'']"

text \<open>One read of the pipe: \<open>count > 0\<close>, the bytes as a C string, the comparison.\<close>

definition asks_reboot :: "nat + string \<Rightarrow> bool" where
  "asks_reboot r \<longleftrightarrow> (case r of Inl e \<Rightarrow> False | Inr bytes \<Rightarrow> bytes \<noteq> [] \<and> c_text 63 bytes = reboot_request)"

fun request_ticks :: "nat \<Rightarrow> host_env \<Rightarrow> (host, unit) state" where
  "request_ticks 0 env = return ()"
| "request_ticks (Suc n) env = do {
     stopping \<leftarrow> gets (\<lambda>h. on_stop env (h_trace h));
     if stopping then return ()
     else do {
       r \<leftarrow> ask Read_request (on_request env);
       (if asks_reboot r then do { _ \<leftarrow> run_argv env reboot_command; return () } else return ());
       _ \<leftarrow> call env (Sleep 100000);
       request_ticks n env
     }
   }"

text \<open>The main loop with the two active tables; \<open>False\<close> when the fuel is used up, that is, while it runs.\<close>

fun manage_network :: "nat \<Rightarrow> host_env \<Rightarrow> int \<Rightarrow> string \<Rightarrow> string \<Rightarrow> (host, bool) state" where
  "manage_network 0 env supervisor v4 v6 = return False"
| "manage_network (Suc n) env supervisor v4 v6 = do {
     stopping \<leftarrow> gets (\<lambda>h. on_stop env (h_trace h));
     if stopping then return True
     else do {
       e \<leftarrow> call env (Kill supervisor 0);
       if e \<noteq> 0 then return True
       else do {
         (_, v4') \<leftarrow> reconcile_tailscale_bypass_route env ''-4'' ''1.1.1.1'' v4;
         (_, v6') \<leftarrow> reconcile_tailscale_bypass_route env ''-6'' ''2606:4700:4700::1111'' v6;
         request_ticks 20 env;
         manage_network n env supervisor v4' v6'
       }
     }
   }"

text \<open>The exit code, or \<open>None\<close> while the loop runs.\<close>

definition network_manager_loop :: "nat \<Rightarrow> host_env \<Rightarrow> int \<Rightarrow> string \<Rightarrow> (host, int option) state" where
  "network_manager_loop n env supervisor host_reboot_fifo = do {
     _ \<leftarrow> call env Parent_death_signal;
     parent \<leftarrow> ask Get_parent (on_parent env);
     if parent \<noteq> supervisor then return (Some 1)
     else do {
       _ \<leftarrow> call env Set_handlers;
       delete_tailscale_bypass_rule env ''-4'';
       delete_tailscale_bypass_rule env ''-6'';
       e \<leftarrow> call env (Open_fifo host_reboot_fifo);
       if e \<noteq> 0 then do {
         _ \<leftarrow> call env (Unlink host_reboot_fifo);
         tell env ''0'' (Some 1)
       } else do {
         _ \<leftarrow> call env (Message ''1'');
         ended \<leftarrow> manage_network n env supervisor [] [];
         if \<not> ended then return None
         else do {
           delete_tailscale_bypass_rule env ''-4'';
           delete_tailscale_bypass_rule env ''-6'';
           _ \<leftarrow> call env (Unlink host_reboot_fifo);
           return (Some 0)
         }
       }
     }
   }"

section \<open>What the manager runs\<close>

text \<open>The manager read the reboot request.\<close>

definition was_asked :: "host_env \<Rightarrow> event list \<Rightarrow> bool" where
  "was_asked env T \<longleftrightarrow> (\<exists>t. prefix (t @ [(Read_request, 0)]) T \<and> asks_reboot (on_request env t))"

lemma stable_asked: "stable (\<lambda>h. was_asked env (h_trace h))"
  unfolding was_asked_def by (rule stable_rules)

text \<open>
  The programs the manager may run after a history: \<open>ip\<close> to delete or add its own rule, and \<open>reboot\<close>
  once the request was read.
\<close>

definition manager_rule :: "host_env \<Rightarrow> event list \<Rightarrow> event \<Rightarrow> bool" where
  "manager_rule env T x \<longleftrightarrow> (case fst x of
     Run_program argv \<Rightarrow>
       (\<exists>family \<in> {''-4'', ''-6''}. argv = delete_rule_command family \<or> (\<exists>table. argv = add_rule_command family table))
       \<or> argv = reboot_command \<and> was_asked env T
   | Execv program arguments \<Rightarrow> False
   | _ \<Rightarrow> True)"

lemma free_calls: "(\<And>argv. c \<noteq> Run_program argv) \<Longrightarrow> (\<And>p a. c \<noteq> Execv p a) \<Longrightarrow> manager_rule env T (c, e)"
  by (cases c) (auto simp: manager_rule_def)

interpretation mp: history_policy "manager_rule env" "\<lambda>c. \<forall>T e. manager_rule env T (c, e)" for env
  by unfold_locales simp

abbreviation manager_free :: "host_env \<Rightarrow> event \<Rightarrow> bool" where
  "manager_free env \<equiv> \<lambda>(c, _). \<forall>T e. manager_rule env T (c, e)"

lemma free_simple:
  "(\<And>argv. c \<noteq> Run_program argv) \<Longrightarrow> (\<And>p a. c \<noteq> Execv p a) \<Longrightarrow> emits_only (manager_free env) (call env' c)"
  "(\<And>argv. c \<noteq> Run_program argv) \<Longrightarrow> (\<And>p a. c \<noteq> Execv p a) \<Longrightarrow> emits_only (manager_free env) (ask c f)"
  by (intro emits_call emits_ask; simp add: free_calls)+

lemma free_run:
  assumes "\<And>T e. manager_rule env T (Run_program argv, e)"
  shows "emits_only (manager_free env) (run_argv env' argv)"
  unfolding run_argv_def join_child_def
  by (intro emits.io_rules free_simple(2) emits_call) (auto intro: assms)

lemma free_capture: "emits_only (manager_free env) (capture_argv env' k argv)"
  unfolding capture_argv_def join_child_def by (intro emits.io_rules free_simple) auto

lemma free_rules:
  assumes "family = ''-4'' \<or> family = ''-6''"
  shows "emits_only (manager_free env) (delete_tailscale_bypass_rule env' family)"
    "emits_only (manager_free env) (reconcile_tailscale_bypass_route env' family probe active)"
proof -
  have run: "emits_only (manager_free env) (run_argv env' (delete_rule_command family))"
    "emits_only (manager_free env) (run_argv env' (add_rule_command family table))" for table
    using assms by (intro free_run; auto simp: manager_rule_def)+
  have "emits_only (manager_free env) (delete_attempts n env' family)" for n
    by (induction n) (auto intro!: emits.io_rules run)
  then show delete: "emits_only (manager_free env) (delete_tailscale_bypass_rule env' family)"
    by (simp add: delete_tailscale_bypass_rule_def)
  show "emits_only (manager_free env) (reconcile_tailscale_bypass_route env' family probe active)"
    unfolding reconcile_tailscale_bypass_route_def Let_def
    by (intro emits.io_rules free_capture run delete)
qed

text \<open>What is free is lawful; the reboot is lawful once the request was read.\<close>

lemma free_lawful: "emits_only (manager_free env) m \<Longrightarrow> governed (manager_rule env) P m (\<lambda>_ _. True)"
  by (rule mp.free_emits)

lemma lawful_reboot:
  "governed (manager_rule env) (\<lambda>h. was_asked env (h_trace h)) (run_argv env' reboot_command) (\<lambda>_ _. True)"
proof -
  let ?P = "\<lambda>h. was_asked env (h_trace h)"
  have fork: "governed (manager_rule env) ?P (ask Fork (on_fork env')) (\<lambda>_. ?P)"
    by (rule gov_ask_keeps [OF stable_asked]) (simp add: manager_rule_def)
  have run: "governed (manager_rule env) ?P (call env' (Run_program reboot_command)) (\<lambda>_ _. True)"
    by (rule gov_call) (auto simp: manager_rule_def)
  have rest: "governed (manager_rule env) (\<lambda>_. True) (do { w \<leftarrow> join_child env' pid; return (if exited_well w then 0 else -1) }) (\<lambda>_ _. True)" for pid
    unfolding join_child_def by (intro free_lawful emits.io_rules free_simple) auto
  show ?thesis
    unfolding run_argv_def
    by (rule gov_bind [OF fork], rule gov_sum, rule gov_return, simp, rule gov_bind [OF run], rule rest)
qed

lemma lawful_ticks: "governed (manager_rule env) (\<lambda>_. True) (request_ticks n env) (\<lambda>_ _. True)"
proof (induction n)
  case (Suc n)
  have read: "governed (manager_rule env) (\<lambda>_. True) (ask Read_request (on_request env))
      (\<lambda>r h. asks_reboot r \<longrightarrow> was_asked env (h_trace h))"
    by (rule gov_ask) (auto simp: manager_rule_def was_asked_def)
  have act: "governed (manager_rule env) (\<lambda>h. asks_reboot r \<longrightarrow> was_asked env (h_trace h))
      (if asks_reboot r then do { _ \<leftarrow> run_argv env reboot_command; return () } else return ()) (\<lambda>_ _. True)" for r
    by (rule gov_if, rule gov_bind [OF gov_pre [OF lawful_reboot]]) (auto intro!: gov_return)
  show ?case
    unfolding request_ticks.simps
    by (rule gov_bind [OF gov_gets [where Q = "\<lambda>_ _. True", OF TrueI]], rule gov_if, rule gov_return, simp,
        rule gov_bind [OF read], rule gov_bind [OF act], rule gov_bind [OF free_lawful], rule free_simple, simp, simp, rule Suc.IH)
qed (auto intro: gov_return)

lemma lawful_manager: "governed (manager_rule env) (\<lambda>_. True) (manage_network n env supervisor v4 v6) (\<lambda>_ _. True)"
proof (induction n arbitrary: v4 v6)
  case (Suc n)
  have reconcile: "governed (manager_rule env) (\<lambda>_. True) (reconcile_tailscale_bypass_route env ''-4'' p a) (\<lambda>_ _. True)"
    "governed (manager_rule env) (\<lambda>_. True) (reconcile_tailscale_bypass_route env ''-6'' p a) (\<lambda>_ _. True)" for p a
    by (intro free_lawful free_rules; simp)+
  show ?case
    unfolding manage_network.simps
    by (rule gov_bind [OF gov_gets [where Q = "\<lambda>_ _. True", OF TrueI]], rule gov_if, rule gov_return, simp,
        rule gov_bind [OF free_lawful], rule free_simple, simp, simp, rule gov_if, rule gov_return, simp,
        rule gov_bind [OF reconcile(1)], rule gov_prod, rule gov_bind [OF reconcile(2)], rule gov_prod,
        rule gov_bind [OF lawful_ticks], rule Suc.IH)
qed (auto intro: gov_return)

lemma lawful_network_manager:
  "governed (manager_rule env) (\<lambda>_. True) (network_manager_loop n env supervisor fifo) (\<lambda>_ _. True)"
proof -
  have before: "governed (manager_rule env) (\<lambda>_. True) (call env Parent_death_signal) (\<lambda>_ _. True)"
    "governed (manager_rule env) (\<lambda>_. True) (ask Get_parent (on_parent env)) (\<lambda>_ _. True)"
    "governed (manager_rule env) (\<lambda>_. True) (call env Set_handlers) (\<lambda>_ _. True)"
    "governed (manager_rule env) (\<lambda>_. True) (call env (Open_fifo fifo)) (\<lambda>_ _. True)"
    "governed (manager_rule env) (\<lambda>_. True) (call env (Unlink fifo)) (\<lambda>_ _. True)"
    "governed (manager_rule env) (\<lambda>_. True) (call env (Message m)) (\<lambda>_ _. True)"
    "governed (manager_rule env) (\<lambda>_. True) (tell env m x) (\<lambda>_ _. True)" for m and x :: "int option"
    unfolding tell_def by (intro free_lawful emits.io_rules free_simple; simp)+
  have delete: "governed (manager_rule env) (\<lambda>_. True) (delete_tailscale_bypass_rule env ''-4'') (\<lambda>_ _. True)"
    "governed (manager_rule env) (\<lambda>_. True) (delete_tailscale_bypass_rule env ''-6'') (\<lambda>_ _. True)"
    by (intro free_lawful free_rules; simp)+
  show ?thesis
    unfolding network_manager_loop_def
    by (intro gov_bind [OF before(1)] gov_bind [OF before(2)] gov_if gov_bind [OF before(3)] gov_bind [OF delete(1)]
        gov_bind [OF delete(2)] gov_bind [OF before(4)] gov_bind [OF before(5)] before(7) gov_bind [OF before(6)]
        gov_bind [OF lawful_manager] gov_return TrueI)
qed

end
