(* ===== verification/Namespace_Properties.thy ===== *)
theory Namespace_Properties
  imports Namespace_Facts Usb_Exclusive
begin

text \<open>
  The properties of the programs that prepare Debian's namespaces and mounts, enter them, and take
  USB interfaces from the host, with the instances at a host on which every call succeeds.
\<close>

section \<open>A host for examples\<close>

definition demo_root :: string where "demo_root = ''/data/local/debian''"
definition demo_control :: string where "demo_control = ''/c''"

definition demo_stat :: "file_kind \<Rightarrow> file_stat" where
  "demo_stat k = \<lparr>st_kind = k, st_uid = 0, st_mode = 0x180, st_nlink = 1, st_ino = 1\<rparr>"

definition demo_env :: host_env where
  "demo_env =
     \<lparr>env_abi = aarch64, env_pid = 100, env_euid = 0, env_arch = ''arm64'', env_variable = (\<lambda>_. Some ''off''),
      on_call = (\<lambda>t c. 0),
      on_lstat = (\<lambda>t p. Inr (demo_stat (if p = ''/c/host-reboot.fifo'' then Fifo else Directory))),
      on_stat = (\<lambda>t p. Inr (demo_stat Directory)), on_realpath = (\<lambda>t p. Inr p),
      on_read = (\<lambda>t p. Inr ''cpu pids''), on_list = (\<lambda>t p. Inr []), on_readlink = (\<lambda>t p. Inl ENOENT),
      on_proc = (\<lambda>t. \<lparr>proc_stat = (\<lambda>_. None), proc_exe = (\<lambda>_. None), proc_ns = (\<lambda>_ _. Inl ENOENT), proc_alive = (\<lambda>_. False)\<rparr>),
      on_clock = (\<lambda>t. int (length t)), on_time = (\<lambda>t. 0), on_fork = (\<lambda>t. Inr 200), on_wait = (\<lambda>t p. Reaped 0),
      on_join = (\<lambda>t p. Inr 0), on_poll = (\<lambda>t. Inr ''1''), on_output = (\<lambda>t a. []), on_group = (\<lambda>t p. p),
      on_session = (\<lambda>t p. p), on_open = (\<lambda>t p. Inr (Some 1)), on_parent = (\<lambda>t. 100),
      on_ready = (\<lambda>t. Poll_timeout), on_request = (\<lambda>t. Inl EAGAIN),
      on_state_io = (\<lambda>t. \<lparr>io_open = True, io_writes = [], io_fsync = True, io_rename = True\<rparr>),
      on_bpf = (\<lambda>t. \<lparr>ok_mkdir = True, ok_load = True, ok_open = True, ok_attach = True, ok_detach = True, ok_rmdir = True\<rparr>),
      on_guard = (\<lambda>t. \<lparr>seccomp_allowed = True, prctl_allowed = True\<rparr>),
      on_stop = (\<lambda>t. False),
      on_close_range = (\<lambda>t. \<lparr>cp_forked = True, cp_started = Some 0, cp_outcome = 0, cp_finished = Some 9000, cp_wait = Exited\<rparr>),
      on_keyring = (\<lambda>t. \<lparr>kp_path_fits = True, kp_forked = True, kp_before_ok = True, kp_join_ok = True,
        kp_after_errno = Some ENOKEY, kp_wait = Exited\<rparr>)\<rparr>"

definition demo_host :: host where
  "demo_host = \<lparr>h_trace = [], h_files = Map.empty,
     h_cgroups = \<lparr>ck_dirs = {}, ck_attached = (\<lambda>_. []), ck_fds = []\<rparr>, h_filters = []\<rparr>"

lemma demo_calls [simp]:
  "env_abi demo_env = aarch64" "on_call demo_env t c = 0"
  "on_lstat demo_env t p = Inr (demo_stat (if p = ''/c/host-reboot.fifo'' then Fifo else Directory))"
  "on_stat demo_env t p = Inr (demo_stat Directory)" "on_read demo_env t p = Inr ''cpu pids''"
  "on_list demo_env t p = Inr []" "on_readlink demo_env t p = Inl ENOENT" "on_poll demo_env t = Inr ''1''"
  by (simp_all add: demo_env_def)

lemma demo_base: "wp (set_base_private_namespaces demo_env) (\<lambda>r h'. r = 0 \<and> h_cgroups h' = h_cgroups h) h"
  unfolding set_base_private_namespaces_def host_block_ipc_def host_close_range_guard_def
  install_close_range_guard_def block_ipc_namespace_creation_def dawnshell_install_close_range_guard_def
  by (auto simp: wp_simps load_filter_def demo_env_def aarch64_def ipc_guard.admitted split: option.splits)

lemmas path_defs = joined_path_def PATH_MAX_def kUnifiedCgroupMountName_def kCgroupChildName_def kCgroupPayloadName_def
  kHostRebootFifoName_def Let_def

lemma demo_paths [simp]:
  "unified_cgroup_paths demo_control =
     Some (''/c/unified-cgroup'', ''/c/unified-cgroup/dawnshell'', ''/c/unified-cgroup/dawnshell/payload'')"
  by (simp add: unified_cgroup_paths_def delegated_cgroup_paths_def demo_control_def path_defs)

lemma demo_tokens: "tokens is_blank (c_text 4095 ''cpu pids'') = [''cpu'', ''pids'']"
  by code_simp

lemma demo_bpf:
  "ck_dirs k = {} \<Longrightarrow> fst (probe_cgroup_device_bpf (on_bpf demo_env t) ''/c/unified-cgroup/dawnshell'' k) = 0"
  "fst (apply_host_usb_v2_policy (on_bpf demo_env t) p HOST_USB_OFF k) = 0"
  by (simp_all add: probe_cgroup_device_bpf_def apply_host_usb_v2_policy_def demo_env_def path_defs kCgroupProbeName_def)

lemma demo_negotiate:
  "ck_dirs (h_cgroups h) = {} \<Longrightarrow>
   wp (negotiate_cgroup_mode demo_env demo_control CGROUP_POLICY_AUTO HOST_USB_OFF) (\<lambda>r h'. r = (0, CGROUP_MODE_V2)) h"
  unfolding negotiate_cgroup_mode_def prepare_unified_cgroup_mount_def ensure_directory_path_def
    enable_available_v2_controllers_def host_probe_cgroup_device_bpf_def host_apply_usb_v2_policy_def
  using demo_bpf
  by (simp add: wp_simps path_defs demo_stat_def demo_tokens write_cgroup_value_def split_beta)

lemma demo_launch:
  "ck_dirs (h_cgroups h) = {} \<Longrightarrow>
   wp (set_systemd_parent_namespaces demo_env demo_control CGROUP_POLICY_AUTO HOST_USB_OFF True)
     (\<lambda>r h'. r = (0, LAUNCH_MODE_SYSTEMD, CGROUP_MODE_V2)) h"
  unfolding set_systemd_parent_namespaces_def wp_bind
  by (rule wp_mono [OF demo_base])
    (auto simp: wait_for_network_manager_def choose_launch_mode_def pid_namespace_entry_is_available_def stat_is_def
      negotiate_launch_def wp_simps intro!: wp_mono [OF demo_negotiate])

text \<open>Programs that return 0 from every state of a host.\<close>

definition succeeds :: "(host, int) state \<Rightarrow> bool" where
  "succeeds m \<longleftrightarrow> (\<forall>h. wp m (\<lambda>r h'. r = 0) h)"

lemma succeeds_intros:
  "succeeds (return 0)" "succeeds (step demo_env c code)"
  "succeeds (run_steps [])" "succeeds m \<Longrightarrow> succeeds (run_steps ms) \<Longrightarrow> succeeds (run_steps (m # ms))"
  "succeeds m2 \<Longrightarrow> succeeds (do { _ \<leftarrow> m1; m2 })"
  "joined_path PATH_MAX base relative = Some path \<Longrightarrow> succeeds (k path) \<Longrightarrow> succeeds (with_path base relative code k)"
  by (auto simp: succeeds_def wp_simps intro!: wpI dest: wpD)

lemma demo_joined: "length base + length relative < 4095 \<Longrightarrow> joined_path PATH_MAX base relative = Some (base @ ''/'' @ relative)"
  by (simp add: path_defs)

lemma demo_mounts: "succeeds (prepare_child_mounts demo_env demo_root demo_control True CGROUP_MODE_V2 HOST_USB_OFF)"
proof -
  have parts: "succeeds (bind_recursively demo_env source target)" "succeeds (make_bind_read_only demo_env target)"
    "length relative < 1000 \<Longrightarrow> source \<noteq> ''/c/host-reboot.fifo'' \<Longrightarrow> succeeds (bind_android_runtime_tree demo_env demo_root source relative required)"
    "succeeds (configure_host_usb_mount demo_env demo_root HOST_USB_OFF)"
    "succeeds (mount_delegated_cgroup_views demo_env demo_root demo_control CGROUP_MODE_V2)"
    "succeeds (mount_reboot_bridge demo_env demo_root demo_control)" for source target relative required
    by (simp_all add: bind_recursively_def make_bind_read_only_def bind_android_runtime_tree_def ensure_directory_path_def
        configure_host_usb_mount_def mount_delegated_cgroup_views_def mount_reboot_bridge_def stat_is_def demo_stat_def
        demo_joined demo_root_def demo_control_def kHostRebootFifoName_def succeeds_def wp_simps
        demo_paths [unfolded demo_control_def])
  show ?thesis
    unfolding prepare_child_mounts_def
    by (intro succeeds_intros parts)
      (simp_all add: demo_joined demo_root_def succeeds_def wp_simps parts [unfolded succeeds_def demo_root_def])
qed

lemma demo_enters: "succeeds (enter_debian_systemd demo_env demo_root demo_control CGROUP_MODE_V2 HOST_USB_OFF)"
proof -
  have others: "succeeds (move_self_to_delegated_cgroups demo_env demo_control CGROUP_MODE_V2)"
    "succeeds (host_keyring_guard demo_env)"  "succeeds (replace_environment demo_env vs)" for vs
    by (auto simp: move_self_to_delegated_cgroups_def move_self_to_delegated_mode_def move_self_to_cgroup_def
       host_keyring_guard_def replace_environment_def demo_joined succeeds_def wp_simps split_beta intro!: wpI)
  show ?thesis
    unfolding enter_debian_systemd_def enter_root_def append.simps
    by (intro succeeds_intros demo_mounts others)
qed

section \<open>Properties\<close>


definition demo_started :: host where
  "demo_started =
     snd (run_state (set_systemd_parent_namespaces demo_env demo_control CGROUP_POLICY_AUTO HOST_USB_OFF True) demo_host)"

lemma demo_start:
  "run_state (set_systemd_parent_namespaces demo_env demo_control CGROUP_POLICY_AUTO HOST_USB_OFF True) demo_host =
   ((0, LAUNCH_MODE_SYSTEMD, CGROUP_MODE_V2), demo_started)"
  using demo_launch [of demo_host]
  by (simp add: demo_started_def wp_run demo_host_def prod_eq_iff)

definition demo_entered :: host where
  "demo_entered =
     snd (run_state (enter_debian_systemd demo_env demo_root demo_control CGROUP_MODE_V2 HOST_USB_OFF) demo_started)"

lemma demo_enter:
  "run_state (enter_debian_systemd demo_env demo_root demo_control CGROUP_MODE_V2 HOST_USB_OFF) demo_started =
   (0, demo_entered)"
  using demo_enters by (simp add: demo_entered_def succeeds_def wp_run prod_eq_iff)






text \<open>
  C25. When Debian's init has been executed, the process had before, in this order and all with
  success: a cgroup namespace, a bind mount of the root, its privacy, the host name, and the change
  of root.
\<close>

theorem init_after_isolation:
  assumes "run_state (enter_debian_systemd env root control_dir mode usb) h = (0, h')"
  shows "\<exists>es. h_trace h' = h_trace h @ es \<and> subseq
    [(Unshare CLONE_NEWCGROUP, 0),
     (Mount (Some root) root None (or MS_BIND MS_REC) None, 0),
     (Mount None root None (or MS_PRIVATE MS_REC) None, 0),
     (Sethostname ''dawnshell'', 0), (Chdir root, 0), (Chroot ''.'', 0), (Chdir ''/'', 0),
     (debian_init, 0)] es"
  by (rule performs_run [OF enter_systemd_order assms])

theorem init_after_isolation_witness:
  "\<exists>es. h_trace demo_entered = h_trace demo_started @ es \<and> subseq
    [(Unshare CLONE_NEWCGROUP, 0),
     (Mount (Some demo_root) demo_root None (or MS_BIND MS_REC) None, 0),
     (Mount None demo_root None (or MS_PRIVATE MS_REC) None, 0),
     (Sethostname ''dawnshell'', 0), (Chdir demo_root, 0), (Chroot ''.'', 0), (Chdir ''/'', 0),
     (debian_init, 0)] es"
  by (rule init_after_isolation [OF demo_enter])

text \<open>The filters after the preparation and after the entry.\<close>

lemma parent_filters:
  assumes "audit_arch (env_abi env) = Some arch" "h_filters h = []"
  shows "wp (set_systemd_parent_namespaces env control_dir policy usb allow_fallback)
    (\<lambda>(r, _) h'. r = 0 \<longrightarrow> (\<exists>fs. h_filters h' = fs @ [ipc_filter arch (env_abi env)]
       \<and> set fs \<subseteq> {close_range_filter arch (the (nr_close_range (env_abi env)))})) h"
proof -
  have quiet: "quietly (\<lambda>_. True) (choose_launch_mode env control_dir policy usb allow_fallback)"
    unfolding choose_launch_mode_def pid_namespace_entry_is_available_def negotiate_launch_def
    by (intro quiet_intros any.quiet_negotiate any.quiet_cleanup_for_fallback TrueI)
  show ?thesis
    unfolding set_systemd_parent_namespaces_def wp_bind
    by (rule wp_mono [OF base_filters [OF assms]])
      (auto simp: wait_for_network_manager_def wp_simps intro!: wp_mono [OF state_io_rel_wp [OF quiet]]
        simp: quiet_def)
qed

text \<open>
  C23. The system calls of Debian: once its init runs, a call gets the verdict of the keyring guard
  and the close_range guard, where installed, and then of the IPC guard, which is always there on an
  architecture the guards know. So no process of Debian creates an IPC namespace with a native call.
\<close>

theorem debian_syscalls_filtered:
  assumes "audit_arch (env_abi env) = Some arch" "h_filters h = []"
    and "run_state (set_systemd_parent_namespaces env control_dir policy usb allow_fallback) h = ((0, launch, mode), h1)"
    and "h_filters h2 = h_filters h1" "env_abi child_env = env_abi env"
    and "run_state (enter_debian_systemd child_env root control_dir mode usb) h2 = (0, h3)"
  shows "\<exists>rs. set rs \<subseteq> {keyring_refused arch (the (nr_keyctl (env_abi env))),
        close_range_refused arch (the (nr_close_range (env_abi env)))}
    \<and> (\<forall>d. seccomp_verdict (h_filters h3) d = errno_verdict (first_refusal (rs @ [ipc_refused arch (env_abi env)]) d))"
proof -
  let ?kc = "the (nr_keyctl (env_abi env))" and ?cr = "the (nr_close_range (env_abi env))"
  obtain fs where fs: "h_filters h1 = fs @ [ipc_filter arch (env_abi env)]" "set fs \<subseteq> {close_range_filter arch ?cr}"
    using wpD [OF parent_filters [OF assms(1,2)] assms(3)] by auto
  obtain t where t: "h_filters h3 = snd (dawnshell_install_keyring_guard (env_abi env) (on_guard child_env t)
      (on_keyring child_env t) None (h_filters h1))"
    using wpD [OF enter_systemd_filters assms(6)] assms(4,5) by auto
  obtain r fs3 where "dawnshell_install_keyring_guard (env_abi env) (on_guard child_env t) (on_keyring child_env t) None
      (h_filters h1) = (r, fs3)" by fastforce
  from keyring_guard_outcome [OF this] this t obtain ks where
    ks: "h_filters h3 = ks @ fs @ [ipc_filter arch (env_abi env)]" "set ks \<subseteq> {keyring_filter arch ?kc}"
    using assms(1) fs(1) by (cases "r = 1") auto
  have guards: "list_all2 syscall_filter ks (map (\<lambda>_. keyring_refused arch ?kc) ks)"
    "list_all2 syscall_filter fs (map (\<lambda>_. close_range_refused arch ?cr) fs)"
    using ks(2) fs(2) keyring_guard.syscall_filter_axioms close_range_guard.syscall_filter_axioms
    by (fastforce simp: list_all2_map2 list_all2_same)+
  then have "list_all2 syscall_filter (h_filters h3) ((map (\<lambda>_. keyring_refused arch ?kc) ks
      @ map (\<lambda>_. close_range_refused arch ?cr) fs) @ [ipc_refused arch (env_abi env)])"
    unfolding ks(1) by (auto intro!: list_all2_appendI simp: ipc_guard.syscall_filter_axioms)
  from seccomp_verdict_stack [OF this] show ?thesis
    by (intro exI [of _ "map (\<lambda>_. keyring_refused arch ?kc) ks @ map (\<lambda>_. close_range_refused arch ?cr) fs"]) auto
qed

theorem debian_syscalls_filtered_witness:
  "\<exists>rs. set rs \<subseteq> {keyring_refused 0xc00000b7 219, close_range_refused 0xc00000b7 436}
    \<and> (\<forall>d. seccomp_verdict (h_filters demo_entered) d = errno_verdict (first_refusal (rs @ [ipc_refused 0xc00000b7 aarch64]) d))"
  using debian_syscalls_filtered [OF _ _ demo_start _ _ demo_enter, of "0xc00000b7"]
  by (simp add: aarch64_def demo_host_def)



text \<open>What is checked of the root file system, by questions only.\<close>

lemma quiet_run_steps: "list_all (quietly C) ms \<Longrightarrow> quietly C (run_steps ms)"
  by (induction ms) (auto intro: quiet_intros)

abbreviation asking_only :: "event \<Rightarrow> bool" where
  "asking_only \<equiv> \<lambda>(c, e). is_passive c"

interpretation asks: area_policy asking_only "\<lambda>_. False"
  by unfold_locales auto

lemma validate_asks: "quietly asking_only (validate_rootfs env root require_systemd)"
proof -
  have marker: "quietly asking_only (check_marker env root name lines code)" for root name lines code
    unfolding check_marker_def
    by (intro quiet_intros asks.quiet_check asks.quiet_checks quiet_run_steps)
      (auto simp: list_all_iff intro: asks.quiet_check asks.quiet_checks)
  have executable: "quietly asking_only (check_executable env root code name)" for root code name
    unfolding check_executable_def by (intro quiet_intros asks.quiet_check asks.quiet_checks)
  have directory: "quietly asking_only (check_root_directory env root)" for root
    unfolding check_root_directory_def by (intro quiet_intros) auto
  have tree: "quietly asking_only (with_path root name 28 (\<lambda>path. check (is_directory env path) 29))" for root name
    by (intro quiet_intros asks.quiet_check asks.quiet_checks)
  show ?thesis
    unfolding validate_rootfs_def
    by (auto intro!: quiet.io_return quiet_run_steps marker executable directory tree simp: list_all_iff)
qed

lemma validate_checks:
  "wp (validate_rootfs env root require_systemd)
    (\<lambda>r h'. r = 0 \<longrightarrow> root = kAllowedRoot
       \<and> (\<exists>t v. on_lstat env t root = Inr v \<and> st_kind v = Directory \<and> st_uid v = 0 \<and> \<not> group_or_world_writable v)
       \<and> (\<exists>t. on_realpath env t root = Inr kAllowedRoot)) h"
proof -
  have "wp (check_root_directory env root) (\<lambda>r h'. r = 0 \<longrightarrow>
       (\<exists>t v. on_lstat env t root = Inr v \<and> st_kind v = Directory \<and> st_uid v = 0 \<and> \<not> group_or_world_writable v)
       \<and> (\<exists>t. on_realpath env t root = Inr kAllowedRoot)) h"
    by (auto simp: check_root_directory_def wp_simps split: sum.splits)
  then show ?thesis
    unfolding validate_rootfs_def append_Cons wp_if wp_return wp_run_steps(2)
    by (auto intro!: wpI dest: wpD split: if_splits)
qed

text \<open>
  The launcher accepts only the one root directory: when \<open>validate_rootfs\<close> returns 0, the path
  is \<open>/data/local/debian\<close>, it was a directory of root that neither its group nor others can write,
  not a link, and it resolved to itself; and checking changed nothing.
\<close>

theorem accepted_root_is_safe:
  assumes "run_state (validate_rootfs env root require_systemd) h = (0, h')"
  shows "root = kAllowedRoot
    \<and> (\<exists>t v. on_lstat env t root = Inr v \<and> st_kind v = Directory \<and> st_uid v = 0 \<and> \<not> group_or_world_writable v)
    \<and> (\<exists>t. on_realpath env t root = Inr kAllowedRoot)
    \<and> (\<exists>es. h_trace h' = h_trace h @ es \<and> list_all asking_only es)"
  using wpD [OF validate_checks assms] emits_trace [OF quietly_emits [OF validate_asks] assms] by blast

definition root_text :: string where
  "root_text = ''suite=trixie'' @ [CHR 0x0A] @ ''architecture=arm64'' @ [CHR 0x0A]"

definition root_env :: host_env where
  "root_env = demo_env\<lparr>on_read := (\<lambda>t p. Inr root_text),
     on_lstat := (\<lambda>t p. Inr (demo_stat (if p = ''/data/local/debian/.dawnshell-rootfs'' then Regular else Directory))),
     on_stat := (\<lambda>t p. Inr (demo_stat Regular))\<rparr>"

lemma root_lines: "has_line ''suite=trixie'' root_text"
  "has_line ''architecture=arm64'' root_text"
  by code_simp+

lemma root_accepted: "fst (run_state (validate_rootfs root_env demo_root False) demo_host) = 0"
proof -
  have env: "on_read root_env t p = Inr root_text"
    "on_lstat root_env t p = Inr (demo_stat (if p = ''/data/local/debian/.dawnshell-rootfs'' then Regular else Directory))"
    "on_stat root_env t p = Inr (demo_stat Regular)" "on_call root_env t c = 0" "on_realpath root_env t p = Inr p"
    "kArchitectureMarker root_env = ''architecture=arm64''" for t p c
    by (simp_all add: root_env_def demo_env_def kArchitectureMarker_def)
  have "wp (validate_rootfs root_env demo_root False) (\<lambda>r h'. r = 0) demo_host"
    unfolding validate_rootfs_def check_root_directory_def check_marker_def check_executable_def check_def
      is_directory_def is_regular_executable_def is_safe_root_marker_def file_has_exact_line_def
    by (simp add: wp_simps env demo_root_def kAllowedRoot_def demo_stat_def group_or_world_writable_def stat_is_def
        demo_joined root_lines)
  then show ?thesis by (simp add: wp_run)
qed

theorem accepted_root_is_safe_witness:
  "\<exists>es. h_trace (snd (run_state (validate_rootfs root_env demo_root False) demo_host)) = h_trace demo_host @ es
     \<and> list_all asking_only es"
  using accepted_root_is_safe [of root_env demo_root False demo_host] root_accepted
  by (metis prod.collapse)

end
