(* ===== verification/Launcher_Properties.thy ===== *)
theory Launcher_Properties
  imports Launcher_Identity Device_Policy
begin

text \<open>
  The properties of the launcher's state file, of the process identities it records, and of its
  device policy, with the concrete instances they are applied to.
\<close>

section \<open>An instance\<close>

text \<open>A process 42 with a hostile name, its own pid, mount, UTS and cgroup namespaces.\<close>

definition demo_comm :: string where "demo_comm = ''a) S 1 (b''"

definition demo_fields :: "string list" where
  "demo_fields = [''S'', ''1'', ''1'', ''1'', ''0'', ''-1'', ''0'', ''0'', ''0'', ''0'', ''0'', ''0'', ''0'', ''0'', ''0'',
      ''20'', ''0'', ''1'', ''0'', ''9000'', ''1'']"

definition demo_proc :: procfs where
  "demo_proc =
     \<lparr>proc_stat = (\<lambda>pid. if pid = 42 then Some (stat_line 42 demo_comm demo_fields ''0'') else None),
      proc_exe = (\<lambda>pid. if pid = 42 then Some (5, 77) else None),
      proc_ns = (\<lambda>pid name.
        if name = ''ipc'' then Inl ENOENT
        else if name = ''net'' then Inr 30
        else if pid = 42 then Inr 20 else Inr 10),
      proc_alive = (\<lambda>pid. pid = 42)\<rparr>"

definition demo_state :: LauncherState where
  "demo_state = (initialize_state 0 ''running'')\<lparr>ls_init_host_pid := 42, ls_init_start_ticks := 9000,
     ls_init_exe_dev := 5, ls_init_exe_ino := 77, ls_init_pid_ns_ino := 20, ls_init_mnt_ns_ino := 20,
     ls_init_uts_ns_ino := 20, ls_init_cgroup_ns_ino := 20, ls_init_net_ns_ino := 30\<rparr>"

definition demo_io :: state_io where
  "demo_io = \<lparr>io_open = True, io_writes = [Some 10], io_fsync = True, io_rename = True\<rparr>"

lemma demo_read: "read_proc_namespace_inode demo_proc 42 ''pid'' = Inr 20"
  "read_proc_namespace_inode demo_proc 42 ''mnt'' = Inr 20"
  "read_proc_namespace_inode demo_proc 42 ''uts'' = Inr 20"
  "read_proc_namespace_inode demo_proc 42 ''ipc'' = Inl ENOENT"
  "read_proc_namespace_inode demo_proc 42 ''cgroup'' = Inr 20"
  "read_proc_namespace_inode demo_proc 42 ''net'' = Inr 30"
  "read_proc_namespace_inode demo_proc 1 ''pid'' = Inr 10"
  "read_proc_namespace_inode demo_proc 1 ''mnt'' = Inr 10"
  "read_proc_namespace_inode demo_proc 1 ''uts'' = Inr 10"
  "read_proc_namespace_inode demo_proc 1 ''ipc'' = Inl ENOENT"
  "read_proc_namespace_inode demo_proc 1 ''cgroup'' = Inr 10"
  "read_proc_namespace_inode demo_proc 1 ''net'' = Inr 30"
  using number_lengths(2) [of 42] number_lengths(2) [of 1]
  by (simp_all add: read_proc_namespace_inode_def demo_proc_def)

lemma demo_line: "length (stat_line 42 demo_comm demo_fields ''0'') \<le> 4095" "CHR 0x00 \<notin> set demo_comm"
  "list_all stat_field demo_fields" "20 \<le> length demo_fields" "stat_text ''0''" "demo_fields ! 19 = ''9000''"
  using number_lengths(2) [of 42]
  by (simp_all add: stat_line_def demo_comm_def demo_fields_def stat_field_def stat_text_def nth_Cons')

lemma demo_proc_stat: "proc_stat demo_proc 42 = Some (stat_line 42 demo_comm demo_fields ''0'')"
  by (simp add: demo_proc_def)

lemma demo_ticks: "read_proc_start_ticks demo_proc 42 = Some 9000"
proof -
  have "parse_u64 ''9000'' = Some 9000"
    by (simp add: parse_u64_def strtou_def is_space_def is_digit_def digit_val_def Let_def)
  then show ?thesis
    using start_ticks_read [OF demo_proc_stat demo_line(1-5)] demo_line(6) by simp
qed

lemma demo_state_ok: "state_ok demo_state"
  by (simp add: state_ok_def demo_state_def initialize_state_def plain_text_def field_text_def snprintf_def)

lemma demo_recorded: "init_recorded demo_proc 42 demo_state"
proof -
  have "capture_init_namespace_identity demo_proc 42 demo_state = (0, demo_state)"
    by (simp add: capture_init_namespace_identity_def store_inode_def demo_read
        read_optional_proc_namespace_inode_def) (simp add: demo_state_def initialize_state_def)
  then show ?thesis
    using demo_ticks by (auto simp: init_recorded_def demo_state_def read_proc_exe_identity_def demo_proc_def)
qed

lemma demo_valid: "validate_init_identity demo_proc demo_state"
  unfolding validate_recorded [OF demo_recorded]
  by (simp add: same_process_def) (simp add: demo_proc_def demo_state_def)

lemma demo_topology: "validate_init_namespace_topology demo_proc demo_state = 0"
  by (simp add: validate_init_namespace_topology_def demo_read read_optional_proc_namespace_inode_def demo_state_def
      initialize_state_def)

lemma demo_write:
  obtains s' trace where "write_state demo_io 7 0 ''/c'' demo_state (\<lambda>_. None) = (0, s', trace)"
proof -
  have "demo_state\<lparr>ls_updated_epoch := 0\<rparr> = demo_state"
    by (simp add: demo_state_def initialize_state_def)
  then have "fst (write_state demo_io 7 0 ''/c'' demo_state (\<lambda>_. None)) = 0"
    using length_state_contents [OF demo_state_ok] number_lengths(2) [of 7]
    by (simp add: write_state_def state_path_def joined_path_def PATH_MAX_def kStateName_def demo_io_def Let_def
        state_contents_def [of demo_state] state_fields_def state_line_def)
  then show ?thesis
    using that by (metis prod.collapse)
qed

section \<open>The state file\<close>



text \<open>
  C37. Every state that fits its fields survives the file: after a successful write,
  \<open>read_state\<close> returns it field by field, with the time of the write.
\<close>

theorem state_survives_the_file:
  assumes "write_state io pid now control_dir s fs = (0, s', trace)" "state_ok s" "- (2 ^ 63) \<le> now" "now < 2 ^ 63"
  shows "read_state now' control_dir (last trace) = Some (s\<lparr>ls_updated_epoch := now\<rparr>)"
  by (rule write_read_state [OF assms])

theorem state_survives_the_file_witness:
  "\<exists>s' trace. write_state demo_io 7 0 ''/c'' demo_state (\<lambda>_. None) = (0, s', trace)
    \<and> read_state 9 ''/c'' (last trace) = Some (demo_state\<lparr>ls_updated_epoch := 0\<rparr>)"
proof -
  obtain s' trace where w: "write_state demo_io 7 0 ''/c'' demo_state (\<lambda>_. None) = (0, s', trace)"
    by (rule demo_write)
  show ?thesis
    using w state_survives_the_file [OF w demo_state_ok] by simp
qed

section \<open>Identity\<close>

text \<open>
  The start time of a process is read correctly whatever its name: spaces and parentheses
  in the command do not shift the fields.
\<close>

theorem start_ticks_for_any_command:
  assumes "proc_stat p pid = Some (stat_line pid comm flds rest)"
    and "length (stat_line pid comm flds rest) \<le> 4095" "CHR 0x00 \<notin> set comm"
    and "list_all stat_field flds" "20 \<le> length flds" "stat_text rest" "flds ! 19 = u64_text ticks"
  shows "read_proc_start_ticks p pid = Some ticks"
  using start_ticks_read [OF assms(1-6)] assms(7) by (simp add: parse_u64_text)

theorem start_ticks_for_any_command_witness: "read_proc_start_ticks demo_proc 42 = Some 9000"
proof -
  have "''9000'' = u64_text 9000"
    by (simp add: u64_text_def dec.simps digit_def char_of_def bit_0)
  then show ?thesis
    using start_ticks_for_any_command [OF demo_proc_stat demo_line(1-5)] demo_line(6) by simp
qed

text \<open>
  C35. A later command that reads the state file trusts the recorded init exactly when the pid
  still belongs to that process: it is alive and \<open>/proc\<close> shows the start time, executable and
  namespaces it showed when the supervisor recorded it. A reused pid is never taken for it.
\<close>

theorem recorded_init_recognised:
  assumes "init_recorded p pid s" "state_ok s" "- (2 ^ 63) \<le> now" "now < 2 ^ 63"
    and "write_state io writer now control_dir s fs = (0, s', trace)"
    and "read_state now' control_dir (last trace) = Some t"
  shows "validate_init_identity p' t \<longleftrightarrow>
    1 < pid \<and> 0 \<notin> {ls_init_start_ticks s, ls_init_exe_ino s, ls_init_pid_ns_ino s, ls_init_mnt_ns_ino s,
      ls_init_uts_ns_ino s, ls_init_cgroup_ns_ino s}
    \<and> same_process p p' pid \<and> proc_alive p' pid"
proof -
  have "t = s\<lparr>ls_updated_epoch := now\<rparr>"
    using write_read_state [OF assms(5,2-4), of now'] assms(6) by simp
  then have "validate_init_identity p' t = validate_init_identity p' s"
    by (simp add: validate_init_identity_def)
  then show ?thesis
    unfolding validate_recorded [OF assms(1)] by auto
qed

theorem recorded_init_recognised_witness:
  "\<exists>s' trace t. write_state demo_io 7 0 ''/c'' demo_state (\<lambda>_. None) = (0, s', trace)
    \<and> read_state 9 ''/c'' (last trace) = Some t
    \<and> validate_init_identity demo_proc t
    \<and> \<not> validate_init_identity (demo_proc\<lparr>proc_exe := (\<lambda>_. Some (5, 78))\<rparr>) t"
proof -
  obtain s' trace where w: "write_state demo_io 7 0 ''/c'' demo_state (\<lambda>_. None) = (0, s', trace)"
    by (rule demo_write)
  note r = write_read_state [OF w demo_state_ok, of 9, simplified]
  have "validate_init_identity demo_proc (demo_state\<lparr>ls_updated_epoch := 0\<rparr>)"
    using recorded_init_recognised [OF demo_recorded demo_state_ok _ _ w r, of demo_proc]
      demo_valid validate_recorded [OF demo_recorded, of demo_proc] by simp
  moreover have "\<not> same_process demo_proc (demo_proc\<lparr>proc_exe := (\<lambda>_. Some (5, 78))\<rparr>) 42"
    by (simp add: same_process_def read_proc_exe_identity_def demo_proc_def)
  ultimately show ?thesis
    using w r recorded_init_recognised [OF demo_recorded demo_state_ok _ _ w r] by auto
qed

text \<open>
  What a validated init is isolated from: its pid, mount, UTS and cgroup namespaces differ
  from those of the host's process 1, and it shares the host's IPC and network namespaces where
  the kernel has them.
\<close>

theorem init_namespaces_private:
  assumes "validate_init_identity p s" "validate_init_namespace_topology p s = 0"
  shows "(name \<in> {''pid'', ''mnt'', ''uts'', ''cgroup''} \<longrightarrow>
      read_proc_namespace_inode p (ls_init_host_pid s) name \<noteq> read_proc_namespace_inode p 1 name)
    \<and> (name \<in> {''ipc'', ''net''} \<and> read_proc_namespace_inode p 1 name = Inr i \<and> i \<noteq> 0 \<longrightarrow>
      read_proc_namespace_inode p (ls_init_host_pid s) name = Inr i)"
  using init_boundaries [OF assms] init_shares [OF assms] by blast

theorem init_namespaces_private_witness:
  "read_proc_namespace_inode demo_proc (ls_init_host_pid demo_state) ''cgroup''
     \<noteq> read_proc_namespace_inode demo_proc 1 ''cgroup''
   \<and> read_proc_namespace_inode demo_proc (ls_init_host_pid demo_state) ''net'' = Inr 30"
  using init_namespaces_private [OF demo_valid demo_topology, of "''cgroup''"]
    init_namespaces_private [OF demo_valid demo_topology, of "''net''" 30] by (simp add: demo_read)

section \<open>Configuration and devices\<close>

text \<open>
  The list of USB devices for exclusive use: every list of distinct 16-bit ids within the
  limit is read back from its text, and whatever text is accepted gives such a list.
\<close>

theorem usb_filter_exact:
  "(parse_usb_device_filter (Some v) = Some xs \<longrightarrow>
      distinct xs \<and> length xs \<le> MAX_USB_DEVICE_FILTERS \<and> list_all usb_id_ok xs)
   \<and> (distinct xs \<and> length xs \<le> MAX_USB_DEVICE_FILTERS \<and> list_all usb_id_ok xs \<longrightarrow>
      parse_usb_device_filter (Some (usb_filter_text xs)) = Some xs)"
  using usb_filter_round_trip [of xs] usb_filter_entries_ok [of v "[]" xs]
  by (auto simp: list_all_iff parse_usb_device_filter_def split: if_splits)

theorem usb_filter_exact_witness:
  "parse_usb_device_filter (Some (usb_filter_text [\<lparr>vendor = 0x1d6b, product = 2\<rparr>]))
    = Some [\<lparr>vendor = 0x1d6b, product = 2\<rparr>]"
  using usb_filter_exact [of _ "[\<lparr>vendor = 0x1d6b, product = 2\<rparr>]"]
  by (simp add: MAX_USB_DEVICE_FILTERS_def usb_id_ok_def usb_word_def)



end
