(* ===== verification/Demo_Supervisor.thy ===== *)
theory Demo_Supervisor
  imports Supervisor_Time Namespace_Properties Launcher_Properties
begin

text \<open>
  A host on which a whole run of the supervisor succeeds, in the compatible mode and with exclusive
  USB: the service starts, passes the checks and ends by itself, and the one listed interface is
  taken from its driver and given back.
\<close>

definition demo_service :: host_call where
  "demo_service = Message ''BFU_DEBIAN_FALLBACK_STARTED ''"

definition run_env :: host_env where
  "run_env = demo_env\<lparr>on_list := (\<lambda>t p. Inr [''1-1'', ''1-1:1.0'']), on_read := (\<lambda>t p. Inr ''0bda''),
     on_readlink := (\<lambda>t p. if (unbind_call ''usbhid'' ''1-1:1.0'', 0) \<in> set t then Inl ENOENT else Inr ''../usbhid''),
     on_stat := (\<lambda>t p. if p = ''/c/log'' then Inr (demo_stat Regular) else Inl ENOENT),
     on_clock := (\<lambda>t. 1000 * int (length t)),
     on_wait := (\<lambda>t p. if (demo_service, 0) \<in> set t then Reaped 0 else Running),
     on_poll := (\<lambda>t. if (Setpgid 200, 0) \<in> set t then Inr [] else Inr ''1''),
     on_proc := (\<lambda>t. \<lparr>proc_stat = (\<lambda>pid. Some (stat_line pid demo_comm demo_fields ''0'')), proc_exe = (\<lambda>_. Some (1, 2)),
       proc_ns = (\<lambda>pid name. Inr (if pid \<noteq> 1 \<and> (name = ''mnt'' \<or> name = ''uts'') then 2 else 1)), proc_alive = (\<lambda>_. True)\<rparr>)\<rparr>"

lemma run_calls [simp]:
  "on_list run_env t p = Inr [''1-1'', ''1-1:1.0'']" "on_read run_env t p = Inr ''0bda''"
  "on_readlink run_env t p = (if (unbind_call ''usbhid'' ''1-1:1.0'', 0) \<in> set t then Inl ENOENT else Inr ''../usbhid'')"
  "on_call run_env t c = 0" "on_clock run_env t = 1000 * int (length t)"
  "on_lstat run_env t p = Inr (demo_stat (if p = ''/c/host-reboot.fifo'' then Fifo else Directory))"
  "on_stat run_env t p = (if p = ''/c/log'' then Inr (demo_stat Regular) else Inl ENOENT)"
  "on_wait run_env t pid = (if (demo_service, 0) \<in> set t then Reaped 0 else Running)"
  "on_poll run_env t = (if (Setpgid 200, 0) \<in> set t then Inr [] else Inr ''1'')"
  "on_fork run_env t = Inr 200" "on_join run_env t pid = Inr 0" "on_stop run_env t = False" "env_pid run_env = 100"
  "on_time run_env t = 0"
  by (simp_all add: run_env_def demo_env_def)

lemma usb_names: "is_safe_usb_sysfs_name ''1-1:1.0''" "is_safe_usb_sysfs_name ''1-1''" "is_safe_usb_sysfs_name ''usbhid''"
  "basename (c_text 4095 ''../usbhid'') = ''usbhid''" "sysfs_hex ''0bda'' = Some 0xbda"
  by code_simp+

abbreviation taken :: "event list \<Rightarrow> bool" where
  "taken T \<equiv> subseq [(unbind_call ''usbhid'' ''1-1:1.0'', 0), (demo_service, 0), (bind_call ''usbhid'' ''1-1:1.0'', 0)] T"

abbreviation reported :: "event list \<Rightarrow> bool" where
  "reported T \<equiv> subseq [(unbind_call ''usbhid'' ''1-1:1.0'', 0), (demo_service, 0)] T"

abbreviation demo_entries :: "UsbDeviceId list" where
  "demo_entries \<equiv> [\<lparr>vendor = 0xbda, product = 0xbda\<rparr>]"

definition demo_record :: UsbInterfaceRecord where
  "demo_record = \<lparr>interface_name = ''1-1:1.0'', driver_name = ''usbhid'', detached_from = True, last_errno = 0, retry_after_ms = 0\<rparr>"

lemma demo_scan:
  assumes "(unbind_call ''usbhid'' ''1-1:1.0'', 0) \<notin> set (h_trace h)" "(demo_service, 0) \<notin> set (h_trace h)"
  shows "wp (reconcile_exclusive_usb run_env demo_entries no_usb_state)
    (\<lambda>st h'. (unbind_call ''usbhid'' ''1-1:1.0'', 0) \<in> set (h_trace h') \<and> records st = [demo_record]) h"
    unfolding reconcile_exclusive_usb_def prune_disconnected_usb_interfaces_def no_usb_state_def
    by (subst prune_from.simps) (simp add: assms wp_simps reconcile_entry_def read_usb_device_id_def read_usb_sysfs_hex_def
        read_usb_interface_driver_def unbind_interface_def get_or_create_usb_interface_record_def usb_filter_matches_def
        write_control_calls usb_names usb_device_path_def PATH_MAX_def MAX_USB_SYSFS_NAME_def MAX_USB_INTERFACE_RECORDS_def
        update_record_def safe_fits [unfolded MAX_USB_SYSFS_NAME_def] Let_def demo_record_def)

lemma then_in: "subseq xs T \<Longrightarrow> x \<in> set es \<Longrightarrow> subseq (xs @ [x]) (T @ es)"
  by (rule list_emb_append_mono) (simp_all add: subseq_singleton_left)

lemma demo_restore:
  assumes "reported (h_trace h)" "records st = [demo_record]"
  shows "wp (restore_exclusive_usb run_env st) (\<lambda>_ h'. taken (h_trace h')) h"
proof -
  have "(unbind_call ''usbhid'' ''1-1:1.0'', 0) \<in> set (h_trace h)"
    by (rule list_emb_set [OF assms(1), where x = "(unbind_call ''usbhid'' ''1-1:1.0'', 0)"]) auto
  then show ?thesis
    using assms(2) then_in [OF assms(1), of "(bind_call ''usbhid'' ''1-1:1.0'', 0)"]
    by (simp add: wp_simps restore_exclusive_usb_def restore_record_def read_usb_interface_driver_def
      write_control_calls usb_names usb_device_path_def PATH_MAX_def Let_def demo_record_def)
qed

lemma taken_later: "emits_only C m \<Longrightarrow> taken (h_trace h) \<Longrightarrow> wp m (\<lambda>_ h'. taken (h_trace h')) h"
  by (rule wp_mono [OF state_io_rel_wp [of "extends C"]]) (auto simp: extends_def)

lemma save_state_any:
  "wp (save_state env control_dir s)
     (\<lambda>r h'. (\<exists>now. snd r = s\<lparr>ls_updated_epoch := now\<rparr>) \<and> (\<exists>e. h_trace h' = h_trace h @ [(Save_state (snd r), e)])) h"
  by (auto simp: save_state_def wp_simps split: prod.split dest!: write_state_epoch)

lemma demo_run:
  assumes "(unbind_call ''usbhid'' ''1-1:1.0'', 0) \<notin> set (h_trace h)" "(demo_service, 0) \<notin> set (h_trace h)"
  shows "wp (run_service (Suc 0) run_env demo_root demo_control LAUNCH_MODE_COMPAT HOST_USB_EXCLUSIVE demo_entries manager pid s)
    (\<lambda>r h'. r = Some 0 \<and> taken (h_trace h')) h"
proof -
  have finish: "wp (finish_run run_env demo_root demo_control HOST_USB_EXCLUSIVE manager status w)
      (\<lambda>r h'. r = Some 0 \<and> taken (h_trace h')) h1"
    if "reported (h_trace h1)" "records (wt_usb w) = [demo_record]" for status w h1
    unfolding finish_run_def
    by (simp add: wp_fun, rule wp_mono [OF demo_restore [OF that]],
        rule wp_mono [OF taken_later [OF no_release_stop(3)]], assumption,
        rule wp_mono [OF taken_later [OF quietly_emits [OF ns.quiet_cleanup_delegated]]], simp, simp, assumption,
        rule wp_mono [OF taken_later [OF no_release_save]], assumption) simp
  show ?thesis
    unfolding run_service_def
    apply (simp add: wp_fun(1))
    apply (rule wp_mono [OF demo_scan [OF assms]])
    apply (rule wp_mono [OF save_state_any])
    apply (clarsimp simp: clock_def wp_simps demo_service_def [symmetric])
    apply (auto intro!: finish then_in [of "[_]", simplified] simp: subseq_singleton_left)
    done
qed


lemma demo_ticks_read: "pid = 100 \<or> pid = 200 \<Longrightarrow> read_proc_start_ticks (on_proc run_env t) pid = Some 9000"
proof -
  assume "pid = 100 \<or> pid = 200"
  then have "length (stat_line pid demo_comm demo_fields ''0'') \<le> 4095"
    using number_lengths(2) [of pid] by (auto simp: stat_line_def demo_comm_def demo_fields_def)
  moreover have "parse_u64 ''9000'' = Some 9000"
    by (simp add: parse_u64_def strtou_def is_space_def is_digit_def digit_val_def Let_def)
  ultimately show ?thesis
    using start_ticks_read [of "on_proc run_env t" pid, OF _ _ demo_line(2-5)] demo_line(6) by (simp add: run_env_def)
qed

lemma demo_identity:
  "ls_init_host_pid s = 200 \<Longrightarrow> fst (identify_service LAUNCH_MODE_COMPAT 200 s (on_proc run_env t))"
proof -
  assume "ls_init_host_pid s = 200"
  moreover have "length (dec_int 200) \<le> 24" "length (dec_int 1) \<le> 24" 
    using number_lengths(2) [of 200] number_lengths(2) [of 1] by auto
  ultimately show ?thesis
    by (simp add: identify_service_def run_env_def read_proc_exe_identity_def capture_compat_namespace_identity_def store_inode_def
        note_inode_def read_proc_namespace_inode_def validate_compat_namespace_topology_def shared_namespace_ok_def)
qed

definition first_state :: LauncherState where
  "first_state = (initialize_state 0 ''starting'')\<lparr>ls_host_usb_mode := ''exclusive'', ls_supervisor_pid := 100,
     ls_supervisor_start_ticks := 9000, ls_supervisor_exe_dev := 1, ls_supervisor_exe_ino := 2\<rparr>"

lemma demo_first_save:
  "h_files h = Map.empty \<Longrightarrow> wp (save_state run_env demo_control first_state)
     (\<lambda>(b, s) h'. b \<and> (\<exists>e. h_trace h' = h_trace h @ [(Save_state s, e)])) h"
proof -
  have ok: "state_ok first_state"
    by (simp add: state_ok_def first_state_def initialize_state_def plain_text_def field_text_def snprintf_def)
  have "first_state\<lparr>ls_updated_epoch := 0\<rparr> = first_state"
    by (simp add: first_state_def initialize_state_def)
  then have "fst (write_state (on_state_io run_env t) 100 0 demo_control first_state Map.empty) = 0" for t
    using length_state_contents [OF ok] number_lengths(2) [of 100]
    by (simp add: write_state_def state_path_def joined_path_def PATH_MAX_def kStateName_def run_env_def demo_env_def
        demo_control_def Let_def state_contents_def [of first_state] state_fields_def state_line_def)
  then show "h_files h = Map.empty \<Longrightarrow> wp (save_state run_env demo_control first_state)
     (\<lambda>(b, s) h'. b \<and> (\<exists>e. h_trace h' = h_trace h @ [(Save_state s, e)])) h"
    by (auto simp: save_state_def wp_simps split_beta)
qed

text \<open>The service starts: its start time is read, it survives the grace, and passes the checks.\<close>

abbreviation plain :: "event \<Rightarrow> bool" where
  "plain \<equiv> \<lambda>(c, e). c \<noteq> unbind_call ''usbhid'' ''1-1:1.0'' \<and> c \<noteq> demo_service"

definition fresh :: "host \<Rightarrow> bool" where
  "fresh h \<longleftrightarrow> (unbind_call ''usbhid'' ''1-1:1.0'', 0) \<notin> set (h_trace h) \<and> (demo_service, 0) \<notin> set (h_trace h)"

lemma fresh_log [simp]:
  "fresh (h\<lparr>h_trace := T @ [(c, e)]\<rparr>) \<longleftrightarrow> fresh (h\<lparr>h_trace := T\<rparr>) \<and> (c, e) \<noteq> (unbind_call ''usbhid'' ''1-1:1.0'', 0) \<and> (c, e) \<noteq> (demo_service, 0)"
  "fresh (h\<lparr>h_trace := h_trace h\<rparr>) = fresh h" "fresh (h\<lparr>h_files := fs\<rparr>) = fresh h"
  by (auto simp: fresh_def)

lemma demo_record_ticks:
  "wp (record_start_ticks 20 run_env 200 s) (\<lambda>s' h'. s' = s\<lparr>ls_init_start_ticks := 9000\<rparr>
     \<and> h_trace h' = h_trace h @ [(Inspect_processes, 0)]) h"
proof -
  have "wp (record_start_ticks (Suc n) run_env 200 s) (\<lambda>s' h'. s' = s\<lparr>ls_init_start_ticks := 9000\<rparr>
     \<and> h_trace h' = h_trace h @ [(Inspect_processes, 0)]) h" for n
    by (simp add: inspect_def wp_simps demo_ticks_read)
  from this [of 19] show ?thesis by simp
qed

lemma demo_grace:
  assumes "(demo_service, 0) \<notin> set (h_trace h)"
  shows "wp (wait_for_start_grace run_env 200) (\<lambda>r h'. fst r = 0 \<and> (\<exists>es. h_trace h' = h_trace h @ es
     \<and> list_all (\<lambda>(c, e). is_passive c \<or> c = Kill 200 0) es)) h"
proof -
  have "wp (poll_child (Suc (Suc n)) run_env (1000 * int (length (h_trace h)) + 3000) 200)
      (\<lambda>r h'. r = None \<and> (\<exists>es. h_trace h' = h_trace h @ es \<and> list_all (\<lambda>(c, e). is_passive c) es))
      (h\<lparr>h_trace := h_trace h @ [(Clock, 0)]\<rparr>)" for n
    using assms by (simp add: clock_def wp_simps demo_service_def)
  from this [of 2999] show ?thesis
    unfolding wait_for_start_grace_def
    by (auto simp: clock_def wp_simps kStartGraceMs_def list_all_iff elim!: wp_mono)
qed

lemma demo_starts:
  assumes "fresh h" "(Setpgid 200, 0) \<in> set (h_trace h)"
  shows "wp (start_service (Suc 0) run_env demo_root demo_control LAUNCH_MODE_COMPAT HOST_USB_EXCLUSIVE demo_entries 200 200 s)
    (\<lambda>r h'. r = Some 0 \<and> taken (h_trace h')) h"
proof -
  let ?Q = "\<lambda>r h'. r = Some 0 \<and> taken (h_trace h')"
  have checked: "wp (inspect run_env (identify_service LAUNCH_MODE_COMPAT 200 s0)) (\<lambda>r. wp (case r of (ok, s') \<Rightarrow> k ok s') ?Q) h1"
    if host: "ls_init_host_pid s0 = 200" and go: "\<And>s'. wp (k True s') ?Q (h1\<lparr>h_trace := h_trace h1 @ [(Inspect_processes, 0)]\<rparr>)" for s0 h1 k
  proof -
    obtain s' where "identify_service LAUNCH_MODE_COMPAT 200 s0 (on_proc run_env (h_trace h1)) = (True, s')"
      using demo_identity [OF host, of "h_trace h1"] by (metis prod.collapse)
    then show ?thesis using go by (simp add: inspect_def wp_ask)
  qed
  show ?thesis
    unfolding start_service_def await_service_def wait_for_exec_result_def
    apply (simp only: wp_fun(1))
    apply (rule wp_mono [OF demo_record_ticks])
    apply (rule wp_mono [OF save_state_any])
    apply (clarsimp simp: split_beta wp_fun(1) wp_ask wp_return simp del: poll_child.simps)
    using assms(2)
    apply (simp add: wp_fun(1))
    apply (rule wp_mono [OF demo_grace])
    using assms(1)
    apply (simp add: fresh_def demo_service_def)
    apply (clarsimp simp: wp_fun(1))
    apply (rule checked)
    apply simp
    apply simp
    apply (rule demo_run)
    using assms(1)
    apply (auto simp: fresh_def list_all_iff demo_service_def unbind_call_def)
    done
qed


lemma demo_prepares:
  assumes "fresh h" "(Setpgid 200, 0) \<notin> set (h_trace h)"
  shows "wp (set_systemd_parent_namespaces run_env demo_control CGROUP_POLICY_AUTO HOST_USB_EXCLUSIVE True)
    (\<lambda>r h'. r = (0, LAUNCH_MODE_COMPAT, CGROUP_MODE_UNKNOWN) \<and> fresh h') h"
proof -
  have base: "wp (set_base_private_namespaces run_env) (\<lambda>r h'. r = 0) h"
    unfolding set_base_private_namespaces_def host_block_ipc_def host_close_range_guard_def
    install_close_range_guard_def block_ipc_namespace_creation_def dawnshell_install_close_range_guard_def
    by (auto simp: wp_simps load_filter_def run_env_def demo_env_def aarch64_def ipc_guard.admitted split: option.splits)
  have quiet: "emits_only (\<lambda>(c, e). c \<noteq> unbind_call d n \<and> c \<noteq> demo_service \<and> c \<noteq> Setpgid 200) (set_base_private_namespaces run_env)" for d n
    unfolding set_base_private_namespaces_def
    by (intro emits_intros emits_filters) (auto simp: unbind_call_def demo_service_def make_rprivate_def)
  have "wp (set_base_private_namespaces run_env) (\<lambda>r h'. r = 0 \<and> fresh h' \<and> (Setpgid 200, 0) \<notin> set (h_trace h')) h"
    by (rule wp_mono [OF wp_conj [OF base state_io_rel_wp [OF quiet [of "''usbhid''" "''1-1:1.0''"]]]])
      (use assms in \<open>auto simp: extends_def fresh_def list_all_iff\<close>)
  then show ?thesis
    unfolding set_systemd_parent_namespaces_def wp_fun(1)
    by (rule wp_mono)
      (auto simp: wait_for_network_manager_def choose_launch_mode_def pid_namespace_entry_is_available_def stat_is_def
         wp_simps demo_service_def unbind_call_def fresh_def)
qed

abbreviation demo_outcome :: "int option \<Rightarrow> host \<Rightarrow> bool" where
  "demo_outcome \<equiv> \<lambda>r h'. r = Some 0 \<and> taken (h_trace h')"

lemma fresh_saved: "fresh h \<Longrightarrow> h_trace h' = h_trace h @ [(Save_state s, e)] \<Longrightarrow> fresh h'"
  by (auto simp: fresh_def demo_service_def unbind_call_def)

lemma demo_launched:
  assumes "fresh h" "(Setpgid 200, 0) \<notin> set (h_trace h)"
  shows "wp (launch_debian (Suc 0) run_env demo_root demo_control CGROUP_POLICY_AUTO True HOST_USB_EXCLUSIVE demo_entries 200 s) demo_outcome h"
proof -
  have "wp (supervisor_compat_loop (Suc 0) run_env demo_root demo_control HOST_USB_EXCLUSIVE demo_entries 200 s) demo_outcome h1"
    if "fresh h1" for s h1
  proof -
    have "fresh (h1\<lparr>h_trace := h_trace h1 @ [(Pipe, 0), (Fork, 0), (Setpgid 200, 0)]\<rparr>)"
      using that by (simp add: fresh_def demo_service_def unbind_call_def)
    from demo_starts [OF this] show ?thesis
      by (simp add: supervisor_compat_loop_def wp_simps)
  qed
  then show ?thesis
    unfolding launch_debian_def wp_fun(1)
    by (intro wp_mono [OF demo_prepares [OF assms]])
      (auto simp: wp_fun(1) split_beta intro!: wp_mono [OF save_state_any] dest: fresh_saved)
qed

lemma demo_begun:
  assumes "h_files h = Map.empty" "fresh h" "(Setpgid 200, 0) \<notin> set (h_trace h)"
  shows "wp (begin_run (Suc 0) run_env demo_root demo_control CGROUP_POLICY_AUTO True HOST_USB_EXCLUSIVE demo_entries first_state) demo_outcome h"
proof -
  have fifo: "wp (prepare_host_reboot_fifo run_env demo_control) (\<lambda>r. wp (case r of
        None \<Rightarrow> k
      | Some path \<Rightarrow> manage_run (Suc 0) run_env demo_root demo_control CGROUP_POLICY_AUTO True HOST_USB_EXCLUSIVE demo_entries s path)
      demo_outcome) h1"
    if "fresh h1" "(Setpgid 200, 0) \<notin> set (h_trace h1)" for h1 k s
  proof -
    let ?es = "[(Unlink ''/c/host-reboot.fifo'', 0), (Mkfifo ''/c/host-reboot.fifo'' 0x180, 0), (Chown_root ''/c/host-reboot.fifo'', 0),
      (Chmod ''/c/host-reboot.fifo'' 0x180, 0), (Pipe, 0), (Fork, 0)]"
    have "fresh (h1\<lparr>h_trace := h_trace h1 @ ?es\<rparr>)"
      using that by (simp add: fresh_def demo_service_def unbind_call_def driver_control_path_def)
    from demo_launched [OF this] that(2) show ?thesis
      by (simp add: prepare_host_reboot_fifo_def manage_run_def start_network_manager_def wp_simps demo_control_def path_defs)
  qed
  show ?thesis
    unfolding begin_run_def wp_fun(1)
    by (rule wp_mono [OF demo_first_save [OF assms(1)]])
      (use assms in \<open>auto simp: wp_fun(1) intro!: fifo intro: fresh_saved\<close>)
qed

lemma demo_supervised:
  "wp (supervisor_loop (Suc 0) run_env demo_root demo_control ''/c/log'' CGROUP_POLICY_AUTO True HOST_USB_EXCLUSIVE demo_entries)
    demo_outcome demo_host"
proof -
  have first: "(initialize_state 0 ''starting'')\<lparr>ls_host_usb_mode := field_text 16 (host_usb_policy_name HOST_USB_EXCLUSIVE),
      ls_supervisor_pid := 100, ls_supervisor_start_ticks := 9000, ls_supervisor_exe_dev := 1, ls_supervisor_exe_ino := 2\<rparr> = first_state"
    by (simp add: first_state_def field_text_def host_usb_policy_name_def snprintf_def)
  have exe: "read_proc_exe_identity (on_proc run_env t) pid = Some (1, 2)" for t pid
    by (simp add: run_env_def read_proc_exe_identity_def)
  let ?es = "[(Setsid, 0), (Open_read ''/dev/null'', 0), (Open_append ''/c/log'' 0x180, 0), (Stat ''/c/log'', 0),
    (Redirect_output, 0), (Set_handlers, 0), (Inspect_processes, 0)]"
  have "fresh (demo_host\<lparr>h_trace := ?es\<rparr>)"
    by (simp add: fresh_def demo_host_def demo_service_def unbind_call_def)
  from demo_begun [OF _ this] show ?thesis
    unfolding supervisor_loop_def redirect_supervisor_stdio_def identify_supervisor_def
    by (simp add: wp_simps stat_is_def demo_stat_def inspect_def demo_ticks_read exe first Let_def demo_host_def)
qed

end
