(* ===== verification/Supervisor_Properties.thy ===== *)
theory Supervisor_Properties
  imports Demo_Supervisor
begin

text \<open>
  The properties of the supervisor: what it signals and reports, how it ends a service, what a run
  leaves behind on the host's USB interfaces and in the state file.
\<close>

text \<open>
  C27. On every host, whatever fails, each call of the supervisor is in order after the calls before it:
  it signals only processes it has forked before, itself or as a group; every message reports a
  failure or a start; it reports a start, and saves the state \<open>running\<close>, only after it has read start
  time, executable and namespaces of a forked service from \<open>/proc\<close> and found them separate from the
  host's as its launch mode demands.
\<close>

theorem supervisor_keeps_contract:
  "\<exists>es. h_trace (snd (run_state (supervisor_loop n env root control_dir log_path policy allow_fallback usb entries) h)) = h_trace h @ es
    \<and> obeys (proper env) (h_trace h) es"
  by (rule after_run [OF sv.policy_supervisor surjective_pairing])


definition demo_end :: host where
  "demo_end = snd (run_state (supervisor_loop (Suc 0) run_env demo_root demo_control ''/c/log'' CGROUP_POLICY_AUTO True
     HOST_USB_EXCLUSIVE demo_entries) demo_host)"

lemma demo_ended:
  "run_state (supervisor_loop (Suc 0) run_env demo_root demo_control ''/c/log'' CGROUP_POLICY_AUTO True
     HOST_USB_EXCLUSIVE demo_entries) demo_host = (Some 0, demo_end)" "taken (h_trace demo_end)"
  using demo_supervised by (auto simp: demo_end_def wp_run prod_eq_iff)

lemma demo_apart: "\<not> inside demo_root demo_control (driver_control_path d ''unbind'')"
  by (auto simp: inside_def below_def driver_control_path_def demo_root_def demo_control_def)


text \<open>
  C28. Patience: while the supervisor watches a service, it sends \<open>SIGKILL\<close> to it, or to its
  group, only after a stop was requested and the grace of the launch mode, 10 or 20 seconds, has
  passed on the clock since. The kernel does not reuse the pid of the unreaped service.
\<close>

theorem killed_only_after_grace:
  assumes "run_state (watch_service n env control_dir mode usb entries pid w) h = (r, h')" "\<not> wt_shutdown_sent w"
    and "\<And>t. prefix (h_trace h) t \<Longrightarrow> on_fork env t \<noteq> Inr pid"
    and "h_trace h' = h_trace h @ xs @ (c, e) # ys" "c = Kill pid SIGKILL \<or> c = Kill_group pid SIGKILL"
  shows "\<exists>t0 t1 t2. prefix t0 t1 \<and> prefix t1 t2 \<and> prefix t2 (h_trace h @ xs) \<and> on_stop env t0
    \<and> on_clock env t1 + stop_grace mode \<le> on_clock env t2"
proof -
  have "watched env mode pid (h_trace h) w h"
    using assms(2) by (auto simp: watched_def patient_def)
  moreover have "pid_in_use env pid (h_trace h)"
    using assms(3) by (simp add: pid_in_use_def)
  ultimately have "patient env mode pid (h_trace h) (h_trace h')"
    using wpD [OF watch_patient assms(1)] by simp
  then have "late env mode (h_trace h @ xs)"
    using assms(4,5) unfolding patient_def kills_def by blast
  then show ?thesis by (simp add: late_def)
qed

text \<open>A service that ends only when it is killed, and a supervisor that is told to stop.\<close>

definition stop_env :: host_env where
  "stop_env = demo_env\<lparr>on_stop := (\<lambda>t. True), on_clock := slept,
     on_wait := (\<lambda>t p. if list_ex (\<lambda>(c, e). c = Kill 300 SIGKILL) t then Reaped 9 else Running)\<rparr>"

definition stop_watch :: watch where
  "stop_watch = \<lparr>wt_usb = no_usb_state, wt_state = initialize_state 0 ''running'', wt_shutdown_sent = False,
     wt_deadline = 0, wt_next_scan = 0\<rparr>"

lemma stop_env_time: "clock_advances stop_env" "dies_within stop_env 300 0" "on_stop stop_env t"
  by (auto simp: clock_advances_def dies_within_def stop_env_def)

text \<open>
  C29. Liveness: once a stop is requested, the loop that watches the service ends, whatever the
  service does. With a clock on which a sleep takes its time and a kernel that lets a killed child
  be reaped after \<open>200 * kd\<close> milliseconds more, it ends within the rounds of the grace, \<open>kd\<close>, and
  three more.
\<close>

theorem requested_stop_ends:
  assumes "\<And>t. on_stop env t" "\<not> wt_shutdown_sent w" "1 < pid" "clock_advances env" "dies_within env pid (200 * int kd)"
    and "nat (stop_grace mode) div 200 + kd + 3 \<le> n"
  shows "\<exists>status w' h'. run_state (watch_service n env control_dir mode usb entries pid w) h = (Some (status, w'), h')"
proof -
  have "wp (watch_service n env control_dir mode usb entries pid w) returned h"
    by (rule stop_ends [OF assms(4,3) _ assms(5,1,2)]) (use assms(6) in auto)
  then show ?thesis
    by (cases "run_state (watch_service n env control_dir mode usb entries pid w) h") (auto simp: wp_def)
qed

theorem requested_stop_ends_witness:
  "\<exists>status w' h'. run_state (watch_service 103 stop_env ''/c'' LAUNCH_MODE_SYSTEMD HOST_USB_OFF [] 300 stop_watch) demo_host
     = (Some (status, w'), h')"
  using requested_stop_ends [OF stop_env_time(3) _ _ stop_env_time(1), of stop_watch 300 0 LAUNCH_MODE_SYSTEMD 103]
    stop_env_time(2) by (simp add: stop_watch_def stop_grace_def)

lemma watch_answered:
  "wp (watch_service n env control_dir mode usb entries pid w)
     (\<lambda>r h'. r \<noteq> None \<longrightarrow> (\<exists>t. prefix t (h_trace h') \<and> on_wait env t pid \<noteq> Running)) h"
proof (induction n arbitrary: w h)
  case (Suc n w h)
  have "wp (watch_round env control_dir mode usb entries pid w) (\<lambda>w'. wp (watch_service n env control_dir mode usb entries pid w')
      (\<lambda>r h'. r \<noteq> None \<longrightarrow> (\<exists>t. prefix t (h_trace h') \<and> on_wait env t pid \<noteq> Running))) h'" for h'
    by (rule wp_mono [OF wpI [OF TrueI]]) (rule Suc.IH)
  then show ?case
    by (auto simp: wp_simps split: wait_answer.split intro!: exI [of _ "h_trace h"])
qed (simp add: wp_simps)

theorem killed_only_after_grace_witness:
  "\<exists>r h' xs e ys. run_state (watch_service 103 stop_env ''/c'' LAUNCH_MODE_SYSTEMD HOST_USB_OFF [] 300 stop_watch) demo_host = (r, h')
    \<and> h_trace h' = xs @ (Kill 300 SIGKILL, e) # ys
    \<and> (\<exists>t1 t2. prefix t1 t2 \<and> prefix t2 xs \<and> slept t1 + 20000 \<le> slept t2)"
proof -
  let ?m = "watch_service 103 stop_env ''/c'' LAUNCH_MODE_SYSTEMD HOST_USB_OFF [] 300 stop_watch"
  obtain r h' where run: "run_state ?m demo_host = (r, h')" by fastforce
  have "wp ?m returned demo_host"
    by (rule stop_ends [OF stop_env_time(1) _ _ stop_env_time(2), of 0]) (auto simp: stop_env_time stop_watch_def stop_grace_def)
  with run have "r \<noteq> None" by (simp add: wp_def)
  then obtain t where "prefix t (h_trace h')" "on_wait stop_env t 300 \<noteq> Running"
    using wpD [OF watch_answered run] by blast
  then obtain e where "(Kill 300 SIGKILL, e) \<in> set (h_trace h')"
    by (auto simp: stop_env_def list_ex_iff prefix_def split: if_splits)
  then obtain xs ys where h': "h_trace h' = xs @ (Kill 300 SIGKILL, e) # ys" by (meson split_list)
  have "\<exists>t0 t1 t2. prefix t0 t1 \<and> prefix t1 t2 \<and> prefix t2 (h_trace demo_host @ xs) \<and> on_stop stop_env t0
      \<and> on_clock stop_env t1 + stop_grace LAUNCH_MODE_SYSTEMD \<le> on_clock stop_env t2"
    by (rule killed_only_after_grace [OF run]) (auto simp: stop_watch_def stop_env_def demo_env_def demo_host_def h')
  then show ?thesis
    using run h' by (auto simp: demo_host_def stop_env_def stop_grace_def)
qed


end
