(* ===== verification/Command_Properties.thy ===== *)
theory Command_Properties
  imports Command_Outcomes Network_Manager Supervisor_Properties
begin

text \<open>
  What the launcher's commands and the network manager guarantee: the command line, which processes
  they signal and which programs they run, when a supervisor is started, and what \<open>stop\<close> and
  \<open>force-stop\<close> have done when they succeed.
\<close>

section \<open>The command line\<close>

definition options_ok :: "start_options \<Rightarrow> bool" where
  "options_ok options \<longleftrightarrow> list_all usb_id_ok (so_filter options) \<and> distinct (so_filter options)
     \<and> length (so_filter options) \<le> MAX_USB_DEVICE_FILTERS
     \<and> (so_usb options = HOST_USB_EXCLUSIVE \<longrightarrow> so_filter options \<noteq> [])"

text \<open>The command line that asks for the options.\<close>

definition policy_word :: "CgroupPolicy \<Rightarrow> string" where
  "policy_word policy = (case policy of
     CGROUP_POLICY_AUTO \<Rightarrow> ''auto'' | CGROUP_POLICY_FORCE_V2 \<Rightarrow> ''v2'' | CGROUP_POLICY_FORCE_V1 \<Rightarrow> ''v1'')"

definition start_line :: "string \<Rightarrow> string \<Rightarrow> string \<Rightarrow> string \<Rightarrow> string \<Rightarrow> start_options \<Rightarrow> string list" where
  "start_line program command root control_dir log_path options =
     [program, command, root, control_dir, log_path, policy_word (so_policy options),
      if so_fallback options then ''fallback'' else ''strict'', host_usb_policy_name (so_usb options),
      usb_filter_text (so_filter options)]"

lemma parsed_options_ok: "parse_start_options argv = Some options \<Longrightarrow> options_ok options"
proof -
  have filter_ok: "distinct xs \<and> length xs \<le> MAX_USB_DEVICE_FILTERS \<and> list_all usb_id_ok xs"
    if "parse_usb_device_filter v = Some xs" for v xs
    using that usb_filter_entries_ok [of "the v" "[]" xs]
    by (auto simp: parse_usb_device_filter_def list_all_iff split: if_splits option.splits)
  show "parse_start_options argv = Some options \<Longrightarrow> options_ok options"
    using filter_ok unfolding parse_start_options_def options_ok_def Let_def
    by (auto split: option.splits if_splits)
qed

lemma options_round_trip:
  assumes "options_ok options"
  shows "parse_start_options (start_line program command root control_dir log_path options) = Some options"
proof -
  have "parse_usb_device_filter (Some (usb_filter_text (so_filter options))) = Some (so_filter options)"
    using assms by (intro usb_filter_round_trip) (auto simp: options_ok_def list_all_iff)
  moreover have "parse_cgroup_policy (Some (policy_word p)) = Some p" for p
    by (cases p) (simp_all add: parse_cgroup_policy_def policy_word_def)
  ultimately show ?thesis
    using assms by (auto simp: parse_start_options_def start_line_def argument_def numeral_nat is_explicit_launch_policy_def
      parse_launch_policy_def host_usb_policy_round_trip options_ok_def)
qed



section \<open>Signals and namespaces\<close>


text \<open>
  C19. A start forks a supervisor at most once, and only while it holds the lock, after the recorded
  service was found gone and a whole scan of the processes found none in a delegated cgroup.
\<close>

theorem start_forks_on_free_host:
  "obeys (start_rule env control_dir (h_files h)) []
     (h_trace (snd (run_state (run_start n env root control_dir log_path) (h\<lparr>h_trace := []\<rparr>))))"
  by (rule governed_fresh [OF lawful_run_start]) (simp_all add: at_rest_def)


definition clean_env :: host_env where
  "clean_env = demo_env\<lparr>on_stat := (\<lambda>t p. Inr (demo_stat Regular)), on_list := (\<lambda>t p. if p = ''/proc'' then Inr [''self'', ''77''] else Inr [])\<rparr>"

lemma entry_pid_text: "1 < pid \<Longrightarrow> pid < 2 ^ 31 \<Longrightarrow> entry_pid (dec_int pid) = Some pid"
  using strtou_dec [of "nat pid" 64 "[]"] strtoll_dec_int [of pid] atoi_dec_int [of pid]
  by (simp add: entry_pid_def atoi_def) (simp add: dec_int_def)

lemma clean_pids: "entry_pid ''self'' = None" "entry_pid ''77'' = Some 77" "\<not> delegated_contents ''cpu pids''"
proof -
  show "entry_pid ''self'' = None"
    by (simp add: entry_pid_def strtou_def is_space_def is_digit_def Let_def)
  have "dec_int 77 = ''77''" by code_simp
  then show "entry_pid ''77'' = Some 77"
    using entry_pid_text [of 77] by simp
  show "\<not> delegated_contents ''cpu pids''" by code_simp
qed

lemma clean_run: "fst (run_state (run_force_stop clean_env ''/r'' ''/c'') (demo_host\<lparr>h_trace := []\<rparr>)) = 0"
proof -
  have calls: "on_call clean_env t c = 0" "env_euid clean_env = 0" "on_lstat clean_env t ''/c'' = Inr (demo_stat Directory)"
    "on_stat clean_env t p = Inr (demo_stat Regular)" "on_list clean_env t ''/proc'' = Inr [''self'', ''77'']"
    "on_read clean_env t p = Inr ''cpu pids''" "env_pid clean_env = 100" for t c p
    by (simp_all add: clean_env_def demo_env_def)
  have scan: "wp (collect_delegated_processes clean_env k) (\<lambda>pids _. pids = []) h" for h k
    by (simp add: collect_delegated_processes_def process_in_delegated_cgroup_def wp_simps calls clean_pids)
  have "wp (terminate_delegated_processes clean_env) (\<lambda>r _. r = 0) h" for h
    unfolding terminate_delegated_processes_def eval_nat_numeral terminate_rounds.simps wp_bind
    by (rule wp_mono [OF scan]) (simp add: wp_simps)
  then have clean: "wp (force_clean clean_env root control_dir fill line) (\<lambda>r _. r = 0) h" for root control_dir fill line h
    unfolding force_clean_def wp_bind
    by (rule wp_mono) (simp add: wp_simps(1), intro wp_any, simp add: report_def wp_simps)
  have no_state: "read_state now ''/c'' (h_files demo_host) = None" for now
    by (simp add: read_state_def state_path_def joined_path_def kStateName_def PATH_MAX_def demo_host_def)
  have "wp (run_force_stop clean_env ''/r'' ''/c'') (\<lambda>r _. r = 0) (demo_host\<lparr>h_trace := []\<rparr>)"
    unfolding run_force_stop_def validate_control_directory_def open_lock_file_def load_or_blank_def load_state_def force_orphan_def
      also_check_def
    by (simp add: calls wp_simps demo_stat_def group_or_world_writable_def joined_path_def kLockName_def PATH_MAX_def
      no_state clean stat_is_def)
  then show ?thesis by (simp add: wp_def split: prod.splits)
qed


text \<open>
  A round of kills over the processes found in delegated cgroups signals each of them exactly
  once, and the one with the lowest pid, Debian's init, last and after a pause.
\<close>

theorem lowest_killed_last:
  assumes "pids \<noteq> []"
  shows "\<exists>xs pid ys es. pids = xs @ pid # ys \<and> (\<forall>q \<in> set pids. pid \<le> q)
    \<and> h_trace (snd (run_state (kill_round env pids) h)) = h_trace h @ es
    \<and> map fst es = map (\<lambda>q. Kill q SIGKILL) (xs @ ys) @ [Sleep 200000, Kill pid SIGKILL, Sleep 300000]"
  using kill_round_events [OF assms, of env h] by (simp add: wp_def split: prod.splits)

theorem lowest_killed_last_witness:
  "\<exists>xs pid ys es. [30, 12, 44] = xs @ pid # ys \<and> (\<forall>q \<in> set [30, 12, 44]. pid \<le> q)
    \<and> h_trace (snd (run_state (kill_round demo_env [30, 12, 44]) demo_host)) = h_trace demo_host @ es
    \<and> map fst es = map (\<lambda>q. Kill q SIGKILL) (xs @ ys) @ [Sleep 200000, Kill pid SIGKILL, Sleep 300000]"
  by (rule lowest_killed_last) simp

text \<open>
  C31. \<open>stop\<close> with a running supervisor: it returns 0 only when it sent \<open>SIGTERM\<close> to the recorded
  supervisor and got the lock afterwards, and 99 only when the whole timeout has passed.
\<close>

theorem stop_waits_for_supervisor:
  assumes "clock_advances env" "run_state (stop_supervisor env control_dir) h = (r, h')"
  shows "stop_done env control_dir h r h'"
  by (rule wpD [OF stop_supervisor_outcome [OF assms(1)] assms(2)])

definition stopping_state :: LauncherState where
  "stopping_state = demo_state\<lparr>ls_supervisor_pid := 42, ls_supervisor_start_ticks := 9000, ls_supervisor_exe_dev := 5,
     ls_supervisor_exe_ino := 77\<rparr>"

definition stopping_env :: host_env where
  "stopping_env = demo_env\<lparr>on_clock := slept, on_proc := (\<lambda>t. demo_proc)\<rparr>"

lemma stopping_valid: "validate_supervisor_identity demo_proc stopping_state"
  by (simp add: validate_supervisor_identity_def stopping_state_def demo_ticks read_proc_exe_identity_def) (simp add: demo_proc_def)

lemma stopping_read: "\<exists>fs. \<forall>now. read_state now ''/c'' fs = Some stopping_state"
proof -
  have ok: "state_ok stopping_state"
    by (simp add: state_ok_def stopping_state_def demo_state_def initialize_state_def plain_text_def field_text_def snprintf_def)
  have same: "stopping_state\<lparr>ls_updated_epoch := 0\<rparr> = stopping_state"
    by (simp add: stopping_state_def demo_state_def initialize_state_def)
  then have "fst (write_state demo_io 7 0 ''/c'' stopping_state (\<lambda>_. None)) = 0"
    using length_state_contents [OF ok] number_lengths(2) [of 7]
    by (simp add: write_state_def state_path_def joined_path_def PATH_MAX_def kStateName_def demo_io_def Let_def
        state_contents_def [of stopping_state] state_fields_def state_line_def)
  then obtain s' trace where "write_state demo_io 7 0 ''/c'' stopping_state (\<lambda>_. None) = (0, s', trace)"
    by (metis prod.collapse)
  from write_read_state [OF this ok] show ?thesis
    using same by auto
qed

lemma stopping_run:
  assumes "\<And>now. read_state now ''/c'' (h_files h) = Some stopping_state"
  shows "fst (run_state (stop_supervisor stopping_env ''/c'') h) = 0"
proof -
  have calls: "on_call stopping_env t c = 0" "on_proc stopping_env t = demo_proc" "on_clock stopping_env t = slept t" for t c
    by (simp_all add: stopping_env_def demo_env_def)
  have "wp (await_lock stopping_env kStopTimeoutMs p) (\<lambda>w _. w = Lock_released) h1" for p h1
    by (simp add: await_lock_def clock_def kStopTimeoutMs_def wp_simps calls eval_nat_numeral)
  then have wait: "wp (await_lock stopping_env kStopTimeoutMs p) (\<lambda>w. wp (case w of
       Lock_released \<Rightarrow> report stopping_env line 0 | Lock_failed \<Rightarrow> return 98 | Lock_held \<Rightarrow> return 99) (\<lambda>r _. r = 0)) h1" for p line h1
    by (rule wp_mono) (simp add: report_def wp_simps)
  have "wp (stop_supervisor stopping_env ''/c'') (\<lambda>r _. r = 0) h"
    unfolding stop_supervisor_def load_state_def inspect_def
    by (simp add: wp_simps assms calls stopping_valid wait)
  then show ?thesis by (simp add: wp_def split: prod.splits)
qed

theorem stop_waits_for_supervisor_witness:
  "\<exists>fs h'. run_state (stop_supervisor stopping_env ''/c'') (demo_host\<lparr>h_files := fs\<rparr>) = (0, h')
    \<and> stop_done stopping_env ''/c'' (demo_host\<lparr>h_files := fs\<rparr>) 0 h'"
proof -
  obtain fs where fs: "\<And>now. read_state now ''/c'' fs = Some stopping_state"
    using stopping_read by blast
  have "fst (run_state (stop_supervisor stopping_env ''/c'') (demo_host\<lparr>h_files := fs\<rparr>)) = 0"
    by (rule stopping_run) (simp add: fs)
  then obtain h' where run: "run_state (stop_supervisor stopping_env ''/c'') (demo_host\<lparr>h_files := fs\<rparr>) = (0, h')"
    by (metis prod.collapse)
  have "clock_advances stopping_env"
    by (simp add: clock_advances_def stopping_env_def)
  from stop_waits_for_supervisor [OF this run] run show ?thesis by blast
qed


section \<open>The wait for the supervisor's message\<close>

text \<open>
  The time left for \<open>poll\<close> is computed from a second reading of the clock. When the deadline passes
  between the two readings it is negative, and \<open>poll\<close> waits without limit.
\<close>

definition late_env :: host_env where
  "late_env = demo_env\<lparr>on_clock := (\<lambda>t. [0, 19999, 20001] ! length t)\<rparr>"

theorem ready_wait_unbounded:
  "(Poll_for (-1), 0) \<in> set (h_trace (snd (run_state (read_ready_message 1 late_env) demo_host)))"
  by (simp add: read_ready_message_def clock_def ask_def log_call_def late_env_def demo_env_def demo_host_def kStartTimeoutMs_def
      gets_def modify_def)

end
