(* ===== verification/Launch_Composition.thy ===== *)
theory Launch_Composition
  imports Launcher_Commands Supervisor_Facts
begin

text \<open>
  The launcher that starts and the supervisor it forks, together: what \<open>read_ready_message\<close> returns is
  what came through the pipe, and what the supervisor writes there follows its contract.
\<close>

section \<open>What the launcher reads\<close>

text \<open>The bytes that one call gave, and all bytes of a history.\<close>

definition read_by :: "host_env \<Rightarrow> event list \<Rightarrow> event \<Rightarrow> string" where
  "read_by env t x = (case x of
     (Poll_for d, e) \<Rightarrow> (case on_ready env t of Read_bytes bytes \<Rightarrow> bytes | _ \<Rightarrow> [])
   | _ \<Rightarrow> [])"

fun received_from :: "host_env \<Rightarrow> event list \<Rightarrow> event list \<Rightarrow> string" where
  "received_from env T [] = []"
| "received_from env T (x # es) = read_by env T x @ received_from env (T @ [x]) es"

definition received :: "host_env \<Rightarrow> event list \<Rightarrow> string" where
  "received env T = received_from env [] T"

lemma received_from_append: "received_from env T (es @ fs) = received_from env T es @ received_from env (T @ es) fs"
  by (induction es arbitrary: T) simp_all

lemma received_append [simp]: "received env (T @ es) = received env T @ received_from env T es"
  by (simp add: received_def received_from_append)

lemma read_by_simps [simp]:
  "read_by env t (Clock, e) = []" "read_by env t (Pipe, e) = []" "read_by env t (Fork, e) = []" "read_by env t (Print m, e) = []"
  "read_by env t (Poll_for d, e) = (case on_ready env t of Read_bytes bytes \<Rightarrow> bytes | _ \<Rightarrow> [])"
  by (simp_all add: read_by_def)

text \<open>The message is the beginning of what was received.\<close>

definition kept_message :: "host_env \<Rightarrow> string \<Rightarrow> string \<Rightarrow> event list \<Rightarrow> bool" where
  "kept_message env before msg T \<longleftrightarrow>
     prefix (before @ msg) (received env T) \<and> (length msg < 1023 \<longrightarrow> received env T = before @ msg)"

lemma kept_more:
  assumes "kept_message env before msg T" "length msg < 1023"
  shows "kept_message env before msg (T @ [(Clock, 0)])" "kept_message env before msg (T @ [(Clock, 0), (Clock, 0)])"
    "on_ready env (T @ [(Clock, 0), (Clock, 0)]) = Read_bytes bytes \<Longrightarrow>
      kept_message env before (msg @ take (1023 - length msg) bytes) (T @ [(Clock, 0), (Clock, 0), (Poll_for d, 0)])"
    "(\<And>bytes. on_ready env (T @ [(Clock, 0), (Clock, 0)]) \<noteq> Read_bytes bytes) \<Longrightarrow>
      kept_message env before msg (T @ [(Clock, 0), (Clock, 0), (Poll_for d, 0)])"
  using assms by (auto simp: kept_message_def take_is_prefix split: ready_answer.split)

lemma ready_loop_received:
  assumes "kept_message env before msg (h_trace h)"
  shows "wp (ready_loop n env deadline msg)
    (\<lambda>r h'. \<forall>result. r = Some (Some result) \<longrightarrow> prefix (before @ result) (received env (h_trace h'))) h"
  using assms
proof (induction n arbitrary: msg h)
  case (Suc n)
  show ?case
  proof (cases "length msg < 1023")
    case True
    note more = kept_more [OF Suc.prems True]
    show ?thesis
      using more True
      by (auto simp: clock_def wp_simps Let_def ready_text_def kept_message_def split: ready_answer.split intro!: Suc.IH)
  next
    case False
    then show ?thesis
      using Suc.prems by (simp add: clock_def wp_simps ready_text_def kept_message_def)
  qed
qed (simp add: wp_simps)

lemma started_received:
  "wp (start_supervisor n env) (\<lambda>r h'. r = Some 0 \<longrightarrow> (\<exists>msg. started_text msg
     \<and> prefix (received env (h_trace h) @ msg) (received env (h_trace h')))) h"
proof -
  let ?T = "h_trace h @ [(Pipe, 0), (Fork, 0), (Clock, 0)]"
  have "kept_message env (received env (h_trace h)) [] ?T"
    by (simp add: kept_message_def)
  then have loop: "wp (ready_loop n env deadline []) (\<lambda>r h'. \<forall>result. r = Some (Some result)
      \<longrightarrow> prefix (received env (h_trace h) @ result) (received env (h_trace h'))) (h\<lparr>h_trace := ?T\<rparr>)" for deadline
    by (intro ready_loop_received) simp
  show ?thesis
    unfolding start_supervisor_def read_ready_message_def
    by (auto simp: wp_simps clock_def report_def split: sum.split intro!: wp_mono [OF loop])
      (auto simp: wp_simps split: option.splits if_splits)
qed

section \<open>What the supervisor sends\<close>

text \<open>Bytes of a pipe to which only the supervisor writes: they begin with one of its messages.\<close>

definition sent :: "event list \<Rightarrow> string \<Rightarrow> bool" where
  "sent T bytes \<longleftrightarrow> (\<exists>m rest. (Message m, 0) \<in> set T \<and> prefix bytes (m @ rest))"

lemma start_was_sent:
  assumes "started_text msg" "prefix msg bytes" "prefix bytes (m @ rest)" "is_failure m"
  shows False
proof -
  have same: "prefix ''BFU_DEBIAN_START_FAILED stage='' (m @ rest)" "prefix msg (m @ rest)"
    using assms(2-4) by (auto simp: is_failure_def intro: prefix_order.trans)
  from assms(1) show False
    unfolding started_text_def
  proof
    assume "prefix ''BFU_DEBIAN_STARTED '' msg"
    then have "prefix ''BFU_DEBIAN_STARTED '' (m @ rest)" using same(2) by (rule prefix_order.trans)
    with same(1) show False by (auto dest: prefix_same_cases)
  next
    assume "prefix ''BFU_DEBIAN_FALLBACK_STARTED '' msg"
    then have "prefix ''BFU_DEBIAN_FALLBACK_STARTED '' (m @ rest)" using same(2) by (rule prefix_order.trans)
    with same(1) show False by (auto dest: prefix_same_cases)
  qed
qed

lemma sent_start_checked:
  assumes "obeys (proper env) [] T" "started_text msg" "prefix msg bytes" "sent T bytes"
  shows "\<exists>xs m ys s. T = xs @ (Message m, 0) # ys \<and> is_started m \<and> checked env xs s"
proof -
  obtain m rest where m: "(Message m, 0) \<in> set T" "prefix bytes (m @ rest)"
    using assms(4) by (auto simp: sent_def)
  then obtain xs ys where T: "T = xs @ (Message m, 0) # ys" by (meson split_list)
  have "proper env xs (Message m, 0)"
    using obeys_at [OF assms(1) T] by simp
  then show ?thesis
    using T start_was_sent [OF assms(2,3) m(2)] by (auto simp: proper_def)
qed

end
