(* ===== verification/Launcher_Log.thy ===== *)
theory Launcher_Log
  imports Supervisor
begin

text \<open>
  The launcher's diagnostics (\<open>bfu_namespace_probe.c\<close>): failure reports, which a forked child also writes
  to the pipe its parent waits on, snapshots of files in the log, and the signal handlers. The clock
  and the files' contents are arguments; the results are the texts written.
\<close>

abbreviation newline :: string where "newline \<equiv> [CHR 0x0A]"

section \<open>Failure reports\<close>

text \<open>Whether and what \<open>report_failure_text\<close> writes to the descriptor.\<close>

definition report_failure_text :: "int \<Rightarrow> string option \<Rightarrow> string option" where
  "report_failure_text failure_report_fd message = (if failure_report_fd \<ge> 0 then message else None)"

text \<open>The exit code, the text on standard error, and the text on the pipe.\<close>

definition fail_errno :: "int \<Rightarrow> (nat \<Rightarrow> string) \<Rightarrow> nat \<Rightarrow> string \<Rightarrow> int \<Rightarrow> int \<times> string \<times> string option" where
  "fail_errno failure_report_fd strerror errno stage code =
     (let message = snd (snprintf 512 (''BFU_DEBIAN_LAUNCHER_FAILED stage='' @ stage @ '' errno='' @ dec errno
            @ '' error='' @ strerror errno @ newline))
      in (code, message, report_failure_text failure_report_fd (Some message)))"

definition fail_message :: "int \<Rightarrow> string \<Rightarrow> string \<Rightarrow> int \<Rightarrow> int \<times> string \<times> string option" where
  "fail_message failure_report_fd stage message_text code =
     (let message = snd (snprintf 512 (''BFU_DEBIAN_LAUNCHER_FAILED stage='' @ stage @ '' error='' @ message_text @ newline))
      in (code, message, report_failure_text failure_report_fd (Some message)))"

section \<open>Snapshots\<close>

text \<open>Seconds of \<open>clock_gettime\<close>, 0 when it fails.\<close>

definition realtime_seconds :: "(int \<times> int) option \<Rightarrow> int" where
  "realtime_seconds value = (case value of None \<Rightarrow> 0 | Some (sec, nsec) \<Rightarrow> sec)"

definition stamp :: "int \<Rightarrow> string" where "stamp now = ''['' @ dec_int now @ ''] ''"

definition read_failed :: "int \<Rightarrow> string \<Rightarrow> nat \<Rightarrow> string" where
  "read_failed now label errno =
     stamp now @ ''BFU_DEBIAN_DIAGNOSTIC label='' @ label @ '' read_failed errno='' @ dec errno @ newline"

text \<open>The text between the two lines: at most 8191 bytes of the file, blanks for null bytes, ended by a newline.\<close>

definition snapshot_body :: "string \<Rightarrow> string" where
  "snapshot_body contents =
     (let text = map (\<lambda>c. if c = CHR 0x00 then CHR '' '' else c) (take 8191 contents)
      in text @ (if text \<noteq> [] \<and> last text = CHR 0x0A then [] else newline))"

definition log_file_snapshot :: "int \<Rightarrow> int \<Rightarrow> string \<Rightarrow> string \<Rightarrow> nat + string \<Rightarrow> string" where
  "log_file_snapshot now later label path file = (case file of
     Inl errno \<Rightarrow> read_failed now label errno
   | Inr contents \<Rightarrow>
       stamp now @ ''BFU_DEBIAN_DIAGNOSTIC_BEGIN label='' @ label @ '' path='' @ path @ newline
       @ snapshot_body contents
       @ stamp later @ ''BFU_DEBIAN_DIAGNOSTIC_END label='' @ label @ newline)"

text \<open>\<open>fgets\<close>: up to \<open>n\<close> characters, to the end of the line.\<close>

fun chunk :: "nat \<Rightarrow> string \<Rightarrow> string \<times> string" where
  "chunk 0 s = ([], s)"
| "chunk n [] = ([], [])"
| "chunk (Suc n) (c # s) = (if c = CHR 0x0A then ([c], s) else (let (line, rest) = chunk n s in (c # line, rest)))"

lemma chunk_append: "fst (chunk n s) @ snd (chunk n s) = s"
  by (induction n s rule: chunk.induct) (auto simp: Let_def split: prod.splits)

lemma chunk_length: "length (fst (chunk n s)) \<le> n"
  by (induction n s rule: chunk.induct) (auto simp: Let_def split: prod.splits)

lemma chunk_less: "length (snd (chunk (Suc n) (c # s))) < length (c # s)"
proof -
  have "length (fst (chunk n s)) + length (snd (chunk n s)) = length s" for n
    using chunk_append [of n s] by (metis length_append)
  then show ?thesis
    by (simp add: Let_def split_beta) (metis le_add2 le_imp_less_Suc)
qed

function fgets_lines :: "nat \<Rightarrow> string \<Rightarrow> string list" where
  "fgets_lines n [] = []"
| "fgets_lines n (c # s) = (let (line, rest) = chunk (Suc n) (c # s) in line # fgets_lines n rest)"
  by pat_completeness auto
termination
  by (relation "measure (length \<circ> snd)") (use chunk_less in \<open>auto simp del: chunk.simps, metis length_Cons snd_conv\<close>)

fun matching_lines :: "nat \<Rightarrow> string \<Rightarrow> string list \<Rightarrow> string list" where
  "matching_lines 0 pattern lines = []"
| "matching_lines (Suc n) pattern [] = []"
| "matching_lines (Suc n) pattern (line # lines) =
     (if strstr pattern line = None then matching_lines (Suc n) pattern lines
      else line # matching_lines n pattern lines)"

definition matched :: "string \<Rightarrow> string \<Rightarrow> string list" where
  "matched pattern contents = matching_lines 64 pattern (map (c_text 2047) (fgets_lines 2046 contents))"

definition log_matching_snapshot :: "int \<Rightarrow> int \<Rightarrow> string \<Rightarrow> string \<Rightarrow> string \<Rightarrow> nat + string \<Rightarrow> string" where
  "log_matching_snapshot now later label path pattern file = (case file of
     Inl errno \<Rightarrow> read_failed now label errno
   | Inr contents \<Rightarrow>
       stamp now @ ''BFU_DEBIAN_DIAGNOSTIC_BEGIN label='' @ label @ '' path='' @ path @ '' filter='' @ pattern @ newline
       @ concat (matched pattern contents)
       @ stamp later @ ''BFU_DEBIAN_DIAGNOSTIC_END label='' @ label
       @ '' matched_lines='' @ dec (length (matched pattern contents)) @ newline)"

section \<open>Signal handlers\<close>

text \<open>The calls of the alarm handler and the exit code; the stop handler sets the flag.\<close>

definition alarm_handler :: "int \<Rightarrow> host_call list \<times> int" where
  "alarm_handler alarm_child_pid = (if alarm_child_pid > 0 then [Kill alarm_child_pid SIGKILL] else [], 124)"

definition stop_handler :: "bool \<Rightarrow> bool" where
  "stop_handler stop_requested = True"

section \<open>What the reports and snapshots hold\<close>

text \<open>
  A child that fails reports it: the text is not empty and within the buffer, so that the parent, when
  it reads this from the pipe, takes the start as failed.
\<close>

lemma failure_is_reported:
  assumes "0 \<le> fd" "on_poll env (h_trace h) = Inr text"
    and "snd (snd (fail_errno fd strerror errno stage code)) = Some text \<or> snd (snd (fail_message fd stage reason code)) = Some text"
  shows "length text < 512 \<and> prefix ''BFU_DEBIAN_LAUNCHER_FAILED stage='' text \<and> wp (wait_for_exec_result env) (\<lambda>r _. r = 1) h"
proof -
  have "text = take 511 (''BFU_DEBIAN_LAUNCHER_FAILED stage='' @ stage @ '' errno='' @ dec errno @ '' error='' @ strerror errno @ newline)
      \<or> text = take 511 (''BFU_DEBIAN_LAUNCHER_FAILED stage='' @ stage @ '' error='' @ reason @ newline)"
    using assms(1,3) by (auto simp: fail_errno_def fail_message_def report_failure_text_def snprintf_def Let_def)
  then have "length text < 512 \<and> prefix ''BFU_DEBIAN_LAUNCHER_FAILED stage='' text"
    by (auto simp: take_append)
  moreover from this have "text \<noteq> []" by auto
  ultimately show ?thesis
    using assms(2) by (simp add: wait_for_exec_result_def wp_simps)
qed

text \<open>A snapshot cannot break the lines around it: its body has no null byte and ends with a newline.\<close>

lemma snapshot_body_closed: "CHR 0x00 \<notin> set (snapshot_body contents) \<and> last (snapshot_body contents) = CHR 0x0A"
  by (auto simp: snapshot_body_def Let_def)

lemma fgets_whole: "concat (fgets_lines n s) = s"
proof (induction n s rule: fgets_lines.induct)
  case (2 n c s)
  obtain line rest where split: "chunk (Suc n) (c # s) = (line, rest)" by fastforce
  then have "line @ rest = c # s"
    using chunk_append [of "Suc n" "c # s"] by (simp del: chunk.simps)
  then show ?case
    using 2 [OF split [symmetric]] split by (simp add: Let_def del: chunk.simps)
qed simp

text \<open>At most 64 lines, all of them with the pattern; below that limit, every such line in its order.\<close>

lemma matching_bounded: "length (matching_lines n pattern lines) \<le> n"
  by (induction n pattern lines rule: matching_lines.induct) auto

lemma matching_filter:
  "matching_lines n pattern lines = take n (filter (\<lambda>line. strstr pattern line \<noteq> None) lines)"
  by (induction n pattern lines rule: matching_lines.induct) auto

end
