(* ===== verification/Spec2Isabelle.thy ===== *)
theory Spec2Isabelle
  imports Codec_Properties Client_Properties Command_Properties Launch_Composition Launcher_Log
begin

text \<open>
  Verification of DawnShell's native programs, the C code under \<open>src/app/src/main/cpp\<close>. DawnShell runs
  Debian on a rooted Android device before its first unlock.

  \<^bold>\<open>The programs.\<close>

  \<^item> The launcher, \<open>bfu_namespace_probe.c\<close>. The Android application runs it as root with a command.
    \<open>start\<close> takes a lock, forks a supervisor and waits for its message. The supervisor prepares
    namespaces and cgroups, forks a network manager and Debian's init (or, in the compatible mode, only
    its SSH daemon), records them in a state file, watches the service and cleans up. The other
    commands find the supervisor by the lock, read the state file, check the recorded processes
    against \<open>/proc\<close>, and only then signal them or enter their namespaces.
  \<^item> The system call guards, \<open>dawnshell_close_range_guard.h\<close>, \<open>dawnshell_keyring_guard.h\<close> and
    \<open>dawnshell_fdguard.c\<close>: seccomp filters that the launcher installs on the way into Debian.
  \<^item> The codec worker, \<open>dawnshell_codec_worker.c\<close> with \<open>dawnshell_codec_ndk.c\<close>: it runs Android's hardware
    codecs for Debian. The codec client, \<open>dawnshell_codec_client.c\<close>, starts a worker and talks to it over
    one shared mapping, \<open>dawnshell_codec_transport.h\<close>.

  \<^bold>\<open>Foundations.\<close> \<open>Prelude\<close> holds the machine integers, byte memory, C strings and the parts of the C
  library the sources use, and weakest preconditions for state monads. Its locale \<open>byte_memory\<close> states
  the laws of reading and writing a range (interpreted for the model's memory, \<open>shm\<close>), its locale
  \<open>step_relation\<close> the composition of programs whose steps stay in a reflexive and transitive relation;
  the frame conditions of the codec sessions, the traces of the launcher and its lawful histories are
  interpretations of it.

  \<^bold>\<open>The codec service.\<close> \<open>Wire\<close> and \<open>Transport\<close> model the accessors and the layout of the mapping.
  \<open>Ndk_Api\<close>, \<open>Ndk_Create\<close>, \<open>Ndk_Image\<close> and \<open>Ndk_Session\<close> model \<open>dawnshell_codec_ndk.c\<close>: sessions, the choice and
  creation of codecs, images as I420, and the operations. \<open>Codec_Worker\<close> models the worker: session
  table, dispatch and loop; its locale \<open>codec_operation\<close> is what the dispatch needs of an operation, with
  one interpretation for each operation that leaves the output alone and for the statistics.
  \<open>Worker_Process\<close> models its process: arguments, handlers, interrupted calls and exit codes.
  \<open>Codec_Client\<close> models the client: requests, responses, access units, test streams, commands. \<open>Codec_Rpc\<close>
  puts both ends together, \<open>Demo_Library\<close> is a concrete media library for the witnesses, and
  \<open>Codec_Properties\<close> states what holds of the service: what the client's \<open>rpc\<close> returns is what the
  worker's dispatch computed; no request makes the worker write outside its response or touch another
  session; sessions are created whole or not at all, and input reaches the codec unchanged; pictures
  are the I420 bytes of the crop. \<open>Client_Process\<close> models the worker's process from the client's side:
  \<open>start_worker\<close>, \<open>stop_worker\<close> and the child up to \<open>execl\<close>, over the kernel's answers \<open>process_env\<close> and
  \<open>child_answers\<close>. \<open>Client_Process_Facts\<close> follows the descriptors, mappings and children the client holds,
  and \<open>Client_Properties\<close> shows that a start either yields a ready worker that a stop gives back whole or
  leaves nothing, and what the worker is executed with.

  \<^bold>\<open>The launcher's data.\<close> \<open>Launcher_Config\<close> (modes, policies, the USB list), \<open>Launcher_State\<close> (the state
  file: written atomically, read back exactly), \<open>Launcher_Identity\<close> (what is read of a process in \<open>/proc\<close>,
  recorded and validated), \<open>Device_Policy\<close> (eBPF device programs), with their properties in
  \<open>Launcher_Properties\<close>. \<open>Seccomp\<close> models the filters as BPF programs; its locale \<open>syscall_filter\<close> is
  interpreted for the three guards.

  \<^bold>\<open>The launcher's programs.\<close> \<open>Host\<close> is the setting: a program extends the trace of its calls, and what
  the host answers is an arbitrary function of the trace, so a theorem holds for every host, also one
  that changes or fails at any call. Its locale \<open>area_policy\<close> is what the programs that prepare
  directories and mounts need of a rule on calls. \<open>Host_Logic\<close> adds rules that depend on the history of
  calls, and triples for them; its locale \<open>history_policy\<close> is interpreted for the commands and the network
  manager, and \<open>after\<close> is the form of such rules in which the history so far is fixed.

  \<^item> \<open>Cgroup_Setup\<close>, \<open>Namespace_Setup\<close>, \<open>Namespace_Facts\<close>, \<open>Namespace_Properties\<close>: the checks of the root file
    system, mounts, cgroups, the choice of a mode and the entry into Debian. Mounts never reach the
    host's namespace, only the two directories change, the chosen mode enforces the USB policy, and
    Debian's init runs only after the isolation and under the guards.
  \<^item> \<open>Usb_Exclusive\<close>, \<open>Supervisor\<close>, \<open>Supervisor_Facts\<close>, \<open>Supervisor_Usb\<close>, \<open>Supervisor_Time\<close>, \<open>Demo_Supervisor\<close>,
    \<open>Supervisor_Properties\<close>: the supervisor from \<open>setsid\<close> to its last saved state, in both modes. Its
    contract is the locale \<open>supervisor_policy\<close>, a rule on each call after the calls before it. It signals
    only processes it has forked, reports a start only of a checked service, gives every USB interface
    back, kills only after the grace, ends once a stop is requested, and records how the service ended.
  \<^item> \<open>Network_Manager\<close>: routing rules and the reboot request; it runs only \<open>ip\<close> for its own rule and, after
    the exact request, \<open>reboot\<close>.
  \<^item> \<open>Launcher_Commands\<close>, \<open>Command_Facts\<close>, \<open>Command_Outcomes\<close>, \<open>Command_Properties\<close>: all commands and \<open>main\<close>. A
    command acts only on processes it verified or found in a delegated cgroup; \<open>start\<close> forks only on a
    free host; \<open>force-stop\<close> succeeds only when nothing is left; \<open>stop\<close> returns when the lock says the
    supervisor is gone; the command line is parsed exactly.
  \<^item> \<open>Launcher_Log\<close>: failure reports, snapshots of files in the log, signal handlers. A child's failure report
    is never empty, so its parent takes it as a failed start.
  \<^item> \<open>Launch_Composition\<close>: the pipe between \<open>start\<close> and the supervisor. The theorem below puts both
    programs together: a start that succeeds stands for a service the supervisor has checked.

  \<^bold>\<open>Parameters.\<close> Code that is not in the repository is an argument: the media library and the clock
  (\<open>media_api\<close>), the client's waits in \<open>rpc\<close> (\<open>client_env\<close>), the kernel's answers to the guards,
  to the state file's system calls (\<open>state_io\<close>) and in \<open>/proc\<close> (\<open>procfs\<close>), and everything else the launcher
  asks of its host (\<open>host_env\<close>). Hypotheses on them are premises of the theorems that need them, such as
  \<open>clock_advances\<close>: a sleep takes at least its time.

  \<^bold>\<open>Bounds.\<close> \<open>loop_fuel\<close> bounds the three loops whose end is up to the media library and \<open>loop_limit\<close> the
  client's loops over answers of the worker; theorems about them hold for every bound, and
  \<open>retry_bound_irrelevant\<close> shows when the bound does not matter. A loop with a deadline has one round per
  millisecond, and every round sleeps for at least that long: on a clock that advances the rounds are
  never used up (\<open>poll_fuel\<close>, \<open>lock_wait_outcome\<close>). The loops of the supervisor and the network
  manager over the life of the service return \<open>None\<close> or \<open>False\<close> when their rounds are used up, which reads
  as still running; \<open>requested_stop_ends\<close> gives the rounds that are enough. The removal of nested cgroups
  and the number of attempts have the source's own limits.

  \<^bold>\<open>Abstractions.\<close> A fork yields a pid; the child is a program of its own. One check of a process sees one
  state of \<open>/proc\<close>; the next may see another. \<open>open\<close>, \<open>write\<close> and \<open>close\<close> of a control file are one call.

  \<^bold>\<open>Not modelled.\<close> Log lines other than those of \<open>Launcher_Log\<close>, the time at which an alarm goes off,
  closing of the launcher's descriptors, and the text of shell commands given to \<open>sh -c\<close> (an argument) and
  of the usage messages: they are output or data without a decision of the program. The Android
  application (Java), provisioning scripts, build files and documents are outside this development.
\<close>

section \<open>The launcher and its supervisor\<close>

text \<open>
  C17. A start that succeeds stands for a checked service: when the pipe of a start carries only what the
  supervisor wrote to it, and the start returns 0, then the supervisor has reported a start, and before
  that has forked a service and read its start time, executable and namespaces from \<open>/proc\<close> with the result
  its launch mode demands.
\<close>

theorem start_success_is_checked_service:
  assumes "h_trace hs = []"
    and "run_state (supervisor_loop n senv root control_dir log_path policy allow_fallback usb entries) hs = (r, hs')"
    and "run_state (start_supervisor m lenv) h = (Some 0, h')"
    and "received lenv (h_trace h') = received lenv (h_trace h) @ bytes" "sent (h_trace hs') bytes"
  shows "\<exists>xs msg ys s. h_trace hs' = xs @ (Message msg, 0) # ys \<and> is_started msg \<and> checked senv xs s"
proof -
  obtain msg where msg: "started_text msg" "prefix msg bytes"
    using wpD [OF started_received assms(3)] assms(4) by auto
  have "obeys (proper senv) [] (h_trace hs')"
    using after_run [OF sv.policy_supervisor assms(2)] assms(1) by auto
  from sent_start_checked [OF this msg assms(5)] show ?thesis .
qed

definition pipe_text :: string where
  "pipe_text = ''BFU_DEBIAN_FALLBACK_STARTED supervisor_pid=100'' @ [CHR 0x0A]"

definition pipe_env :: host_env where
  "pipe_env = demo_env\<lparr>on_ready := (\<lambda>t. Read_bytes pipe_text), on_clock := (\<lambda>t. 0), on_fork := (\<lambda>t. Inr 100)\<rparr>"

theorem start_success_is_checked_service_witness:
  "\<exists>xs msg ys s. h_trace demo_end = xs @ (Message msg, 0) # ys \<and> is_started msg \<and> checked run_env xs s"
proof -
  let ?h = "demo_host\<lparr>h_trace := [(Pipe, 0), (Fork, 0), (Clock, 0), (Clock, 0), (Clock, 0), (Poll_for 20000, 0), (Print pipe_text, 0)]\<rparr>"
  have started: "run_state (start_supervisor 1 pipe_env) demo_host = (Some 0, ?h)"
    by (simp add: start_supervisor_def read_ready_message_def report_def pipe_env_def pipe_text_def demo_env_def demo_host_def
        clock_def ask_def call_def log_call_def gets_def modify_def ready_text_def started_text_def kStartTimeoutMs_def c_text_def)
  have "(demo_service, 0) \<in> set (h_trace demo_end)"
    by (rule list_emb_set [OF demo_ended(2), where x = "(demo_service, 0)"]) auto
  then have "sent (h_trace demo_end) pipe_text"
    unfolding sent_def demo_service_def by (intro exI conjI, assumption) (auto simp: pipe_text_def)
  moreover have "received pipe_env (h_trace ?h) = received pipe_env (h_trace demo_host) @ pipe_text"
    by (simp add: received_def read_by_def pipe_env_def demo_host_def)
  ultimately show ?thesis
    by (intro start_success_is_checked_service [OF _ demo_ended(1) started]) (simp_all add: demo_host_def)
qed

end
